(* ===== verification/Cv2_Prelude.thy ===== *)
theory Cv2_Prelude
  imports Main "HOL-Library.Word" "HOL-Library.Monad_Syntax"
begin

text \<open>
  Shared vocabulary of the development: machine words, C objects as byte lists, and the
  fault monad.

  A C function that may leave defined behaviour (a read or write outside an object, a null
  dereference, a call of \<open>abort\<close>) is a function into \<open>'a option\<close>: \<open>None\<close> is "execution has no
  defined continuation", \<open>Some r\<close> is a normal return. A pointer to an object that the callee
  reads or writes is \<open>'a option\<close> as well: \<open>None\<close> is \<open>NULL\<close>, \<open>Some xs\<close> is a pointer to an
  object with the contents \<open>xs\<close>.
\<close>

section \<open>Words, objects, faults\<close>

type_synonym byte = "8 word"
type_synonym u32 = "32 word"
type_synonym ptr = "64 word"

named_theorems c_memory \<open>evaluation of the C memory primitives inside bounds\<close>
named_theorems fault_free \<open>conditions under which an operation does not fault\<close>

lemmas fault_split = bind_eq_Some_conv

text \<open>Reading an array element.\<close>

definition array_get :: "'a list \<Rightarrow> nat \<Rightarrow> 'a option" where
  "array_get xs i = (if i < length xs then Some (xs ! i) else None)"

text \<open>Writing an array element.\<close>

definition array_set :: "'a list \<Rightarrow> nat \<Rightarrow> 'a \<Rightarrow> 'a list option" where
  "array_set xs i x = (if i < length xs then Some (xs[i := x]) else None)"

text \<open>\<open>memcpy (dst + off, src, n)\<close>, \<open>memset (dst, c, n)\<close> and \<open>memcmp (a, b, n) == 0\<close>.\<close>

definition memcpy_at :: "'a list \<Rightarrow> nat \<Rightarrow> 'a list \<Rightarrow> nat \<Rightarrow> 'a list option" where
  "memcpy_at dst off src n =
     (if off + n \<le> length dst \<and> n \<le> length src
      then Some (take off dst @ take n src @ drop (off + n) dst) else None)"

definition memset_obj :: "'a list \<Rightarrow> 'a \<Rightarrow> nat \<Rightarrow> 'a list option" where
  "memset_obj dst c n =
     (if n \<le> length dst then Some (replicate n c @ drop n dst) else None)"

definition memcmp_eq :: "'a list \<Rightarrow> 'a list \<Rightarrow> nat \<Rightarrow> bool option" where
  "memcmp_eq a b n =
     (if n \<le> length a \<and> n \<le> length b then Some (take n a = take n b) else None)"

text \<open>
  An external callback gets a pointer to an object and may overwrite its contents. A callback
  that would hand back an object of another size has written outside of it: a fault.
\<close>

definition same_object :: "'a list \<Rightarrow> 'a list \<Rightarrow> 'a list option" where
  "same_object old new = (if length new = length old then Some new else None)"

text \<open>The same for an optional object and for an optional out-parameter cell.\<close>

definition same_pointee :: "'a list option \<Rightarrow> 'a list option \<Rightarrow> 'a list option option" where
  "same_pointee old new =
     (case (old, new) of
        (None, None) \<Rightarrow> Some None
      | (Some b, Some a) \<Rightarrow> map_option Some (same_object b a)
      | _ \<Rightarrow> None)"

definition same_cell :: "'a option \<Rightarrow> 'a option \<Rightarrow> 'a option option" where
  "same_cell old new = (if (old = None) = (new = None) then Some new else None)"

lemma array_get_Some [simp]: "array_get xs i = Some x \<longleftrightarrow> i < length xs \<and> x = xs ! i"
  by (auto simp: array_get_def)

lemma array_get_inside [c_memory]: "i < length xs \<Longrightarrow> array_get xs i = Some (xs ! i)"
  by simp

lemma array_set_Some [simp]: "array_set xs i x = Some ys \<longleftrightarrow> i < length xs \<and> ys = xs[i := x]"
  by (auto simp: array_set_def)

lemma array_set_inside [c_memory]: "i < length xs \<Longrightarrow> array_set xs i x = Some (xs[i := x])"
  by simp

lemma memcpy_at_Some [simp]:
  "memcpy_at dst off src n = Some out \<longleftrightarrow>
     off + n \<le> length dst \<and> n \<le> length src \<and>
     out = take off dst @ take n src @ drop (off + n) dst"
  by (auto simp: memcpy_at_def)

lemma memcpy_at_inside [c_memory]:
  "off + n \<le> length dst \<Longrightarrow> n \<le> length src \<Longrightarrow>
   memcpy_at dst off src n = Some (take off dst @ take n src @ drop (off + n) dst)"
  by simp

lemma memset_obj_Some [simp]:
  "memset_obj dst c n = Some out \<longleftrightarrow> n \<le> length dst \<and> out = replicate n c @ drop n dst"
  by (auto simp: memset_obj_def)

lemma memset_obj_inside [c_memory]:
  "n \<le> length dst \<Longrightarrow> memset_obj dst c n = Some (replicate n c @ drop n dst)"
  by simp

lemma memcmp_eq_Some [simp]:
  "memcmp_eq a b n = Some e \<longleftrightarrow> n \<le> length a \<and> n \<le> length b \<and> (e \<longleftrightarrow> take n a = take n b)"
  by (auto simp: memcmp_eq_def)

lemma memcmp_eq_inside [c_memory]:
  "n \<le> length a \<Longrightarrow> n \<le> length b \<Longrightarrow> memcmp_eq a b n = Some (take n a = take n b)"
  by (simp add: memcmp_eq_def)

lemma same_object_Some [simp]:
  "same_object before after = Some x \<longleftrightarrow> length after = length before \<and> x = after"
  by (auto simp: same_object_def)

lemma same_pointee_None [simp]: "same_pointee None after = Some x \<longleftrightarrow> after = None \<and> x = None"
  by (auto simp: same_pointee_def split: option.split)

lemma same_pointee_Some [simp]:
  "same_pointee (Some b) after = Some x \<longleftrightarrow> (\<exists>a. after = Some a \<and> length a = length b \<and> x = Some a)"
  by (auto simp: same_pointee_def split: option.split)

lemma same_cell_Some [simp]:
  "same_cell before after = Some x \<longleftrightarrow> (before = None \<longleftrightarrow> after = None) \<and> x = after"
  by (auto simp: same_cell_def)

section \<open>Wiping memory\<close>

text \<open>
  \<open>secure_clear\<close>: the loop \<open>while (size-- > 0) *bytes++ = 0\<close> that each of the C files has its
  own copy of. \<open>pos\<close> is the offset \<open>bytes\<close> has reached. For an object with wider elements the
  sizes count elements.
\<close>

fun secure_clear_from :: "nat \<Rightarrow> nat \<Rightarrow> 'a::zero list \<Rightarrow> 'a list option" where
  "secure_clear_from pos 0 m = Some m"
| "secure_clear_from pos (Suc cnt) m =
     do { m \<leftarrow> array_set m pos 0; secure_clear_from (Suc pos) cnt m }"

definition secure_clear :: "'a::zero list \<Rightarrow> nat \<Rightarrow> 'a list option" where
  "secure_clear m cnt = secure_clear_from 0 cnt m"

lemma secure_clear_from_eq:
  "pos + cnt \<le> length m \<Longrightarrow>
   secure_clear_from pos cnt m = Some (take pos m @ replicate cnt 0 @ drop (pos + cnt) m)"
proof (induction cnt arbitrary: pos m)
  case 0
  then show ?case by simp
next
  case (Suc cnt)
  then have pos: "pos < length m" by simp
  have upd: "take (Suc pos) (m[pos := 0]) = take pos m @ [0]"
    using pos by (simp add: take_Suc_conv_app_nth)
  have "secure_clear_from pos (Suc cnt) m = secure_clear_from (Suc pos) cnt (m[pos := 0])"
    using pos by (simp add: c_memory)
  also have "\<dots> = Some (take (Suc pos) (m[pos := 0]) @ replicate cnt 0
                        @ drop (Suc pos + cnt) (m[pos := 0]))"
    using Suc.prems by (intro Suc.IH) simp
  also have "\<dots> = Some (take pos m @ replicate (Suc cnt) 0 @ drop (pos + Suc cnt) m)"
    by (simp add: upd)
  finally show ?case .
qed

lemma secure_clear_inside [c_memory]:
  "cnt \<le> length m \<Longrightarrow> secure_clear m cnt = Some (replicate cnt 0 @ drop cnt m)"
  by (simp add: secure_clear_def secure_clear_from_eq)

lemma secure_clear_all [c_memory]:
  "length m = cnt \<Longrightarrow> secure_clear m cnt = Some (replicate cnt 0)"
  by (simp add: secure_clear_inside)

lemma secure_clear_from_length:
  "secure_clear_from pos cnt m = Some m' \<Longrightarrow> length m' = length m \<and> (cnt = 0 \<or> pos + cnt \<le> length m)"
  by (induction cnt arbitrary: pos m) (force simp: fault_split)+

lemma secure_clear_Some:
  "secure_clear m cnt = Some m' \<longleftrightarrow> cnt \<le> length m \<and> m' = replicate cnt 0 @ drop cnt m"
proof (cases "cnt \<le> length m")
  case True
  then show ?thesis by (auto simp: secure_clear_inside)
next
  case False
  then show ?thesis
    by (auto simp: secure_clear_def dest: secure_clear_from_length)
qed

text \<open>An object all of whose elements are zero.\<close>

definition wiped :: "'a::zero list \<Rightarrow> bool" where
  "wiped m \<longleftrightarrow> m = replicate (length m) 0"

lemma wiped_replicate [simp]: "wiped (replicate n 0)"
  by (simp add: wiped_def)

lemma wiped_iff: "wiped m \<longleftrightarrow> (\<forall>x \<in> set m. x = 0)"
  by (metis in_set_replicate replicate_eqI wiped_def)

lemma wiped_take [simp]: "wiped m \<Longrightarrow> wiped (take n m)"
  by (auto simp: wiped_iff dest: in_set_takeD)

section \<open>List facts\<close>

lemma take_splice_before:
  "n \<le> off \<Longrightarrow> off \<le> length xs \<Longrightarrow> take n (take off xs @ ys) = take n xs"
  by (simp add: min_absorb1)

lemma drop_take_before:
  assumes "i + n \<le> off" and "off \<le> length xs"
  shows "take n (drop i (take off xs @ ys)) = take n (drop i xs)"
proof -
  have "drop i (take off xs @ ys) = take (off - i) (drop i xs) @ ys"
    using assms by (simp add: drop_take)
  moreover have "n \<le> length (take (off - i) (drop i xs))" using assms by simp
  ultimately show ?thesis using assms by (simp add: min_absorb1)
qed

lemma those_map_Some:
  "(\<And>x. x \<in> set xs \<Longrightarrow> f x = Some (g x)) \<Longrightarrow> those (map f xs) = Some (map g xs)"
  by (induction xs) simp_all

lemma those_map_array_get: "length xs = n \<Longrightarrow> those (map (array_get xs) [0..<n]) = Some xs"
  by (subst those_map_Some [where g = "(!) xs"]) (auto simp: map_nth)

lemma nth_map_upt3: "map f [0..<3] = [f 0, f (1::nat), f 2]"
  by (simp add: upt_rec numeral_2_eq_2)

end
