(* ===== verification/Coordinator.thy ===== *)
theory Coordinator
  imports Cv2_Prelude
begin

text \<open>
  The BCM5880 enrollment coordinator, \<open>tools/bcm5880_enrollment_coordinator.h\<close> and \<open>.c\<close>:
  three buffered features, a fourth live one, template creation through an injected callback
  and a commit that stays blocked.

  The struct is the record \<open>coordinator\<close>; the two-dimensional array \<open>features[3][0x258]\<close> is its
  flat image of \<open>3 * 0x258\<close> bytes. The memory behind \<open>user_data\<close> is the callbacks' own state of
  type \<open>'u\<close>, passed along explicitly. Callbacks take pointers (options) and return the status
  with the final contents of what they may write.
\<close>

section \<open>Data\<close>

definition ENROLLMENT_ID_SIZE :: nat where "ENROLLMENT_ID_SIZE = 20"
definition BUFFERED_FEATURES :: nat where "BUFFERED_FEATURES = 3"
definition TEMPLATE_FEATURES :: nat where "TEMPLATE_FEATURES = 4"
definition FEATURE_CAPACITY :: nat where "FEATURE_CAPACITY = 0x258"
definition TEMPLATE_CAPACITY :: nat where "TEMPLATE_CAPACITY = 0x708"
definition TOKEN_RANDOM_PREFIX_SIZE :: nat where "TOKEN_RANDOM_PREFIX_SIZE = 4"

datatype execution_mode = EXECUTION_DISABLED | EXECUTION_MOCK_ONLY

datatype outcome =
    OUTCOME_REJECTED
  | OUTCOME_ACCEPTED_MORE
  | OUTCOME_TEMPLATE_READY_COMMIT_BLOCKED

datatype cv2_error =
    ERROR_NONE
  | ERROR_INVALID_ARGUMENT
  | ERROR_ALLOCATION
  | ERROR_MOCK_MODE_REQUIRED
  | ERROR_ID_MISMATCH
  | ERROR_FEATURE_SIZE
  | ERROR_TEMPLATE_STATUS
  | ERROR_TEMPLATE_SIZE
  | ERROR_TOKEN_RANDOM
  | ERROR_TERMINAL

text \<open>
  \<open>Cv2Bcm5880CreateTemplateMock\<close>: user data, handle, the four sizes, the four feature
  pointers, the size in/out and the output buffer; and \<open>Cv2Bcm5880RandomBytesMock\<close>: user data,
  the output object and the number of bytes to fill.
\<close>

type_synonym 'u create_template_fn =
  "'u \<Rightarrow> u32 \<Rightarrow> u32 list option \<Rightarrow> byte list option list option \<Rightarrow> u32 option
     \<Rightarrow> byte list option \<Rightarrow> (u32 \<times> u32 option \<times> byte list option \<times> 'u) option"

type_synonym 'u random_bytes_fn = "'u \<Rightarrow> byte list \<Rightarrow> nat \<Rightarrow> (int \<times> byte list \<times> 'u) option"

record 'u mock_operations =
  op_create_template :: "'u create_template_fn option"
  op_random_bytes :: "'u random_bytes_fn option"

record 'u mock_config =
  cfg_mode :: execution_mode
  cfg_handle :: u32
  cfg_enrollment_id :: "byte list option"
  cfg_operations :: "'u mock_operations"

record snapshot =
  snap_buffered_features :: u32
  snap_template_ready :: bool
  snap_template_size :: u32
  snap_commit_permitted :: bool
  snap_terminal :: bool
  snap_last_error :: cv2_error
  snap_last_native_status :: u32

record 'u coordinator =
  co_handle :: u32
  co_enrollment_id :: "byte list"
  co_operations :: "'u mock_operations"
  co_buffered_features :: u32
  co_feature_sizes :: "u32 list"
  co_features :: "byte list"
  co_template_size :: u32
  co_template_data :: "byte list"
  co_commit_token :: "byte list"
  co_template_ready :: bool
  co_terminal :: bool
  co_last_error :: cv2_error
  co_last_native_status :: u32

text \<open>The all-zero struct, as \<open>calloc\<close> returns it and as \<open>secure_clear\<close> leaves it.\<close>

definition zero_coordinator :: "'u coordinator" where
  "zero_coordinator =
     \<lparr>co_handle = 0, co_enrollment_id = replicate ENROLLMENT_ID_SIZE 0,
      co_operations = \<lparr>op_create_template = None, op_random_bytes = None\<rparr>,
      co_buffered_features = 0, co_feature_sizes = replicate BUFFERED_FEATURES 0,
      co_features = replicate (BUFFERED_FEATURES * FEATURE_CAPACITY) 0,
      co_template_size = 0, co_template_data = replicate TEMPLATE_CAPACITY 0,
      co_commit_token = replicate ENROLLMENT_ID_SIZE 0, co_template_ready = False, co_terminal = False,
      co_last_error = ERROR_NONE, co_last_native_status = 0\<rparr>"

section \<open>Operations\<close>

text \<open>\<open>reject\<close>: record the error and, on the first terminal one, wipe the working state.\<close>

definition reject ::
  "'u coordinator option \<Rightarrow> cv2_error \<Rightarrow> bool \<Rightarrow> (outcome \<times> 'u coordinator option) option" where
  "reject coordinator error term =
     (case coordinator of
        None \<Rightarrow> Some (OUTCOME_REJECTED, None)
      | Some c0 \<Rightarrow> do {
          let c = c0\<lparr>co_last_error := error\<rparr>;
          c \<leftarrow> (if term \<and> \<not> co_terminal c then do {
                  eid \<leftarrow> secure_clear (co_enrollment_id c) ENROLLMENT_ID_SIZE;
                  sizes \<leftarrow> secure_clear (co_feature_sizes c) BUFFERED_FEATURES;
                  feats \<leftarrow> secure_clear (co_features c) (BUFFERED_FEATURES * FEATURE_CAPACITY);
                  tmpl \<leftarrow> secure_clear (co_template_data c) TEMPLATE_CAPACITY;
                  token \<leftarrow> secure_clear (co_commit_token c) ENROLLMENT_ID_SIZE;
                  Some (c\<lparr>co_enrollment_id := eid, co_feature_sizes := sizes, co_features := feats,
                          co_template_data := tmpl, co_commit_token := token,
                          co_buffered_features := 0, co_template_size := 0,
                          co_template_ready := False, co_terminal := True\<rparr>)
                } else Some c);
          Some (OUTCOME_REJECTED, Some c)
        })"

text \<open>
  \<open>cv2_bcm5880_mock_coordinator_new\<close>. \<open>error_out\<close> is the optional out-parameter;
  \<open>calloc_ok\<close> says whether the allocation succeeds.
\<close>

definition new_error :: "'u mock_config option \<Rightarrow> cv2_error" where
  "new_error config =
     (case config of
        None \<Rightarrow> ERROR_INVALID_ARGUMENT
      | Some cfg \<Rightarrow>
          if Option.is_none (cfg_enrollment_id cfg)
             \<or> Option.is_none (op_create_template (cfg_operations cfg))
             \<or> Option.is_none (op_random_bytes (cfg_operations cfg))
          then ERROR_INVALID_ARGUMENT
          else if cfg_mode cfg \<noteq> EXECUTION_MOCK_ONLY then ERROR_MOCK_MODE_REQUIRED
          else ERROR_NONE)"

definition mock_coordinator_new ::
  "'u mock_config option \<Rightarrow> cv2_error option \<Rightarrow> bool
     \<Rightarrow> ('u coordinator option \<times> cv2_error option) option" where
  "mock_coordinator_new config error_out calloc_ok =
     (let error = new_error config in
      if error \<noteq> ERROR_NONE then Some (None, map_option (\<lambda>_. error) error_out)
      else if \<not> calloc_ok then Some (None, map_option (\<lambda>_. ERROR_ALLOCATION) error_out)
      else do {
        cfg \<leftarrow> config;
        source_id \<leftarrow> cfg_enrollment_id cfg;
        let c = zero_coordinator\<lparr>co_handle := cfg_handle cfg\<rparr>;
        eid \<leftarrow> memcpy_at (co_enrollment_id c) 0 source_id ENROLLMENT_ID_SIZE;
        let c = c\<lparr>co_enrollment_id := eid, co_operations := cfg_operations cfg\<rparr>;
        Some (Some c, map_option (\<lambda>_. ERROR_NONE) error_out)
      })"

text \<open>
  \<open>cv2_bcm5880_mock_coordinator_free\<close>: the image of the struct that \<open>free\<close> gets. The clear
  covers \<open>sizeof *coordinator\<close>, so every field of the image is zero.
\<close>

definition mock_coordinator_free :: "'u coordinator option \<Rightarrow> 'u coordinator option" where
  "mock_coordinator_free coordinator =
     (case coordinator of None \<Rightarrow> None | Some c \<Rightarrow> Some zero_coordinator)"

text \<open>Calling an injected callback through the struct's function pointer.\<close>

definition call_create_template ::
  "'u create_template_fn \<Rightarrow> 'u \<Rightarrow> u32 \<Rightarrow> u32 list \<Rightarrow> byte list list \<Rightarrow> u32 \<Rightarrow> byte list
     \<Rightarrow> (u32 \<times> u32 \<times> byte list \<times> 'u) option" where
  "call_create_template ct u h sizes feats sz out =
     do {
       (status, sz_ptr, out_ptr, u') \<leftarrow>
          ct u h (Some sizes) (Some (map Some feats)) (Some sz) (Some out);
       sz' \<leftarrow> sz_ptr;
       out' \<leftarrow> out_ptr;
       out' \<leftarrow> same_object out out';
       Some (status, sz', out', u')
     }"

definition call_random_bytes ::
  "'u random_bytes_fn \<Rightarrow> 'u \<Rightarrow> byte list \<Rightarrow> nat \<Rightarrow> (int \<times> byte list \<times> 'u) option" where
  "call_random_bytes rb u out n =
     do {
       (status, out', u') \<leftarrow> rb u out n;
       out' \<leftarrow> same_object out out';
       Some (status, out', u')
     }"

text \<open>\<open>coordinator->features[index]\<close>: the object behind that row pointer.\<close>

definition feature_row :: "'u coordinator \<Rightarrow> nat \<Rightarrow> byte list option" where
  "feature_row c index =
     (if (index + 1) * FEATURE_CAPACITY \<le> length (co_features c)
      then Some (take FEATURE_CAPACITY (drop (index * FEATURE_CAPACITY) (co_features c))) else None)"

text \<open>
  The last part of \<open>cv2_bcm5880_mock_coordinator_accept_feature\<close>: the fourth feature, from the
  loop that gathers the callback's arguments on.
\<close>

definition create_from_buffered ::
  "'u coordinator \<Rightarrow> 'u \<Rightarrow> byte list \<Rightarrow> u32 \<Rightarrow> (outcome \<times> 'u coordinator option \<times> 'u) option" where
  "create_from_buffered c u feature_bytes feature_size =
     do {
       sizes \<leftarrow> those (map (array_get (co_feature_sizes c)) [0..<BUFFERED_FEATURES]);
       rows \<leftarrow> those (map (feature_row c) [0..<BUFFERED_FEATURES]);
       let sizes = sizes @ [feature_size];
       let rows = rows @ [feature_bytes];
       let c = c\<lparr>co_buffered_features := 0, co_template_size := of_nat TEMPLATE_CAPACITY\<rparr>;
       ct \<leftarrow> op_create_template (co_operations c);
       (status, sz, tmpl, u) \<leftarrow>
          call_create_template ct u (co_handle c) sizes rows (co_template_size c) (co_template_data c);
       let c = c\<lparr>co_template_size := sz, co_template_data := tmpl, co_last_native_status := status\<rparr>;
       if status \<noteq> 0 then do {
         (r, c) \<leftarrow> reject (Some c) ERROR_TEMPLATE_STATUS True; Some (r, c, u) }
       else if co_template_size c = 0 \<or> unat (co_template_size c) > TEMPLATE_CAPACITY then do {
         (r, c) \<leftarrow> reject (Some c) ERROR_TEMPLATE_SIZE True; Some (r, c, u) }
       else do {
         token \<leftarrow> memset_obj (co_commit_token c) 0 ENROLLMENT_ID_SIZE;
         rb \<leftarrow> op_random_bytes (co_operations c);
         (rnd, token, u) \<leftarrow> call_random_bytes rb u token TOKEN_RANDOM_PREFIX_SIZE;
         let c = c\<lparr>co_commit_token := token\<rparr>;
         if rnd \<noteq> 0 then do {
           (r, c) \<leftarrow> reject (Some c) ERROR_TOKEN_RANDOM True; Some (r, c, u) }
         else
           Some (OUTCOME_TEMPLATE_READY_COMMIT_BLOCKED,
                 Some (c\<lparr>co_template_ready := True, co_terminal := True\<rparr>), u)
       }
     }"

definition accept_feature ::
  "'u coordinator option \<Rightarrow> 'u \<Rightarrow> byte list option \<Rightarrow> byte list option \<Rightarrow> u32
     \<Rightarrow> (outcome \<times> 'u coordinator option \<times> 'u) option" where
  "accept_feature coordinator u eid feature feature_size =
     (case (coordinator, eid, feature) of
        (Some c, Some req_id, Some feature_bytes) \<Rightarrow>
          if co_terminal c then do {
            (r, c) \<leftarrow> reject (Some c) ERROR_TERMINAL True; Some (r, c, u) }
          else do {
            same \<leftarrow> memcmp_eq req_id (co_enrollment_id c) ENROLLMENT_ID_SIZE;
            if \<not> same then do {
              (r, c) \<leftarrow> reject (Some c) ERROR_ID_MISMATCH False; Some (r, c, u) }
            else if feature_size = 0 \<or> unat feature_size > FEATURE_CAPACITY then do {
              (r, c) \<leftarrow> reject (Some c) ERROR_FEATURE_SIZE True; Some (r, c, u) }
            else do {
              let c = c\<lparr>co_last_error := ERROR_NONE, co_last_native_status := 0\<rparr>;
              if unat (co_buffered_features c) < BUFFERED_FEATURES then do {
                let slot = unat (co_buffered_features c);
                feats \<leftarrow> memcpy_at (co_features c) (slot * FEATURE_CAPACITY) feature_bytes
                            (unat feature_size);
                sizes \<leftarrow> array_set (co_feature_sizes c) slot feature_size;
                Some (OUTCOME_ACCEPTED_MORE,
                      Some (c\<lparr>co_features := feats, co_feature_sizes := sizes,
                              co_buffered_features := co_buffered_features c + 1\<rparr>), u)
              } else create_from_buffered c u feature_bytes feature_size
            }
          }
      | _ \<Rightarrow> do {
          (r, c) \<leftarrow> reject coordinator ERROR_INVALID_ARGUMENT True; Some (r, c, u) })"

text \<open>\<open>cv2_bcm5880_mock_coordinator_snapshot\<close>.\<close>

definition coordinator_snapshot :: "'u coordinator option \<Rightarrow> snapshot" where
  "coordinator_snapshot coordinator =
     (let zero = \<lparr>snap_buffered_features = 0, snap_template_ready = False, snap_template_size = 0,
                  snap_commit_permitted = False, snap_terminal = False,
                  snap_last_error = ERROR_NONE, snap_last_native_status = 0\<rparr> in
      case coordinator of
        None \<Rightarrow> zero\<lparr>snap_terminal := True, snap_last_error := ERROR_INVALID_ARGUMENT\<rparr>
      | Some c \<Rightarrow>
          zero\<lparr>snap_buffered_features := co_buffered_features c,
               snap_template_ready := co_template_ready c,
               snap_template_size := co_template_size c,
               snap_commit_permitted := False,
               snap_terminal := co_terminal c,
               snap_last_error := co_last_error c,
               snap_last_native_status := co_last_native_status c\<rparr>)"

text \<open>
  \<open>cv2_bcm5880_error_name\<close>. The C enum is an integer, so the switch has a fall-through for
  values that are no enumerator.
\<close>

fun error_code :: "cv2_error \<Rightarrow> int" where
  "error_code ERROR_NONE = 0"
| "error_code ERROR_INVALID_ARGUMENT = 1"
| "error_code ERROR_ALLOCATION = 2"
| "error_code ERROR_MOCK_MODE_REQUIRED = 3"
| "error_code ERROR_ID_MISMATCH = 4"
| "error_code ERROR_FEATURE_SIZE = 5"
| "error_code ERROR_TEMPLATE_STATUS = 6"
| "error_code ERROR_TEMPLATE_SIZE = 7"
| "error_code ERROR_TOKEN_RANDOM = 8"
| "error_code ERROR_TERMINAL = 9"

definition error_name :: "int \<Rightarrow> string" where
  "error_name code =
     (if code = error_code ERROR_NONE then ''none''
      else if code = error_code ERROR_INVALID_ARGUMENT then ''invalid-argument''
      else if code = error_code ERROR_ALLOCATION then ''allocation''
      else if code = error_code ERROR_MOCK_MODE_REQUIRED then ''mock-mode-required''
      else if code = error_code ERROR_ID_MISMATCH then ''id-mismatch''
      else if code = error_code ERROR_FEATURE_SIZE then ''feature-size''
      else if code = error_code ERROR_TEMPLATE_STATUS then ''template-status''
      else if code = error_code ERROR_TEMPLATE_SIZE then ''template-size''
      else if code = error_code ERROR_TOKEN_RANDOM then ''token-random''
      else if code = error_code ERROR_TERMINAL then ''terminal''
      else ''unknown'')"

end
