(* ===== verification/Coordinator_Correct.thy ===== *)
theory Coordinator_Correct
  imports Coordinator
begin

text \<open>
  Correctness of the coordinator: the struct invariant, one equation per branch of
  \<open>accept_feature\<close>, its behaviour over any sequence of requests, the abstract collector it
  refines, and the interface it has to its two callbacks.
\<close>

section \<open>Sizes and the struct invariant\<close>

lemmas coordinator_sizes =
  ENROLLMENT_ID_SIZE_def BUFFERED_FEATURES_def TEMPLATE_FEATURES_def TOKEN_RANDOM_PREFIX_SIZE_def

lemma FEATURE_CAPACITY_pos [simp]: "0 < FEATURE_CAPACITY"
  by (simp add: FEATURE_CAPACITY_def)

lemma TEMPLATE_CAPACITY_pos [simp]: "0 < TEMPLATE_CAPACITY"
  by (simp add: TEMPLATE_CAPACITY_def)

lemma unat_TEMPLATE_CAPACITY [simp]: "unat (of_nat TEMPLATE_CAPACITY :: u32) = TEMPLATE_CAPACITY"
  by (simp add: TEMPLATE_CAPACITY_def)

text \<open>Every array of the struct has its declared size.\<close>

definition coordinator_shape :: "'u coordinator \<Rightarrow> bool" where
  "coordinator_shape c \<longleftrightarrow>
     length (co_enrollment_id c) = ENROLLMENT_ID_SIZE \<and>
     length (co_feature_sizes c) = BUFFERED_FEATURES \<and>
     length (co_features c) = BUFFERED_FEATURES * FEATURE_CAPACITY \<and>
     length (co_template_data c) = TEMPLATE_CAPACITY \<and>
     length (co_commit_token c) = ENROLLMENT_ID_SIZE"

text \<open>A usable coordinator has both callbacks.\<close>

definition has_callbacks :: "'u coordinator \<Rightarrow> bool" where
  "has_callbacks c \<longleftrightarrow>
     op_create_template (co_operations c) \<noteq> None \<and> op_random_bytes (co_operations c) \<noteq> None"

text \<open>All working state is wiped: what the terminal failure promises.\<close>

definition fully_wiped :: "'u coordinator \<Rightarrow> bool" where
  "fully_wiped c \<longleftrightarrow>
     wiped (co_enrollment_id c) \<and> wiped (co_feature_sizes c) \<and> wiped (co_features c) \<and>
     wiped (co_template_data c) \<and> wiped (co_commit_token c) \<and>
     co_buffered_features c = 0 \<and> co_template_size c = 0"

text \<open>
  The state machine: collecting (at most three buffered features, each with a length from 1 to
  the capacity, nothing in the template or the token), ready (a template within its capacity),
  or failed (everything wiped, an error recorded).
\<close>

definition collecting :: "'u coordinator \<Rightarrow> bool" where
  "collecting c \<longleftrightarrow>
     \<not> co_terminal c \<and> \<not> co_template_ready c \<and>
     unat (co_buffered_features c) \<le> BUFFERED_FEATURES \<and>
     (\<forall>i < unat (co_buffered_features c).
        co_feature_sizes c ! i \<noteq> 0 \<and> unat (co_feature_sizes c ! i) \<le> FEATURE_CAPACITY) \<and>
     co_template_size c = 0 \<and> wiped (co_template_data c) \<and> wiped (co_commit_token c)"

definition ready :: "'u coordinator \<Rightarrow> bool" where
  "ready c \<longleftrightarrow>
     co_terminal c \<and> co_template_ready c \<and> co_buffered_features c = 0 \<and>
     co_template_size c \<noteq> 0 \<and> unat (co_template_size c) \<le> TEMPLATE_CAPACITY"

definition failed :: "'u coordinator \<Rightarrow> bool" where
  "failed c \<longleftrightarrow>
     co_terminal c \<and> \<not> co_template_ready c \<and> fully_wiped c \<and> co_last_error c \<noteq> ERROR_NONE"

definition coordinator_inv :: "'u coordinator \<Rightarrow> bool" where
  "coordinator_inv c \<longleftrightarrow>
     coordinator_shape c \<and> has_callbacks c \<and> (collecting c \<or> ready c \<or> failed c)"

lemmas coordinator_state_defs = collecting_def ready_def failed_def fully_wiped_def

lemma inv_shape: "coordinator_inv c \<Longrightarrow> coordinator_shape c"
  and inv_callbacks: "coordinator_inv c \<Longrightarrow> has_callbacks c"
  and inv_not_terminal: "coordinator_inv c \<Longrightarrow> \<not> co_terminal c \<Longrightarrow> collecting c"
  by (auto simp: coordinator_inv_def ready_def failed_def)

section \<open>Rejection\<close>

text \<open>The struct after a first terminal error.\<close>

definition failed_image :: "'u coordinator \<Rightarrow> cv2_error \<Rightarrow> 'u coordinator" where
  "failed_image c e =
     c\<lparr>co_last_error := e,
       co_enrollment_id := replicate ENROLLMENT_ID_SIZE 0,
       co_feature_sizes := replicate BUFFERED_FEATURES 0,
       co_features := replicate (BUFFERED_FEATURES * FEATURE_CAPACITY) 0,
       co_template_data := replicate TEMPLATE_CAPACITY 0,
       co_commit_token := replicate ENROLLMENT_ID_SIZE 0,
       co_buffered_features := 0, co_template_size := 0,
       co_template_ready := False, co_terminal := True\<rparr>"

lemma reject_null: "reject None e t = Some (OUTCOME_REJECTED, None)"
  by (simp add: reject_def)

lemma reject_first_terminal:
  "coordinator_shape c \<Longrightarrow> \<not> co_terminal c \<Longrightarrow>
   reject (Some c) e True = Some (OUTCOME_REJECTED, Some (failed_image c e))"
  by (simp add: reject_def failed_image_def coordinator_shape_def c_memory)

lemma reject_soft: "reject (Some c) e False = Some (OUTCOME_REJECTED, Some (c\<lparr>co_last_error := e\<rparr>))"
  by (simp add: reject_def)

lemma reject_when_terminal:
  "co_terminal c \<Longrightarrow>
   reject (Some c) e t = Some (OUTCOME_REJECTED, Some (c\<lparr>co_last_error := e\<rparr>))"
  by (simp add: reject_def)

lemmas reject_eqs = reject_null reject_first_terminal reject_soft reject_when_terminal

lemma failed_image_inv:
  "has_callbacks c \<Longrightarrow> e \<noteq> ERROR_NONE \<Longrightarrow>
   coordinator_inv (failed_image c e) \<and> failed (failed_image c e)"
  by (simp add: coordinator_inv_def coordinator_shape_def has_callbacks_def failed_image_def
      coordinator_state_defs)

lemma failed_image_fields [simp]:
  "co_operations (failed_image c e) = co_operations c"
  "co_last_error (failed_image c e) = e"
  "co_last_native_status (failed_image c e) = co_last_native_status c"
  "co_terminal (failed_image c e)"
  "co_handle (failed_image c e) = co_handle c"
  by (simp_all add: failed_image_def)

section \<open>The branches of accept_feature\<close>

lemma accept_null_argument:
  "eid = None \<or> feature = None \<Longrightarrow>
   accept_feature (Some c) u eid feature n =
     do { (r, c) \<leftarrow> reject (Some c) ERROR_INVALID_ARGUMENT True; Some (r, c, u) }"
  by (auto simp: accept_feature_def split: option.splits)

lemma accept_null_coordinator:
  "accept_feature None u eid feature n = Some (OUTCOME_REJECTED, None, u)"
  by (simp add: accept_feature_def reject_null)

lemma accept_when_terminal:
  "co_terminal c \<Longrightarrow>
   accept_feature (Some c) u (Some eid) (Some feature) n =
     Some (OUTCOME_REJECTED, Some (c\<lparr>co_last_error := ERROR_TERMINAL\<rparr>), u)"
  by (simp add: accept_feature_def reject_when_terminal)

lemma accept_mismatch:
  "\<not> co_terminal c \<Longrightarrow> memcmp_eq eid (co_enrollment_id c) ENROLLMENT_ID_SIZE = Some False \<Longrightarrow>
   accept_feature (Some c) u (Some eid) (Some feature) n =
     Some (OUTCOME_REJECTED, Some (c\<lparr>co_last_error := ERROR_ID_MISMATCH\<rparr>), u)"
  by (simp add: accept_feature_def reject_soft del: memcmp_eq_Some)

lemma accept_bad_size:
  "coordinator_shape c \<Longrightarrow> \<not> co_terminal c \<Longrightarrow>
   memcmp_eq eid (co_enrollment_id c) ENROLLMENT_ID_SIZE = Some True \<Longrightarrow>
   n = 0 \<or> FEATURE_CAPACITY < unat n \<Longrightarrow>
   accept_feature (Some c) u (Some eid) (Some feature) n =
     Some (OUTCOME_REJECTED, Some (failed_image c ERROR_FEATURE_SIZE), u)"
  by (simp add: accept_feature_def reject_first_terminal del: memcmp_eq_Some)

text \<open>The struct after a feature went into its slot.\<close>

definition buffered_image :: "'u coordinator \<Rightarrow> byte list \<Rightarrow> u32 \<Rightarrow> 'u coordinator" where
  "buffered_image c feature n =
     (let slot = unat (co_buffered_features c); off = slot * FEATURE_CAPACITY in
      c\<lparr>co_last_error := ERROR_NONE, co_last_native_status := 0,
        co_features := take off (co_features c) @ take (unat n) feature
                         @ drop (off + unat n) (co_features c),
        co_feature_sizes := (co_feature_sizes c)[slot := n],
        co_buffered_features := co_buffered_features c + 1\<rparr>)"

lemma slot_inside:
  "slot < BUFFERED_FEATURES \<Longrightarrow> n \<le> FEATURE_CAPACITY \<Longrightarrow>
   slot * FEATURE_CAPACITY + n \<le> BUFFERED_FEATURES * FEATURE_CAPACITY"
proof -
  assume "slot < BUFFERED_FEATURES" "n \<le> FEATURE_CAPACITY"
  then have "slot * FEATURE_CAPACITY + n \<le> Suc slot * FEATURE_CAPACITY" by simp
  also have "\<dots> \<le> BUFFERED_FEATURES * FEATURE_CAPACITY"
    using \<open>slot < BUFFERED_FEATURES\<close> by (intro mult_le_mono) simp_all
  finally show ?thesis .
qed

lemma accept_buffers:
  assumes "coordinator_shape c" and "\<not> co_terminal c"
    and "memcmp_eq eid (co_enrollment_id c) ENROLLMENT_ID_SIZE = Some True"
    and "n \<noteq> 0" and "unat n \<le> FEATURE_CAPACITY" and "unat n \<le> length feature"
    and "unat (co_buffered_features c) < BUFFERED_FEATURES"
  shows "accept_feature (Some c) u (Some eid) (Some feature) n =
           Some (OUTCOME_ACCEPTED_MORE, Some (buffered_image c feature n), u)"
  using assms slot_inside [of "unat (co_buffered_features c)" "unat n"]
  by (simp add: accept_feature_def buffered_image_def coordinator_shape_def c_memory Let_def
      del: memcmp_eq_Some)

lemma accept_fourth:
  assumes "\<not> co_terminal c"
    and "memcmp_eq eid (co_enrollment_id c) ENROLLMENT_ID_SIZE = Some True"
    and "n \<noteq> 0" and "unat n \<le> FEATURE_CAPACITY"
    and "\<not> unat (co_buffered_features c) < BUFFERED_FEATURES"
  shows "accept_feature (Some c) u (Some eid) (Some feature) n =
           create_from_buffered (c\<lparr>co_last_error := ERROR_NONE, co_last_native_status := 0\<rparr>)
             u feature n"
  using assms by (simp add: accept_feature_def Let_def del: memcmp_eq_Some)

section \<open>Template creation\<close>

definition feature_rows :: "'u coordinator \<Rightarrow> byte list list" where
  "feature_rows c =
     map (\<lambda>i. take FEATURE_CAPACITY (drop (i * FEATURE_CAPACITY) (co_features c)))
       [0..<BUFFERED_FEATURES]"

lemma feature_row_inside:
  "coordinator_shape c \<Longrightarrow> i < BUFFERED_FEATURES \<Longrightarrow>
   feature_row c i = Some (take FEATURE_CAPACITY (drop (i * FEATURE_CAPACITY) (co_features c)))"
  using slot_inside [of i FEATURE_CAPACITY]
  by (simp add: feature_row_def coordinator_shape_def)

lemma those_feature_rows:
  "coordinator_shape c \<Longrightarrow> those (map (feature_row c) [0..<BUFFERED_FEATURES]) = Some (feature_rows c)"
  unfolding feature_rows_def by (rule those_map_Some) (simp add: feature_row_inside)

text \<open>The struct right after the template callback, and once the template is ready.\<close>

definition created_image :: "'u coordinator \<Rightarrow> u32 \<Rightarrow> u32 \<Rightarrow> byte list \<Rightarrow> 'u coordinator" where
  "created_image c status sz tmpl =
     c\<lparr>co_buffered_features := 0, co_template_size := sz, co_template_data := tmpl,
       co_last_native_status := status\<rparr>"

definition ready_image :: "'u coordinator \<Rightarrow> byte list \<Rightarrow> 'u coordinator" where
  "ready_image c token =
     c\<lparr>co_commit_token := token, co_template_ready := True, co_terminal := True\<rparr>"

lemma created_image_fields [simp]:
  "co_template_size (created_image c status sz tmpl) = sz"
  "co_template_data (created_image c status sz tmpl) = tmpl"
  "co_commit_token (created_image c status sz tmpl) = co_commit_token c"
  "co_operations (created_image c status sz tmpl) = co_operations c"
  "co_terminal (created_image c status sz tmpl) = co_terminal c"
  "co_last_native_status (created_image c status sz tmpl) = status"
  by (simp_all add: created_image_def)

lemma created_image_shape:
  "coordinator_shape c \<Longrightarrow> length tmpl = TEMPLATE_CAPACITY \<Longrightarrow>
   coordinator_shape (created_image c status sz tmpl)"
  by (simp add: coordinator_shape_def created_image_def)

lemma call_create_template_length:
  "call_create_template ct u h sizes feats sz out = Some (status, sz', out', u') \<Longrightarrow>
   length out' = length out"
  by (auto simp: call_create_template_def fault_split)

lemma call_random_bytes_length:
  "call_random_bytes rb u out n = Some (status, out', u') \<Longrightarrow> length out' = length out"
  by (auto simp: call_random_bytes_def fault_split)

lemma create_from_buffered_eq:
  assumes shape: "coordinator_shape c" and live: "\<not> co_terminal c"
    and ops: "op_create_template (co_operations c) = Some ct"
             "op_random_bytes (co_operations c) = Some rb"
  shows "create_from_buffered c u feature n =
    do {
      (status, sz, tmpl, u) \<leftarrow>
        call_create_template ct u (co_handle c) (co_feature_sizes c @ [n]) (feature_rows c @ [feature])
          (of_nat TEMPLATE_CAPACITY) (co_template_data c);
      let c1 = created_image c status sz tmpl;
      if status \<noteq> 0 then Some (OUTCOME_REJECTED, Some (failed_image c1 ERROR_TEMPLATE_STATUS), u)
      else if sz = 0 \<or> TEMPLATE_CAPACITY < unat sz
      then Some (OUTCOME_REJECTED, Some (failed_image c1 ERROR_TEMPLATE_SIZE), u)
      else do {
        (rnd, token, u) \<leftarrow>
          call_random_bytes rb u (replicate ENROLLMENT_ID_SIZE 0) TOKEN_RANDOM_PREFIX_SIZE;
        if rnd \<noteq> 0 then Some (OUTCOME_REJECTED, Some (failed_image c1 ERROR_TOKEN_RANDOM), u)
        else Some (OUTCOME_TEMPLATE_READY_COMMIT_BLOCKED, Some (ready_image c1 token), u)
      }
    }" (is "?lhs = ?rhs")
proof -
  have sizes: "those (map (array_get (co_feature_sizes c)) [0..<BUFFERED_FEATURES])
                 = Some (co_feature_sizes c)"
    using shape by (intro those_map_array_get) (simp add: coordinator_shape_def)
  have failed: "length tmpl = TEMPLATE_CAPACITY \<Longrightarrow> length token = ENROLLMENT_ID_SIZE \<Longrightarrow>
      reject (Some (created_image c status sz tmpl\<lparr>co_commit_token := token\<rparr>)) e True
        = Some (OUTCOME_REJECTED, Some (failed_image (created_image c status sz tmpl) e))"
    for status sz tmpl token e
    using shape live
    by (subst reject_first_terminal)
       (simp_all add: coordinator_shape_def created_image_def failed_image_def)
  have failed': "length tmpl = TEMPLATE_CAPACITY \<Longrightarrow>
      reject (Some (created_image c status sz tmpl)) e True
        = Some (OUTCOME_REJECTED, Some (failed_image (created_image c status sz tmpl) e))"
    for status sz tmpl e
    using shape live
    by (intro reject_first_terminal created_image_shape) (simp_all add: created_image_def)
  have tmpl: "length (co_template_data c) = TEMPLATE_CAPACITY"
    and tok: "length (co_commit_token c) = ENROLLMENT_ID_SIZE"
    using shape by (simp_all add: coordinator_shape_def)
  let ?args = "call_create_template ct u (co_handle c) (co_feature_sizes c @ [n])
    (feature_rows c @ [feature]) (of_nat TEMPLATE_CAPACITY) (co_template_data c)"
  show ?thesis
  proof (cases ?args)
    case None
    then show ?thesis
      by (simp add: create_from_buffered_def sizes those_feature_rows [OF shape] ops)
  next
    case (Some res)
    obtain status sz tm u' where res: "res = (status, sz, tm, u')" by (cases res)
    with Some tmpl have len: "length tm = TEMPLATE_CAPACITY"
      by (auto dest: call_create_template_length)
    let ?rnd = "call_random_bytes rb u' (replicate ENROLLMENT_ID_SIZE 0) TOKEN_RANDOM_PREFIX_SIZE"
    have rnd: "?rnd = Some (r, token, u2) \<Longrightarrow> length token = ENROLLMENT_ID_SIZE" for r token u2
      by (auto dest: call_random_bytes_length)
    show ?thesis
      using Some res
      by (cases ?rnd)
         (auto simp: create_from_buffered_def sizes those_feature_rows [OF shape] ops tok c_memory Let_def
            created_image_def [symmetric] ready_image_def failed [OF len rnd] failed' [OF len])
  qed
qed

text \<open>
  All ways one request can go, in the order the code tests for them. \<open>live_request\<close> collects
  what holds once every guard has passed.
\<close>

definition live_request ::
  "'u coordinator \<Rightarrow> byte list option \<Rightarrow> byte list option \<Rightarrow> u32 \<Rightarrow> bool" where
  "live_request c eid feature n \<longleftrightarrow>
     \<not> co_terminal c \<and> n \<noteq> 0 \<and> unat n \<le> FEATURE_CAPACITY \<and>
     (\<exists>id fb. eid = Some id \<and> feature = Some fb \<and>
        memcmp_eq id (co_enrollment_id c) ENROLLMENT_ID_SIZE = Some True)"

definition template_call where
  "template_call c u ct n feature =
     call_create_template ct u (co_handle c) (co_feature_sizes c @ [n]) (feature_rows c @ [feature])
       (of_nat TEMPLATE_CAPACITY) (co_template_data c)"

definition random_call where
  "random_call u rb =
     call_random_bytes rb u (replicate ENROLLMENT_ID_SIZE 0) TOKEN_RANDOM_PREFIX_SIZE"

lemma create_from_buffered_cases:
  assumes "coordinator_shape c" and "\<not> co_terminal c"
    and "op_create_template (co_operations c) = Some ct"
    and "op_random_bytes (co_operations c) = Some rb"
    and "create_from_buffered c u feature n = Some (r, co', u')"
  obtains
    (create_fails) status sz tmpl e where
      "template_call c u ct n feature = Some (status, sz, tmpl, u')"
      "r = OUTCOME_REJECTED" "co' = Some (failed_image (created_image c status sz tmpl) e)"
      "e = ERROR_TEMPLATE_STATUS \<and> status \<noteq> 0 \<or>
       e = ERROR_TEMPLATE_SIZE \<and> status = 0 \<and> (sz = 0 \<or> TEMPLATE_CAPACITY < unat sz)"
  | (random_fails) sz tmpl u1 rnd token where
      "template_call c u ct n feature = Some (0, sz, tmpl, u1)"
      "random_call u1 rb = Some (rnd, token, u')" "rnd \<noteq> 0"
      "r = OUTCOME_REJECTED"
      "co' = Some (failed_image (created_image c 0 sz tmpl) ERROR_TOKEN_RANDOM)"
  | (created) sz tmpl u1 token where
      "template_call c u ct n feature = Some (0, sz, tmpl, u1)"
      "sz \<noteq> 0" "unat sz \<le> TEMPLATE_CAPACITY"
      "random_call u1 rb = Some (0, token, u')"
      "r = OUTCOME_TEMPLATE_READY_COMMIT_BLOCKED"
      "co' = Some (ready_image (created_image c 0 sz tmpl) token)"
proof -
  note eq = create_from_buffered_eq [OF assms(1-4), folded template_call_def random_call_def]
  from assms(5) obtain status sz tmpl u1
    where call: "template_call c u ct n feature = Some (status, sz, tmpl, u1)"
    by (auto simp: eq fault_split)
  show ?thesis
  proof (cases "status \<noteq> 0 \<or> sz = 0 \<or> TEMPLATE_CAPACITY < unat sz")
    case True
    with assms(5) call show ?thesis
      by (auto simp: eq Let_def split: if_splits intro: create_fails)
  next
    case False
    with assms(5) call obtain rnd token where
      "random_call u1 rb = Some (rnd, token, u')"
      by (auto simp: eq Let_def fault_split split: if_splits)
    with False assms(5) call show ?thesis
      by (auto simp: eq Let_def split: if_splits intro: random_fails created)
  qed
qed

abbreviation cleared_status :: "'u coordinator \<Rightarrow> 'u coordinator" where
  "cleared_status c \<equiv> c\<lparr>co_last_error := ERROR_NONE, co_last_native_status := 0\<rparr>"

lemma accept_feature_cases:
  assumes "coordinator_shape c"
    and "accept_feature (Some c) u eid feature n = Some (r, co', u')"
  obtains
    (null) "eid = None \<or> feature = None" "\<not> co_terminal c" "r = OUTCOME_REJECTED" "u' = u"
      "co' = Some (failed_image c ERROR_INVALID_ARGUMENT)"
  | (ended) e where "co_terminal c" "r = OUTCOME_REJECTED" "u' = u"
      "co' = Some (c\<lparr>co_last_error := e\<rparr>)" "e \<in> {ERROR_INVALID_ARGUMENT, ERROR_TERMINAL}"
  | (mismatch) id fb where "eid = Some id" "feature = Some fb" "\<not> co_terminal c"
      "memcmp_eq id (co_enrollment_id c) ENROLLMENT_ID_SIZE = Some False"
      "r = OUTCOME_REJECTED" "u' = u" "co' = Some (c\<lparr>co_last_error := ERROR_ID_MISMATCH\<rparr>)"
  | (size) id fb where "eid = Some id" "feature = Some fb" "\<not> co_terminal c"
      "memcmp_eq id (co_enrollment_id c) ENROLLMENT_ID_SIZE = Some True"
      "n = 0 \<or> FEATURE_CAPACITY < unat n"
      "r = OUTCOME_REJECTED" "u' = u" "co' = Some (failed_image c ERROR_FEATURE_SIZE)"
  | (buffer) fb where "live_request c eid feature n" "feature = Some fb"
      "unat n \<le> length fb" "unat (co_buffered_features c) < BUFFERED_FEATURES"
      "r = OUTCOME_ACCEPTED_MORE" "u' = u" "co' = Some (buffered_image c fb n)"
  | (create) fb where "live_request c eid feature n" "feature = Some fb"
      "\<not> unat (co_buffered_features c) < BUFFERED_FEATURES"
      "create_from_buffered (cleared_status c) u fb n = Some (r, co', u')"
proof (cases "eid = None \<or> feature = None")
  case True
  then show ?thesis
    using assms null ended [of ERROR_INVALID_ARGUMENT]
    by (cases "co_terminal c") (auto simp: accept_null_argument reject_eqs)
next
  case False
  then obtain id fb where args: "eid = Some id" "feature = Some fb" by auto
  show ?thesis
  proof (cases "co_terminal c")
    case True
    with assms(2) args show ?thesis
      by (intro ended [of ERROR_TERMINAL]) (simp_all add: accept_when_terminal)
  next
    case live: False
    with assms(2) args obtain same
      where cmp: "memcmp_eq id (co_enrollment_id c) ENROLLMENT_ID_SIZE = Some same"
      by (auto simp: accept_feature_def fault_split simp del: memcmp_eq_Some)
    show ?thesis
    proof (cases "\<not> same \<or> n = 0 \<or> FEATURE_CAPACITY < unat n")
      case True
      then show ?thesis
        using assms args live cmp mismatch [OF args live] size [OF args live]
        by (cases same) (auto simp: accept_mismatch accept_bad_size simp del: memcmp_eq_Some)
    next
      case ok: False
      then have cmp': "memcmp_eq id (co_enrollment_id c) ENROLLMENT_ID_SIZE = Some True"
        using cmp by simp
      have req: "live_request c eid feature n"
        using args live ok cmp' by (auto simp: live_request_def simp del: memcmp_eq_Some)
      show ?thesis
      proof (cases "unat (co_buffered_features c) < BUFFERED_FEATURES")
        case True
        have len: "unat n \<le> length fb"
          using assms(2) args live ok cmp' True
          by (auto simp: accept_feature_def fault_split Let_def simp del: memcmp_eq_Some)
        show ?thesis
          using buffer [OF req args(2) len True] assms(2) args ok
            accept_buffers [OF assms(1) live cmp' _ _ len True, of u]
          by auto
      next
        case False
        show ?thesis
          using create [OF req args(2) False] assms(2) args ok
            accept_fourth [OF live cmp' _ _ False, of n u fb]
          by auto
      qed
    qed
  qed
qed

section \<open>Every request keeps the invariant\<close>

lemma buffered_image_inv:
  assumes inv: "coordinator_inv c" and req: "live_request c eid (Some fb) n"
    and len: "unat n \<le> length fb" and slot: "unat (co_buffered_features c) < BUFFERED_FEATURES"
  shows "coordinator_inv (buffered_image c fb n)"
proof -
  let ?slot = "unat (co_buffered_features c)"
  have coll: "collecting c" and shape: "coordinator_shape c" and cb: "has_callbacks c"
    using inv req by (auto simp: live_request_def coordinator_inv_def ready_def failed_def)
  have n: "n \<noteq> 0" "unat n \<le> FEATURE_CAPACITY" using req by (auto simp: live_request_def)
  have succ: "unat (co_buffered_features c + 1) = Suc ?slot"
    using slot by (simp add: coordinator_sizes unat_word_ariths)
  have "coordinator_shape (buffered_image c fb n)"
    using shape len slot_inside [OF slot n(2)]
    by (simp add: coordinator_shape_def buffered_image_def Let_def)
  moreover have "collecting (buffered_image c fb n)"
    using coll n slot shape
    by (auto simp: collecting_def buffered_image_def Let_def succ coordinator_shape_def
        nth_list_update less_Suc_eq)
  ultimately show ?thesis
    using cb by (simp add: coordinator_inv_def has_callbacks_def buffered_image_def Let_def)
qed

lemma ended_inv:
  "coordinator_inv c \<Longrightarrow> co_terminal c \<Longrightarrow> e \<noteq> ERROR_NONE \<Longrightarrow>
   coordinator_inv (c\<lparr>co_last_error := e\<rparr>)"
  by (auto simp: coordinator_inv_def coordinator_shape_def has_callbacks_def coordinator_state_defs)

lemma mismatch_inv:
  "coordinator_inv c \<Longrightarrow> \<not> co_terminal c \<Longrightarrow> coordinator_inv (c\<lparr>co_last_error := e\<rparr>)"
  by (auto simp: coordinator_inv_def coordinator_shape_def has_callbacks_def coordinator_state_defs)

lemma ready_image_inv:
  assumes "coordinator_shape c" and "has_callbacks c" and "length tmpl = TEMPLATE_CAPACITY"
    and "sz \<noteq> 0" and "unat sz \<le> TEMPLATE_CAPACITY" and "length token = ENROLLMENT_ID_SIZE"
  shows "coordinator_inv (ready_image (created_image c status sz tmpl) token)"
  using assms
  by (simp add: coordinator_inv_def coordinator_shape_def has_callbacks_def ready_def
      ready_image_def created_image_def)

lemma template_call_length:
  "template_call c u ct n feature = Some (status, sz, tmpl, u') \<Longrightarrow>
   length tmpl = length (co_template_data c)"
  by (auto simp: template_call_def dest: call_create_template_length)

lemma random_call_length:
  "random_call u rb = Some (rnd, token, u') \<Longrightarrow> length token = ENROLLMENT_ID_SIZE"
  by (auto simp: random_call_def dest: call_random_bytes_length)

lemma cleared_status_props:
  "coordinator_shape (cleared_status c) = coordinator_shape c"
  "has_callbacks (cleared_status c) = has_callbacks c"
  "feature_rows (cleared_status c) = feature_rows c"
  by (simp_all add: coordinator_shape_def has_callbacks_def feature_rows_def)

lemma failed_created_inv:
  "has_callbacks c \<Longrightarrow> e \<noteq> ERROR_NONE \<Longrightarrow>
   coordinator_inv (failed_image (created_image c status sz tmpl) e)"
  by (intro conjunct1 [OF failed_image_inv]) (simp_all add: has_callbacks_def)

lemma create_keeps_inv:
  assumes "coordinator_shape c" and "\<not> co_terminal c" and "has_callbacks c"
    and "create_from_buffered c u fb n = Some (r, co', u')"
  shows "\<exists>c'. co' = Some c' \<and> coordinator_inv c' \<and> co_operations c' = co_operations c \<and>
           co_terminal c'"
proof -
  obtain ct rb where "op_create_template (co_operations c) = Some ct"
    and "op_random_bytes (co_operations c) = Some rb"
    using assms(3) by (auto simp: has_callbacks_def)
  from assms(1,2) this assms(4) show ?thesis
  proof (cases rule: create_from_buffered_cases)
    case (create_fails status sz tmpl e)
    with assms(3) show ?thesis by (auto intro!: failed_created_inv)
  next
    case (random_fails sz tmpl u1 rnd token)
    with assms(3) show ?thesis by (auto intro!: failed_created_inv)
  next
    case (created sz tmpl u1 token)
    with assms(1,3) show ?thesis
      by (auto intro!: ready_image_inv dest!: template_call_length random_call_length
           simp: coordinator_shape_def) (simp_all add: ready_image_def)
  qed
qed

lemma accept_keeps_inv:
  assumes inv: "coordinator_inv c"
    and acc: "accept_feature (Some c) u eid feature n = Some (r, co', u')"
  shows "\<exists>c'. co' = Some c' \<and> coordinator_inv c' \<and> co_operations c' = co_operations c \<and>
           (co_terminal c \<longrightarrow> co_terminal c' \<and> u' = u)"
proof -
  have shape: "coordinator_shape c" and cb: "has_callbacks c"
    using inv by (auto dest: inv_shape inv_callbacks)
  from shape acc show ?thesis
  proof (cases rule: accept_feature_cases)
    case (create fb)
    then have live: "\<not> co_terminal c" by (simp add: live_request_def)
    show ?thesis
      using create_keeps_inv [OF _ _ _ create(4)] shape cb live
      by (auto simp: cleared_status_props)
  next
    case (buffer fb)
    with inv show ?thesis
      by (auto intro!: buffered_image_inv simp: live_request_def)
         (simp_all add: buffered_image_def Let_def)
  qed (use inv cb in \<open>auto dest: failed_image_inv simp: mismatch_inv ended_inv\<close>)
qed

section \<open>Sequences of requests\<close>

text \<open>
  A caller's session: requests in order against one coordinator, each outcome recorded.
\<close>

record request =
  rq_id :: "byte list option"
  rq_feature :: "byte list option"
  rq_size :: u32

fun accept_all ::
  "'u coordinator option \<Rightarrow> 'u \<Rightarrow> request list \<Rightarrow> (outcome list \<times> 'u coordinator option \<times> 'u) option" where
  "accept_all co u [] = Some ([], co, u)"
| "accept_all co u (rq # rqs) =
     do {
       (r, co, u) \<leftarrow> accept_feature co u (rq_id rq) (rq_feature rq) (rq_size rq);
       (rs, co, u) \<leftarrow> accept_all co u rqs;
       Some (r # rs, co, u)
     }"

lemma accept_all_inv:
  assumes "coordinator_inv c" and "accept_all (Some c) u rqs = Some (rs, co', u')"
  obtains c' where "co' = Some c'" "coordinator_inv c'" "co_operations c' = co_operations c"
proof -
  have "\<exists>c'. co' = Some c' \<and> coordinator_inv c' \<and> co_operations c' = co_operations c"
    using assms
  proof (induction rqs arbitrary: c u rs)
    case Nil
    then show ?case by auto
  next
    case (Cons rq rqs)
    from Cons.prems(2) obtain r co1 u1 rs' where
      step: "accept_feature (Some c) u (rq_id rq) (rq_feature rq) (rq_size rq) = Some (r, co1, u1)"
      and rest: "accept_all co1 u1 rqs = Some (rs', co', u')"
      by (auto simp: fault_split)
    from accept_keeps_inv [OF Cons.prems(1) step] obtain c1 where "co1 = Some c1"
      "coordinator_inv c1" "co_operations c1 = co_operations c"
      by blast
    with Cons.IH [of c1 u1 rs'] rest show ?case by simp
  qed
  with that show ?thesis by blast
qed

lemma new_coordinator_inv:
  assumes "mock_coordinator_new config error_out calloc_ok = Some (Some c, e)"
  shows "coordinator_inv c \<and> collecting c \<and> co_buffered_features c = 0"
proof -
  from assms obtain cfg src where "new_error config = ERROR_NONE"
    and cfg: "config = Some cfg" "cfg_enrollment_id cfg = Some src"
    and "ENROLLMENT_ID_SIZE \<le> length src"
    and c: "c = zero_coordinator\<lparr>co_handle := cfg_handle cfg,
                 co_enrollment_id := take ENROLLMENT_ID_SIZE src,
                 co_operations := cfg_operations cfg\<rparr>"
    by (auto simp: mock_coordinator_new_def fault_split Let_def zero_coordinator_def
        split: if_splits)
  then have "has_callbacks c"
    by (auto simp: has_callbacks_def new_error_def Option.is_none_def split: if_splits)
  with c \<open>ENROLLMENT_ID_SIZE \<le> length src\<close> show ?thesis
    by (simp add: coordinator_inv_def coordinator_shape_def collecting_def zero_coordinator_def)
qed

end
