(* ===== verification/Coordinator_Spec.thy ===== *)
theory Coordinator_Spec
  imports Coordinator_Correct
begin

text \<open>
  What the coordinator promises, as a three-state abstract collector, the refinement of the C
  code to it, and the contract with the two callbacks.
\<close>

section \<open>The abstract collector\<close>

text \<open>
  Collecting the features accepted so far, ready with a template and a commit token, or failed.
\<close>

datatype collector = Collecting "byte list list" | Ready "byte list" "byte list" | Failed

definition buffered_bytes :: "'u coordinator \<Rightarrow> byte list list" where
  "buffered_bytes c =
     map (\<lambda>i. take (unat (co_feature_sizes c ! i)) (drop (i * FEATURE_CAPACITY) (co_features c)))
       [0..<unat (co_buffered_features c)]"

definition collector_of :: "'u coordinator \<Rightarrow> collector" where
  "collector_of c =
     (if \<not> co_terminal c then Collecting (buffered_bytes c)
      else if co_template_ready c
      then Ready (take (unat (co_template_size c)) (co_template_data c)) (co_commit_token c)
      else Failed)"

definition acceptable :: "byte list \<Rightarrow> request \<Rightarrow> byte list \<Rightarrow> bool" where
  "acceptable expected rq f \<longleftrightarrow>
     (\<exists>id fb. rq_id rq = Some id \<and> rq_feature rq = Some fb \<and>
        take ENROLLMENT_ID_SIZE id = expected \<and>
        0 < unat (rq_size rq) \<and> unat (rq_size rq) \<le> FEATURE_CAPACITY \<and>
        f = take (unat (rq_size rq)) fb)"

text \<open>
  One request. \<open>expected\<close> is the enrollment ID; the template callback and the random source
  appear as the choice between the last two rules.
\<close>

inductive collector_step ::
  "byte list \<Rightarrow> collector \<Rightarrow> request \<Rightarrow> outcome \<Rightarrow> collector \<Rightarrow> bool" where
  null_pointer: "rq_id rq = None \<or> rq_feature rq = None \<Longrightarrow>
    collector_step expected (Collecting fs) rq OUTCOME_REJECTED Failed"
| other_id: "rq_id rq = Some i \<Longrightarrow> rq_feature rq \<noteq> None \<Longrightarrow>
    take ENROLLMENT_ID_SIZE i \<noteq> expected \<Longrightarrow>
    collector_step expected (Collecting fs) rq OUTCOME_REJECTED (Collecting fs)"
| bad_size: "rq_size rq = 0 \<or> FEATURE_CAPACITY < unat (rq_size rq) \<Longrightarrow>
    rq_id rq = Some i \<Longrightarrow> take ENROLLMENT_ID_SIZE i = expected \<Longrightarrow>
    collector_step expected (Collecting fs) rq OUTCOME_REJECTED Failed"
| buffered: "acceptable expected rq f \<Longrightarrow> length fs < BUFFERED_FEATURES \<Longrightarrow>
    collector_step expected (Collecting fs) rq OUTCOME_ACCEPTED_MORE (Collecting (fs @ [f]))"
| template_made: "acceptable expected rq f \<Longrightarrow> length fs = BUFFERED_FEATURES \<Longrightarrow>
    tmpl \<noteq> [] \<Longrightarrow> length tmpl \<le> TEMPLATE_CAPACITY \<Longrightarrow> length token = ENROLLMENT_ID_SIZE \<Longrightarrow>
    collector_step expected (Collecting fs) rq OUTCOME_TEMPLATE_READY_COMMIT_BLOCKED
      (Ready tmpl token)"
| template_failed: "acceptable expected rq f \<Longrightarrow> length fs = BUFFERED_FEATURES \<Longrightarrow>
    collector_step expected (Collecting fs) rq OUTCOME_REJECTED Failed"
| ended: "(\<forall>fs. s \<noteq> Collecting fs) \<Longrightarrow> collector_step expected s rq OUTCOME_REJECTED s"

inductive_cases collecting_stepE: "collector_step expected (Collecting fs) rq r s"
inductive_cases ready_stepE: "collector_step expected (Ready tmpl token) rq r s"
inductive_cases failed_stepE: "collector_step expected Failed rq r s"

inductive_simps ready_step: "collector_step expected (Ready tmpl token) rq r s"
inductive_simps failed_step: "collector_step expected Failed rq r s"

lemma length_buffered_bytes [simp]: "length (buffered_bytes c) = unat (co_buffered_features c)"
  by (simp add: buffered_bytes_def)

lemma collector_of_failed_image [simp]: "collector_of (failed_image c e) = Failed"
  by (simp add: collector_of_def failed_image_def)

lemma collector_of_last_error [simp]:
  "collector_of (c\<lparr>co_last_error := e\<rparr>) = collector_of c"
  by (simp add: collector_of_def buffered_bytes_def)

lemma collector_of_terminal: "co_terminal c \<Longrightarrow> collector_of c \<noteq> Collecting fs"
  by (simp add: collector_of_def)

section \<open>Refinement\<close>

text \<open>Storing a feature in the next slot leaves the earlier slots as they are.\<close>

lemma buffered_bytes_append:
  assumes shape: "coordinator_shape c" and coll: "collecting c"
    and slot: "unat (co_buffered_features c) < BUFFERED_FEATURES"
    and n: "unat n \<le> FEATURE_CAPACITY" and len: "unat n \<le> length fb"
  shows "buffered_bytes (buffered_image c fb n) = buffered_bytes c @ [take (unat n) fb]"
proof -
  let ?slot = "unat (co_buffered_features c)" and ?feats = "co_features c"
  let ?off = "?slot * FEATURE_CAPACITY"
  let ?new = "take ?off ?feats @ take (unat n) fb @ drop (?off + unat n) ?feats"
  have succ: "unat (co_buffered_features c + 1) = Suc ?slot"
    using slot by (simp add: coordinator_sizes unat_word_ariths)
  have off: "?off \<le> length ?feats"
    using shape slot by (auto simp: coordinator_shape_def intro!: mult_le_mono1)
  have old: "take (unat (co_feature_sizes c ! i)) (drop (i * FEATURE_CAPACITY) ?new)
             = take (unat (co_feature_sizes c ! i)) (drop (i * FEATURE_CAPACITY) ?feats)"
    if i: "i < ?slot" for i
  proof (rule drop_take_before [OF _ off])
    have "i * FEATURE_CAPACITY + unat (co_feature_sizes c ! i) \<le> Suc i * FEATURE_CAPACITY"
      using coll i by (simp add: collecting_def)
    also have "\<dots> \<le> ?off" using i by (intro mult_le_mono1) simp
    finally show "i * FEATURE_CAPACITY + unat (co_feature_sizes c ! i) \<le> ?off" .
  qed
  have new: "take (unat n) (drop ?off ?new) = take (unat n) fb"
    using off len by (simp add: min_absorb2)
  have sizes: "(co_feature_sizes c)[?slot := n] ! ?slot = n"
    using shape slot by (simp add: coordinator_shape_def)
  show ?thesis
    using old new sizes
    by (simp add: buffered_bytes_def buffered_image_def Let_def succ)
qed

lemma live_request_acceptable:
  "live_request c (rq_id rq) (rq_feature rq) (rq_size rq) \<Longrightarrow> coordinator_shape c \<Longrightarrow>
   rq_feature rq = Some fb \<Longrightarrow>
   acceptable (co_enrollment_id c) rq (take (unat (rq_size rq)) fb)"
  by (auto simp: live_request_def acceptable_def coordinator_shape_def unat_gt_0)

lemma create_refines:
  assumes shape: "coordinator_shape c" and cb: "has_callbacks c" and coll: "collecting c"
    and acc: "acceptable expected rq f" and full: "\<not> unat (co_buffered_features c) < BUFFERED_FEATURES"
    and create: "create_from_buffered (cleared_status c) u fb n = Some (r, Some c', u')"
  shows "collector_step expected (collector_of c) rq r (collector_of c')"
proof -
  have live: "\<not> co_terminal c" using coll by (simp add: collecting_def)
  have len: "length (buffered_bytes c) = BUFFERED_FEATURES"
    using coll full by (simp add: collecting_def)
  have c: "collector_of c = Collecting (buffered_bytes c)"
    using live by (simp add: collector_of_def)
  obtain ct rb where ops: "op_create_template (co_operations (cleared_status c)) = Some ct"
    "op_random_bytes (co_operations (cleared_status c)) = Some rb"
    using cb by (auto simp: has_callbacks_def)
  have "coordinator_shape (cleared_status c)" and "\<not> co_terminal (cleared_status c)"
    using shape live by (simp_all add: cleared_status_props)
  from this ops create show ?thesis
  proof (cases rule: create_from_buffered_cases)
    case (created sz tmpl u1 token)
    then have c': "collector_of c' = Ready (take (unat sz) tmpl) token"
      by (simp add: collector_of_def ready_image_def)
    have "length tmpl = TEMPLATE_CAPACITY"
      using created(1) shape by (auto dest: template_call_length simp: coordinator_shape_def)
    then have "take (unat sz) tmpl \<noteq> []" "length (take (unat sz) tmpl) \<le> TEMPLATE_CAPACITY"
      using created(2) TEMPLATE_CAPACITY_pos by (auto simp: unat_gt_0 simp del: TEMPLATE_CAPACITY_pos)
    moreover have "length token = ENROLLMENT_ID_SIZE" using created(4) by (rule random_call_length)
    ultimately show ?thesis
      unfolding c c' created(5) by (intro template_made [OF acc len])
  qed (use shape live in \<open>auto simp: c cleared_status_props intro: template_failed [OF acc len]\<close>)
qed

lemma accept_feature_refines:
  assumes inv: "coordinator_inv c"
    and acc: "accept_feature (Some c) u (rq_id rq) (rq_feature rq) (rq_size rq)
                = Some (r, Some c', u')"
  shows "collector_step (co_enrollment_id c) (collector_of c) rq r (collector_of c')"
proof -
  have shape: "coordinator_shape c" using inv by (rule inv_shape)
  from shape acc show ?thesis
  proof (cases rule: accept_feature_cases)
    case null
    then show ?thesis by (auto simp: collector_of_def [of c] intro: null_pointer)
  next
    case (ended e)
    then show ?thesis by (auto intro!: collector_step.ended simp: collector_of_terminal)
  next
    case (mismatch id fb)
    then show ?thesis
      using shape by (auto simp: collector_of_def [of c] coordinator_shape_def intro!: other_id)
  next
    case (size id fb)
    then show ?thesis
      using shape by (auto simp: collector_of_def [of c] coordinator_shape_def intro!: bad_size)
  next
    case (buffer fb)
    have coll: "collecting c"
      using inv buffer(1) by (auto intro: inv_not_terminal simp: live_request_def)
    have n: "unat (rq_size rq) \<le> FEATURE_CAPACITY" using buffer(1) by (simp add: live_request_def)
    have "collector_of c' = Collecting (buffered_bytes c @ [take (unat (rq_size rq)) fb])"
      using buffer coll buffered_bytes_append [OF shape coll buffer(4) n buffer(3)]
      by (auto simp: collector_of_def collecting_def buffered_image_def Let_def)
    then show ?thesis
      using buffer coll live_request_acceptable [OF buffer(1) shape buffer(2)]
      by (auto simp: collector_of_def [of c] collecting_def intro!: buffered)
  next
    case (create fb)
    have "collecting c"
      using inv create(1) by (auto intro: inv_not_terminal simp: live_request_def)
    then show ?thesis
      using create live_request_acceptable [OF create(1) shape create(2)] shape inv
      by (auto intro!: create_refines dest: inv_callbacks)
  qed
qed

end
