(* ===== verification/Coordinator_Harness.thy ===== *)
theory Coordinator_Harness
  imports Coordinator
begin

text \<open>
  The repository's own driver of the coordinator, \<open>tests/fixtures/bcm5880_coordinator_harness.c\<close>:
  the two mock callbacks and the scenarios of \<open>main\<close>. \<open>abort ()\<close> is a fault. What \<open>main\<close> prints
  is a list of structured lines, one constructor per \<open>printf\<close>.
\<close>

record mock_state =
  ms_scenario :: string
  ms_template_calls :: u32
  ms_random_calls :: u32

definition check_mock_feature :: "u32 list \<Rightarrow> byte list option list \<Rightarrow> nat \<Rightarrow> unit option" where
  "check_mock_feature sizes feats index =
     do {
       n \<leftarrow> array_get sizes index;
       if n \<noteq> 100 + of_nat index then None
       else do {
         row \<leftarrow> array_get feats index;
         bytes \<leftarrow> row;
         first \<leftarrow> array_get bytes 0;
         if first \<noteq> of_nat (0x10 + index) then None else Some ()
       }
     }"

definition mock_create_template :: "mock_state create_template_fn" where
  "mock_create_template st h sizes_ptr feats_ptr size_ptr out_ptr =
     do {
       let st = st\<lparr>ms_template_calls := ms_template_calls st + 1\<rparr>;
       n \<leftarrow> size_ptr;
       if h \<noteq> 7 \<or> n \<noteq> of_nat TEMPLATE_CAPACITY then None
       else do {
         sizes \<leftarrow> sizes_ptr;
         feats \<leftarrow> feats_ptr;
         those (map (check_mock_feature sizes feats) [0..<TEMPLATE_FEATURES]);
         if ms_scenario st = ''template-error'' then Some (0x59, size_ptr, out_ptr, st)
         else if ms_scenario st = ''template-oversize''
         then Some (0, Some (of_nat (TEMPLATE_CAPACITY + 1)), out_ptr, st)
         else do {
           out \<leftarrow> out_ptr;
           out \<leftarrow> memset_obj out 0xa5 64;
           Some (0, Some 64, Some out, st)
         }
       }
     }"

definition mock_random_bytes :: "mock_state random_bytes_fn" where
  "mock_random_bytes st out n =
     (let st = st\<lparr>ms_random_calls := ms_random_calls st + 1\<rparr> in
      if n \<noteq> TOKEN_RANDOM_PREFIX_SIZE then None
      else if ms_scenario st = ''random-error'' then Some (-1, out, st)
      else do { out \<leftarrow> memset_obj out 0x5a n; Some (0, out, st) })"

datatype harness_line =
    Init_failed string u32 u32
  | Mismatch_outcome outcome
  | Oversize_outcome outcome
  | Feature_outcome nat outcome
  | Post_ready_outcome outcome
  | Snapshot_line string u32 bool u32 bool bool string u32 u32 u32

text \<open>
  \<open>print_snapshot\<close>: label, buffered features, ready, template size, commit permitted, terminal,
  name of the error, native status and the two call counters.
\<close>

definition snapshot_line ::
  "string \<Rightarrow> mock_state coordinator option \<Rightarrow> mock_state \<Rightarrow> harness_line" where
  "snapshot_line label co st =
     (let s = coordinator_snapshot co in
      Snapshot_line label (snap_buffered_features s) (snap_template_ready s)
        (snap_template_size s) (snap_commit_permitted s) (snap_terminal s)
        (error_name (error_code (snap_last_error s))) (snap_last_native_status s)
        (ms_template_calls st) (ms_random_calls st))"

text \<open>The loop of \<open>main\<close> over the four features, with its \<open>break\<close> in scenario \<open>three-only\<close>.\<close>

fun feature_loop ::
  "nat list \<Rightarrow> mock_state coordinator option \<Rightarrow> mock_state \<Rightarrow> byte list
     \<Rightarrow> (harness_line list \<times> mock_state coordinator option \<times> mock_state) option" where
  "feature_loop [] co st eid = Some ([], co, st)"
| "feature_loop (index # rest) co st eid =
     do {
       (r, co, st) \<leftarrow> accept_feature co st (Some eid)
          (Some (replicate FEATURE_CAPACITY (of_nat (0x10 + index)))) (100 + of_nat index);
       if ms_scenario st = ''three-only'' \<and> index = 2
       then Some ([Feature_outcome (index + 1) r], co, st)
       else do {
         (ls, co, st) \<leftarrow> feature_loop rest co st eid;
         Some (Feature_outcome (index + 1) r # ls, co, st)
       }
     }"

definition harness_config :: "string \<Rightarrow> byte list \<Rightarrow> mock_state mock_config" where
  "harness_config scenario eid =
     \<lparr>cfg_mode = (if scenario = ''disabled'' then EXECUTION_DISABLED else EXECUTION_MOCK_ONLY),
      cfg_handle = 7, cfg_enrollment_id = Some eid,
      cfg_operations =
        \<lparr>op_create_template =
           (if scenario = ''missing-operations'' then None else Some mock_create_template),
         op_random_bytes = Some mock_random_bytes\<rparr>\<rparr>"

text \<open>
  \<open>main\<close> for one scenario argument. \<open>stack_feature\<close> is the indeterminate initial content of the
  local array \<open>feature\<close>; the allocation succeeds.
\<close>

definition coordinator_harness_main :: "byte list \<Rightarrow> string \<Rightarrow> (harness_line list \<times> int) option" where
  "coordinator_harness_main stack_feature scenario =
     do {
       let st = \<lparr>ms_scenario = scenario, ms_template_calls = 0, ms_random_calls = 0\<rparr>;
       let eid = replicate ENROLLMENT_ID_SIZE 0x31;
       let wrong_id = replicate ENROLLMENT_ID_SIZE 0x32;
       (co, err) \<leftarrow> mock_coordinator_new (Some (harness_config scenario eid)) (Some ERROR_NONE) True;
       e \<leftarrow> err;
       if co = None
       then Some ([Init_failed (error_name (error_code e)) (ms_template_calls st)
                     (ms_random_calls st)], 0)
       else if scenario = ''oversize'' then do {
         (r, co, st) \<leftarrow> accept_feature co st (Some eid) (Some stack_feature)
            (of_nat (FEATURE_CAPACITY + 1));
         Some ([Oversize_outcome r, snapshot_line ''after-oversize'' co st], 0)
       }
       else do {
         (ls0, co, st) \<leftarrow>
           (if scenario = ''id-mismatch'' then do {
              (r, co, st) \<leftarrow> accept_feature co st (Some wrong_id)
                 (Some (replicate FEATURE_CAPACITY 0x10)) 100;
              Some ([Mismatch_outcome r, snapshot_line ''after-mismatch'' co st], co, st)
            } else Some ([], co, st));
         (ls1, co, st) \<leftarrow> feature_loop [0..<TEMPLATE_FEATURES] co st eid;
         let ls2 = [snapshot_line ''final'' co st];
         (ls3, co, st) \<leftarrow>
           (if scenario = ''happy'' then do {
              (r, co, st) \<leftarrow> accept_feature co st (Some eid)
                 (Some (replicate FEATURE_CAPACITY 0x14)) 104;
              Some ([Post_ready_outcome r, snapshot_line ''post-ready'' co st], co, st)
            } else Some ([], co, st));
         Some (ls0 @ ls1 @ ls2 @ ls3, 0)
       }
     }"

end
