(* ===== verification/Coordinator_Claims.thy ===== *)
theory Coordinator_Claims
  imports Coordinator_Spec Coordinator_Harness
begin

text \<open>
  The interface between the coordinator and its injected callbacks, recorded runs, and the
  properties of the component.
\<close>

section \<open>The callback interface\<close>

text \<open>
  What the coordinator relies on beyond memory safety: a random source fills at most the prefix
  it was asked for, and a template routine never reports a size above the capacity it was given.
\<close>

locale random_source =
  fixes rb :: "'u random_bytes_fn"
  assumes fills_prefix:
    "rb u out n = Some (status, out', u') \<Longrightarrow> drop n out' = drop n out"
begin

lemma token_suffix_zero:
  assumes "random_call u rb = Some (rnd, token, u')"
  shows "drop TOKEN_RANDOM_PREFIX_SIZE token
           = replicate (ENROLLMENT_ID_SIZE - TOKEN_RANDOM_PREFIX_SIZE) 0"
  using assms by (auto simp: random_call_def call_random_bytes_def fault_split dest!: fills_prefix)

end

locale template_routine =
  fixes ct :: "'u create_template_fn"
  assumes size_within_capacity:
    "ct u h sizes feats (Some n) out = Some (status, Some n', out', u') \<Longrightarrow> unat n' \<le> unat n"
begin

lemma template_call_fits:
  assumes "template_call c u ct n feature = Some (status, sz, tmpl, u')"
  shows "unat sz \<le> TEMPLATE_CAPACITY"
  using assms
  by (auto simp: template_call_def call_create_template_def fault_split dest!: size_within_capacity)

text \<open>With such a routine the code's check against the capacity never fires: only 0 is rejected.\<close>

lemma size_error_means_zero:
  assumes "coordinator_shape c" and "\<not> co_terminal c"
    and "op_create_template (co_operations c) = Some ct"
    and "op_random_bytes (co_operations c) = Some rb"
    and "create_from_buffered c u fb n = Some (OUTCOME_REJECTED, Some c', u')"
    and "co_last_error c' = ERROR_TEMPLATE_SIZE"
  shows "\<exists>tmpl. template_call c u ct n fb = Some (0, 0, tmpl, u')"
  using assms(1-5)
proof (cases rule: create_from_buffered_cases)
  case (create_fails status sz tmpl e)
  with assms(6) template_call_fits [OF create_fails(1)] show ?thesis by auto
next
  case (random_fails sz tmpl u1 rnd token)
  with assms(6) show ?thesis by simp
next
  case (created sz tmpl u1 token)
  then show ?thesis by simp
qed

end

interpretation mock_random: random_source mock_random_bytes
  by unfold_locales
     (auto simp: mock_random_bytes_def fault_split Let_def split: if_splits)

section \<open>Recorded callbacks\<close>

text \<open>
  Any pair of callbacks, wrapped so that the calls the coordinator makes are recorded with their
  arguments, in order.
\<close>

datatype callback_event =
    Template_call u32 "u32 list option" "byte list option list option" "u32 option"
  | Random_call nat

definition recorded_template ::
  "'u create_template_fn \<Rightarrow> ('u \<times> callback_event list) create_template_fn" where
  "recorded_template ct = (\<lambda>(u, log) h sizes feats n out.
     do {
       (status, n', out', u') \<leftarrow> ct u h sizes feats n out;
       Some (status, n', out', (u', log @ [Template_call h sizes feats n]))
     })"

definition recorded_random ::
  "'u random_bytes_fn \<Rightarrow> ('u \<times> callback_event list) random_bytes_fn" where
  "recorded_random rb = (\<lambda>(u, log) out n.
     do {
       (status, out', u') \<leftarrow> rb u out n;
       Some (status, out', (u', log @ [Random_call n]))
     })"

definition recorded_operations ::
  "'u create_template_fn \<Rightarrow> 'u random_bytes_fn \<Rightarrow> ('u \<times> callback_event list) mock_operations" where
  "recorded_operations ct rb =
     \<lparr>op_create_template = Some (recorded_template ct), op_random_bytes = Some (recorded_random rb)\<rparr>"

lemma recorded_template_call:
  "template_call c (u, log) (recorded_template ct) n fb = Some (status, sz, tmpl, (u', log')) \<Longrightarrow>
   log' = log @ [Template_call (co_handle c) (Some (co_feature_sizes c @ [n]))
                   (Some (map Some (feature_rows c @ [fb]))) (Some (of_nat TEMPLATE_CAPACITY))]"
  by (auto simp: template_call_def call_create_template_def recorded_template_def fault_split)

lemma recorded_random_call:
  "random_call (u, log) (recorded_random rb) = Some (rnd, token, (u', log')) \<Longrightarrow>
   log' = log @ [Random_call TOKEN_RANDOM_PREFIX_SIZE]"
  by (auto simp: random_call_def call_random_bytes_def recorded_random_def fault_split)

text \<open>What one request can add to the record.\<close>

lemma accept_records:
  fixes c :: "('u \<times> callback_event list) coordinator"
  assumes inv: "coordinator_inv c" and ops: "co_operations c = recorded_operations ct rb"
    and acc: "accept_feature (Some c) (u, log) eid feature n = Some (r, Some c', (u', log'))"
  obtains
    (quiet) "log' = log" "u' = u" "r \<noteq> OUTCOME_TEMPLATE_READY_COMMIT_BLOCKED"
      "co_terminal c \<longrightarrow> co_terminal c'"
  | (template) fb rest where "live_request c eid feature n" "feature = Some fb"
      "\<not> unat (co_buffered_features c) < BUFFERED_FEATURES" "co_terminal c'"
      "log' = log @ Template_call (co_handle c) (Some (co_feature_sizes c @ [n]))
                      (Some (map Some (feature_rows c @ [fb]))) (Some (of_nat TEMPLATE_CAPACITY))
                    # rest"
      "rest = [] \<and> r = OUTCOME_REJECTED \<or> rest = [Random_call TOKEN_RANDOM_PREFIX_SIZE]"
proof -
  have shape: "coordinator_shape c" using inv by (rule inv_shape)
  from shape acc show ?thesis
  proof (cases rule: accept_feature_cases)
    case (create fb)
    have live: "\<not> co_terminal (cleared_status c)" using create(1) by (simp add: live_request_def)
    have shape': "coordinator_shape (cleared_status c)" using shape by (simp add: cleared_status_props)
    have ct: "op_create_template (co_operations (cleared_status c)) = Some (recorded_template ct)"
      and rb: "op_random_bytes (co_operations (cleared_status c)) = Some (recorded_random rb)"
      using ops by (simp_all add: recorded_operations_def)
    note template = template [OF create(1) create(2) create(3)]
    from shape' live ct rb create(4) show ?thesis
    proof (cases rule: create_from_buffered_cases)
      case (create_fails status sz tmpl e)
      with recorded_template_call [OF create_fails(1)] show ?thesis
        by (intro template [of "[]"]) (simp_all add: cleared_status_props)
    next
      case (random_fails sz tmpl u1 rnd token)
      obtain v l where "u1 = (v, l)" by (cases u1)
      with random_fails recorded_template_call [of "cleared_status c"] recorded_random_call
      show ?thesis
        by (intro template [of "[Random_call TOKEN_RANDOM_PREFIX_SIZE]"])
           (fastforce simp: cleared_status_props)+
    next
      case (created sz tmpl u1 token)
      obtain v l where "u1 = (v, l)" by (cases u1)
      with created recorded_template_call [of "cleared_status c"] recorded_random_call
      show ?thesis
        by (intro template [of "[Random_call TOKEN_RANDOM_PREFIX_SIZE]"])
           (fastforce simp: cleared_status_props ready_image_def)+
    qed
  qed (auto intro!: quiet simp: live_request_def)
qed

section \<open>Sessions\<close>

text \<open>Until it is terminal, a coordinator keeps its ID, its handle and its callbacks.\<close>

lemma accept_frame:
  assumes inv: "coordinator_inv c"
    and acc: "accept_feature (Some c) u eid feature n = Some (r, Some c', u')"
    and live: "\<not> co_terminal c'"
  shows "co_enrollment_id c' = co_enrollment_id c \<and> co_handle c' = co_handle c"
proof -
  have shape: "coordinator_shape c" and cb: "has_callbacks c"
    using inv by (auto dest: inv_shape inv_callbacks)
  from shape acc show ?thesis
  proof (cases rule: accept_feature_cases)
    case (create fb)
    then have "\<not> co_terminal c" by (simp add: live_request_def)
    with create_keeps_inv [OF _ _ _ create(4)] shape cb live show ?thesis
      by (auto simp: cleared_status_props)
  qed (use live in \<open>auto simp: buffered_image_def Let_def\<close>)
qed

inductive collector_run ::
  "byte list \<Rightarrow> collector \<Rightarrow> request list \<Rightarrow> outcome list \<Rightarrow> collector \<Rightarrow> bool"
  for expected where
  run_nil: "collector_run expected s [] [] s"
| run_cons: "collector_step expected s rq r s1 \<Longrightarrow> collector_run expected s1 rqs rs s2 \<Longrightarrow>
    collector_run expected s (rq # rqs) (r # rs) s2"

inductive_simps collector_run_Nil [simp]: "collector_run expected s [] rs s'"
inductive_simps collector_run_Cons: "collector_run expected s (rq # rqs) rs s'"

lemma collector_step_terminal:
  "collector_step e s rq r s' \<Longrightarrow> (\<And>fs. s \<noteq> Collecting fs) \<Longrightarrow> collector_step e' s rq r s'"
  by (cases rule: collector_step.cases) (auto intro: collector_step.ended)

lemma accept_all_refines:
  assumes "coordinator_inv c" and "\<not> co_terminal c \<longrightarrow> co_enrollment_id c = expected"
    and "accept_all (Some c) u rqs = Some (rs, Some c', u')"
  shows "collector_run expected (collector_of c) rqs rs (collector_of c')"
  using assms
proof (induction rqs arbitrary: c u rs)
  case Nil
  then show ?case by simp
next
  case (Cons rq rqs)
  from Cons.prems(3) obtain r co1 u1 rs' where
    step: "accept_feature (Some c) u (rq_id rq) (rq_feature rq) (rq_size rq) = Some (r, co1, u1)"
    and rest: "accept_all co1 u1 rqs = Some (rs', Some c', u')" and rs: "rs = r # rs'"
    by (auto simp: fault_split)
  from accept_keeps_inv [OF Cons.prems(1) step] obtain c1
    where c1: "co1 = Some c1" "coordinator_inv c1" "co_terminal c \<longrightarrow> co_terminal c1" by blast
  have "collector_step (co_enrollment_id c) (collector_of c) rq r (collector_of c1)"
    using accept_feature_refines [OF Cons.prems(1)] step c1(1) by simp
  then have "collector_step expected (collector_of c) rq r (collector_of c1)"
    using Cons.prems(2) collector_step_terminal [OF _ collector_of_terminal]
    by (cases "co_terminal c") auto
  moreover have "\<not> co_terminal c1 \<longrightarrow> co_enrollment_id c1 = expected"
    using accept_frame [OF Cons.prems(1)] step c1 Cons.prems(2) by auto
  then have "collector_run expected (collector_of c1) rqs rs' (collector_of c')"
    using Cons.IH c1 rest by simp
  ultimately show ?case unfolding rs by (rule run_cons)
qed

text \<open>Requests whose pointers are null or point to objects of the size the ABI asks for.\<close>

definition well_formed_request :: "request \<Rightarrow> bool" where
  "well_formed_request rq \<longleftrightarrow>
     (\<forall>i. rq_id rq = Some i \<longrightarrow> ENROLLMENT_ID_SIZE \<le> length i) \<and>
     (\<forall>f. rq_feature rq = Some f \<longrightarrow> unat (rq_size rq) \<le> length f)"

text \<open>Callbacks that return normally on every input.\<close>

definition callbacks_return :: "'u coordinator \<Rightarrow> bool" where
  "callbacks_return c \<longleftrightarrow>
     (\<forall>ct. op_create_template (co_operations c) = Some ct \<longrightarrow>
        (\<forall>u h s f n out. call_create_template ct u h s f n out \<noteq> None)) \<and>
     (\<forall>rb. op_random_bytes (co_operations c) = Some rb \<longrightarrow>
        (\<forall>u out n. call_random_bytes rb u out n \<noteq> None))"

lemma create_returns:
  assumes "coordinator_shape c" and "\<not> co_terminal c" and "has_callbacks c" and "callbacks_return c"
  shows "create_from_buffered c u fb n \<noteq> None"
proof -
  obtain ct rb where ops: "op_create_template (co_operations c) = Some ct"
    "op_random_bytes (co_operations c) = Some rb"
    using assms(3) by (auto simp: has_callbacks_def)
  note eq = create_from_buffered_eq
    [OF assms(1,2) ops, folded template_call_def random_call_def]
  obtain res where "template_call c u ct n fb = Some res"
    using assms(4) ops by (fastforce simp: callbacks_return_def template_call_def)
  moreover obtain res' where "random_call (snd (snd (snd res))) rb = Some res'"
    using assms(4) ops by (fastforce simp: callbacks_return_def random_call_def)
  ultimately show ?thesis
    by (cases res; cases res') (simp add: eq Let_def)
qed

lemma accept_returns:
  assumes inv: "coordinator_inv c" and wf: "well_formed_request rq" and cr: "callbacks_return c"
  shows "accept_feature (Some c) u (rq_id rq) (rq_feature rq) (rq_size rq) \<noteq> None"
proof -
  have shape: "coordinator_shape c" and cb: "has_callbacks c"
    using inv by (auto dest: inv_shape inv_callbacks)
  show ?thesis
  proof (cases "rq_id rq = None \<or> rq_feature rq = None")
    case True
    with shape show ?thesis
      by (cases "co_terminal c") (auto simp: accept_null_argument reject_eqs)
  next
    case False
    then obtain i fb where args: "rq_id rq = Some i" "rq_feature rq = Some fb" by auto
    with wf shape obtain same
      where cmp: "memcmp_eq i (co_enrollment_id c) ENROLLMENT_ID_SIZE = Some same"
      by (auto simp: well_formed_request_def coordinator_shape_def memcmp_eq_def)
    show ?thesis
    proof (cases "co_terminal c \<or> \<not> same \<or> rq_size rq = 0 \<or> FEATURE_CAPACITY < unat (rq_size rq)")
      case True
      with args cmp shape show ?thesis
        by (cases "co_terminal c"; cases same)
           (auto simp: accept_when_terminal accept_mismatch accept_bad_size simp del: memcmp_eq_Some)
    next
      case ok: False
      with cmp have cmp': "memcmp_eq i (co_enrollment_id c) ENROLLMENT_ID_SIZE = Some True" by simp
      have "callbacks_return (cleared_status c)" using cr by (simp add: callbacks_return_def)
      with ok args wf shape cb cmp' show ?thesis
        by (cases "unat (co_buffered_features c) < BUFFERED_FEATURES")
           (auto simp: accept_buffers accept_fourth well_formed_request_def cleared_status_props
             simp del: memcmp_eq_Some dest!: create_returns [rotated -1])
    qed
  qed
qed

section \<open>Concrete callbacks and coordinators for the witnesses\<close>

definition echo_template :: "'u create_template_fn" where
  "echo_template u h sizes feats n out =
     Some (0, Some (case n of None \<Rightarrow> 1 | Some k \<Rightarrow> k),
           Some (case out of None \<Rightarrow> [] | Some b \<Rightarrow> b), u)"

definition constant_random :: "'u random_bytes_fn" where
  "constant_random u out n = Some (0, map (\<lambda>i. if i < n then 7 else out ! i) [0..<length out], u)"

definition sample_id :: "byte list" where
  "sample_id = replicate ENROLLMENT_ID_SIZE 0x31"

definition sample_config :: "'u mock_operations \<Rightarrow> 'u mock_config" where
  "sample_config ops =
     \<lparr>cfg_mode = EXECUTION_MOCK_ONLY, cfg_handle = 7, cfg_enrollment_id = Some sample_id,
      cfg_operations = ops\<rparr>"

definition sample_coordinator :: "'u mock_operations \<Rightarrow> 'u coordinator" where
  "sample_coordinator ops =
     zero_coordinator\<lparr>co_handle := 7, co_enrollment_id := sample_id, co_operations := ops\<rparr>"

definition echo_operations :: "'u mock_operations" where
  "echo_operations =
     \<lparr>op_create_template = Some echo_template, op_random_bytes = Some constant_random\<rparr>"

definition sample_request :: "byte \<Rightarrow> request" where
  "sample_request b =
     \<lparr>rq_id = Some sample_id, rq_feature = Some (replicate 100 b), rq_size = 100\<rparr>"

lemma length_sample_id [simp]: "length sample_id = ENROLLMENT_ID_SIZE"
  by (simp add: sample_id_def)

lemma take_sample_id [simp]: "take ENROLLMENT_ID_SIZE sample_id = sample_id"
  by simp

lemma sample_new:
  "op_create_template ops \<noteq> None \<Longrightarrow> op_random_bytes ops \<noteq> None \<Longrightarrow>
   mock_coordinator_new (Some (sample_config ops)) None True
     = Some (Some (sample_coordinator ops), None)"
  by (simp add: mock_coordinator_new_def new_error_def sample_config_def sample_coordinator_def
      zero_coordinator_def Option.is_none_def c_memory)

lemma sample_inv:
  "op_create_template ops \<noteq> None \<Longrightarrow> op_random_bytes ops \<noteq> None \<Longrightarrow>
   coordinator_inv (sample_coordinator ops)"
  using new_coordinator_inv [OF sample_new] by blast

lemma sample_accept:
  assumes "op_create_template ops \<noteq> None" and "op_random_bytes ops \<noteq> None"
  shows "accept_all (Some (sample_coordinator ops)) u [sample_request b]
    = Some ([OUTCOME_ACCEPTED_MORE],
            Some (buffered_image (sample_coordinator ops) (replicate 100 b) 100), u)"
proof -
  have "coordinator_shape (sample_coordinator ops)" using assms by (intro inv_shape sample_inv)
  moreover have "\<not> co_terminal (sample_coordinator ops)"
    "co_buffered_features (sample_coordinator ops) = 0"
    "co_enrollment_id (sample_coordinator ops) = sample_id"
    by (simp_all add: sample_coordinator_def zero_coordinator_def)
  ultimately show ?thesis
    by (simp add: sample_request_def accept_buffers FEATURE_CAPACITY_def BUFFERED_FEATURES_def)
qed

lemma echo_callbacks_return: "callbacks_return (sample_coordinator echo_operations)"
  by (auto simp: callbacks_return_def sample_coordinator_def echo_operations_def echo_template_def
      constant_random_def call_create_template_def call_random_bytes_def same_object_def)

interpretation constant_random: random_source constant_random
  by unfold_locales (auto simp: constant_random_def intro!: nth_equalityI)

text \<open>A coordinator with three features of 100 zero bytes, and what a fourth one does to it.\<close>

definition full_coordinator :: "'u mock_operations \<Rightarrow> 'u coordinator" where
  "full_coordinator ops =
     (sample_coordinator ops)\<lparr>co_buffered_features := 3, co_feature_sizes := [100, 100, 100]\<rparr>"

lemma full_inv:
  assumes "op_create_template ops \<noteq> None" and "op_random_bytes ops \<noteq> None"
  shows "coordinator_inv (full_coordinator ops) \<and> collecting (full_coordinator ops)"
proof -
  have "coordinator_inv (sample_coordinator ops)" using assms by (rule sample_inv)
  then have shape: "coordinator_shape (sample_coordinator ops)" and cb: "has_callbacks (sample_coordinator ops)"
    by (auto dest: inv_shape inv_callbacks)
  have "i < 3 \<Longrightarrow> [100, 100, 100 :: u32] ! i = 100" for i
    by (auto simp: less_Suc_eq numeral_3_eq_3)
  then have "collecting (full_coordinator ops)"
    by (simp add: collecting_def full_coordinator_def sample_coordinator_def zero_coordinator_def
        BUFFERED_FEATURES_def FEATURE_CAPACITY_def)
  with shape cb show ?thesis
    by (simp add: coordinator_inv_def coordinator_shape_def has_callbacks_def full_coordinator_def
        BUFFERED_FEATURES_def)
qed

lemma full_collector:
  "collector_of (full_coordinator ops)
     = Collecting [replicate 100 0, replicate 100 0, replicate 100 0]"
  by (simp add: collector_of_def buffered_bytes_def full_coordinator_def sample_coordinator_def
      zero_coordinator_def nth_map_upt3 BUFFERED_FEATURES_def FEATURE_CAPACITY_def)

lemma full_accept_recorded:
  fixes ops
  defines "ops \<equiv> recorded_operations echo_template constant_random"
  shows "\<exists>c' h sizes feats n. accept_feature (Some (full_coordinator ops)) (u, []) (Some sample_id)
           (Some (replicate 100 b)) 100
         = Some (OUTCOME_TEMPLATE_READY_COMMIT_BLOCKED, Some c',
                 (u, [Template_call h sizes feats n, Random_call TOKEN_RANDOM_PREFIX_SIZE]))"
proof -
  let ?c = "full_coordinator ops"
  have ops: "op_create_template ops = Some (recorded_template echo_template)"
    "op_random_bytes ops = Some (recorded_random constant_random)"
    by (simp_all add: ops_def recorded_operations_def)
  have inv: "coordinator_inv ?c" and "collecting ?c" using full_inv [of ops] ops by simp_all
  then have shape: "coordinator_shape (cleared_status ?c)" and live: "\<not> co_terminal (cleared_status ?c)"
    by (simp_all add: collecting_def cleared_status_props inv_shape)
  have cb: "op_create_template (co_operations (cleared_status ?c)) = Some (recorded_template echo_template)"
    "op_random_bytes (co_operations (cleared_status ?c)) = Some (recorded_random constant_random)"
    using ops by (simp_all add: full_coordinator_def sample_coordinator_def)
  have "accept_feature (Some ?c) (u, []) (Some sample_id) (Some (replicate 100 b)) 100
          = create_from_buffered (cleared_status ?c) (u, []) (replicate 100 b) 100"
    using live by (intro accept_fourth)
      (simp_all add: full_coordinator_def sample_coordinator_def FEATURE_CAPACITY_def coordinator_sizes)
  moreover have "length (co_template_data ?c) = TEMPLATE_CAPACITY"
    using shape by (simp add: coordinator_shape_def)
  moreover have "(of_nat TEMPLATE_CAPACITY :: u32) \<noteq> 0" by (simp add: TEMPLATE_CAPACITY_def)
  ultimately show ?thesis
    by (simp add: create_from_buffered_eq [OF shape live cb] call_create_template_def
        call_random_bytes_def recorded_template_def recorded_random_def echo_template_def
        constant_random_def same_object_def Let_def)
qed

section \<open>Properties\<close>

text \<open>
  C1: A session of any requests against a fresh coordinator is a run of the abstract collector:
  features are collected in order up to three, a fourth one makes it ready or failed, a foreign
  ID changes nothing, every other error fails it for good, and the outcomes returned are those
  of the collector.
\<close>

theorem session_refines_collector:
  assumes "mock_coordinator_new (Some cfg) err calloc_ok = Some (Some c, e)"
    and "cfg_enrollment_id cfg = Some src"
    and "accept_all (Some c) u rqs = Some (rs, Some c', u')"
  shows "collector_run (take ENROLLMENT_ID_SIZE src) (Collecting []) rqs rs (collector_of c')"
proof -
  have inv: "coordinator_inv c" and "collecting c" "co_buffered_features c = 0"
    using new_coordinator_inv [OF assms(1)] by simp_all
  then have "collector_of c = Collecting []"
    by (simp add: collector_of_def collecting_def buffered_bytes_def)
  moreover have "co_enrollment_id c = take ENROLLMENT_ID_SIZE src"
    using assms(1,2)
    by (auto simp: mock_coordinator_new_def fault_split Let_def zero_coordinator_def
        split: if_splits)
  ultimately show ?thesis using accept_all_refines [OF inv _ assms(3)] by simp
qed

theorem session_refines_collector_witness:
  "\<exists>c' :: nat coordinator.
     accept_all (Some (sample_coordinator echo_operations)) 0 [sample_request 5]
       = Some ([OUTCOME_ACCEPTED_MORE], Some c', 0) \<and>
     collector_run sample_id (Collecting []) [sample_request 5] [OUTCOME_ACCEPTED_MORE]
       (collector_of c')"
proof -
  have ops: "op_create_template echo_operations \<noteq> None" "op_random_bytes echo_operations \<noteq> None"
    by (simp_all add: echo_operations_def)
  have "cfg_enrollment_id (sample_config (echo_operations :: nat mock_operations)) = Some sample_id"
    by (simp add: sample_config_def)
  from session_refines_collector [OF sample_new [OF ops] this sample_accept [OF ops]]
  show ?thesis using sample_accept [OF ops, of "0 :: nat" 5] by auto
qed

text \<open>
  C20: Memory safety. With callbacks that return, no session of requests whose pointers are null
  or point to large enough objects leaves defined behaviour: every request is answered and the
  struct invariant (array sizes, slot count, template bound, wiped failure state) holds after it.
\<close>

theorem session_memory_safe:
  assumes "mock_coordinator_new config err calloc_ok = Some (Some c, e)"
    and "\<forall>rq \<in> set rqs. well_formed_request rq"
    and "callbacks_return c"
  shows "\<exists>rs c' u'. accept_all (Some c) u rqs = Some (rs, Some c', u') \<and>
           length rs = length rqs \<and> coordinator_inv c'"
proof -
  have "coordinator_inv c" using new_coordinator_inv [OF assms(1)] by simp
  then show ?thesis using assms(2,3)
  proof (induction rqs arbitrary: c u)
    case Nil
    then show ?case by simp
  next
    case (Cons rq rqs)
    obtain r co1 u1
      where step: "accept_feature (Some c) u (rq_id rq) (rq_feature rq) (rq_size rq) = Some (r, co1, u1)"
      using accept_returns [OF Cons.prems(1) _ Cons.prems(3)] Cons.prems(2) by fastforce
    from accept_keeps_inv [OF Cons.prems(1) step] obtain c1 where c1: "co1 = Some c1"
      "coordinator_inv c1" "co_operations c1 = co_operations c" by blast
    moreover have "callbacks_return c1" using Cons.prems(3) c1(3) by (simp add: callbacks_return_def)
    ultimately obtain rs c' u' where "accept_all (Some c1) u1 rqs = Some (rs, Some c', u')"
      "length rs = length rqs" "coordinator_inv c'"
      using Cons.IH [of c1 u1] Cons.prems(2) by auto
    with step c1 show ?case by simp
  qed
qed

theorem session_memory_safe_witness:
  "\<exists>rs c' u'. accept_all (Some (sample_coordinator echo_operations)) (0 :: nat)
       [sample_request 5, \<lparr>rq_id = None, rq_feature = None, rq_size = 0\<rparr>]
     = Some (rs, Some c', u') \<and> length rs = 2 \<and> coordinator_inv c'"
proof -
  have ops: "op_create_template echo_operations \<noteq> None" "op_random_bytes echo_operations \<noteq> None"
    by (simp_all add: echo_operations_def)
  have "\<forall>rq \<in> set [sample_request 5, \<lparr>rq_id = None, rq_feature = None, rq_size = 0\<rparr>].
      well_formed_request rq"
    by (simp add: well_formed_request_def sample_request_def)
  from session_memory_safe [OF sample_new [OF ops] this echo_callbacks_return, of "0 :: nat"]
  show ?thesis by (simp add: numeral_2_eq_2)
qed

definition one_shot :: "callback_event list \<Rightarrow> bool" where
  "one_shot log \<longleftrightarrow>
     (case log of
        [] \<Rightarrow> True
      | Template_call _ _ _ _ # rest \<Rightarrow> rest = [] \<or> rest = [Random_call TOKEN_RANDOM_PREFIX_SIZE]
      | _ \<Rightarrow> False)"

lemma accept_all_log:
  fixes c :: "('u \<times> callback_event list) coordinator"
  assumes "coordinator_inv c" and "co_operations c = recorded_operations ct rb"
    and "one_shot log" and "\<not> co_terminal c \<longrightarrow> log = []"
    and "accept_all (Some c) (u, log) rqs = Some (rs, co', (u', log'))"
  shows "one_shot log'"
  using assms
proof (induction rqs arbitrary: c u log rs)
  case Nil
  then show ?case by simp
next
  case (Cons rq rqs)
  from Cons.prems(5) obtain r co1 u1 log1 rs' where
    step: "accept_feature (Some c) (u, log) (rq_id rq) (rq_feature rq) (rq_size rq)
             = Some (r, co1, (u1, log1))"
    and rest: "accept_all co1 (u1, log1) rqs = Some (rs', co', (u', log'))"
    by (auto simp: fault_split)
  from accept_keeps_inv [OF Cons.prems(1) step] obtain c1 where c1: "co1 = Some c1"
    "coordinator_inv c1" "co_operations c1 = co_operations c" by blast
  have step': "accept_feature (Some c) (u, log) (rq_id rq) (rq_feature rq) (rq_size rq)
      = Some (r, Some c1, (u1, log1))" using step c1(1) by simp
  have "one_shot log1 \<and> (\<not> co_terminal c1 \<longrightarrow> log1 = [])"
    using Cons.prems(1,2) step'
  proof (cases rule: accept_records)
    case quiet
    with Cons.prems(3,4) show ?thesis by auto
  next
    case (template fb rest)
    then have "log = []" using Cons.prems(4) by (simp add: live_request_def)
    with template show ?thesis by (auto simp: one_shot_def)
  qed
  then show ?case using Cons.IH [of c1 log1 u1 rs'] c1 Cons.prems(2) rest by simp
qed

text \<open>
  C18: Whatever requests a caller sends, one coordinator calls its template callback at most
  once, and its random source at most once and only after the template callback.
\<close>

theorem callbacks_called_at_most_once:
  fixes c :: "('u \<times> callback_event list) coordinator"
  assumes "mock_coordinator_new (Some cfg) err calloc_ok = Some (Some c, e)"
    and "cfg_operations cfg = recorded_operations ct rb"
    and "accept_all (Some c) (u, []) rqs = Some (rs, co', (u', log))"
  shows "one_shot log"
proof (rule accept_all_log [OF _ _ _ _ assms(3)])
  show "coordinator_inv c" using new_coordinator_inv [OF assms(1)] by simp
  show "co_operations c = recorded_operations ct rb"
    using assms(1,2)
    by (auto simp: mock_coordinator_new_def fault_split Let_def split: if_splits)
qed (simp_all add: one_shot_def)

theorem callbacks_called_at_most_once_witness:
  "\<exists>c' :: (nat \<times> callback_event list) coordinator.
     accept_all (Some (sample_coordinator (recorded_operations echo_template constant_random)))
       (0, []) [sample_request 5] = Some ([OUTCOME_ACCEPTED_MORE], Some c', (0, [])) \<and> one_shot []"
proof -
  let ?ops = "recorded_operations echo_template constant_random
                :: (nat \<times> callback_event list) mock_operations"
  have ops: "op_create_template ?ops \<noteq> None" "op_random_bytes ?ops \<noteq> None"
    by (simp_all add: recorded_operations_def)
  have "cfg_operations (sample_config ?ops) = ?ops" by (simp add: sample_config_def)
  from callbacks_called_at_most_once [OF sample_new [OF ops] this sample_accept [OF ops]]
  show ?thesis using sample_accept [OF ops, of "(0, [])" 5] by auto
qed

lemma map2_take_rows:
  assumes "coordinator_shape c" and "collecting c"
    and "\<not> unat (co_buffered_features c) < BUFFERED_FEATURES"
  shows "map2 (\<lambda>k row. take (unat k) row) (co_feature_sizes c) (feature_rows c) = buffered_bytes c"
proof (rule nth_equalityI)
  have full: "unat (co_buffered_features c) = BUFFERED_FEATURES"
    using assms(2,3) by (simp add: collecting_def)
  show "length (map2 (\<lambda>k row. take (unat k) row) (co_feature_sizes c) (feature_rows c))
          = length (buffered_bytes c)"
    using assms(1) full by (simp add: coordinator_shape_def feature_rows_def)
  fix i assume "i < length (map2 (\<lambda>k row. take (unat k) row) (co_feature_sizes c) (feature_rows c))"
  then have i: "i < BUFFERED_FEATURES"
    using assms(1) by (simp add: coordinator_shape_def feature_rows_def)
  moreover have "unat (co_feature_sizes c ! i) \<le> FEATURE_CAPACITY"
    using assms(2) i full by (simp add: collecting_def)
  ultimately show "map2 (\<lambda>k row. take (unat k) row) (co_feature_sizes c) (feature_rows c) ! i
      = buffered_bytes c ! i"
    using assms(1) full
    by (simp add: coordinator_shape_def feature_rows_def buffered_bytes_def min_absorb1)
qed

text \<open>
  C19: When the template callback is called, it is the fourth accepted feature that triggers it,
  and the call gets the coordinator's handle, the full template capacity and four sizes and
  buffers that hold exactly the three buffered features and the new one, in order.
\<close>

theorem template_gets_features_in_order:
  fixes c :: "('u \<times> callback_event list) coordinator"
  assumes "coordinator_inv c" and "co_operations c = recorded_operations ct rb"
    and "collector_of c = Collecting fs"
    and "accept_feature (Some c) (u, []) (rq_id rq) (rq_feature rq) (rq_size rq)
           = Some (r, Some c', (u', log))"
    and "Template_call h sizes feats n \<in> set log"
  shows "h = co_handle c \<and> n = Some (of_nat TEMPLATE_CAPACITY) \<and> length fs = BUFFERED_FEATURES \<and>
    (\<exists>ks rows f. sizes = Some ks \<and> feats = Some (map Some rows) \<and>
       length ks = TEMPLATE_FEATURES \<and> length rows = TEMPLATE_FEATURES \<and>
       acceptable (co_enrollment_id c) rq f \<and>
       map2 (\<lambda>k row. take (unat k) row) ks rows = fs @ [f])"
proof -
  have shape: "coordinator_shape c" using assms(1) by (rule inv_shape)
  from assms(1,2,4) show ?thesis
  proof (cases rule: accept_records)
    case quiet
    with assms(5) show ?thesis by simp
  next
    case (template fb rest)
    have coll: "collecting c"
      using assms(1) template(1) by (auto intro: inv_not_terminal simp: live_request_def)
    have fs: "fs = buffered_bytes c"
      using assms(3) coll by (simp add: collector_of_def collecting_def)
    have call: "Template_call h sizes feats n = Template_call (co_handle c)
        (Some (co_feature_sizes c @ [rq_size rq])) (Some (map Some (feature_rows c @ [fb])))
        (Some (of_nat TEMPLATE_CAPACITY))"
      using template(5,6) assms(5) by auto
    show ?thesis
      using call fs map2_take_rows [OF shape coll template(3)] coll template(3)
        live_request_acceptable [OF template(1) shape template(2)] shape
      by (auto simp: coordinator_shape_def feature_rows_def coordinator_sizes collecting_def
          intro!: exI [of _ "co_feature_sizes c @ [rq_size rq]"] exI [of _ "feature_rows c @ [fb]"])
  qed
qed

theorem template_gets_features_in_order_witness:
  "\<exists>h sizes feats n. h = (7 :: u32) \<and> n = Some (of_nat TEMPLATE_CAPACITY :: u32) \<and>
     (\<exists>(ks :: u32 list) (rows :: byte list list) f. sizes = Some ks \<and> feats = Some (map Some rows) \<and>
        length ks = TEMPLATE_FEATURES \<and> length rows = TEMPLATE_FEATURES \<and>
        acceptable sample_id (sample_request 5) f \<and>
        map2 (\<lambda>k row. take (unat k) row) ks rows
          = [replicate 100 0, replicate 100 0, replicate 100 0] @ [f :: byte list])"
proof -
  let ?ops = "recorded_operations echo_template constant_random
                :: (nat \<times> callback_event list) mock_operations"
  have "op_create_template ?ops \<noteq> None" "op_random_bytes ?ops \<noteq> None"
    by (simp_all add: recorded_operations_def)
  then have inv: "coordinator_inv (full_coordinator ?ops)" by (simp add: full_inv)
  have ops: "co_operations (full_coordinator ?ops) = ?ops"
    and h: "co_handle (full_coordinator ?ops) = 7"
    and eid: "co_enrollment_id (full_coordinator ?ops) = sample_id"
    by (simp_all add: full_coordinator_def sample_coordinator_def)
  obtain c' hh sizes feats n where
    acc: "accept_feature (Some (full_coordinator ?ops)) (0, []) (rq_id (sample_request 5))
            (rq_feature (sample_request 5)) (rq_size (sample_request 5))
      = Some (OUTCOME_TEMPLATE_READY_COMMIT_BLOCKED, Some c',
              (0, [Template_call hh sizes feats n, Random_call TOKEN_RANDOM_PREFIX_SIZE]))"
    using full_accept_recorded [of 0 5] by (auto simp: sample_request_def)
  have "Template_call hh sizes feats n
          \<in> set [Template_call hh sizes feats n, Random_call TOKEN_RANDOM_PREFIX_SIZE]" by simp
  note result = template_gets_features_in_order [OF inv ops full_collector acc this,
      unfolded h eid]
  show ?thesis
    by (rule exI [of _ hh], rule exI [of _ sizes], rule exI [of _ feats], rule exI [of _ n])
       (intro conjI; rule result [THEN conjunct1] result [THEN conjunct2, THEN conjunct1]
          result [THEN conjunct2, THEN conjunct2, THEN conjunct2])
qed

lemma accept_all_buffers:
  assumes "coordinator_inv c" and "collecting c"
    and "unat (co_buffered_features c) + length rqs \<le> BUFFERED_FEATURES"
    and "list_all2 (acceptable (co_enrollment_id c)) rqs fs"
    and "\<forall>rq \<in> set rqs. well_formed_request rq"
  shows "\<exists>c'. accept_all (Some c) u rqs
                = Some (replicate (length rqs) OUTCOME_ACCEPTED_MORE, Some c', u) \<and>
              collector_of c' = Collecting (buffered_bytes c @ fs)"
  using assms
proof (induction rqs arbitrary: c fs)
  case Nil
  then show ?case by (simp add: collector_of_def collecting_def)
next
  case (Cons rq rqs)
  from Cons.prems(4) obtain f fs' where fs: "fs = f # fs'"
    and acc: "acceptable (co_enrollment_id c) rq f"
    and rest: "list_all2 (acceptable (co_enrollment_id c)) rqs fs'"
    by (auto simp: list_all2_Cons1)
  from acc obtain i fb where rq: "rq_id rq = Some i" "rq_feature rq = Some fb"
    "take ENROLLMENT_ID_SIZE i = co_enrollment_id c" "rq_size rq \<noteq> 0"
    "unat (rq_size rq) \<le> FEATURE_CAPACITY" "f = take (unat (rq_size rq)) fb"
    by (auto simp: acceptable_def unat_gt_0)
  have shape: "coordinator_shape c" using Cons.prems(1) by (rule inv_shape)
  have live: "\<not> co_terminal c" using Cons.prems(2) by (simp add: collecting_def)
  have len: "unat (rq_size rq) \<le> length fb" "ENROLLMENT_ID_SIZE \<le> length i"
    using Cons.prems(5) rq(1,2) by (simp_all add: well_formed_request_def)
  have cmp: "memcmp_eq i (co_enrollment_id c) ENROLLMENT_ID_SIZE = Some True"
    using rq(3) len(2) shape by (simp add: coordinator_shape_def)
  have slot: "unat (co_buffered_features c) < BUFFERED_FEATURES" using Cons.prems(3) by simp
  let ?c1 = "buffered_image c fb (rq_size rq)"
  have step: "accept_feature (Some c) u (rq_id rq) (rq_feature rq) (rq_size rq)
                = Some (OUTCOME_ACCEPTED_MORE, Some ?c1, u)"
    unfolding rq(1,2) by (rule accept_buffers [OF shape live cmp rq(4,5) len(1) slot])
  have inv1: "coordinator_inv ?c1"
    using accept_keeps_inv [OF Cons.prems(1) step] by simp
  have succ: "unat (co_buffered_features ?c1) = Suc (unat (co_buffered_features c))"
    using slot by (simp add: buffered_image_def Let_def coordinator_sizes unat_word_ariths)
  have c1: "collecting ?c1" "co_enrollment_id ?c1 = co_enrollment_id c"
    using inv1 live by (auto intro: inv_not_terminal simp: buffered_image_def Let_def)
  have bytes: "buffered_bytes ?c1 = buffered_bytes c @ [f]"
    unfolding rq(6) by (rule buffered_bytes_append [OF shape Cons.prems(2) slot rq(5) len(1)])
  from Cons.IH [OF inv1 c1(1), of fs'] Cons.prems(3,5) succ rest c1(2)
  obtain c' where "accept_all (Some ?c1) u rqs
        = Some (replicate (length rqs) OUTCOME_ACCEPTED_MORE, Some c', u)"
    "collector_of c' = Collecting (buffered_bytes ?c1 @ fs')"
    by auto
  with step show ?case by (simp add: bytes fs)
qed

text \<open>
  The first three features of a fresh coordinator are buffered in order, each answered
  \<open>ACCEPTED_MORE\<close>, and no callback is called for them (the callbacks' state is untouched).
\<close>

lemma first_three_are_buffered:
  assumes "mock_coordinator_new (Some cfg) err calloc_ok = Some (Some c, e)"
    and "cfg_enrollment_id cfg = Some src"
    and "length rqs \<le> 3"
    and "list_all2 (acceptable (take ENROLLMENT_ID_SIZE src)) rqs fs"
    and "\<forall>rq \<in> set rqs. well_formed_request rq"
  shows "\<exists>c'. accept_all (Some c) u rqs
                = Some (replicate (length rqs) OUTCOME_ACCEPTED_MORE, Some c', u) \<and>
              collector_of c' = Collecting fs"
proof -
  have c: "coordinator_inv c" "collecting c" "co_buffered_features c = 0"
    using new_coordinator_inv [OF assms(1)] by simp_all
  have eid: "co_enrollment_id c = take ENROLLMENT_ID_SIZE src"
    using assms(1,2)
    by (auto simp: mock_coordinator_new_def fault_split Let_def zero_coordinator_def
        split: if_splits)
  show ?thesis
    using accept_all_buffers [OF c(1,2), of rqs fs u] assms(3-5) c(3) eid
    by (simp add: buffered_bytes_def coordinator_sizes)
qed

text \<open>
  C5: Fail closed. A live coordinator that rejects a request for any reason but a foreign ID
  comes out terminal with an error recorded, no template, and its ID, its buffered features and
  their sizes, its template buffer and its commit token all zero.
\<close>

theorem rejection_wipes_state:
  assumes "coordinator_inv c" and "\<not> co_terminal c"
    and "accept_feature (Some c) u eid feature n = Some (OUTCOME_REJECTED, Some c', u')"
    and "co_last_error c' \<noteq> ERROR_ID_MISMATCH"
  shows "failed c' \<and> wiped (co_features c') \<and> wiped (co_template_data c') \<and>
         wiped (co_commit_token c') \<and> wiped (co_enrollment_id c') \<and>
         \<not> snap_template_ready (coordinator_snapshot (Some c')) \<and>
         snap_terminal (coordinator_snapshot (Some c'))"
proof -
  have shape: "coordinator_shape c" and cb: "has_callbacks c"
    using assms(1) by (auto dest: inv_shape inv_callbacks)
  have image: "failed (failed_image x e)" if "e \<noteq> ERROR_NONE" for e and x :: "'a coordinator"
    using that by (simp add: failed_def fully_wiped_def failed_image_def)
  from shape assms(3) have "failed c'"
  proof (cases rule: accept_feature_cases)
    case (create fb)
    obtain ct rb where ops: "op_create_template (co_operations (cleared_status c)) = Some ct"
      "op_random_bytes (co_operations (cleared_status c)) = Some rb"
      using cb by (auto simp: has_callbacks_def)
    have "coordinator_shape (cleared_status c)" and "\<not> co_terminal (cleared_status c)"
      using shape assms(2) by (simp_all add: cleared_status_props)
    from this ops create(4) show ?thesis
      by (cases rule: create_from_buffered_cases) (auto intro: image)
  qed (use assms(2,4) in \<open>auto intro: image\<close>)
  then show ?thesis
    by (simp add: coordinator_state_defs coordinator_snapshot_def)
qed

theorem rejection_wipes_state_witness:
  "\<exists>c' :: nat coordinator.
     accept_feature (Some (full_coordinator echo_operations)) 0 (Some sample_id)
       (Some (replicate 700 9)) 700 = Some (OUTCOME_REJECTED, Some c', 0) \<and>
     failed c' \<and> wiped (co_features c')"
proof -
  have ops: "op_create_template (echo_operations :: nat mock_operations) \<noteq> None"
    "op_random_bytes (echo_operations :: nat mock_operations) \<noteq> None"
    by (simp_all add: echo_operations_def)
  let ?c = "full_coordinator (echo_operations :: nat mock_operations)"
  have inv: "coordinator_inv ?c" and "collecting ?c" using full_inv [OF ops] by simp_all
  then have live: "\<not> co_terminal ?c" by (simp add: collecting_def)
  have acc: "accept_feature (Some ?c) 0 (Some sample_id) (Some (replicate 700 9)) 700
          = Some (OUTCOME_REJECTED, Some (failed_image ?c ERROR_FEATURE_SIZE), 0)"
    using inv live
    by (intro accept_bad_size)
       (simp_all add: inv_shape full_coordinator_def sample_coordinator_def FEATURE_CAPACITY_def)
  from rejection_wipes_state [OF inv live acc] show ?thesis using acc by simp
qed

text \<open>
  Terminal is absorbing: after success or failure every request, valid or not, is rejected
  without calling a callback, and changes nothing but the recorded error.
\<close>

lemma terminal_is_absorbing:
  assumes "co_terminal c"
  shows "accept_feature (Some c) u eid feature n =
    Some (OUTCOME_REJECTED,
          Some (c\<lparr>co_last_error :=
                  if eid = None \<or> feature = None then ERROR_INVALID_ARGUMENT else ERROR_TERMINAL\<rparr>),
          u)"
  using assms
  by (cases eid; cases feature) (simp_all add: accept_null_argument accept_when_terminal reject_when_terminal)

lemma reject_last_error:
  "reject (Some (c\<lparr>co_last_error := e\<rparr>)) err t = reject (Some c) err t"
  by (simp add: reject_def)

lemma accept_ignores_last_error:
  "accept_feature (Some (c\<lparr>co_last_error := e\<rparr>)) u eid feature n
     = accept_feature (Some c) u eid feature n"
  by (simp add: accept_feature_def reject_last_error Let_def cong: if_cong split: option.split)

text \<open>
  C28: A request with a foreign enrollment ID is transparent: whatever requests follow it, the
  answers, the callbacks' state and the final struct are those of the session without it.
\<close>

theorem foreign_id_is_transparent:
  assumes "coordinator_inv c" and "\<not> co_terminal c"
    and "rq_id rq = Some i" and "ENROLLMENT_ID_SIZE \<le> length i" and "rq_feature rq \<noteq> None"
    and "take ENROLLMENT_ID_SIZE i \<noteq> co_enrollment_id c"
    and "rqs \<noteq> []"
  shows "accept_all (Some c) u (rq # rqs) =
           map_option (\<lambda>(rs, co, u). (OUTCOME_REJECTED # rs, co, u)) (accept_all (Some c) u rqs)"
proof -
  obtain fb where fb: "rq_feature rq = Some fb" using assms(5) by auto
  have "coordinator_shape c" using assms(1) by (rule inv_shape)
  then have "memcmp_eq i (co_enrollment_id c) ENROLLMENT_ID_SIZE = Some False"
    using assms(4,6) by (simp add: coordinator_shape_def)
  then have step: "accept_feature (Some c) u (rq_id rq) (rq_feature rq) (rq_size rq)
      = Some (OUTCOME_REJECTED, Some (c\<lparr>co_last_error := ERROR_ID_MISMATCH\<rparr>), u)"
    unfolding assms(3) fb by (rule accept_mismatch [OF assms(2)])
  have "accept_all (Some (c\<lparr>co_last_error := ERROR_ID_MISMATCH\<rparr>)) u rqs = accept_all (Some c) u rqs"
    using assms(7) by (cases rqs) (simp_all add: accept_ignores_last_error)
  with step show ?thesis
    by (cases "accept_all (Some c) u rqs") (simp_all add: case_prod_unfold)
qed

theorem foreign_id_is_transparent_witness:
  "accept_all (Some (sample_coordinator echo_operations)) (0 :: nat)
     [\<lparr>rq_id = Some (replicate 20 0x32), rq_feature = Some [], rq_size = 0\<rparr>, sample_request 5]
   = map_option (\<lambda>(rs, co, u). (OUTCOME_REJECTED # rs, co, u))
       (accept_all (Some (sample_coordinator echo_operations)) 0 [sample_request 5])"
proof -
  have ops: "op_create_template echo_operations \<noteq> None" "op_random_bytes echo_operations \<noteq> None"
    by (simp_all add: echo_operations_def)
  have "\<not> co_terminal (sample_coordinator (echo_operations :: nat mock_operations))"
    by (simp add: sample_coordinator_def zero_coordinator_def)
  from foreign_id_is_transparent [OF sample_inv [OF ops] this, of
      "\<lparr>rq_id = Some (replicate 20 0x32), rq_feature = Some [], rq_size = 0\<rparr>" "replicate 20 0x32"
      "[sample_request 5]"]
  show ?thesis
    by (simp add: sample_coordinator_def sample_id_def ENROLLMENT_ID_SIZE_def replicate_eq_replicate
        del: accept_all.simps)
qed

end
