(* ===== verification/Linux_Abi.thy ===== *)
theory Linux_Abi
  imports Coordinator
begin

text \<open>
  The mock-only adapter for the recovered Linux ABI, \<open>tools/bcm5880_linux_abi_adapter.h\<close> and
  \<open>.c\<close>: three checked pass-through calls to injected native functions. The natives are
  third-party code: functions over their own state \<open>'n\<close>, taken from the adapter's record.
\<close>

section \<open>Data\<close>

definition NATIVE_INVALID_PARAMETER :: u32 where "NATIVE_INVALID_PARAMETER = 0x47"
definition NATIVE_COMMIT_MAX_OUTPUT :: nat where "NATIVE_COMMIT_MAX_OUTPUT = 0x18000"

type_synonym 'n capture_native =
  "'n \<Rightarrow> u32 \<Rightarrow> byte \<Rightarrow> byte list \<Rightarrow> u32 \<Rightarrow> byte list \<Rightarrow> (u32 \<times> u32 \<times> byte list \<times> 'n) option"

type_synonym 'n template_native =
  "'n \<Rightarrow> u32 \<Rightarrow> u32 \<Rightarrow> byte list \<Rightarrow> u32 \<Rightarrow> byte list \<Rightarrow> u32 \<Rightarrow> byte list \<Rightarrow> u32 \<Rightarrow> byte list
     \<Rightarrow> u32 \<Rightarrow> byte list \<Rightarrow> (u32 \<times> u32 \<times> byte list \<times> 'n) option"

type_synonym 'n commit_native =
  "'n \<Rightarrow> u32 \<Rightarrow> byte list \<Rightarrow> u32 \<Rightarrow> byte list option \<Rightarrow> u32 \<Rightarrow> byte list option
     \<Rightarrow> u32 \<Rightarrow> byte list option \<Rightarrow> u32 option
     \<Rightarrow> (u32 \<times> u32 \<times> byte list option \<times> u32 option \<times> 'n) option"

datatype abi_error =
    ABI_ERROR_NONE
  | ABI_ERROR_INVALID_ARGUMENT
  | ABI_ERROR_MOCK_MODE_REQUIRED

record 'n linux_abi_config =
  acfg_mode :: execution_mode
  acfg_capture_get_result :: "'n capture_native option"
  acfg_create_template :: "'n template_native option"
  acfg_commit_enrollment :: "'n commit_native option"

record 'n linux_abi =
  abi_capture_get_result :: "'n capture_native option"
  abi_create_template :: "'n template_native option"
  abi_commit_enrollment :: "'n commit_native option"
  abi_initialized :: bool

definition zero_abi :: "'n linux_abi" where
  "zero_abi = \<lparr>abi_capture_get_result = None, abi_create_template = None,
               abi_commit_enrollment = None, abi_initialized = False\<rparr>"

section \<open>Operations\<close>

definition abi_init_error ::
  "'n linux_abi option \<Rightarrow> 'n linux_abi_config option \<Rightarrow> abi_error" where
  "abi_init_error adapter config =
     (case (adapter, config) of
        (Some a, Some cfg) \<Rightarrow>
          if Option.is_none (acfg_capture_get_result cfg)
             \<or> Option.is_none (acfg_create_template cfg)
             \<or> Option.is_none (acfg_commit_enrollment cfg)
          then ABI_ERROR_INVALID_ARGUMENT
          else if acfg_mode cfg \<noteq> EXECUTION_MOCK_ONLY then ABI_ERROR_MOCK_MODE_REQUIRED
          else ABI_ERROR_NONE
      | _ \<Rightarrow> ABI_ERROR_INVALID_ARGUMENT)"

text \<open>\<open>cv2_bcm5880_linux_abi_mock_init\<close>: the result, the adapter object and the error cell.\<close>

definition linux_abi_mock_init ::
  "'n linux_abi option \<Rightarrow> 'n linux_abi_config option \<Rightarrow> abi_error option
     \<Rightarrow> (bool \<times> 'n linux_abi option \<times> abi_error option) option" where
  "linux_abi_mock_init adapter config error_out =
     (let error = abi_init_error adapter config in
      if error \<noteq> ABI_ERROR_NONE
      then Some (False, map_option (\<lambda>_. zero_abi) adapter, map_option (\<lambda>_. error) error_out)
      else do {
        cfg \<leftarrow> config;
        Some (True,
              map_option (\<lambda>_. zero_abi
                \<lparr>abi_capture_get_result := acfg_capture_get_result cfg,
                 abi_create_template := acfg_create_template cfg,
                 abi_commit_enrollment := acfg_commit_enrollment cfg,
                 abi_initialized := True\<rparr>) adapter,
              map_option (\<lambda>_. ABI_ERROR_NONE) error_out)
      })"

text \<open>\<open>cv2_bcm5880_linux_abi_mock_clear\<close>.\<close>

definition linux_abi_mock_clear :: "'n linux_abi option \<Rightarrow> 'n linux_abi option" where
  "linux_abi_mock_clear adapter = map_option (\<lambda>_. zero_abi) adapter"

text \<open>
  \<open>cv2_bcm5880_linux_abi_mock_capture_get_result\<close>: status, size cell, output object and the
  natives' state.
\<close>

definition linux_abi_mock_capture_get_result ::
  "'n linux_abi option \<Rightarrow> 'n \<Rightarrow> u32 \<Rightarrow> byte \<Rightarrow> byte list option \<Rightarrow> u32 option \<Rightarrow> byte list option
     \<Rightarrow> (u32 \<times> u32 option \<times> byte list option \<times> 'n) option" where
  "linux_abi_mock_capture_get_result adapter w h selector capture_id feature_size_inout feature_out =
     (case (adapter, capture_id, feature_size_inout, feature_out) of
        (Some a, Some cid, Some capacity, Some out) \<Rightarrow>
          if \<not> abi_initialized a \<or> Option.is_none (abi_capture_get_result a)
          then Some (NATIVE_INVALID_PARAMETER, feature_size_inout, feature_out, w)
          else if capacity = 0 \<or> unat capacity > FEATURE_CAPACITY
          then Some (NATIVE_INVALID_PARAMETER, feature_size_inout, feature_out, w)
          else do {
            native \<leftarrow> abi_capture_get_result a;
            (status, n, out', w) \<leftarrow> native w h selector cid capacity out;
            out' \<leftarrow> same_object out out';
            if n > capacity \<or> unat n > FEATURE_CAPACITY then do {
              out' \<leftarrow> secure_clear out' (unat capacity);
              Some (NATIVE_INVALID_PARAMETER, Some 0, Some out', w)
            } else Some (status, Some n, Some out', w)
          }
      | _ \<Rightarrow> Some (NATIVE_INVALID_PARAMETER, feature_size_inout, feature_out, w))"

text \<open>The loop of the template call over the four features: does any argument fail its check?\<close>

fun invalid_template_feature ::
  "nat list \<Rightarrow> u32 list \<Rightarrow> byte list option list \<Rightarrow> bool option" where
  "invalid_template_feature [] sizes feats = Some False"
| "invalid_template_feature (index # rest) sizes feats =
     do {
       n \<leftarrow> array_get sizes index;
       if n = 0 \<or> unat n > FEATURE_CAPACITY then Some True
       else do {
         feature \<leftarrow> array_get feats index;
         if Option.is_none feature then Some True
         else invalid_template_feature rest sizes feats
       }
     }"

text \<open>
  \<open>cv2_bcm5880_linux_abi_mock_create_template\<close>, with the type of the coordinator's callback:
  \<open>user_data\<close> is the pointer to the adapter, paired with the natives' state.
\<close>

definition linux_abi_mock_create_template :: "('n linux_abi option \<times> 'n) create_template_fn" where
  "linux_abi_mock_create_template user_data h feature_sizes features template_size_inout template_out =
     (let invalid =
        Some (NATIVE_INVALID_PARAMETER, template_size_inout, template_out, user_data) in
      case (fst user_data, feature_sizes, features, template_size_inout, template_out) of
        (Some a, Some sizes, Some feats, Some capacity, Some out) \<Rightarrow>
          if \<not> abi_initialized a \<or> Option.is_none (abi_create_template a) then invalid
          else do {
            bad \<leftarrow> invalid_template_feature [0..<TEMPLATE_FEATURES] sizes feats;
            if bad then invalid
            else if capacity = 0 \<or> unat capacity > TEMPLATE_CAPACITY then invalid
            else do {
              native \<leftarrow> abi_create_template a;
              n0 \<leftarrow> array_get sizes 0; p0 \<leftarrow> array_get feats 0; f0 \<leftarrow> p0;
              n1 \<leftarrow> array_get sizes 1; p1 \<leftarrow> array_get feats 1; f1 \<leftarrow> p1;
              n2 \<leftarrow> array_get sizes 2; p2 \<leftarrow> array_get feats 2; f2 \<leftarrow> p2;
              n3 \<leftarrow> array_get sizes 3; p3 \<leftarrow> array_get feats 3; f3 \<leftarrow> p3;
              (status, n, out', w) \<leftarrow>
                 native (snd user_data) h n0 f0 n1 f1 n2 f2 n3 f3 capacity out;
              out' \<leftarrow> same_object out out';
              if n > capacity \<or> unat n > TEMPLATE_CAPACITY then do {
                out' \<leftarrow> secure_clear out' (unat capacity);
                Some (NATIVE_INVALID_PARAMETER, Some 0, Some out', (Some a, w))
              } else Some (status, Some n, Some out', (Some a, w))
            }
          }
      | _ \<Rightarrow> invalid)"

text \<open>\<open>cv2_bcm5880_linux_abi_mock_commit_enrollment\<close>.\<close>

type_synonym 'n commit_call =
  "'n linux_abi option \<Rightarrow> 'n \<Rightarrow> u32 \<Rightarrow> byte list option \<Rightarrow> u32 \<Rightarrow> byte list option
     \<Rightarrow> u32 \<Rightarrow> byte list option \<Rightarrow> u32 option \<Rightarrow> byte list option \<Rightarrow> u32 option
     \<Rightarrow> (u32 \<times> u32 option \<times> byte list option \<times> u32 option \<times> 'n) option"

definition linux_abi_mock_commit_enrollment :: "'n commit_call" where
  "linux_abi_mock_commit_enrollment adapter w h token input0_size input0 input1_size input1
     output_size_inout output result_out =
     (let invalid =
        Some (NATIVE_INVALID_PARAMETER, output_size_inout, output, result_out, w) in
      case (adapter, token, output_size_inout) of
        (Some a, Some tok, Some capacity) \<Rightarrow>
          if \<not> abi_initialized a \<or> Option.is_none (abi_commit_enrollment a)
             \<or> (input0_size \<noteq> 0 \<and> Option.is_none input0)
             \<or> (input1_size \<noteq> 0 \<and> Option.is_none input1)
             \<or> input1_size > 0x1064
          then invalid
          else if (capacity \<noteq> 0
                   \<and> (Option.is_none output \<or> unat capacity > NATIVE_COMMIT_MAX_OUTPUT))
                \<or> (capacity = 0 \<and> Option.is_none result_out)
          then invalid
          else do {
            native \<leftarrow> abi_commit_enrollment a;
            (status, n, output', result', w) \<leftarrow>
               native w h tok input0_size input0 input1_size input1 capacity output result_out;
            output' \<leftarrow> same_pointee output output';
            result' \<leftarrow> same_cell result_out result';
            if n > capacity \<or> unat n > NATIVE_COMMIT_MAX_OUTPUT then do {
              output' \<leftarrow> (case output' of
                  None \<Rightarrow> Some None
                | Some out \<Rightarrow>
                    if capacity \<noteq> 0 then map_option Some (secure_clear out (unat capacity))
                    else Some (Some out));
              Some (NATIVE_INVALID_PARAMETER, Some 0, output', result', w)
            } else Some (status, Some n, output', result', w)
          }
      | _ \<Rightarrow> invalid)"

text \<open>\<open>cv2_bcm5880_abi_error_name\<close>, over the integer value of the enum.\<close>

fun abi_error_code :: "abi_error \<Rightarrow> int" where
  "abi_error_code ABI_ERROR_NONE = 0"
| "abi_error_code ABI_ERROR_INVALID_ARGUMENT = 1"
| "abi_error_code ABI_ERROR_MOCK_MODE_REQUIRED = 2"

definition abi_error_name :: "int \<Rightarrow> string" where
  "abi_error_name code =
     (if code = abi_error_code ABI_ERROR_NONE then ''none''
      else if code = abi_error_code ABI_ERROR_INVALID_ARGUMENT then ''invalid-argument''
      else if code = abi_error_code ABI_ERROR_MOCK_MODE_REQUIRED then ''mock-mode-required''
      else ''unknown'')"

end
