(* ===== verification/Generic_Commit.thy ===== *)
theory Generic_Commit
  imports Linux_Abi
begin

text \<open>
  The two generic commit calls, \<open>tools/bcm5880_generic_commit_sequence.h\<close> and \<open>.c\<close>. The
  sequence is written over the commit operation it calls and then tied to the adapter's.
\<close>

definition GENERIC_COMMIT_PHASE1_CAPACITY :: nat where "GENERIC_COMMIT_PHASE1_CAPACITY = 0x800"
definition GENERIC_COMMIT_INPUT0_SIZE :: nat where "GENERIC_COMMIT_INPUT0_SIZE = 8"
definition GENERIC_COMMIT_INPUT1_SIZE :: nat where "GENERIC_COMMIT_INPUT1_SIZE = 21"

record commit_snapshot =
  phase1_status :: u32
  phase1_result :: u32
  phase1_output_size :: u32
  phase2_status :: u32
  phase2_result :: u32
  phase1_complete :: bool
  phase2_complete :: bool

definition zero_commit_snapshot :: commit_snapshot where
  "zero_commit_snapshot =
     \<lparr>phase1_status = 0, phase1_result = 0, phase1_output_size = 0, phase2_status = 0,
      phase2_result = 0, phase1_complete = False, phase2_complete = False\<rparr>"

definition commit_input0 :: "byte list" where
  "commit_input0 = [0x00, 0x00, 0x04, 0x00, 0x04, 0x00, 0x00, 0x00]"

definition commit_input1 :: "byte list" where
  "commit_input1 =
     [0x01, 0x01, 0xff, 0x00, 0x00, 0x00, 0x0d, 0x00, 0x0c,
      0x42, 0x72, 0x6f, 0x61, 0x64, 0x63, 0x6f, 0x6d, 0x57, 0x42, 0x46, 0x00]"

text \<open>
  \<open>cv2_bcm5880_generic_commit_mock_run\<close> over a commit operation: the status, the output object,
  the snapshot object and the natives' state.
\<close>

definition generic_commit_with ::
  "'n commit_call \<Rightarrow> 'n linux_abi option \<Rightarrow> 'n \<Rightarrow> u32 \<Rightarrow> byte list option \<Rightarrow> byte list option
     \<Rightarrow> commit_snapshot option
     \<Rightarrow> (u32 \<times> byte list option \<times> commit_snapshot option \<times> 'n) option" where
  "generic_commit_with commit adapter w h token phase1_output snapshot =
     (let snapshot = map_option (\<lambda>_. zero_commit_snapshot) snapshot in
      case (adapter, token, phase1_output, snapshot) of
        (Some a, Some tok, Some out0, Some snap) \<Rightarrow> do {
          out \<leftarrow> memset_obj out0 0 GENERIC_COMMIT_PHASE1_CAPACITY;
          (status, n1, out1, res1, w) \<leftarrow>
             commit adapter w h token (of_nat GENERIC_COMMIT_INPUT0_SIZE) (Some commit_input0)
               (of_nat GENERIC_COMMIT_INPUT1_SIZE) (Some commit_input1)
               (Some (of_nat GENERIC_COMMIT_PHASE1_CAPACITY)) (Some out)
               (Some (phase1_result snap));
          phase1_size \<leftarrow> n1;
          out \<leftarrow> out1;
          r1 \<leftarrow> res1;
          let snap = snap\<lparr>phase1_result := r1, phase1_status := status,
                          phase1_output_size := phase1_size\<rparr>;
          if status \<noteq> 0 \<or> phase1_size = 0 then do {
            out \<leftarrow> secure_clear out GENERIC_COMMIT_PHASE1_CAPACITY;
            Some (if status \<noteq> 0 then status else NATIVE_INVALID_PARAMETER,
                  Some out, Some (snap\<lparr>phase1_output_size := 0\<rparr>), w)
          } else do {
            let snap = snap\<lparr>phase1_complete := True\<rparr>;
            (status, n2, out2, res2, w) \<leftarrow>
               commit adapter w h token (of_nat GENERIC_COMMIT_INPUT0_SIZE) (Some commit_input0)
                 (of_nat GENERIC_COMMIT_INPUT1_SIZE) (Some commit_input1)
                 (Some 0) None (Some (phase2_result snap));
            phase2_size \<leftarrow> n2;
            r2 \<leftarrow> res2;
            let snap = snap\<lparr>phase2_result := r2, phase2_status := status\<rparr>;
            if status \<noteq> 0 \<or> phase2_size \<noteq> 0 then do {
              out \<leftarrow> secure_clear out GENERIC_COMMIT_PHASE1_CAPACITY;
              Some (if status \<noteq> 0 then status else NATIVE_INVALID_PARAMETER,
                    Some out, Some (snap\<lparr>phase1_output_size := 0\<rparr>), w)
            } else Some (0, Some out, Some (snap\<lparr>phase2_complete := True\<rparr>), w)
          }
        }
      | _ \<Rightarrow> Some (NATIVE_INVALID_PARAMETER, phase1_output, snapshot, w))"

definition generic_commit_mock_run ::
  "'n linux_abi option \<Rightarrow> 'n \<Rightarrow> u32 \<Rightarrow> byte list option \<Rightarrow> byte list option
     \<Rightarrow> commit_snapshot option
     \<Rightarrow> (u32 \<times> byte list option \<times> commit_snapshot option \<times> 'n) option" where
  "generic_commit_mock_run = generic_commit_with linux_abi_mock_commit_enrollment"

end
