(* ===== verification/Abi_Correct.thy ===== *)
theory Abi_Correct
  imports Coordinator_Claims Generic_Commit
begin

text \<open>
  The adapter as a checked pass-through, its contracts towards the coordinator and the commit
  sequence, and the properties of both.
\<close>

section \<open>The checked pass-through\<close>

text \<open>
  The specification of a native call behind the adapter: refuse without calling when the guard
  fails; otherwise hand the native's answer on, unless it claims more bytes than the caller's
  capacity, which is answered with status \<open>0x47\<close>, size 0 and the caller's bytes wiped.
\<close>

definition checked_call ::
  "bool \<Rightarrow> u32 \<Rightarrow> byte list \<Rightarrow> 'w \<Rightarrow> (u32 \<times> u32 \<times> byte list \<times> 'w) option
     \<Rightarrow> (u32 \<times> u32 \<times> byte list \<times> 'w) option" where
  "checked_call guard capacity out w answer =
     (if \<not> guard then Some (NATIVE_INVALID_PARAMETER, capacity, out, w)
      else do {
        (status, n, out', w') \<leftarrow> answer;
        if length out' \<noteq> length out then None
        else if unat n \<le> unat capacity then Some (status, n, out', w')
        else if unat capacity \<le> length out
        then Some (NATIVE_INVALID_PARAMETER, 0,
                   replicate (unat capacity) 0 @ drop (unat capacity) out', w')
        else None
      })"

lemma checked_call_bounded:
  "checked_call guard capacity out w answer = Some (status, n, out', w') \<Longrightarrow> unat n \<le> unat capacity"
  by (auto simp: checked_call_def fault_split split: if_splits)

lemma checked_call_length:
  "checked_call guard capacity out w answer = Some (status, n, out', w') \<Longrightarrow>
   length out' = length out"
  by (auto simp: checked_call_def fault_split split: if_splits)

text \<open>The results as the C interface hands them back: through the pointers of the caller.\<close>

definition through_pointers ::
  "(u32 \<times> u32 \<times> byte list \<times> 'w) option \<Rightarrow> (u32 \<times> u32 option \<times> byte list option \<times> 'w) option" where
  "through_pointers r = map_option (\<lambda>(status, n, out, w). (status, Some n, Some out, w)) r"

lemma clear_inside_capacity:
  "length out' = length out \<Longrightarrow>
   secure_clear out' (unat capacity) =
     (if unat capacity \<le> length out then Some (replicate (unat capacity) 0 @ drop (unat capacity) out')
      else None)"
  by (cases "secure_clear out' (unat capacity)") (auto simp: secure_clear_Some secure_clear_inside)

lemma same_object_eq:
  "same_object before after = (if length after = length before then Some after else None)"
  by (rule same_object_def)

lemma capture_is_checked_call:
  assumes "abi_initialized a" and "abi_capture_get_result a = Some native"
  shows "linux_abi_mock_capture_get_result (Some a) w h selector (Some cid) (Some capacity) (Some out)
    = through_pointers
        (checked_call (capacity \<noteq> 0 \<and> unat capacity \<le> FEATURE_CAPACITY) capacity out w
           (native w h selector cid capacity out))"
  using assms
  by (cases "native w h selector cid capacity out")
     (auto simp: linux_abi_mock_capture_get_result_def checked_call_def through_pointers_def
        same_object_eq clear_inside_capacity word_less_nat_alt)

definition template_arguments_valid :: "u32 list \<Rightarrow> byte list option list \<Rightarrow> bool" where
  "template_arguments_valid sizes feats \<longleftrightarrow>
     (\<forall>i < TEMPLATE_FEATURES. sizes ! i \<noteq> 0 \<and> unat (sizes ! i) \<le> FEATURE_CAPACITY
        \<and> feats ! i \<noteq> None)"

lemma invalid_template_feature_eq:
  assumes "\<forall>i \<in> set is. i < length sizes \<and> i < length feats"
  shows "invalid_template_feature is sizes feats =
    Some (\<not> (\<forall>i \<in> set is. sizes ! i \<noteq> 0 \<and> unat (sizes ! i) \<le> FEATURE_CAPACITY \<and> feats ! i \<noteq> None))"
  using assms
  by (induction "is") (auto simp: c_memory Option.is_none_def)

lemma template_is_checked_call:
  assumes "abi_initialized a" and "abi_create_template a = Some native"
    and "length sizes = TEMPLATE_FEATURES" and "length feats = TEMPLATE_FEATURES"
  shows "linux_abi_mock_create_template (Some a, w) h (Some sizes) (Some feats) (Some capacity) (Some out)
    = map_option (\<lambda>(status, n, out, w). (status, n, out, (Some a, w)))
        (through_pointers
          (checked_call
             (template_arguments_valid sizes feats \<and> capacity \<noteq> 0 \<and> unat capacity \<le> TEMPLATE_CAPACITY)
             capacity out w
             (native w h (sizes ! 0) (the (feats ! 0)) (sizes ! 1) (the (feats ! 1))
                (sizes ! 2) (the (feats ! 2)) (sizes ! 3) (the (feats ! 3)) capacity out)))"
proof -
  have bad: "invalid_template_feature [0..<TEMPLATE_FEATURES] sizes feats
      = Some (\<not> template_arguments_valid sizes feats)"
    using assms(3,4)
    by (subst invalid_template_feature_eq) (simp_all add: template_arguments_valid_def Ball_def)
  show ?thesis
  proof (cases "template_arguments_valid sizes feats \<and> capacity \<noteq> 0 \<and> unat capacity \<le> TEMPLATE_CAPACITY")
    case False
    with bad assms(1,2) show ?thesis
      by (auto simp: linux_abi_mock_create_template_def checked_call_def through_pointers_def Let_def)
  next
    case True
    then have f: "feats ! i \<noteq> None" if "i < 4" for i
      using that by (simp add: template_arguments_valid_def TEMPLATE_FEATURES_def)
    obtain f0 f1 f2 f3 where feats: "feats ! 0 = Some f0" "feats ! 1 = Some f1"
      "feats ! 2 = Some f2" "feats ! 3 = Some f3"
      using f [of 0] f [of 1] f [of 2] f [of 3] by auto
    from True bad assms feats show ?thesis
      by (cases "native w h (sizes ! 0) f0 (sizes ! 1) f1 (sizes ! 2) f2 (sizes ! 3) f3 capacity out")
         (auto simp: linux_abi_mock_create_template_def checked_call_def through_pointers_def Let_def
            TEMPLATE_FEATURES_def c_memory same_object_eq clear_inside_capacity word_less_nat_alt)
  qed
qed

section \<open>What the adapter provides\<close>

text \<open>Whatever the native does, the adapter's template call is a routine the coordinator can trust.\<close>

interpretation adapter_template: template_routine linux_abi_mock_create_template
proof
  fix u :: "'n linux_abi option \<times> 'n" and h sizes feats n out status n' out' u'
  assume "linux_abi_mock_create_template u h sizes feats (Some n) out = Some (status, Some n', out', u')"
  then show "unat n' \<le> unat n"
    by (auto simp: linux_abi_mock_create_template_def Let_def fault_split word_le_nat_alt not_less
        split: option.splits if_splits)
qed

text \<open>The ways a commit call can end.\<close>

definition commit_guard ::
  "'n linux_abi \<Rightarrow> u32 \<Rightarrow> byte list option \<Rightarrow> u32 \<Rightarrow> byte list option \<Rightarrow> u32 \<Rightarrow> byte list option
     \<Rightarrow> u32 option \<Rightarrow> bool" where
  "commit_guard a s0 i0 s1 i1 capacity out res \<longleftrightarrow>
     abi_initialized a \<and> abi_commit_enrollment a \<noteq> None \<and>
     (s0 \<noteq> 0 \<longrightarrow> i0 \<noteq> None) \<and> (s1 \<noteq> 0 \<longrightarrow> i1 \<noteq> None) \<and> unat s1 \<le> 0x1064 \<and>
     (capacity \<noteq> 0 \<longrightarrow> out \<noteq> None \<and> unat capacity \<le> NATIVE_COMMIT_MAX_OUTPUT) \<and>
     (capacity = 0 \<longrightarrow> res \<noteq> None)"

lemma commit_refused:
  "\<not> commit_guard a s0 i0 s1 i1 capacity out res \<Longrightarrow>
   linux_abi_mock_commit_enrollment (Some a) w h (Some t) s0 i0 s1 i1 (Some capacity) out res
     = Some (NATIVE_INVALID_PARAMETER, Some capacity, out, res, w)"
  by (auto simp: linux_abi_mock_commit_enrollment_def Let_def commit_guard_def Option.is_none_def
      word_less_nat_alt)

lemma commit_null:
  "a = None \<or> t = None \<or> n = None \<Longrightarrow>
   linux_abi_mock_commit_enrollment a w h t s0 i0 s1 i1 n out res
     = Some (NATIVE_INVALID_PARAMETER, n, out, res, w)"
  by (cases a; cases t; cases n) (auto simp: linux_abi_mock_commit_enrollment_def Let_def)

lemma commit_called:
  assumes "commit_guard a s0 i0 s1 i1 capacity out res" and "abi_commit_enrollment a = Some native"
  shows "linux_abi_mock_commit_enrollment (Some a) w h (Some t) s0 i0 s1 i1 (Some capacity) out res =
    do {
      (status, n, out', res', w) \<leftarrow> native w h t s0 i0 s1 i1 capacity out res;
      out' \<leftarrow> same_pointee out out';
      res' \<leftarrow> same_cell res res';
      if \<not> unat n \<le> unat capacity then do {
        out' \<leftarrow> (case out' of
            None \<Rightarrow> Some None
          | Some b \<Rightarrow> if capacity \<noteq> 0 then map_option Some (secure_clear b (unat capacity))
                     else Some (Some b));
        Some (NATIVE_INVALID_PARAMETER, Some 0, out', res', w)
      } else Some (status, Some n, out', res', w)
    }"
proof -
  have bound: "(capacity < n \<or> NATIVE_COMMIT_MAX_OUTPUT < unat n) = (\<not> unat n \<le> unat capacity)"
    for n :: u32
    using assms(1) by (cases "capacity = 0") (auto simp: commit_guard_def word_less_nat_alt)
  have g1: "\<not> (\<not> abi_initialized a \<or> Option.is_none (abi_commit_enrollment a)
      \<or> s0 \<noteq> 0 \<and> Option.is_none i0 \<or> s1 \<noteq> 0 \<and> Option.is_none i1 \<or> s1 > 0x1064)"
    using assms by (auto simp: commit_guard_def Option.is_none_def word_less_nat_alt)
  have g2: "\<not> (capacity \<noteq> 0 \<and> (Option.is_none out \<or> unat capacity > NATIVE_COMMIT_MAX_OUTPUT)
      \<or> capacity = 0 \<and> Option.is_none res)"
    using assms by (auto simp: commit_guard_def Option.is_none_def)
  show ?thesis
    unfolding linux_abi_mock_commit_enrollment_def Let_def prod.case option.case
      if_not_P [OF g1] if_not_P [OF g2] bound
    by (simp only: assms(2) bind.bind_lunit)
qed

lemma commit_cases:
  assumes "linux_abi_mock_commit_enrollment a w h t s0 i0 s1 i1 (Some capacity) out res
             = Some (status, n, out', res', w')"
  obtains
    (refused) "status = NATIVE_INVALID_PARAMETER" "n = Some capacity" "out' = out" "res' = res" "w' = w"
  | (passed) ad tok native k where "a = Some ad" "t = Some tok"
      "commit_guard ad s0 i0 s1 i1 capacity out res" "abi_commit_enrollment ad = Some native"
      "native w h tok s0 i0 s1 i1 capacity out res = Some (status, k, out', res', w')"
      "n = Some k" "unat k \<le> unat capacity"
      "same_pointee out out' = Some out'" "same_cell res res' = Some res'"
  | (overflow) ad tok native st k b where "a = Some ad" "t = Some tok"
      "commit_guard ad s0 i0 s1 i1 capacity out res" "abi_commit_enrollment ad = Some native"
      "native w h tok s0 i0 s1 i1 capacity out res = Some (st, k, b, res', w')"
      "unat capacity < unat k" "status = NATIVE_INVALID_PARAMETER" "n = Some 0"
      "same_pointee out b = Some b" "same_cell res res' = Some res'"
      "case b of None \<Rightarrow> out' = None
         | Some x \<Rightarrow> unat capacity \<le> length x \<and>
             out' = Some (replicate (unat capacity) 0 @ drop (unat capacity) x)"
proof (cases "a = None \<or> t = None")
  case True
  with assms show ?thesis by (intro refused) (auto simp: commit_null)
next
  case False
  then obtain ad tok where at: "a = Some ad" "t = Some tok" by auto
  show ?thesis
  proof (cases "commit_guard ad s0 i0 s1 i1 capacity out res")
    case False
    with assms show ?thesis by (intro refused) (auto simp: at commit_refused)
  next
    case True
    then obtain native where native: "abi_commit_enrollment ad = Some native"
      by (auto simp: commit_guard_def)
    note call = assms [unfolded at commit_called [OF True native]]
    from call obtain st k b where nat: "native w h tok s0 i0 s1 i1 capacity out res = Some (st, k, b, res', w')"
      and b: "same_pointee out b = Some b" and r: "same_cell res res' = Some res'"
      by (cases out) (auto simp: fault_split split: if_splits)
    show ?thesis
    proof (cases "unat k \<le> unat capacity")
      case True
      with call nat b r show ?thesis
        by (intro passed [OF at \<open>commit_guard ad s0 i0 s1 i1 capacity out res\<close> native])
           (simp_all del: same_cell_Some)
    next
      case False
      with call nat b r show ?thesis
        by (intro overflow [OF at \<open>commit_guard ad s0 i0 s1 i1 capacity out res\<close> native nat])
           (auto simp: secure_clear_Some fault_split split: option.splits if_splits simp del: same_cell_Some)
    qed
  qed
qed

text \<open>The commit operation a sequence relies on: bounded sizes, objects and cells kept.\<close>

locale commit_operation =
  fixes commit :: "'n commit_call"
  assumes commit_size:
    "commit a w h t s0 i0 s1 i1 (Some capacity) out res = Some (status, n, out', res', w') \<Longrightarrow>
     \<exists>k. n = Some k \<and> unat k \<le> unat capacity"
  and commit_output:
    "commit a w h t s0 i0 s1 i1 (Some capacity) (Some b) res = Some (status, n, out', res', w') \<Longrightarrow>
     \<exists>b'. out' = Some b' \<and> length b' = length b"
  and commit_result:
    "commit a w h t s0 i0 s1 i1 (Some capacity) out (Some r) = Some (status, n, out', res', w') \<Longrightarrow>
     \<exists>r'. res' = Some r'"

interpretation adapter_commit: commit_operation linux_abi_mock_commit_enrollment
  by unfold_locales (erule commit_cases; auto split: option.splits)+

section \<open>The commit sequence over any such operation\<close>

context commit_operation
begin

definition phase1_call where
  "phase1_call a w h t out res =
     commit (Some a) w h (Some t) (of_nat GENERIC_COMMIT_INPUT0_SIZE) (Some commit_input0)
       (of_nat GENERIC_COMMIT_INPUT1_SIZE) (Some commit_input1)
       (Some (of_nat GENERIC_COMMIT_PHASE1_CAPACITY)) (Some out) (Some res)"

definition phase2_call where
  "phase2_call a w h t res =
     commit (Some a) w h (Some t) (of_nat GENERIC_COMMIT_INPUT0_SIZE) (Some commit_input0)
       (of_nat GENERIC_COMMIT_INPUT1_SIZE) (Some commit_input1) (Some 0) None (Some res)"

definition first_output :: "byte list \<Rightarrow> byte list" where
  "first_output out =
     replicate GENERIC_COMMIT_PHASE1_CAPACITY 0 @ drop GENERIC_COMMIT_PHASE1_CAPACITY out"

text \<open>Three ways to end; the size check of the second phase never decides.\<close>

lemma sequence_cases:
  assumes "generic_commit_with commit (Some a) w h (Some t) (Some out) (Some snap)
             = Some (status, out', snap', w')"
  obtains
    (phase1_fails) s1 n1 b1 r1 where
      "phase1_call a w h t (first_output out) 0 = Some (s1, Some n1, Some b1, Some r1, w')"
      "s1 \<noteq> 0 \<or> n1 = 0" "status = (if s1 \<noteq> 0 then s1 else NATIVE_INVALID_PARAMETER)"
      "out' = Some (first_output b1)"
      "snap' = Some (zero_commit_snapshot\<lparr>phase1_result := r1, phase1_status := s1\<rparr>)"
  | (phase2_fails) n1 b1 r1 w1 s2 o2 r2 where
      "phase1_call a w h t (first_output out) 0 = Some (0, Some n1, Some b1, Some r1, w1)"
      "n1 \<noteq> 0" "phase2_call a w1 h t 0 = Some (s2, Some 0, o2, Some r2, w')"
      "s2 \<noteq> 0" "status = s2" "out' = Some (first_output b1)"
      "snap' = Some (zero_commit_snapshot\<lparr>phase1_result := r1, phase1_complete := True,
                       phase2_result := r2, phase2_status := s2\<rparr>)"
  | (complete) n1 b1 r1 w1 o2 r2 where
      "phase1_call a w h t (first_output out) 0 = Some (0, Some n1, Some b1, Some r1, w1)"
      "n1 \<noteq> 0" "unat n1 \<le> GENERIC_COMMIT_PHASE1_CAPACITY"
      "phase2_call a w1 h t 0 = Some (0, Some 0, o2, Some r2, w')"
      "status = 0" "out' = Some b1"
      "snap' = Some (zero_commit_snapshot\<lparr>phase1_result := r1, phase1_output_size := n1,
                       phase1_complete := True, phase2_result := r2, phase2_complete := True\<rparr>)"
proof -
  obtain s1 p1 q1 c1 w1 where call1: "phase1_call a w h t (first_output out) 0 = Some (s1, p1, q1, c1, w1)"
    using assms
    by (auto simp: generic_commit_with_def fault_split phase1_call_def first_output_def
        zero_commit_snapshot_def)
  from commit_size [OF call1 [unfolded phase1_call_def]] obtain n1 where n1: "p1 = Some n1"
    "unat n1 \<le> unat (of_nat GENERIC_COMMIT_PHASE1_CAPACITY :: u32)" by blast
  from commit_output [OF call1 [unfolded phase1_call_def]] obtain b1 where b1: "q1 = Some b1" by blast
  from commit_result [OF call1 [unfolded phase1_call_def]] obtain r1 where r1: "c1 = Some r1" by blast
  have cap: "unat (of_nat GENERIC_COMMIT_PHASE1_CAPACITY :: u32) = GENERIC_COMMIT_PHASE1_CAPACITY"
    by (simp add: GENERIC_COMMIT_PHASE1_CAPACITY_def)
  show ?thesis
  proof (cases "s1 \<noteq> 0 \<or> n1 = 0")
    case True
    with assms call1 n1 b1 r1 show ?thesis
      by (intro phase1_fails [of s1 n1 b1 r1])
         (auto simp: generic_commit_with_def fault_split phase1_call_def first_output_def
            zero_commit_snapshot_def Let_def secure_clear_Some)
  next
    case False
    then have s1: "s1 = 0" "n1 \<noteq> 0" by simp_all
    obtain s2 p2 o2 c2 w2 where call2: "phase2_call a w1 h t 0 = Some (s2, p2, o2, c2, w2)"
      using assms call1 n1 b1 r1 s1
      by (auto simp: generic_commit_with_def fault_split phase1_call_def phase2_call_def
          first_output_def zero_commit_snapshot_def Let_def)
    from commit_size [OF call2 [unfolded phase2_call_def]] have p2: "p2 = Some 0"
      by (auto simp: unat_eq_zero)
    from commit_result [OF call2 [unfolded phase2_call_def]] obtain r2 where r2: "c2 = Some r2" by blast
    note facts = assms call1 [unfolded n1 b1 r1 s1] call2 [unfolded p2 r2] s1 n1(2) [unfolded cap]
    show ?thesis
    proof (cases "s2 = 0")
      case True
      with facts show ?thesis
        by (intro complete [of n1 b1 r1 w1 o2 r2])
           (auto simp: generic_commit_with_def phase1_call_def phase2_call_def first_output_def
              zero_commit_snapshot_def Let_def fault_split)
    next
      case False
      with facts show ?thesis
        by (intro phase2_fails [of n1 b1 r1 w1 s2 o2 r2])
           (auto simp: generic_commit_with_def phase1_call_def phase2_call_def first_output_def
              zero_commit_snapshot_def Let_def fault_split secure_clear_Some)
    qed
  qed
qed

end

end
