(* ===== verification/Abi_Harness.thy ===== *)
theory Abi_Harness
  imports Generic_Commit
begin

text \<open>
  The repository's own driver of the adapter and the commit sequence,
  \<open>tests/fixtures/bcm5880_linux_abi_adapter_harness.c\<close>: the three native mocks, the random
  mock and the scenarios of \<open>main\<close>. The static \<open>state\<close> is the natives' state; \<open>abort ()\<close> is a
  fault; the printed lines are structured.
\<close>

record harness_state =
  hs_scenario :: string
  hs_capture_calls :: u32
  hs_template_calls :: u32
  hs_random_calls :: u32
  hs_commit_calls :: u32

definition counting_bytes :: "nat \<Rightarrow> byte list" where
  "counting_bytes base = map (\<lambda>index. of_nat (base + index)) [0..<ENROLLMENT_ID_SIZE]"

definition native_capture_get_result :: "harness_state capture_native" where
  "native_capture_get_result st h selector capture_id n out =
     (let st = st\<lparr>hs_capture_calls := hs_capture_calls st + 1\<rparr> in
      if h \<noteq> 0x11223344 \<or> selector \<noteq> 0x5a \<or> n \<noteq> of_nat FEATURE_CAPACITY then None
      else do {
        same \<leftarrow> memcmp_eq capture_id (counting_bytes 0x30) ENROLLMENT_ID_SIZE;
        if \<not> same then None
        else do {
          out \<leftarrow> array_set out 0 0x61;
          if hs_scenario st = ''capture-overflow''
          then Some (0, of_nat (FEATURE_CAPACITY + 1), out, st)
          else if hs_scenario st = ''capture-native-status'' then Some (0x8f, 0x120, out, st)
          else Some (0, 0x120, out, st)
        }
      })"

definition check_native_feature :: "u32 list \<Rightarrow> byte list list \<Rightarrow> nat \<Rightarrow> unit option" where
  "check_native_feature sizes feats index =
     do {
       n \<leftarrow> array_get sizes index;
       bytes \<leftarrow> array_get feats index;
       if n \<noteq> 100 + of_nat index then None
       else do {
         first \<leftarrow> array_get bytes 0;
         if first \<noteq> of_nat (0x10 + index) then None else Some ()
       }
     }"

definition native_create_template :: "harness_state template_native" where
  "native_create_template st h n0 f0 n1 f1 n2 f2 n3 f3 n out =
     (let st = st\<lparr>hs_template_calls := hs_template_calls st + 1\<rparr> in
      if h \<noteq> 7 \<or> n \<noteq> of_nat TEMPLATE_CAPACITY then None
      else do {
        those (map (check_native_feature [n0, n1, n2, n3] [f0, f1, f2, f3]) [0..<TEMPLATE_FEATURES]);
        out \<leftarrow> array_set out 0 0xa5;
        if hs_scenario st = ''template-overflow''
        then Some (0, of_nat (TEMPLATE_CAPACITY + 1), out, st)
        else Some (0, 64, out, st)
      })"

definition native_commit_enrollment :: "harness_state commit_native" where
  "native_commit_enrollment st h token input0_size input0 input1_size input1 n output result_out =
     (let st = st\<lparr>hs_commit_calls := hs_commit_calls st + 1\<rparr> in
      if h \<noteq> 0x3344 \<or> input0_size \<noteq> of_nat GENERIC_COMMIT_INPUT0_SIZE
         \<or> input1_size \<noteq> of_nat GENERIC_COMMIT_INPUT1_SIZE
      then None
      else do {
        i0 \<leftarrow> input0;
        same0 \<leftarrow> memcmp_eq i0 commit_input0 GENERIC_COMMIT_INPUT0_SIZE;
        i1 \<leftarrow> input1;
        same1 \<leftarrow> memcmp_eq i1 commit_input1 GENERIC_COMMIT_INPUT1_SIZE;
        result_cell \<leftarrow> result_out;
        same2 \<leftarrow> memcmp_eq token (counting_bytes 0x70) ENROLLMENT_ID_SIZE;
        let same = (same0 \<and> same1 \<and> same2);
        if \<not> same then None
        else if hs_commit_calls st = 1 then
          (if n \<noteq> of_nat GENERIC_COMMIT_PHASE1_CAPACITY then None
           else do {
             out \<leftarrow> output;
             if hs_scenario st = ''commit-phase1-error'' then Some (0x59, n, output, result_out, st)
             else do {
               out \<leftarrow> array_set out 0 0xa5;
               Some (0,
                     if hs_scenario st = ''commit-phase1-overflow''
                     then of_nat GENERIC_COMMIT_PHASE1_CAPACITY + 1 else 848,
                     Some out, Some 0x1111, st)
             }
           })
        else if hs_commit_calls st \<noteq> 2 \<or> n \<noteq> 0 \<or> output \<noteq> None then None
        else if hs_scenario st = ''commit-phase2-error'' then Some (0x17, n, output, Some 0x2222, st)
        else Some (0, n, output, Some 0x2222, st)
      })"

definition harness_random_bytes ::
  "(harness_state linux_abi option \<times> harness_state) random_bytes_fn" where
  "harness_random_bytes user_data out n =
     (if fst user_data = None \<or> n \<noteq> TOKEN_RANDOM_PREFIX_SIZE then None
      else do {
        let st = snd user_data;
        out \<leftarrow> memset_obj out 0x5a n;
        Some (0, out, (fst user_data, st\<lparr>hs_random_calls := hs_random_calls st + 1\<rparr>))
      })"

datatype abi_harness_line =
    Abi_init_failed string u32 u32
  | Capture_line u32 u32 byte u32
  | Coordinator_line outcome snapshot u32 u32
  | Commit_line u32 u32 commit_snapshot byte

definition run_capture ::
  "harness_state linux_abi option \<Rightarrow> harness_state \<Rightarrow> (abi_harness_line list \<times> harness_state) option" where
  "run_capture adapter st =
     do {
       (status, n, out, st) \<leftarrow> linux_abi_mock_capture_get_result adapter st 0x11223344 0x5a
          (Some (counting_bytes 0x30)) (Some (of_nat FEATURE_CAPACITY))
          (Some (replicate FEATURE_CAPACITY 0xcc));
       size' \<leftarrow> n;
       bytes \<leftarrow> out;
       first \<leftarrow> array_get bytes 0;
       Some ([Capture_line status size' first (hs_capture_calls st)], st)
     }"

fun abi_feature_loop ::
  "nat list \<Rightarrow> outcome \<Rightarrow> (harness_state linux_abi option \<times> harness_state) coordinator option
     \<Rightarrow> harness_state linux_abi option \<times> harness_state \<Rightarrow> byte list
     \<Rightarrow> (outcome \<times> (harness_state linux_abi option \<times> harness_state) coordinator option
          \<times> (harness_state linux_abi option \<times> harness_state)) option" where
  "abi_feature_loop [] r co u eid = Some (r, co, u)"
| "abi_feature_loop (index # rest) r co u eid =
     do {
       (r, co, u) \<leftarrow> accept_feature co u (Some eid)
          (Some (replicate FEATURE_CAPACITY (of_nat (0x10 + index)))) (100 + of_nat index);
       abi_feature_loop rest r co u eid
     }"

definition run_coordinator ::
  "harness_state linux_abi option \<Rightarrow> harness_state \<Rightarrow> (abi_harness_line list \<times> harness_state) option" where
  "run_coordinator adapter st =
     do {
       let eid = replicate ENROLLMENT_ID_SIZE 0x31;
       let config = \<lparr>cfg_mode = EXECUTION_MOCK_ONLY, cfg_handle = 7, cfg_enrollment_id = Some eid,
          cfg_operations = \<lparr>op_create_template = Some linux_abi_mock_create_template,
                            op_random_bytes = Some harness_random_bytes\<rparr>\<rparr>;
       (co, err) \<leftarrow> mock_coordinator_new (Some config) (Some ERROR_NONE) True;
       c \<leftarrow> co;
       (r, co, u) \<leftarrow> abi_feature_loop [0..<TEMPLATE_FEATURES] OUTCOME_REJECTED (Some c)
          (adapter, st) eid;
       let st = snd u;
       Some ([Coordinator_line r (coordinator_snapshot co) (hs_template_calls st)
                (hs_random_calls st)], st)
     }"

definition run_commit_sequence ::
  "harness_state linux_abi option \<Rightarrow> harness_state \<Rightarrow> (abi_harness_line list \<times> harness_state) option" where
  "run_commit_sequence adapter st =
     do {
       (status, out, snap, st) \<leftarrow> generic_commit_mock_run adapter st 0x3344
          (Some (counting_bytes 0x70)) (Some (replicate GENERIC_COMMIT_PHASE1_CAPACITY 0xcc))
          (Some zero_commit_snapshot);
       bytes \<leftarrow> out;
       s \<leftarrow> snap;
       first \<leftarrow> array_get bytes 0;
       Some ([Commit_line status (hs_commit_calls st) s first], st)
     }"

definition abi_harness_main :: "string \<Rightarrow> (abi_harness_line list \<times> int) option" where
  "abi_harness_main scenario =
     do {
       let st = \<lparr>hs_scenario = scenario, hs_capture_calls = 0, hs_template_calls = 0,
                 hs_random_calls = 0, hs_commit_calls = 0\<rparr>;
       let config =
         \<lparr>acfg_mode = (if scenario = ''disabled'' then EXECUTION_DISABLED else EXECUTION_MOCK_ONLY),
          acfg_capture_get_result = Some native_capture_get_result,
          acfg_create_template =
            (if scenario = ''missing-native'' then None else Some native_create_template),
          acfg_commit_enrollment = Some native_commit_enrollment\<rparr>;
       (ok, adapter, err) \<leftarrow>
          linux_abi_mock_init (Some zero_abi) (Some config) (Some ABI_ERROR_NONE);
       if \<not> ok then do {
         e \<leftarrow> err;
         Some ([Abi_init_failed (abi_error_name (abi_error_code e)) (hs_capture_calls st)
                  (hs_template_calls st)], 0)
       }
       else do {
         (ls, st) \<leftarrow>
           (if take 7 scenario = ''capture'' then run_capture adapter st
            else if take 6 scenario = ''commit'' then run_commit_sequence adapter st
            else run_coordinator adapter st);
         Some (ls, 0)
       }
     }"

end
