(* ===== verification/Abi_Claims.thy ===== *)
theory Abi_Claims
  imports Abi_Correct Abi_Harness
begin

text \<open>
  Properties of the adapter and of the commit sequence, and the scenarios of their harness.
\<close>

section \<open>Concrete natives for the witnesses\<close>

definition plain_capture :: "nat capture_native" where
  "plain_capture w h selector cid capacity out = Some (0x8f, 2, out, Suc w)"

definition oversize_template :: "nat template_native" where
  "oversize_template w h n0 f0 n1 f1 n2 f2 n3 f3 capacity out = Some (0, capacity + 1, out, Suc w)"

definition plain_commit :: "nat commit_native" where
  "plain_commit w h t s0 i0 s1 i1 capacity out res =
     Some (0, if capacity = 0 then 0 else 848, out, Some 5, Suc w)"

definition plain_adapter :: "nat linux_abi" where
  "plain_adapter =
     \<lparr>abi_capture_get_result = Some plain_capture, abi_create_template = Some oversize_template,
      abi_commit_enrollment = Some plain_commit, abi_initialized = True\<rparr>"

section \<open>Properties of the adapter\<close>

text \<open>
  The capture call refines the checked pass-through: it refuses a capacity of 0 or above
  \<open>0x258\<close> without calling the native, hands a native answer within the capacity on bit-exact
  (non-zero statuses included), and answers an oversize claim with \<open>0x47\<close>, size 0 and wiped
  bytes. The adapter's second bound (against \<open>0x258\<close> itself) adds nothing.
\<close>

lemma capture_refines_checked_call:
  assumes "abi_initialized a" and "abi_capture_get_result a = Some native"
  shows "linux_abi_mock_capture_get_result (Some a) w h selector (Some cid) (Some capacity) (Some out)
    = through_pointers
        (checked_call (capacity \<noteq> 0 \<and> unat capacity \<le> FEATURE_CAPACITY) capacity out w
           (native w h selector cid capacity out))"
  using assms by (rule capture_is_checked_call)

text \<open>
  C15: The template call refines the same checked pass-through: with four features in order, each
  non-null and of a length from 1 to \<open>0x258\<close>, the native gets exactly those four size/buffer
  pairs; a bad argument never reaches it; an oversize template is rejected and wiped.
\<close>

theorem template_refines_checked_call:
  assumes "abi_initialized a" and "abi_create_template a = Some native"
    and "length sizes = TEMPLATE_FEATURES" and "length feats = TEMPLATE_FEATURES"
  shows "linux_abi_mock_create_template (Some a, w) h (Some sizes) (Some feats) (Some capacity) (Some out)
    = map_option (\<lambda>(status, n, out, w). (status, n, out, (Some a, w)))
        (through_pointers
          (checked_call
             (template_arguments_valid sizes feats \<and> capacity \<noteq> 0 \<and> unat capacity \<le> TEMPLATE_CAPACITY)
             capacity out w
             (native w h (sizes ! 0) (the (feats ! 0)) (sizes ! 1) (the (feats ! 1))
                (sizes ! 2) (the (feats ! 2)) (sizes ! 3) (the (feats ! 3)) capacity out)))"
  using assms by (rule template_is_checked_call)

theorem template_refines_checked_call_witness:
  "linux_abi_mock_create_template (Some plain_adapter, 0) 7 (Some [1, 1, 1, 1])
     (Some [Some [1], Some [2], Some [3], Some [4]]) (Some 1) (Some [9, 9, 9])
     = Some (NATIVE_INVALID_PARAMETER, Some 0, Some [0, 9, 9], (Some plain_adapter, 1))"
proof -
  have a: "abi_initialized plain_adapter" "abi_create_template plain_adapter = Some oversize_template"
    "length [1, 1, 1, 1 :: u32] = TEMPLATE_FEATURES"
    "length [Some [1], Some [2], Some [3], Some [4 :: byte]] = TEMPLATE_FEATURES"
    by (simp_all add: plain_adapter_def TEMPLATE_FEATURES_def)
  have "template_arguments_valid [1, 1, 1, 1] [Some [1], Some [2], Some [3], Some [4]]"
    by (simp add: template_arguments_valid_def TEMPLATE_FEATURES_def FEATURE_CAPACITY_def
        numeral_nat less_Suc_eq)
  then show ?thesis
    unfolding template_refines_checked_call [OF a]
    by (simp add: checked_call_def through_pointers_def oversize_template_def TEMPLATE_CAPACITY_def)
qed

lemma capture_size_within:
  assumes "linux_abi_mock_capture_get_result a w h selector cid (Some capacity) out
             = Some (status, n, out', w')"
  shows "\<exists>k. n = Some k \<and> unat k \<le> unat capacity"
  using assms
  by (auto simp: linux_abi_mock_capture_get_result_def fault_split word_le_nat_alt not_less
      split: option.splits if_splits)

text \<open>
  Whatever the native functions do, none of the three adapter calls ever hands back a size
  above the capacity the caller passed in.
\<close>

lemma adapter_sizes_within_capacity:
  "(linux_abi_mock_capture_get_result a w h selector cid (Some capacity) out
      = Some (status, n, out', w') \<longrightarrow> (\<exists>k. n = Some k \<and> unat k \<le> unat capacity)) \<and>
   (linux_abi_mock_create_template (a, w) h sizes feats (Some capacity) out
      = Some (status, Some k, out', u') \<longrightarrow> unat k \<le> unat capacity) \<and>
   (linux_abi_mock_commit_enrollment a w h t s0 i0 s1 i1 (Some capacity) out res
      = Some (status, n, out', res', w') \<longrightarrow> (\<exists>k. n = Some k \<and> unat k \<le> unat capacity))"
  by (intro conjI impI)
     (erule capture_size_within adapter_template.size_within_capacity adapter_commit.commit_size)+

text \<open>
  An adapter whose initialisation failed (a missing native, or any mode but mock-only) and an
  adapter that was cleared refuse all three calls with status \<open>0x47\<close>, leave every object and cell
  as it was and never enter a native function.
\<close>

lemma disabled_adapter_never_calls:
  assumes "linux_abi_mock_init (Some a0) cfg err = Some (False, Some a, err') \<or>
           linux_abi_mock_clear (Some a0) = Some a"
  shows "linux_abi_mock_capture_get_result (Some a) w h selector cid n out
           = Some (NATIVE_INVALID_PARAMETER, n, out, w) \<and>
         linux_abi_mock_create_template (Some a, w) h sizes feats n out
           = Some (NATIVE_INVALID_PARAMETER, n, out, (Some a, w)) \<and>
         linux_abi_mock_commit_enrollment (Some a) w h t s0 i0 s1 i1 n out res
           = Some (NATIVE_INVALID_PARAMETER, n, out, res, w)"
proof -
  have a: "a = zero_abi"
    using assms
    by (auto simp: linux_abi_mock_init_def linux_abi_mock_clear_def Let_def fault_split
        split: if_splits)
  show ?thesis
    by (auto simp: a zero_abi_def linux_abi_mock_capture_get_result_def
        linux_abi_mock_create_template_def linux_abi_mock_commit_enrollment_def Let_def
        split: option.split)
qed

text \<open>
  Initialisation succeeds exactly for an adapter object and a configuration in mock-only mode
  with all three natives; then the adapter holds those natives, and a bad argument is reported
  before a wrong mode.
\<close>

lemma adapter_init_result:
  "linux_abi_mock_init adapter config err =
     (case (adapter, config) of
        (Some a, Some cfg) \<Rightarrow>
          if acfg_capture_get_result cfg = None \<or> acfg_create_template cfg = None
             \<or> acfg_commit_enrollment cfg = None
          then Some (False, Some zero_abi, map_option (\<lambda>_. ABI_ERROR_INVALID_ARGUMENT) err)
          else if acfg_mode cfg = EXECUTION_DISABLED
          then Some (False, Some zero_abi, map_option (\<lambda>_. ABI_ERROR_MOCK_MODE_REQUIRED) err)
          else Some (True,
                 Some \<lparr>abi_capture_get_result = acfg_capture_get_result cfg,
                       abi_create_template = acfg_create_template cfg,
                       abi_commit_enrollment = acfg_commit_enrollment cfg,
                       abi_initialized = True\<rparr>,
                 map_option (\<lambda>_. ABI_ERROR_NONE) err)
      | _ \<Rightarrow> Some (False, map_option (\<lambda>_. zero_abi) adapter,
                map_option (\<lambda>_. ABI_ERROR_INVALID_ARGUMENT) err))"
  by (cases adapter; cases config; cases "acfg_mode (the config)")
     (auto simp: linux_abi_mock_init_def abi_init_error_def Option.is_none_def zero_abi_def Let_def)



section \<open>Properties of the commit sequence\<close>

text \<open>
  C4: The commit sequence succeeds exactly when both phases complete: phase 2 only counts after a
  phase 1 with status 0 and between 1 and \<open>0x800\<close> output bytes, and after a complete phase 1
  the returned status is the status of the second native call (its size check never fires).
\<close>

theorem commit_succeeds_iff_both_phases:
  assumes "generic_commit_mock_run (Some a) w h (Some t) (Some out) (Some snap)
             = Some (status, out', Some s, w')"
  shows "(status = 0 \<longleftrightarrow> phase2_complete s) \<and>
         (phase2_complete s \<longrightarrow>
            phase1_complete s \<and> phase1_status s = 0 \<and> phase2_status s = 0 \<and>
            phase1_output_size s \<noteq> 0 \<and>
            unat (phase1_output_size s) \<le> GENERIC_COMMIT_PHASE1_CAPACITY) \<and>
         (phase1_complete s \<longrightarrow> phase2_status s = status)"
  using assms [unfolded generic_commit_mock_run_def]
  by (cases rule: adapter_commit.sequence_cases)
     (auto simp: zero_commit_snapshot_def NATIVE_INVALID_PARAMETER_def split: if_splits)

lemma plain_commit_call:
  "linux_abi_mock_commit_enrollment (Some plain_adapter) w h (Some t) 8 (Some i0) 21 (Some i1)
     (Some 0x800) (Some out) (Some r) = Some (0, Some 848, Some out, Some 5, Suc w)"
  "linux_abi_mock_commit_enrollment (Some plain_adapter) w h (Some t) 8 (Some i0) 21 (Some i1)
     (Some 0) None (Some r) = Some (0, Some 0, None, Some 5, Suc w)"
  by (simp_all add: linux_abi_mock_commit_enrollment_def plain_adapter_def plain_commit_def Let_def
      NATIVE_COMMIT_MAX_OUTPUT_def same_pointee_def same_object_def same_cell_def)

lemma plain_commit_run:
  "generic_commit_mock_run (Some plain_adapter) 0 1 (Some sample_id) (Some (replicate 0x800 9))
     (Some zero_commit_snapshot)
   = Some (0, Some (replicate 0x800 0),
       Some (zero_commit_snapshot\<lparr>phase1_result := 5, phase1_output_size := 848,
               phase1_complete := True, phase2_result := 5, phase2_complete := True\<rparr>), 2)"
  by (simp add: generic_commit_mock_run_def generic_commit_with_def plain_commit_call
      GENERIC_COMMIT_INPUT0_SIZE_def GENERIC_COMMIT_INPUT1_SIZE_def
      GENERIC_COMMIT_PHASE1_CAPACITY_def c_memory Let_def zero_commit_snapshot_def)

theorem commit_succeeds_iff_both_phases_witness:
  "\<exists>out' s w'. generic_commit_mock_run (Some plain_adapter) 0 1 (Some sample_id)
       (Some (replicate 0x800 9)) (Some zero_commit_snapshot) = Some (0, out', Some s, w') \<and>
     phase2_complete s \<and> phase1_complete s \<and> phase1_output_size s \<noteq> 0"
  using commit_succeeds_iff_both_phases [OF plain_commit_run] plain_commit_run by blast

text \<open>
  C16: A failed commit leaks nothing: whatever phase fails, the whole phase-1 output buffer is zero
  afterwards, its recorded size is 0 and phase 2 is not marked complete.
\<close>

theorem failed_commit_is_wiped:
  assumes "generic_commit_mock_run (Some a) w h (Some t) (Some out) (Some snap)
             = Some (status, out', Some s, w')"
    and "status \<noteq> 0"
  shows "(\<exists>b. out' = Some b \<and> wiped (take GENERIC_COMMIT_PHASE1_CAPACITY b)) \<and>
         phase1_output_size s = 0 \<and> \<not> phase2_complete s"
  using assms(1) [unfolded generic_commit_mock_run_def]
  by (cases rule: adapter_commit.sequence_cases)
     (use assms(2) in \<open>auto simp: zero_commit_snapshot_def adapter_commit.first_output_def\<close>)

theorem failed_commit_is_wiped_witness:
  "\<exists>s. generic_commit_mock_run (Some (plain_adapter\<lparr>abi_initialized := False\<rparr>)) 0 1 (Some sample_id)
       (Some (replicate 0x800 9)) (Some zero_commit_snapshot)
     = Some (NATIVE_INVALID_PARAMETER, Some (replicate 0x800 0), Some s, 0) \<and>
     wiped (take GENERIC_COMMIT_PHASE1_CAPACITY (replicate 0x800 (0 :: byte))) \<and> phase1_output_size s = 0"
proof -
  let ?a = "plain_adapter\<lparr>abi_initialized := False\<rparr>"
  have call: "linux_abi_mock_commit_enrollment (Some ?a) w h (Some t) s0 i0 s1 i1 (Some n) out r
      = Some (NATIVE_INVALID_PARAMETER, Some n, out, r, w)" for w h t s0 i0 s1 i1 n out r
    by (simp add: linux_abi_mock_commit_enrollment_def Let_def)
  have run: "generic_commit_mock_run (Some ?a) 0 1 (Some sample_id) (Some (replicate 0x800 9))
      (Some zero_commit_snapshot)
    = Some (NATIVE_INVALID_PARAMETER, Some (replicate 0x800 0),
        Some (zero_commit_snapshot\<lparr>phase1_status := NATIVE_INVALID_PARAMETER\<rparr>), 0)"
    by (simp add: generic_commit_mock_run_def generic_commit_with_def call
        GENERIC_COMMIT_PHASE1_CAPACITY_def c_memory Let_def zero_commit_snapshot_def
        NATIVE_INVALID_PARAMETER_def)
  have "NATIVE_INVALID_PARAMETER \<noteq> 0" by (simp add: NATIVE_INVALID_PARAMETER_def)
  from failed_commit_is_wiped [OF run this] run show ?thesis by auto
qed

datatype commit_event =
  Commit_call u32 "byte list" u32 "byte list option" u32 "byte list option" u32
    "byte list option" "u32 option"

definition recorded_commit :: "'n commit_native \<Rightarrow> ('n \<times> commit_event list) commit_native" where
  "recorded_commit native = (\<lambda>(w, log) h t s0 i0 s1 i1 capacity out res.
     do {
       (status, n, out', res', w') \<leftarrow> native w h t s0 i0 s1 i1 capacity out res;
       Some (status, n, out', res', (w', log @ [Commit_call h t s0 i0 s1 i1 capacity out res]))
     })"

lemma recorded_commit_log:
  assumes "linux_abi_mock_commit_enrollment (Some a) (w, log) h (Some t) s0 i0 s1 i1 (Some capacity) out res
             = Some (status, n, out', res', (w', log'))"
    and "abi_commit_enrollment a = Some (recorded_commit native)"
    and "commit_guard a s0 i0 s1 i1 capacity out res"
  shows "log' = log @ [Commit_call h t s0 i0 s1 i1 capacity out res]"
  using assms(1) [unfolded commit_called [OF assms(3,2)]]
  by (cases out) (auto simp: recorded_commit_def fault_split split: if_splits)

text \<open>
  C17: The commit sequence enters the native at most twice. The first call carries the token, the
  two fixed inputs, capacity \<open>0x800\<close> and an all-zero buffer; a second one is made exactly when
  phase 1 completed, with the same token and inputs, capacity 0 and no buffer.
\<close>

theorem commit_calls_in_order:
  assumes "generic_commit_mock_run (Some a) (w, []) h (Some t) (Some out) (Some snap)
             = Some (status, out', Some s, (w', log))"
    and "abi_initialized a" and "abi_commit_enrollment a = Some (recorded_commit native)"
  shows "\<exists>zeros. wiped (take GENERIC_COMMIT_PHASE1_CAPACITY zeros) \<and>
    log = Commit_call h t 8 (Some commit_input0) 21 (Some commit_input1) 0x800 (Some zeros) (Some 0)
          # (if phase1_complete s
             then [Commit_call h t 8 (Some commit_input0) 21 (Some commit_input1) 0 None (Some 0)]
             else [])"
proof -
  have inputs: "(of_nat GENERIC_COMMIT_INPUT0_SIZE :: u32) = 8"
    "(of_nat GENERIC_COMMIT_INPUT1_SIZE :: u32) = 21"
    "(of_nat GENERIC_COMMIT_PHASE1_CAPACITY :: u32) = 0x800"
    by (simp_all add: GENERIC_COMMIT_INPUT0_SIZE_def GENERIC_COMMIT_INPUT1_SIZE_def
        GENERIC_COMMIT_PHASE1_CAPACITY_def)
  have guard1: "commit_guard a 8 (Some i0) 21 (Some i1) 0x800 (Some b) (Some r)" for i0 i1 b r
    using assms(2,3) by (simp add: commit_guard_def NATIVE_COMMIT_MAX_OUTPUT_def)
  have guard2: "commit_guard a 8 (Some i0) 21 (Some i1) 0 None (Some r)" for i0 i1 r
    using assms(2,3) by (simp add: commit_guard_def)
  let ?z = "adapter_commit.first_output out"
  let ?c1 = "Commit_call h t 8 (Some commit_input0) 21 (Some commit_input1) 0x800 (Some ?z) (Some 0)"
  note first = recorded_commit_log [OF _ assms(3) guard1]
    and second = recorded_commit_log [OF _ assms(3) guard2]
  have "log = ?c1 # (if phase1_complete s
      then [Commit_call h t 8 (Some commit_input0) 21 (Some commit_input1) 0 None (Some 0)] else [])"
    using assms(1) [unfolded generic_commit_mock_run_def]
  proof (cases rule: adapter_commit.sequence_cases)
    case (phase1_fails s1 n1 b1 r1)
    with first [OF phase1_fails(1) [unfolded adapter_commit.phase1_call_def inputs]]
    show ?thesis by (simp add: zero_commit_snapshot_def)
  next
    case (phase2_fails n1 b1 r1 w1 s2 o2 r2)
    obtain v l where w1: "w1 = (v, l)" by (cases w1)
    show ?thesis
      using first [OF phase2_fails(1) [unfolded adapter_commit.phase1_call_def inputs w1]]
        second [OF phase2_fails(3) [unfolded adapter_commit.phase2_call_def inputs w1]] phase2_fails(7)
      by simp
  next
    case (complete n1 b1 r1 w1 o2 r2)
    obtain v l where w1: "w1 = (v, l)" by (cases w1)
    show ?thesis
      using first [OF complete(1) [unfolded adapter_commit.phase1_call_def inputs w1]]
        second [OF complete(4) [unfolded adapter_commit.phase2_call_def inputs w1]] complete(7)
      by simp
  qed
  then show ?thesis
    by (intro exI [of _ ?z]) (simp add: adapter_commit.first_output_def)
qed

theorem commit_calls_in_order_witness:
  "\<exists>zeros. wiped (take GENERIC_COMMIT_PHASE1_CAPACITY zeros) \<and>
    [Commit_call 1 sample_id 8 (Some commit_input0) 21 (Some commit_input1) 0x800
       (Some (replicate 0x800 0)) (Some 0),
     Commit_call 1 sample_id 8 (Some commit_input0) 21 (Some commit_input1) 0 None (Some 0)]
    = Commit_call 1 sample_id 8 (Some commit_input0) 21 (Some commit_input1) 0x800 (Some zeros) (Some 0)
      # [Commit_call 1 sample_id 8 (Some commit_input0) 21 (Some commit_input1) 0 None (Some 0)]"
proof -
  let ?a = "\<lparr>abi_capture_get_result = None, abi_create_template = None,
    abi_commit_enrollment = Some (recorded_commit plain_commit), abi_initialized = True\<rparr>"
  let ?s = "zero_commit_snapshot\<lparr>phase1_result := 5, phase1_output_size := 848,
    phase1_complete := True, phase2_result := 5, phase2_complete := True\<rparr>"
  let ?log = "[Commit_call 1 sample_id 8 (Some commit_input0) 21 (Some commit_input1) 0x800
       (Some (replicate 0x800 0)) (Some 0),
     Commit_call 1 sample_id 8 (Some commit_input0) 21 (Some commit_input1) 0 None (Some 0)]"
  have run: "generic_commit_mock_run (Some ?a) (0, []) 1 (Some sample_id) (Some (replicate 0x800 9))
     (Some zero_commit_snapshot) = Some (0, Some (replicate 0x800 0), Some ?s, (2, ?log))"
    by (simp add: generic_commit_mock_run_def generic_commit_with_def
        linux_abi_mock_commit_enrollment_def recorded_commit_def plain_commit_def
        GENERIC_COMMIT_INPUT0_SIZE_def GENERIC_COMMIT_INPUT1_SIZE_def
        GENERIC_COMMIT_PHASE1_CAPACITY_def NATIVE_COMMIT_MAX_OUTPUT_def c_memory Let_def
        zero_commit_snapshot_def same_pointee_def same_object_def same_cell_def)
  have a: "abi_initialized ?a" "abi_commit_enrollment ?a = Some (recorded_commit plain_commit)"
    by simp_all
  from commit_calls_in_order [OF run a] show ?thesis by simp
qed

end
