(* ===== verification/Coordinator_Scenarios.thy ===== *)
theory Coordinator_Scenarios
  imports Coordinator_Claims
begin

text \<open>
  The features that both test harnesses feed to a coordinator, and the state it is in after each
  of them, for any callbacks.
\<close>

section \<open>The harness features\<close>

definition harness_id :: "byte list" where
  "harness_id = replicate ENROLLMENT_ID_SIZE 0x31"

definition harness_feature :: "nat \<Rightarrow> byte list" where
  "harness_feature k = replicate FEATURE_CAPACITY (of_nat (0x10 + k))"

definition harness_bytes :: "nat \<Rightarrow> byte list" where
  "harness_bytes k = replicate (100 + k) (of_nat (0x10 + k))"

text \<open>A collecting coordinator with the first \<open>k\<close> of them.\<close>

definition harness_at :: "'u mock_operations \<Rightarrow> nat \<Rightarrow> 'u coordinator \<Rightarrow> bool" where
  "harness_at ops k c \<longleftrightarrow> coordinator_inv c \<and> collecting c \<and> co_operations c = ops
     \<and> co_enrollment_id c = harness_id \<and> co_handle c = 7 \<and> unat (co_buffered_features c) = k
     \<and> co_last_native_status c = 0 \<and> buffered_bytes c = map harness_bytes [0..<k]"

lemma harness_size: "k < 4 \<Longrightarrow> unat (100 + of_nat k :: u32) = 100 + k"
  by (simp add: less_Suc_eq numeral_nat) auto

lemma harness_feature_fits:
  assumes "k < 4"
  shows "(100 + of_nat k :: u32) \<noteq> 0" and "unat (100 + of_nat k :: u32) \<le> FEATURE_CAPACITY"
    and "unat (100 + of_nat k :: u32) \<le> length (harness_feature k)"
    and "take (unat (100 + of_nat k :: u32)) (harness_feature k) = harness_bytes k"
proof -
  note size = harness_size [OF assms]
  show "(100 + of_nat k :: u32) \<noteq> 0" using size by auto
  show "unat (100 + of_nat k :: u32) \<le> FEATURE_CAPACITY"
    and "unat (100 + of_nat k :: u32) \<le> length (harness_feature k)"
    and "take (unat (100 + of_nat k :: u32)) (harness_feature k) = harness_bytes k"
    using assms by (simp_all add: size harness_feature_def harness_bytes_def FEATURE_CAPACITY_def
        min_absorb1 del: replicate.simps)
qed

lemma harness_new:
  assumes "mock_coordinator_new (Some cfg) err True = Some (Some c, e)"
    and "cfg_handle cfg = 7" and "cfg_enrollment_id cfg = Some harness_id"
  shows "harness_at (cfg_operations cfg) 0 c \<and> co_last_error c = ERROR_NONE"
proof -
  have "coordinator_inv c \<and> collecting c \<and> co_buffered_features c = 0"
    using assms(1) by (rule new_coordinator_inv)
  moreover have "co_operations c = cfg_operations cfg \<and> co_enrollment_id c = harness_id
      \<and> co_handle c = 7 \<and> co_last_native_status c = 0 \<and> co_last_error c = ERROR_NONE"
    using assms by (auto simp: mock_coordinator_new_def fault_split Let_def zero_coordinator_def
        harness_id_def split: if_splits)
  ultimately show ?thesis by (simp add: harness_at_def buffered_bytes_def)
qed

lemma harness_same_id: "harness_at ops k c \<Longrightarrow>
    memcmp_eq harness_id (co_enrollment_id c) ENROLLMENT_ID_SIZE = Some True"
  by (simp add: harness_at_def harness_id_def)

lemma harness_live: "harness_at ops k c \<Longrightarrow> \<not> co_terminal c"
  by (simp add: harness_at_def collecting_def)

lemma harness_shape: "harness_at ops k c \<Longrightarrow> coordinator_shape c"
  by (simp add: harness_at_def inv_shape)

text \<open>One of the first three features.\<close>

lemma harness_buffers:
  assumes at: "harness_at ops k c" and k: "k < 3"
  obtains c' where "accept_feature (Some c) u (Some harness_id) (Some (harness_feature k)) (100 + of_nat k)
      = Some (OUTCOME_ACCEPTED_MORE, Some c', u)"
    and "harness_at ops (Suc k) c'" and "co_last_error c' = ERROR_NONE"
proof -
  have k4: "k < 4" using k by simp
  note fits = harness_feature_fits [OF k4]
  have slot: "unat (co_buffered_features c) < BUFFERED_FEATURES"
    using at k by (simp add: harness_at_def BUFFERED_FEATURES_def)
  let ?n = "100 + of_nat k :: u32" and ?c = "buffered_image c (harness_feature k) (100 + of_nat k)"
  have acc: "accept_feature (Some c) u (Some harness_id) (Some (harness_feature k)) ?n
      = Some (OUTCOME_ACCEPTED_MORE, Some ?c, u)"
    by (rule accept_buffers [OF harness_shape [OF at] harness_live [OF at] harness_same_id [OF at]
          fits(1-3) slot])
  have inv: "coordinator_inv c" and coll: "collecting c" using at by (simp_all add: harness_at_def)
  have inv': "coordinator_inv ?c" using accept_keeps_inv [OF inv acc] by simp
  have live': "\<not> co_terminal ?c"
    using harness_live [OF at] by (simp add: buffered_image_def Let_def)
  have "buffered_bytes ?c = buffered_bytes c @ [harness_bytes k]"
    unfolding fits(4) [symmetric]
    by (rule buffered_bytes_append [OF harness_shape [OF at] coll slot fits(2,3)])
  moreover have "unat (co_buffered_features ?c) = Suc k"
    using at k by (simp add: harness_at_def buffered_image_def Let_def unat_word_ariths)
  ultimately have "harness_at ops (Suc k) ?c"
    using at inv' inv_not_terminal [OF inv' live']
    by (simp add: harness_at_def buffered_image_def Let_def)
  moreover have "co_last_error ?c = ERROR_NONE" by (simp add: buffered_image_def Let_def)
  ultimately show thesis using acc that by blast
qed

text \<open>The fourth: the sizes and the first bytes that the callback gets.\<close>

lemma harness_fourth:
  assumes at: "harness_at ops 3 c"
  shows "accept_feature (Some c) u (Some harness_id) (Some (harness_feature 3)) (100 + of_nat 3)
      = create_from_buffered (cleared_status c) u (harness_feature 3) (100 + of_nat 3)"
proof -
  have "(3 :: nat) < 4" by simp
  note fits = harness_feature_fits [OF this]
  have "\<not> unat (co_buffered_features c) < BUFFERED_FEATURES"
    using at by (simp add: harness_at_def BUFFERED_FEATURES_def)
  from accept_fourth [OF harness_live [OF at] harness_same_id [OF at] fits(1,2) this]
  show ?thesis .
qed

lemma harness_arguments:
  assumes at: "harness_at ops 3 c" and i: "i < 4"
  shows "(co_feature_sizes c @ [100 + of_nat 3]) ! i = 100 + of_nat i"
    and "\<exists>row. (feature_rows c @ [harness_feature 3]) ! i = of_nat (0x10 + i) # row"
proof -
  let ?sizes = "co_feature_sizes c" and ?rows = "feature_rows c"
  have len: "length ?sizes = 3" "length ?rows = 3"
    using harness_shape [OF at]
    by (simp_all add: coordinator_shape_def feature_rows_def BUFFERED_FEATURES_def)
  have zip: "map2 (\<lambda>k row. take (unat k) row) ?sizes ?rows = map harness_bytes [0..<3]"
    using map2_take_rows [OF harness_shape [OF at]] at
    by (simp add: harness_at_def BUFFERED_FEATURES_def)
  have both: "?sizes ! i = 100 + of_nat i \<and> (\<exists>row. ?rows ! i = of_nat (0x10 + i) # row)" if "i < 3"
  proof -
    have t: "take (unat (?sizes ! i)) (?rows ! i) = harness_bytes i"
      using arg_cong [OF zip, of "\<lambda>xs. xs ! i"] that len by simp
    have row: "length (?rows ! i) = FEATURE_CAPACITY"
      using that harness_shape [OF at]
      by (simp add: feature_rows_def coordinator_shape_def BUFFERED_FEATURES_def FEATURE_CAPACITY_def)
    have "unat (?sizes ! i) \<le> FEATURE_CAPACITY"
      using at that by (simp add: harness_at_def collecting_def)
    then have "unat (?sizes ! i) = 100 + i"
      using arg_cong [OF t, of length] row by (simp add: harness_bytes_def)
    then have "?sizes ! i = 100 + of_nat i"
      using harness_size [of i] that by (simp add: word_unat_eq_iff)
    moreover have "?rows ! i = harness_bytes i @ drop (unat (?sizes ! i)) (?rows ! i)"
      unfolding t [symmetric] by simp
    then have "?rows ! i = of_nat (0x10 + i) # replicate (99 + i) (of_nat (0x10 + i))
        @ drop (unat (?sizes ! i)) (?rows ! i)"
      by (simp add: harness_bytes_def flip: replicate_Suc append_Cons)
    ultimately show ?thesis by blast
  qed
  obtain m where m: "FEATURE_CAPACITY = Suc m" using FEATURE_CAPACITY_pos gr0_conv_Suc by blast
  have "harness_feature 3 = of_nat (0x10 + 3) # replicate m (of_nat (0x10 + 3))"
    unfolding harness_feature_def m by (rule replicate_Suc)
  then have "\<exists>row. harness_feature 3 = of_nat (0x10 + 3) # row" by blast
  then show "(?sizes @ [100 + of_nat 3]) ! i = 100 + of_nat i"
    and "\<exists>row. (?rows @ [harness_feature 3]) ! i = of_nat (0x10 + i) # row"
    using both i len by (cases "i < 3"; simp add: nth_append less_Suc_eq numeral_nat)+
qed

section \<open>The coordinator's test harness\<close>

definition snapshot_of ::
  "u32 \<Rightarrow> bool \<Rightarrow> u32 \<Rightarrow> bool \<Rightarrow> cv2_error \<Rightarrow> u32 \<Rightarrow> snapshot" where
  "snapshot_of buffered rdy sz term err native =
     \<lparr>snap_buffered_features = buffered, snap_template_ready = rdy, snap_template_size = sz,
      snap_commit_permitted = False, snap_terminal = term, snap_last_error = err,
      snap_last_native_status = native\<rparr>"

lemma harness_snapshot:
  assumes "harness_at ops k c" and "co_last_error c = e" and "k < 4"
  shows "coordinator_snapshot (Some c) = snapshot_of (of_nat k) False 0 False e 0"
proof -
  have "co_buffered_features c = of_nat k"
    using assms(1) by (auto simp: harness_at_def)
  then show ?thesis
    using assms by (simp add: coordinator_snapshot_def snapshot_of_def harness_at_def collecting_def)
qed

lemma harness_snapshot_failed:
  "coordinator_snapshot (Some (failed_image (created_image c status sz tmpl) e))
     = snapshot_of 0 False 0 True e status"
  by (simp add: coordinator_snapshot_def snapshot_of_def failed_image_def created_image_def)

lemma harness_snapshot_ready:
  "coordinator_snapshot (Some (ready_image (created_image (cleared_status c) status sz tmpl) token))
     = snapshot_of 0 True sz True ERROR_NONE status"
  by (simp add: coordinator_snapshot_def snapshot_of_def ready_image_def created_image_def)

definition mock_ops :: "mock_state mock_operations" where
  "mock_ops = \<lparr>op_create_template = Some mock_create_template, op_random_bytes = Some mock_random_bytes\<rparr>"

definition mock_template :: "byte list \<Rightarrow> byte list" where
  "mock_template old = replicate 64 0xa5 @ drop 64 old"

definition mock_token :: "byte list" where
  "mock_token = replicate 4 0x5a @ replicate (ENROLLMENT_ID_SIZE - 4) 0"

lemma mock_template_call:
  assumes at: "harness_at ops 3 c"
  shows "call_create_template mock_create_template st 7 (co_feature_sizes c @ [100 + of_nat 3])
     (feature_rows c @ [harness_feature 3]) (of_nat TEMPLATE_CAPACITY) (co_template_data c) =
   (let st' = st\<lparr>ms_template_calls := ms_template_calls st + 1\<rparr>; tmpl = co_template_data c in
    if ms_scenario st = ''template-error'' then Some (0x59, of_nat TEMPLATE_CAPACITY, tmpl, st')
    else if ms_scenario st = ''template-oversize''
    then Some (0, of_nat (TEMPLATE_CAPACITY + 1), tmpl, st')
    else Some (0, 64, mock_template tmpl, st'))"
proof -
  let ?sizes = "co_feature_sizes c @ [100 + of_nat 3]"
    and ?rows = "feature_rows c @ [harness_feature 3]"
  have len: "length ?sizes = 4" "length ?rows = 4"
    using harness_shape [OF at]
    by (simp_all add: coordinator_shape_def feature_rows_def BUFFERED_FEATURES_def)
  have "check_mock_feature ?sizes (map Some ?rows) i = Some ()" if i: "i < 4" for i
  proof -
    obtain row where "?rows ! i = of_nat (0x10 + i) # row" using harness_arguments(2) [OF at i] by blast
    then show ?thesis
      using harness_arguments(1) [OF at i] i len
      by (simp add: check_mock_feature_def array_get_def del: map_append)
  qed
  then have checks: "those (map (check_mock_feature ?sizes (map Some ?rows)) [0..<TEMPLATE_FEATURES])
      = Some (map (\<lambda>_. ()) [0..<TEMPLATE_FEATURES])"
    by (intro those_map_Some) (simp add: TEMPLATE_FEATURES_def)
  have n: "(100 + of_nat 3 :: u32) = 103" by simp
  have "length (co_template_data c) = TEMPLATE_CAPACITY"
    using harness_shape [OF at] by (simp add: coordinator_shape_def)
  then show ?thesis
    by (simp add: call_create_template_def mock_create_template_def checks [unfolded n] Let_def memset_obj_def
        same_object_def TEMPLATE_CAPACITY_def mock_template_def del: map_append)
qed

text \<open>
  What the fourth feature ends in, by scenario: the outcome, the snapshot and the number of
  random calls.
\<close>

definition mock_ending :: "string \<Rightarrow> outcome \<times> snapshot \<times> u32" where
  "mock_ending scenario =
     (if scenario = ''template-error''
      then (OUTCOME_REJECTED, snapshot_of 0 False 0 True ERROR_TEMPLATE_STATUS 0x59, 0)
      else if scenario = ''template-oversize''
      then (OUTCOME_REJECTED, snapshot_of 0 False 0 True ERROR_TEMPLATE_SIZE 0, 0)
      else if scenario = ''random-error''
      then (OUTCOME_REJECTED, snapshot_of 0 False 0 True ERROR_TOKEN_RANDOM 0, 1)
      else (OUTCOME_TEMPLATE_READY_COMMIT_BLOCKED, snapshot_of 0 True 64 True ERROR_NONE 0, 1))"

lemma mock_random_call:
  "call_random_bytes mock_random_bytes st (replicate ENROLLMENT_ID_SIZE 0) TOKEN_RANDOM_PREFIX_SIZE =
     (let st' = st\<lparr>ms_random_calls := ms_random_calls st + 1\<rparr> in
      if ms_scenario st = ''random-error'' then Some (-1, replicate ENROLLMENT_ID_SIZE 0, st')
      else Some (0, mock_token, st'))"
  by (simp add: mock_token_def call_random_bytes_def mock_random_bytes_def Let_def memset_obj_def same_object_def
      TOKEN_RANDOM_PREFIX_SIZE_def ENROLLMENT_ID_SIZE_def)

lemma mock_fourth:
  assumes at: "harness_at mock_ops 3 c" and ending: "mock_ending (ms_scenario st) = (r, s, n)"
  obtains c' where "accept_feature (Some c) st (Some harness_id) (Some (harness_feature 3)) (100 + of_nat 3)
      = Some (r, Some c', st\<lparr>ms_template_calls := ms_template_calls st + 1,
                             ms_random_calls := ms_random_calls st + n\<rparr>)"
    and "coordinator_snapshot (Some c') = s" and "co_terminal c'"
proof -
  let ?c = "cleared_status c"
  have shape: "coordinator_shape ?c" and live: "\<not> co_terminal ?c"
    using harness_shape [OF at] harness_live [OF at] by (simp_all add: coordinator_shape_def)
  have ops: "op_create_template (co_operations ?c) = Some mock_create_template"
    "op_random_bytes (co_operations ?c) = Some mock_random_bytes"
    using at by (simp_all add: harness_at_def mock_ops_def)
  have same: "co_handle ?c = 7" "co_feature_sizes ?c = co_feature_sizes c"
    "feature_rows ?c = feature_rows c" "co_template_data ?c = co_template_data c"
    using at by (simp_all add: harness_at_def feature_rows_def)
  note eq = create_from_buffered_eq [OF shape live ops, unfolded same, where n = "100 + of_nat 3" and feature = "harness_feature 3",
      unfolded mock_template_call [OF at] mock_random_call]
  have big: "TEMPLATE_CAPACITY < unat (1 + of_nat TEMPLATE_CAPACITY :: u32)"
    and small: "(64 :: u32) \<noteq> 0" "\<not> TEMPLATE_CAPACITY < unat (64 :: u32)"
      "\<not> TEMPLATE_CAPACITY < 64"
    and bad: "(0x59 :: u32) \<noteq> 0"
    by (simp_all add: TEMPLATE_CAPACITY_def)
  have terminal: "co_terminal (failed_image k e)" "co_terminal (ready_image k t)"
    for k :: "mock_state coordinator" and e t
    by (simp_all add: failed_image_def ready_image_def)
  have size103: "(100 + of_nat 3 :: u32) = 103" by simp
  note run = harness_fourth [OF at, of st, unfolded eq, unfolded size103] Let_def big small bad bind.bind_lunit prod.case
    mock_state.simps if_True if_False if_not_P refl not_True_eq_False simp_thms
  define st1 where "st1 = st\<lparr>ms_template_calls := ms_template_calls st + 1\<rparr>"
  have calls: "st\<lparr>ms_template_calls := ms_template_calls st + 1, ms_random_calls := ms_random_calls st + n\<rparr>
      = (if n = 0 then st1 else st1\<lparr>ms_random_calls := ms_random_calls st1 + n\<rparr>)"
    by (cases st) (simp add: st1_def)
  show thesis
  proof (cases "ms_scenario st = ''template-error''")
    case True
    with ending show thesis
      by (intro that [of "failed_image (created_image ?c 0x59 (of_nat TEMPLATE_CAPACITY)
            (co_template_data c)) ERROR_TEMPLATE_STATUS"])
         (auto simp: run mock_ending_def terminal harness_snapshot_failed calls st1_def)
  next
    case status: False
    show thesis
    proof (cases "ms_scenario st = ''template-oversize''")
      case True
      with ending show thesis
        by (intro that [of "failed_image (created_image ?c 0 (of_nat (TEMPLATE_CAPACITY + 1))
              (co_template_data c)) ERROR_TEMPLATE_SIZE"])
           (auto simp: run mock_ending_def terminal harness_snapshot_failed calls st1_def)
    next
      case False
      let ?c1 = "created_image ?c 0 64 (mock_template (co_template_data c))"
      show thesis
      proof (cases "ms_scenario st = ''random-error''")
        case True
        with ending show thesis
          by (intro that [of "failed_image ?c1 ERROR_TOKEN_RANDOM"])
             (auto simp: run mock_ending_def terminal harness_snapshot_failed calls st1_def)
      next
        case random: False
        with status False ending show thesis
          by (intro that [of "ready_image ?c1 mock_token"])
             (auto simp: run mock_ending_def terminal harness_snapshot_ready calls st1_def)
      qed
    qed
  qed
qed

section \<open>The scenarios of the coordinator's harness\<close>

lemma feature_loop_harness:
  "feature_loop (k # rest) co st harness_id =
     do {
       (r, co, st) \<leftarrow> accept_feature co st (Some harness_id) (Some (harness_feature k)) (100 + of_nat k);
       if ms_scenario st = ''three-only'' \<and> k = 2 then Some ([Feature_outcome (k + 1) r], co, st)
       else do {
         (ls, co, st) \<leftarrow> feature_loop rest co st harness_id;
         Some (Feature_outcome (k + 1) r # ls, co, st)
       }
     }"
  by (simp add: harness_feature_def)

declare feature_loop.simps(2) [simp del]

text \<open>Lines printed before those of a run.\<close>

definition after_lines :: "'l list \<Rightarrow> ('l list \<times> 's) option \<Rightarrow> ('l list \<times> 's) option" where
  "after_lines ls run = map_option (\<lambda>(ls', s). (ls @ ls', s)) run"

lemma after_lines_simps [simp]:
  "after_lines ls None = None"
  "after_lines ls (Some (ls', s)) = Some (ls @ ls', s)"
  "after_lines ls (after_lines ls' run) = after_lines (ls @ ls') run"
  by (simp_all add: after_lines_def) (cases run; auto)

lemma feature_loop_buffers:
  assumes "harness_at mock_ops k c" and "k < 3" and "m = Suc k"
  obtains c' where "harness_at mock_ops m c'" and "co_last_error c' = ERROR_NONE"
    and "\<And>rest. feature_loop (k # rest) (Some c) st harness_id =
      (if ms_scenario st = ''three-only'' \<and> k = 2
       then Some ([Feature_outcome m OUTCOME_ACCEPTED_MORE], Some c', st)
       else after_lines [Feature_outcome m OUTCOME_ACCEPTED_MORE]
              (feature_loop rest (Some c') st harness_id))"
proof -
  from harness_buffers [OF assms(1,2), of st] obtain c' where step: "accept_feature (Some c) st
      (Some harness_id) (Some (harness_feature k)) (100 + of_nat k) = Some (OUTCOME_ACCEPTED_MORE, Some c', st)"
    and c': "harness_at mock_ops (Suc k) c'" "co_last_error c' = ERROR_NONE" .
  have "feature_loop (k # rest) (Some c) st harness_id =
      (if ms_scenario st = ''three-only'' \<and> k = 2
       then Some ([Feature_outcome m OUTCOME_ACCEPTED_MORE], Some c', st)
       else after_lines [Feature_outcome m OUTCOME_ACCEPTED_MORE]
              (feature_loop rest (Some c') st harness_id))" for rest
    unfolding feature_loop_harness step
    by (cases "feature_loop rest (Some c') st harness_id") (simp_all add: assms(3) split: prod.splits)
  with c' show thesis using that assms(3) by blast
qed

definition three_accepted :: "harness_line list" where
  "three_accepted = map (\<lambda>k. Feature_outcome k OUTCOME_ACCEPTED_MORE) [1, 2, 3]"

lemma feature_loop_first_three:
  assumes "harness_at mock_ops 0 c"
  obtains c' where "harness_at mock_ops 3 c'" and "co_last_error c' = ERROR_NONE"
    and "feature_loop [0, 1, 2, 3] (Some c) st harness_id =
      (if ms_scenario st = ''three-only'' then Some (three_accepted, Some c', st)
       else after_lines three_accepted (feature_loop [3] (Some c') st harness_id))"
proof -
  have m: "1 = Suc 0" "2 = Suc 1" "3 = Suc 2" and k: "0 < (3 :: nat)" "1 < (3 :: nat)" "2 < (3 :: nat)"
    by simp_all
  obtain c1 where c1: "harness_at mock_ops 1 c1" and l1: "\<And>rest.
      feature_loop (0 # rest) (Some c) st harness_id = after_lines [Feature_outcome 1 OUTCOME_ACCEPTED_MORE]
        (feature_loop rest (Some c1) st harness_id)"
    by (rule feature_loop_buffers [OF assms k(1) m(1), of st]) auto
  obtain c2 where c2: "harness_at mock_ops 2 c2" and l2: "\<And>rest.
      feature_loop (1 # rest) (Some c1) st harness_id = after_lines [Feature_outcome 2 OUTCOME_ACCEPTED_MORE]
        (feature_loop rest (Some c2) st harness_id)"
    by (rule feature_loop_buffers [OF c1 k(2) m(2), of st]) auto
  show thesis
  proof (rule feature_loop_buffers [OF c2 k(3) m(3), of st])
    fix c3
    assume c3: "harness_at mock_ops 3 c3" "co_last_error c3 = ERROR_NONE"
      and l3: "\<And>rest. feature_loop (2 # rest) (Some c2) st harness_id =
        (if ms_scenario st = ''three-only'' \<and> (2 :: nat) = 2
         then Some ([Feature_outcome 3 OUTCOME_ACCEPTED_MORE], Some c3, st)
         else after_lines [Feature_outcome 3 OUTCOME_ACCEPTED_MORE]
                (feature_loop rest (Some c3) st harness_id))"
    show thesis
      by (rule that [OF c3]) (simp only: l1 l2 l3; simp add: three_accepted_def)
  qed
qed

lemma harness_indices: "[0..<TEMPLATE_FEATURES] = [0, 1, 2, 3]"
  by (simp add: TEMPLATE_FEATURES_def upt_rec)

lemma feature_loop_runs:
  assumes "harness_at mock_ops 0 c" and "ms_scenario st \<noteq> ''three-only''"
    and "mock_ending (ms_scenario st) = (r, s, n)"
  obtains c' where "feature_loop [0..<TEMPLATE_FEATURES] (Some c) st harness_id =
      Some (three_accepted @ [Feature_outcome 4 r], Some c',
            st\<lparr>ms_template_calls := ms_template_calls st + 1,
               ms_random_calls := ms_random_calls st + n\<rparr>)"
    and "coordinator_snapshot (Some c') = s" and "co_terminal c'"
proof -
  from feature_loop_first_three [OF assms(1), of st] assms(2) obtain c3 where c3: "harness_at mock_ops 3 c3"
    and loop: "feature_loop [0, 1, 2, 3] (Some c) st harness_id =
        after_lines three_accepted (feature_loop [3] (Some c3) st harness_id)" by metis
  from mock_fourth [OF c3 assms(3)] obtain c' where fourth:
    "accept_feature (Some c3) st (Some harness_id) (Some (harness_feature 3)) (100 + of_nat 3)
      = Some (r, Some c', st\<lparr>ms_template_calls := ms_template_calls st + 1,
                             ms_random_calls := ms_random_calls st + n\<rparr>)"
    and c': "coordinator_snapshot (Some c') = s" "co_terminal c'" .
  show thesis
    by (rule that [OF _ c']) (unfold harness_indices loop, unfold feature_loop_harness fourth, simp)
qed

section \<open>The printed lines\<close>

definition harness_start :: "string \<Rightarrow> mock_state" where
  "harness_start scenario = \<lparr>ms_scenario = scenario, ms_template_calls = 0, ms_random_calls = 0\<rparr>"

definition snapshot_report :: "string \<Rightarrow> snapshot \<Rightarrow> u32 \<Rightarrow> u32 \<Rightarrow> harness_line" where
  "snapshot_report label s template_calls random_calls =
     Snapshot_line label (snap_buffered_features s) (snap_template_ready s) (snap_template_size s)
       (snap_commit_permitted s) (snap_terminal s) (error_name (error_code (snap_last_error s)))
       (snap_last_native_status s) template_calls random_calls"

lemma snapshot_line_report:
  "snapshot_line label co st = snapshot_report label (coordinator_snapshot co)
     (ms_template_calls st) (ms_random_calls st)"
  by (simp add: snapshot_line_def snapshot_report_def Let_def)

text \<open>The scenarios in which there is a coordinator.\<close>

lemma harness_coordinator:
  assumes "scenario \<noteq> ''disabled''" and "scenario \<noteq> ''missing-operations''"
  obtains c where "mock_coordinator_new (Some (harness_config scenario harness_id)) (Some ERROR_NONE) True
      = Some (Some c, Some ERROR_NONE)" and "harness_at mock_ops 0 c"
proof -
  let ?new = "mock_coordinator_new (Some (harness_config scenario harness_id)) (Some ERROR_NONE) True"
  obtain c where c: "?new = Some (Some c, Some ERROR_NONE)"
    using assms by (simp add: mock_coordinator_new_def new_error_def harness_config_def Let_def
        zero_coordinator_def memcpy_at_def harness_id_def)
  have "cfg_handle (harness_config scenario harness_id) = 7"
    "cfg_enrollment_id (harness_config scenario harness_id) = Some harness_id"
    "cfg_operations (harness_config scenario harness_id) = mock_ops"
    using assms by (simp_all add: harness_config_def mock_ops_def)
  with harness_new [OF c] c show thesis by (metis that)
qed

text \<open>
  \<open>main\<close> after the coordinator exists, for the scenarios that reach the loop: lines before the
  loop, the loop and the last snapshot, lines of the request after a finished template.
\<close>

lemma main_plain:
  assumes "harness_at mock_ops 0 c" and "ms_scenario st = ''template-error'' \<or>
    ms_scenario st = ''template-oversize'' \<or> ms_scenario st = ''random-error'' \<or>
    ms_scenario st = ''id-mismatch'' \<or> ms_scenario st = ''happy''"
    and "mock_ending (ms_scenario st) = (r, s, n)"
    and "ms_template_calls st = 0" "ms_random_calls st = 0"
  obtains c' st' where "feature_loop [0..<TEMPLATE_FEATURES] (Some c) st harness_id =
      Some (three_accepted @ [Feature_outcome 4 r], Some c', st')"
    and "snapshot_line label (Some c') st' = snapshot_report label s 1 n"
    and "accept_feature (Some c') st' (Some harness_id) (Some (replicate FEATURE_CAPACITY 0x14)) 104
      = Some (OUTCOME_REJECTED, Some (c'\<lparr>co_last_error := ERROR_TERMINAL\<rparr>), st')"
    and "snapshot_line label' (Some (c'\<lparr>co_last_error := ERROR_TERMINAL\<rparr>)) st'
      = snapshot_report label' (s\<lparr>snap_last_error := ERROR_TERMINAL\<rparr>) 1 n"
proof -
  have "ms_scenario st \<noteq> ''three-only''" using assms(2) by auto
  define st' where "st' = st\<lparr>ms_template_calls := ms_template_calls st + 1,
      ms_random_calls := ms_random_calls st + n\<rparr>"
  have calls: "ms_template_calls st' = 1" "ms_random_calls st' = n"
    by (simp_all add: st'_def assms(4,5))
  from feature_loop_runs [OF assms(1) \<open>ms_scenario st \<noteq> ''three-only''\<close> assms(3), folded st'_def]
  obtain c' where run: "feature_loop [0..<TEMPLATE_FEATURES] (Some c) st harness_id =
      Some (three_accepted @ [Feature_outcome 4 r], Some c', st')"
    and c': "coordinator_snapshot (Some c') = s" "co_terminal c'" .
  have last: "coordinator_snapshot (Some (c'\<lparr>co_last_error := ERROR_TERMINAL\<rparr>))
      = s\<lparr>snap_last_error := ERROR_TERMINAL\<rparr>"
    unfolding c'(1) [symmetric] by (simp add: coordinator_snapshot_def Let_def)
  show thesis
    by (rule that [OF run]) (simp_all only: snapshot_line_report calls c'(1) last accept_when_terminal [OF c'(2)])
qed

lemma harness_locals:
  "replicate ENROLLMENT_ID_SIZE 0x31 = harness_id"
  "\<lparr>ms_scenario = scenario, ms_template_calls = 0, ms_random_calls = 0\<rparr> = harness_start scenario"
  "ms_scenario (harness_start scenario) = scenario"
  "ms_template_calls (harness_start scenario) = 0" "ms_random_calls (harness_start scenario) = 0"
  by (simp_all add: harness_id_def harness_start_def)

lemma failing_scenarios:
  assumes "scenario = ''template-error'' \<or> scenario = ''template-oversize'' \<or> scenario = ''random-error''"
    and "mock_ending scenario = (r, s, n)"
  shows "coordinator_harness_main stack scenario =
    Some (three_accepted @ [Feature_outcome 4 r, snapshot_report ''final'' s 1 n], 0)"
proof -
  have sc: "scenario \<noteq> ''disabled''" "scenario \<noteq> ''missing-operations''" "scenario \<noteq> ''oversize''"
    "scenario \<noteq> ''id-mismatch''" "scenario \<noteq> ''happy''" using assms(1) by auto
  obtain c where c: "mock_coordinator_new (Some (harness_config scenario harness_id)) (Some ERROR_NONE) True
      = Some (Some c, Some ERROR_NONE)" "harness_at mock_ops 0 c"
    using harness_coordinator [OF sc(1,2)] .
  obtain c' st' where run: "feature_loop [0..<TEMPLATE_FEATURES] (Some c) (harness_start scenario) harness_id =
      Some (three_accepted @ [Feature_outcome 4 r], Some c', st')"
    and snap: "snapshot_line ''final'' (Some c') st' = snapshot_report ''final'' s 1 n"
    by (rule main_plain [OF c(2), of "harness_start scenario" r s n "''final''"])
       (use assms in \<open>auto simp: harness_locals\<close>)
  show ?thesis
    by (simp add: coordinator_harness_main_def harness_locals Let_def c(1) run snap sc)
qed

lemma happy_scenario:
  "coordinator_harness_main stack ''happy'' =
    Some (three_accepted @ [Feature_outcome 4 OUTCOME_TEMPLATE_READY_COMMIT_BLOCKED,
       snapshot_report ''final'' (snapshot_of 0 True 64 True ERROR_NONE 0) 1 1,
       Post_ready_outcome OUTCOME_REJECTED,
       snapshot_report ''post-ready'' (snapshot_of 0 True 64 True ERROR_TERMINAL 0) 1 1], 0)"
proof -
  obtain c where c: "mock_coordinator_new (Some (harness_config ''happy'' harness_id)) (Some ERROR_NONE) True
      = Some (Some c, Some ERROR_NONE)" "harness_at mock_ops 0 c"
    by (rule harness_coordinator [of "''happy''"]) auto
  let ?s = "snapshot_of 0 True 64 True ERROR_NONE 0"
  have s: "?s\<lparr>snap_last_error := ERROR_TERMINAL\<rparr> = snapshot_of 0 True 64 True ERROR_TERMINAL 0"
    by (simp add: snapshot_of_def)
  obtain c' st' where run: "feature_loop [0..<TEMPLATE_FEATURES] (Some c) (harness_start ''happy'') harness_id =
      Some (three_accepted @ [Feature_outcome 4 OUTCOME_TEMPLATE_READY_COMMIT_BLOCKED], Some c', st')"
    and snap: "snapshot_line ''final'' (Some c') st' = snapshot_report ''final'' ?s 1 1"
    and post: "accept_feature (Some c') st' (Some harness_id) (Some (replicate FEATURE_CAPACITY 0x14)) 104
      = Some (OUTCOME_REJECTED, Some (c'\<lparr>co_last_error := ERROR_TERMINAL\<rparr>), st')"
    and last: "snapshot_line ''post-ready'' (Some (c'\<lparr>co_last_error := ERROR_TERMINAL\<rparr>)) st'
      = snapshot_report ''post-ready'' (?s\<lparr>snap_last_error := ERROR_TERMINAL\<rparr>) 1 1"
    by (rule main_plain [OF c(2), of "harness_start ''happy''" OUTCOME_TEMPLATE_READY_COMMIT_BLOCKED ?s 1
          "''final''" "''post-ready''"]) (auto simp: harness_locals mock_ending_def)
  show ?thesis
    by (simp add: coordinator_harness_main_def harness_locals Let_def c(1) run snap post last s)
qed

lemma three_only_scenario:
  "coordinator_harness_main stack ''three-only'' =
    Some (three_accepted @ [snapshot_report ''final'' (snapshot_of 3 False 0 False ERROR_NONE 0) 0 0], 0)"
proof -
  obtain c where c: "mock_coordinator_new (Some (harness_config ''three-only'' harness_id)) (Some ERROR_NONE) True
      = Some (Some c, Some ERROR_NONE)" "harness_at mock_ops 0 c"
    by (rule harness_coordinator [of "''three-only''"]) auto
  obtain c3 where c3: "harness_at mock_ops 3 c3" "co_last_error c3 = ERROR_NONE"
    and run: "feature_loop [0, 1, 2, 3] (Some c) (harness_start ''three-only'') harness_id =
      Some (three_accepted, Some c3, harness_start ''three-only'')"
    by (rule feature_loop_first_three [OF c(2), of "harness_start ''three-only''"])
       (simp add: harness_locals)
  have "snapshot_line ''final'' (Some c3) (harness_start ''three-only'')
      = snapshot_report ''final'' (snapshot_of 3 False 0 False ERROR_NONE 0) 0 0"
    using harness_snapshot [OF c3] by (simp add: snapshot_line_report harness_locals)
  then show ?thesis
    by (simp add: coordinator_harness_main_def harness_locals Let_def c(1) harness_indices run
        del: One_nat_def)
qed

lemma mismatch_scenario:
  "coordinator_harness_main stack ''id-mismatch'' =
    Some ([Mismatch_outcome OUTCOME_REJECTED,
       snapshot_report ''after-mismatch'' (snapshot_of 0 False 0 False ERROR_ID_MISMATCH 0) 0 0]
     @ three_accepted @ [Feature_outcome 4 OUTCOME_TEMPLATE_READY_COMMIT_BLOCKED,
       snapshot_report ''final'' (snapshot_of 0 True 64 True ERROR_NONE 0) 1 1], 0)"
proof -
  let ?st = "harness_start ''id-mismatch''" and ?wrong = "replicate ENROLLMENT_ID_SIZE 0x32 :: byte list"
  obtain c where c: "mock_coordinator_new (Some (harness_config ''id-mismatch'' harness_id)) (Some ERROR_NONE) True
      = Some (Some c, Some ERROR_NONE)" "harness_at mock_ops 0 c"
    by (rule harness_coordinator [of "''id-mismatch''"]) auto
  let ?c = "c\<lparr>co_last_error := ERROR_ID_MISMATCH\<rparr>"
  have "memcmp_eq ?wrong (co_enrollment_id c) ENROLLMENT_ID_SIZE = Some False"
    using c(2) by (simp add: harness_at_def harness_id_def ENROLLMENT_ID_SIZE_def)
  then have rejected: "accept_feature (Some c) ?st (Some ?wrong) (Some (replicate FEATURE_CAPACITY 0x10)) 100
      = Some (OUTCOME_REJECTED, Some ?c, ?st)"
    by (rule accept_mismatch [OF harness_live [OF c(2)]])
  have "coordinator_inv ?c"
    using accept_keeps_inv [OF _ rejected] c(2) by (simp add: harness_at_def)
  then have at: "harness_at mock_ops 0 ?c"
    using c(2) by (simp add: harness_at_def collecting_def buffered_bytes_def feature_rows_def)
  have first: "snapshot_line ''after-mismatch'' (Some ?c) ?st
      = snapshot_report ''after-mismatch'' (snapshot_of 0 False 0 False ERROR_ID_MISMATCH 0) 0 0"
    using harness_snapshot [OF at] by (simp add: snapshot_line_report harness_locals)
  obtain c' st' where run: "feature_loop [0..<TEMPLATE_FEATURES] (Some ?c) ?st harness_id =
      Some (three_accepted @ [Feature_outcome 4 OUTCOME_TEMPLATE_READY_COMMIT_BLOCKED], Some c', st')"
    and snap: "snapshot_line ''final'' (Some c') st'
      = snapshot_report ''final'' (snapshot_of 0 True 64 True ERROR_NONE 0) 1 1"
    by (rule main_plain [OF at, of ?st OUTCOME_TEMPLATE_READY_COMMIT_BLOCKED
          "snapshot_of 0 True 64 True ERROR_NONE 0" 1 "''final''"])
       (auto simp: harness_locals mock_ending_def)
  show ?thesis
    by (simp add: coordinator_harness_main_def harness_locals Let_def c(1) rejected first run snap)
qed

lemma oversize_scenario:
  "coordinator_harness_main stack ''oversize'' =
    Some ([Oversize_outcome OUTCOME_REJECTED,
       snapshot_report ''after-oversize'' (snapshot_of 0 False 0 True ERROR_FEATURE_SIZE 0) 0 0], 0)"
proof -
  let ?st = "harness_start ''oversize''" and ?n = "1 + of_nat FEATURE_CAPACITY :: u32"
  obtain c where c: "mock_coordinator_new (Some (harness_config ''oversize'' harness_id)) (Some ERROR_NONE) True
      = Some (Some c, Some ERROR_NONE)" "harness_at mock_ops 0 c"
    by (rule harness_coordinator [of "''oversize''"]) auto
  have "?n = 0 \<or> FEATURE_CAPACITY < unat ?n" by (simp add: FEATURE_CAPACITY_def)
  from accept_bad_size [OF harness_shape [OF c(2)] harness_live [OF c(2)] harness_same_id [OF c(2)] this]
  have rejected: "accept_feature (Some c) ?st (Some harness_id) (Some stack) ?n
      = Some (OUTCOME_REJECTED, Some (failed_image c ERROR_FEATURE_SIZE), ?st)" .
  have "snapshot_line ''after-oversize'' (Some (failed_image c ERROR_FEATURE_SIZE)) ?st
      = snapshot_report ''after-oversize'' (snapshot_of 0 False 0 True ERROR_FEATURE_SIZE 0) 0 0"
    using c(2) by (simp add: snapshot_line_report harness_locals coordinator_snapshot_def snapshot_of_def
        failed_image_def harness_at_def)
  then show ?thesis
    by (simp add: coordinator_harness_main_def harness_locals Let_def c(1) rejected)
qed

lemma refused_scenarios:
  "coordinator_harness_main stack ''disabled'' = Some ([Init_failed ''mock-mode-required'' 0 0], 0)"
  "coordinator_harness_main stack ''missing-operations'' = Some ([Init_failed ''invalid-argument'' 0 0], 0)"
  by (simp_all add: coordinator_harness_main_def harness_config_def mock_coordinator_new_def new_error_def
      error_name_def Let_def del: replicate.simps)

end
