(* ===== verification/Harness_Claims.thy ===== *)
theory Harness_Claims
  imports Abi_Harness Abi_Correct Coordinator_Scenarios
begin

text \<open>
  The scenarios of the two test harnesses, \<open>tests/fixtures/bcm5880_coordinator_harness.c\<close> and
  \<open>tests/fixtures/bcm5880_linux_abi_adapter_harness.c\<close>, on the models of the harnesses and of the
  code under test together.
\<close>

lemma counting_bytes_length [simp]: "length (counting_bytes b) = ENROLLMENT_ID_SIZE"
  by (simp add: counting_bytes_def)

























section \<open>Properties\<close>


text \<open>C27:
  The coordinator's harness prints, for every scenario of
  \<open>tests/test_bcm5880_enrollment_coordinator.py\<close> and whatever its uninitialised local buffer
  holds, the lines that the test suite expects: label, buffered features, ready, template size,
  commit permitted, terminal, error, native status, and the calls of the two callbacks.\<close>

theorem coordinator_harness_scenarios:
  "map (coordinator_harness_main stack) [''three-only'', ''happy'', ''id-mismatch'', ''oversize'',
       ''template-error'', ''template-oversize'', ''random-error'', ''disabled'',
       ''missing-operations''] =
   [Some (three_accepted
      @ [Snapshot_line ''final'' 3 False 0 False False ''none'' 0 0 0], 0),
    Some (three_accepted @ [Feature_outcome 4 OUTCOME_TEMPLATE_READY_COMMIT_BLOCKED,
       Snapshot_line ''final'' 0 True 64 False True ''none'' 0 1 1,
       Post_ready_outcome OUTCOME_REJECTED,
       Snapshot_line ''post-ready'' 0 True 64 False True ''terminal'' 0 1 1], 0),
    Some ([Mismatch_outcome OUTCOME_REJECTED,
       Snapshot_line ''after-mismatch'' 0 False 0 False False ''id-mismatch'' 0 0 0]
      @ three_accepted @ [Feature_outcome 4 OUTCOME_TEMPLATE_READY_COMMIT_BLOCKED,
       Snapshot_line ''final'' 0 True 64 False True ''none'' 0 1 1], 0),
    Some ([Oversize_outcome OUTCOME_REJECTED,
       Snapshot_line ''after-oversize'' 0 False 0 False True ''feature-size'' 0 0 0], 0),
    Some (three_accepted @ [Feature_outcome 4 OUTCOME_REJECTED,
       Snapshot_line ''final'' 0 False 0 False True ''template-status'' 0x59 1 0], 0),
    Some (three_accepted @ [Feature_outcome 4 OUTCOME_REJECTED,
       Snapshot_line ''final'' 0 False 0 False True ''template-size'' 0 1 0], 0),
    Some (three_accepted @ [Feature_outcome 4 OUTCOME_REJECTED,
       Snapshot_line ''final'' 0 False 0 False True ''token-random'' 0 1 1], 0),
    Some ([Init_failed ''mock-mode-required'' 0 0], 0),
    Some ([Init_failed ''invalid-argument'' 0 0], 0)]"
proof -
  note ending = mock_ending_def
  have "coordinator_harness_main stack ''template-error'' = Some (three_accepted @
      [Feature_outcome 4 OUTCOME_REJECTED, snapshot_report ''final''
         (snapshot_of 0 False 0 True ERROR_TEMPLATE_STATUS 0x59) 1 0], 0)"
    by (rule failing_scenarios) (simp_all add: ending)
  moreover have "coordinator_harness_main stack ''template-oversize'' = Some (three_accepted @
      [Feature_outcome 4 OUTCOME_REJECTED, snapshot_report ''final''
         (snapshot_of 0 False 0 True ERROR_TEMPLATE_SIZE 0) 1 0], 0)"
    by (rule failing_scenarios) (simp_all add: ending)
  moreover have "coordinator_harness_main stack ''random-error'' = Some (three_accepted @
      [Feature_outcome 4 OUTCOME_REJECTED, snapshot_report ''final''
         (snapshot_of 0 False 0 True ERROR_TOKEN_RANDOM 0) 1 1], 0)"
    by (rule failing_scenarios) (simp_all add: ending)
  moreover have "snapshot_report label (snapshot_of b rdy n ended e status) t r =
      Snapshot_line label b rdy n False ended (error_name (error_code e)) status t r"
    for label b rdy n ended e status t r
    by (simp add: snapshot_report_def snapshot_of_def)
  ultimately show ?thesis
    by (simp add: three_only_scenario happy_scenario mismatch_scenario oversize_scenario refused_scenarios
        error_name_def)
qed

end
