(* ===== verification/Process_World.thy ===== *)
theory Process_World
  imports Cv2_Prelude
begin

text \<open>
  The process the preload libraries live in: byte-addressed memory, the dynamic loader and the
  file system as the interposers see them, and the text of numbers in their log lines.

  Memory is a partial map: an access outside of it is a fault. The loader, the file system and
  the driver's functions are not part of the sources; they are the fields of \<open>dso_world\<close>.
  Addresses are 64-bit words and \<open>NULL\<close> is 0.
\<close>

section \<open>Memory\<close>

type_synonym heap = "ptr \<rightharpoonup> byte"

definition mem_read :: "heap \<Rightarrow> ptr \<Rightarrow> nat \<Rightarrow> byte list option" where
  "mem_read h p n = those (map (\<lambda>i. h (p + of_nat i)) [0..<n])"

fun mem_write :: "heap \<Rightarrow> ptr \<Rightarrow> byte list \<Rightarrow> heap option" where
  "mem_write h p [] = Some h"
| "mem_write h p (b # bs) =
     (if h p = None then None else mem_write (h(p \<mapsto> b)) (p + 1) bs)"

lemma those_Some_length: "those xs = Some ys \<Longrightarrow> length ys = length xs"
proof (induction xs arbitrary: ys)
  case (Cons x xs)
  then show ?case by (auto split: option.splits)
qed simp

lemma mem_read_length: "mem_read h p n = Some bs \<Longrightarrow> length bs = n"
  by (auto simp: mem_read_def dest: those_Some_length)

lemma mem_read_nth:
  "mem_read h p n = Some bs \<Longrightarrow> i < n \<Longrightarrow> h (p + of_nat i) = Some (bs ! i)"
proof -
  have gen: "those xs = Some ys \<Longrightarrow> j < length xs \<Longrightarrow> xs ! j = Some (ys ! j)"
    for xs :: "byte option list" and ys j
    by (induction xs arbitrary: ys j) (auto simp: nth_Cons' split: option.splits)
  assume "mem_read h p n = Some bs" and "i < n"
  then show ?thesis using gen [of "map (\<lambda>i. h (p + of_nat i)) [0..<n]" bs i]
    by (simp add: mem_read_def)
qed

lemma mem_read_intro:
  assumes "length bs = n" and "\<And>i. i < n \<Longrightarrow> h (p + of_nat i) = Some (bs ! i)"
  shows "mem_read h p n = Some bs"
proof -
  have "map (\<lambda>i. h (p + of_nat i)) [0..<n] = map Some bs"
    using assms by (intro nth_equalityI) simp_all
  moreover have "those (map Some bs) = Some bs" by (induction bs) simp_all
  ultimately show ?thesis by (simp add: mem_read_def)
qed

text \<open>Rewriting every byte of the memory through a function.\<close>

definition recode :: "(byte \<Rightarrow> byte) \<Rightarrow> heap \<Rightarrow> heap" where
  "recode f h = (\<lambda>p. map_option f (h p))"

lemma mem_read_recode: "mem_read (recode f h) p n = map_option (map f) (mem_read h p n)"
proof -
  have "those (map (\<lambda>x. map_option f (g x)) xs) = map_option (map f) (those (map g xs))"
    for g :: "nat \<Rightarrow> byte option" and xs
    by (induction xs) (auto simp: option.map_comp comp_def split: option.splits)
  then show ?thesis by (simp add: mem_read_def recode_def)
qed

text \<open>What a write leaves behind, and that two writes of one size fault alike.\<close>

lemma mem_write_dom:
  "mem_write h p bs = Some h' \<Longrightarrow> dom h' = dom h"
proof (induction h p bs rule: mem_write.induct)
  case (2 h p b bs)
  from 2(2) have nn: "h p \<noteq> None" and step: "mem_write (h(p \<mapsto> b)) (p + 1) bs = Some h'"
    by (auto split: if_splits)
  have "dom h' = dom (h(p \<mapsto> b))" by (rule 2(1) [OF nn step])
  then show ?case using nn by (simp add: insert_absorb domIff)
qed simp

lemma mem_write_outside:
  "mem_write h p bs = Some h' \<Longrightarrow> (\<And>i. i < length bs \<Longrightarrow> q \<noteq> p + of_nat i) \<Longrightarrow> h' q = h q"
proof (induction h p bs rule: mem_write.induct)
  case (2 h p b bs)
  have rest: "q \<noteq> p + 1 + of_nat i" if "i < length bs" for i
    using 2(3) [of "Suc i"] that by (simp add: algebra_simps)
  have here: "q \<noteq> p" using 2(3) [of 0] by simp
  have "h p \<noteq> None" and "mem_write (h(p \<mapsto> b)) (p + 1) bs = Some h'"
    using 2(2) by (auto split: if_splits)
  then have "h' q = (h(p \<mapsto> b)) q" using 2(1) rest by blast
  then show ?case using here by simp
qed simp

lemma mem_read_write:
  "mem_write h p bs = Some h' \<Longrightarrow> length bs \<le> 2 ^ 64 \<Longrightarrow> mem_read h' p (length bs) = Some bs"
proof (induction h p bs rule: mem_write.induct)
  case (1 h p)
  then show ?case by (simp add: mem_read_def)
next
  case (2 h p b bs)
  have step: "mem_write (h(p \<mapsto> b)) (p + 1) bs = Some h'" and "h p \<noteq> None"
    using 2(2) by (auto split: if_splits)
  have tail: "mem_read h' (p + 1) (length bs) = Some bs"
    using 2(1) [OF \<open>h p \<noteq> None\<close> step] 2(3) by simp
  have "p \<noteq> p + 1 + of_nat i" if "i < length bs" for i
  proof
    assume "p = p + 1 + of_nat i"
    then have "(of_nat (Suc i) :: ptr) = 0" by (simp add: algebra_simps)
    then have "unat (of_nat (Suc i) :: ptr) = 0" by simp
    then show False using that 2(3) by (simp only: unat_of_nat) simp
  qed
  then have head: "h' p = Some b" using mem_write_outside [OF step] by auto
  show ?case
  proof (rule mem_read_intro)
    fix i assume "i < length (b # bs)"
    then show "h' (p + of_nat i) = Some ((b # bs) ! i)"
      using head mem_read_nth [OF tail, of "i - 1"]
      by (cases i) (simp_all add: algebra_simps)
  qed simp
qed

section \<open>Numbers in log lines\<close>

text \<open>\<open>%u\<close> and \<open>%x\<close>; \<open>hex2\<close> is \<open>%02x\<close> of a byte.\<close>

definition digit :: "nat \<Rightarrow> char" where
  "digit d = ''0123456789abcdef'' ! d"

function digits :: "nat \<Rightarrow> nat \<Rightarrow> string" where
  "digits b n = (if n < b \<or> b < 2 then [digit n] else digits b (n div b) @ [digit (n mod b)])"
  by auto
termination
  by (relation "measure snd") auto

definition dec :: "u32 \<Rightarrow> string" where "dec x = digits 10 (unat x)"
definition hex :: "u32 \<Rightarrow> string" where "hex x = digits 16 (unat x)"
definition hex2 :: "byte \<Rightarrow> string" where
  "hex2 x = [digit (unat x div 16), digit (unat x mod 16)]"

declare digits.simps [simp del]

section \<open>The loader and the file system\<close>

text \<open>\<open>TargetIdentity\<close>: a canonical path with the device and the inode behind it.\<close>

record target_identity =
  ti_path :: string
  ti_device :: "64 word"
  ti_inode :: "64 word"

text \<open>
  What the interposers ask of their surroundings. \<open>dlopen\<close> and \<open>dlsym\<close> return their result
  together with the message that the next \<open>dlerror ()\<close> returns. \<open>dw_dladdr\<close> is \<open>None\<close> when
  \<open>dladdr\<close> returns 0, otherwise the \<open>dli_fname\<close> field, which may be \<open>NULL\<close>. \<open>dw_loaded\<close> lists
  \<open>dlpi_name\<close> in the order in which \<open>dl_iterate_phdr\<close> visits the objects. \<open>dw_self_update\<close> is the
  address of the interposer's own \<open>cv_fingerprint_update_enrollment\<close>.
\<close>

record dso_world =
  dw_getenv :: "string \<Rightarrow> string option"
  dw_realpath :: "string \<Rightarrow> string option"
  dw_stat :: "string \<Rightarrow> (64 word \<times> 64 word) option"
  dw_loaded :: "string option list"
  dw_dlopen_noload :: "string \<Rightarrow> ptr \<times> string option"
  dw_dlsym :: "ptr \<Rightarrow> string \<Rightarrow> ptr \<times> string option"
  dw_dladdr :: "ptr \<Rightarrow> string option option"
  dw_once_status :: int
  dw_strerror :: "int \<Rightarrow> string"
  dw_self_update :: ptr

text \<open>\<open>identity_from_path\<close>: the identity, or \<open>None\<close> where the C function returns false.\<close>

definition identity_from_path :: "dso_world \<Rightarrow> string option \<Rightarrow> target_identity option" where
  "identity_from_path dw path =
     (case path of
        None \<Rightarrow> None
      | Some name \<Rightarrow>
          if name = [] then None
          else (case dw_realpath dw name of
                  None \<Rightarrow> None
                | Some real \<Rightarrow>
                    (case dw_stat dw real of
                       None \<Rightarrow> None
                     | Some (dev, ino) \<Rightarrow>
                         Some \<lparr>ti_path = real, ti_device = dev, ti_inode = ino\<rparr>)))"

text \<open>\<open>find_loaded_target\<close> for one object: does the search stop here?\<close>

definition find_loaded_target :: "dso_world \<Rightarrow> target_identity \<Rightarrow> string option \<Rightarrow> bool" where
  "find_loaded_target dw expected dlpi_name =
     (case identity_from_path dw dlpi_name of
        None \<Rightarrow> False
      | Some candidate \<Rightarrow>
          ti_path candidate = ti_path expected
          \<and> ti_device candidate = ti_device expected
          \<and> ti_inode candidate = ti_inode expected)"

text \<open>\<open>dl_iterate_phdr (find_loaded_target, &search)\<close>: the value of \<open>search.found\<close>.\<close>

fun target_loaded :: "dso_world \<Rightarrow> target_identity \<Rightarrow> string option list \<Rightarrow> bool" where
  "target_loaded dw expected [] = False"
| "target_loaded dw expected (name # names) =
     (if find_loaded_target dw expected name then True else target_loaded dw expected names)"

lemma find_loaded_target_iff:
  "find_loaded_target dw expected name \<longleftrightarrow> identity_from_path dw name = Some expected"
  by (auto simp: find_loaded_target_def intro: target_identity.equality split: option.splits)

lemma target_loaded_iff:
  "target_loaded dw expected names
     \<longleftrightarrow> (\<exists>name \<in> set names. identity_from_path dw name = Some expected)"
  by (induction names) (auto simp: find_loaded_target_iff)

text \<open>
  \<open>snprintf\<close> into \<open>char failure[512]\<close> keeps at most 511 characters.
\<close>

definition FAILURE_SIZE :: nat where "FAILURE_SIZE = 512"

definition snprintf_failure :: "string \<Rightarrow> string" where
  "snprintf_failure text = take (FAILURE_SIZE - 1) text"

lemma snprintf_failure_fits: "length (snprintf_failure text) < FAILURE_SIZE"
  by (simp add: snprintf_failure_def FAILURE_SIZE_def)

end
