(* ===== verification/Rearm_Log.thy ===== *)
theory Rearm_Log
  imports Process_World
begin

text \<open>
  The lines that \<open>tools/enrollment_0x89_rearm_preload.c\<close> writes to \<open>stderr\<close>: a value per
  \<open>fprintf\<close> call with the values it prints, and the text it produces. The components append
  values; \<open>rearm_text\<close> is the formatting.
\<close>

section \<open>Lines of the resolver\<close>

datatype resolver_line =
    Resolution_Failed string
  | Symbol_Resolved string
  | Symbol_Verified string
  | Policy_Selected string
  | Metadata_Selected bool
  | Expected_Target string
  | Target_Discovered string
  | Noload_Acquired
  | Forwarding_Ready
  | Operation_Refused string

primrec resolver_text :: "resolver_line \<Rightarrow> string" where
  "resolver_text (Resolution_Failed failure) =
     ''[cv2-0x89-resolver] symbol resolution failed: '' @ failure"
| "resolver_text (Symbol_Resolved name) =
     ''[cv2-0x89-resolver] original symbol resolved from target handle: '' @ name"
| "resolver_text (Symbol_Verified name) =
     ''[cv2-0x89-resolver] dladdr target verification passed: '' @ name"
| "resolver_text (Policy_Selected name) = ''[cv2-enrollment-policy] selected='' @ name"
| "resolver_text (Metadata_Selected on) =
     ''[cv2-update-metadata] selected='' @ (if on then ''enabled'' else ''disabled'')"
| "resolver_text (Expected_Target path) =
     ''[cv2-0x89-resolver] expected target path: '' @ path"
| "resolver_text (Target_Discovered path) =
     ''[cv2-0x89-resolver] loaded target discovered: '' @ path"
| "resolver_text Noload_Acquired = ''[cv2-0x89-resolver] RTLD_NOLOAD handle acquired''"
| "resolver_text Forwarding_Ready = ''[cv2-0x89-resolver] local-scope forwarding ready''"
| "resolver_text (Operation_Refused reason) =
     ''[cv2-0x89-resolver] refusing operation before hardware command: '' @ reason"

section \<open>Lines of the metadata trace\<close>

text \<open>
  \<open>Phase_Before\<close>: call, handle relation, presence, pointer relation, content relation and match
  of the enrollment ID, auxiliary size, presence, pointer relation and match of the auxiliary
  input. \<open>Phase_Buffers\<close>: call and, for completion, enrollment output and output value, the
  pointer relation and the zero test. \<open>Phase_After\<close>: call, native status and, for the same three
  objects, the zero test and the change test.
\<close>

datatype metadata_line =
    Phase_Before u32 string string string string string u32 string string string
  | Phase_Buffers u32 string string string string string string
  | Phase_After u32 u32 string string string string string string

primrec metadata_text :: "metadata_line \<Rightarrow> string" where
  "metadata_text (Phase_Before c hr ip ir ic im asz apr ar am) =
     ''[cv2-update-metadata] call='' @ dec c @ '' phase=before handle_relation='' @ hr
     @ '' enrollment_id_presence='' @ ip @ '' enrollment_id_pointer_relation='' @ ir
     @ '' enrollment_id_content_relation='' @ ic
     @ '' enrollment_id_matches_previous_output='' @ im
     @ '' auxiliary_size='' @ dec asz @ '' auxiliary_presence='' @ apr
     @ '' auxiliary_pointer_relation='' @ ar @ '' auxiliary_matches_previous_output='' @ am"
| "metadata_text (Phase_Buffers c cr cz er ez vr vz) =
     ''[cv2-update-metadata] call='' @ dec c
     @ '' phase=before-buffers completion_pointer_relation='' @ cr
     @ '' completion_pre_zero='' @ cz @ '' enrollment_output_pointer_relation='' @ er
     @ '' enrollment_output_pre_zero='' @ ez @ '' output_value_pointer_relation='' @ vr
     @ '' output_value_pre_zero='' @ vz"
| "metadata_text (Phase_After c st cz cc ez ec vz vc) =
     ''[cv2-update-metadata] call='' @ dec c @ '' phase=after native_status=0x'' @ hex st
     @ '' completion_post_zero='' @ cz @ '' completion_changed='' @ cc
     @ '' enrollment_output_post_zero='' @ ez @ '' enrollment_output_changed='' @ ec
     @ '' output_value_post_zero='' @ vz @ '' output_value_changed='' @ vc"

section \<open>Lines of the wrapper\<close>

text \<open>
  \<open>Update_Outputs\<close> is the line of \<open>log_update_outputs\<close>: which call, the completion byte if there
  is one, and whether the two other output pointers are present.
\<close>

datatype wrapper_line =
    Zero_Input_Null
  | Zero_Input_Limit u32
  | Zero_Input_Call u32
  | Boundary_Status u32
  | Update_Outputs string "byte option" bool bool
  | Boundary_Preserved
  | Boundary_Blocked
  | Accepted_Count u32
  | Accepted_Limit
  | Accepted_Rearm u32
  | Accepted_Rearm_Failed u32 u32
  | Accepted_Rearm_Done u32
  | Again_Received
  | Again_Retry
  | Again_Status u32
  | Again_Limit
  | Again_Passing
  | Bad_Capture u32
  | Bad_Capture_Rearm u32
  | Bad_Capture_Rearm_Failed u32 u32
  | Bad_Capture_Rearm_Done u32

definition redacted :: "bool \<Rightarrow> string" where
  "redacted present = (if present then ''<redacted>'' else ''<null>'')"

primrec wrapper_text :: "wrapper_line \<Rightarrow> string" where
  "wrapper_text Zero_Input_Null =
     ''[cv2-zero-input] required source input is null; ''
     @ ''refusing before native UpdateEnrollment''"
| "wrapper_text (Zero_Input_Limit c) =
     ''[cv2-zero-input] total update limit reached; ''
     @ ''refusing native UpdateEnrollment call='' @ dec c @ '' limit='' @ dec 24"
| "wrapper_text (Zero_Input_Call c) =
     ''[cv2-zero-input] native UpdateEnrollment call='' @ dec c @ ''/'' @ dec 24
     @ '' input=stable-zero-20 source_bytes_read=no''"
| "wrapper_text (Boundary_Status st) =
     ''[cv2-fresh-boundary] native UpdateEnrollment status=0x'' @ hex st"
| "wrapper_text (Update_Outputs which completion data out) =
     ''[cv2-0x59-experiment] '' @ which @ '' completion=''
     @ (case completion of None \<Rightarrow> ''<null>'' | Some c \<Rightarrow> ''0x'' @ hex2 c)
     @ '' enrollment_output='' @ redacted data @ '' output_value='' @ redacted out"
| "wrapper_text Boundary_Preserved =
     ''[cv2-fresh-boundary] preserving native 0x59 without same-update replay''"
| "wrapper_text Boundary_Blocked =
     ''[cv2-fresh-boundary] native completion boundary observed; ''
     @ ''blocking state 2 and generic commit''"
| "wrapper_text (Accepted_Count n) =
     ''[cv2-fresh-rearm] accepted incomplete update; accepted='' @ dec n @ ''/'' @ dec 4"
| "wrapper_text Accepted_Limit =
     ''[cv2-fresh-rearm] accepted-update limit reached ''
     @ ''without native completion; blocking another capture''"
| "wrapper_text (Accepted_Rearm a) =
     ''[cv2-fresh-rearm] re-arming accepted incomplete ''
     @ ''enrollment with command 0x8A; attempt='' @ dec a"
| "wrapper_text (Accepted_Rearm_Failed st a) =
     ''[cv2-fresh-rearm] 0x8A failed with status 0x'' @ hex st @ ''; attempt='' @ dec a"
| "wrapper_text (Accepted_Rearm_Done a) =
     ''[cv2-fresh-rearm] 0x8A completed successfully; attempt='' @ dec a"
| "wrapper_text Again_Received = ''[cv2-0x59-experiment] 0x59 UpdateEnrollment result received''"
| "wrapper_text Again_Retry =
     ''[cv2-0x59-experiment] retrying the same UpdateEnrollment once''"
| "wrapper_text (Again_Status st) =
     ''[cv2-0x59-experiment] second UpdateEnrollment status=0x'' @ hex st"
| "wrapper_text Again_Limit =
     ''[cv2-0x59-experiment] second 0x59 received; retry limit reached''"
| "wrapper_text Again_Passing =
     ''[cv2-0x59-experiment] passing second native status to existing Linux state machine''"
| "wrapper_text (Bad_Capture a) =
     ''[cv2-0x89-experiment] 0x89 bad capture received; attempt='' @ dec a"
| "wrapper_text (Bad_Capture_Rearm a) =
     ''[cv2-0x89-experiment] re-arming enrollment with command 0x8A; attempt='' @ dec a"
| "wrapper_text (Bad_Capture_Rearm_Failed st a) =
     ''[cv2-0x89-experiment] 0x8A failed with status 0x'' @ hex st @ ''; attempt='' @ dec a"
| "wrapper_text (Bad_Capture_Rearm_Done a) =
     ''[cv2-0x89-experiment] 0x8A completed successfully; attempt='' @ dec a"

datatype rearm_line =
    Resolver_Line resolver_line
  | Metadata_Line metadata_line
  | Wrapper_Line wrapper_line

primrec rearm_text :: "rearm_line \<Rightarrow> string" where
  "rearm_text (Resolver_Line l) = resolver_text l"
| "rearm_text (Metadata_Line l) = metadata_text l"
| "rearm_text (Wrapper_Line l) = wrapper_text l"

end
