(* ===== verification/Rearm_Resolver.thy ===== *)
theory Rearm_Resolver
  imports Rearm_Log
begin

text \<open>
  The target resolver of \<open>tools/enrollment_0x89_rearm_preload.c\<close>: \<open>initialize_resolver\<close>, run at
  most once through \<open>pthread_once\<close>, and the queries on its result. Each function returns the
  lines it logs after its result.
\<close>

section \<open>Data\<close>

definition CV2_TARGET_ENV :: string where "CV2_TARGET_ENV = ''CV2_0X89_TARGET_PATH''"
definition CV2_UPDATE_POLICY_ENV :: string where
  "CV2_UPDATE_POLICY_ENV = ''CV2_ENROLLMENT_UPDATE_POLICY''"
definition CV2_METADATA_TRACE_ENV :: string where
  "CV2_METADATA_TRACE_ENV = ''CV2_UPDATE_METADATA_TRACE''"

datatype update_policy =
    UPDATE_POLICY_LEGACY_REPEAT
  | UPDATE_POLICY_FRESH_STOP_BEFORE_COMMIT
  | UPDATE_POLICY_FRESH_REARM_STOP_BEFORE_COMMIT
  | UPDATE_POLICY_ZERO_INPUT_FRESH_REARM_STOP_BEFORE_COMMIT

primrec update_policy_name :: "update_policy \<Rightarrow> string" where
  "update_policy_name UPDATE_POLICY_LEGACY_REPEAT = ''legacy-repeat''"
| "update_policy_name UPDATE_POLICY_FRESH_STOP_BEFORE_COMMIT = ''fresh-stop-before-commit''"
| "update_policy_name UPDATE_POLICY_FRESH_REARM_STOP_BEFORE_COMMIT =
     ''fresh-rearm-stop-before-commit''"
| "update_policy_name UPDATE_POLICY_ZERO_INPUT_FRESH_REARM_STOP_BEFORE_COMMIT =
     ''zero-input-fresh-rearm-stop-before-commit''"

definition update_policy_rearms_accepted :: "update_policy \<Rightarrow> bool" where
  "update_policy_rearms_accepted policy \<longleftrightarrow>
     policy = UPDATE_POLICY_FRESH_REARM_STOP_BEFORE_COMMIT
     \<or> policy = UPDATE_POLICY_ZERO_INPUT_FRESH_REARM_STOP_BEFORE_COMMIT"

text \<open>\<open>ResolverCache\<close>; the two function pointers are the addresses they were cast from.\<close>

record resolver_cache =
  rc_handle :: ptr
  rc_update :: ptr
  rc_enrollment_started :: ptr
  rc_update_policy :: update_policy
  rc_metadata_trace :: bool
  rc_ready :: bool
  rc_failure :: string

definition zero_cache :: resolver_cache where
  "zero_cache = \<lparr>rc_handle = 0, rc_update = 0, rc_enrollment_started = 0,
                 rc_update_policy = UPDATE_POLICY_LEGACY_REPEAT, rc_metadata_trace = False,
                 rc_ready = False, rc_failure = []\<rparr>"

section \<open>Operations\<close>

definition resolver_failure :: "string \<Rightarrow> resolver_cache \<Rightarrow> resolver_cache \<times> rearm_line list" where
  "resolver_failure text rc =
     (rc\<lparr>rc_failure := snprintf_failure text\<rparr>,
      [Resolver_Line (Resolution_Failed (snprintf_failure text))])"

definition symbol_owned_by_target ::
  "dso_world \<Rightarrow> ptr \<Rightarrow> string \<Rightarrow> target_identity \<Rightarrow> ptr \<Rightarrow> resolver_cache
     \<Rightarrow> bool \<times> resolver_cache \<times> rearm_line list" where
  "symbol_owned_by_target dw address symbol target self_address rc =
     (if address = 0
      then (False, resolver_failure (''target symbol '' @ symbol @ '' was not found'') rc)
      else if address = self_address
      then (False, resolver_failure
              (''target symbol '' @ symbol
               @ '' resolved to the interposer wrapper; refusing recursion'') rc)
      else (case dw_dladdr dw address of
              None \<Rightarrow> (False, resolver_failure
                         (''dladdr could not identify owner of '' @ symbol) rc)
            | Some None \<Rightarrow> (False, resolver_failure
                         (''dladdr could not identify owner of '' @ symbol) rc)
            | Some (Some fname) \<Rightarrow>
                (case identity_from_path dw (Some fname) of
                   None \<Rightarrow> (False, resolver_failure
                              (''could not canonicalize owner of '' @ symbol @ '': '' @ fname) rc)
                 | Some owner \<Rightarrow>
                     if ti_path owner \<noteq> ti_path target \<or> ti_device owner \<noteq> ti_device target
                        \<or> ti_inode owner \<noteq> ti_inode target
                     then (False, resolver_failure
                             (''symbol '' @ symbol @ '' belongs to unexpected DSO ''
                              @ ti_path owner) rc)
                     else (True, rc, [Resolver_Line (Symbol_Resolved symbol),
                                      Resolver_Line (Symbol_Verified symbol)]))))"

text \<open>The two configuration switches of \<open>initialize_resolver\<close>; \<open>None\<close> is the invalid value.\<close>

definition configured_policy :: "string option \<Rightarrow> update_policy option" where
  "configured_policy value =
     (case value of
        None \<Rightarrow> Some UPDATE_POLICY_LEGACY_REPEAT
      | Some s \<Rightarrow>
          if s = ''legacy-repeat'' then Some UPDATE_POLICY_LEGACY_REPEAT
          else if s = ''fresh-stop-before-commit''
          then Some UPDATE_POLICY_FRESH_STOP_BEFORE_COMMIT
          else if s = ''fresh-rearm-stop-before-commit''
          then Some UPDATE_POLICY_FRESH_REARM_STOP_BEFORE_COMMIT
          else if s = ''zero-input-fresh-rearm-stop-before-commit''
          then Some UPDATE_POLICY_ZERO_INPUT_FRESH_REARM_STOP_BEFORE_COMMIT
          else None)"

definition configured_trace :: "string option \<Rightarrow> bool option" where
  "configured_trace value =
     (case value of
        None \<Rightarrow> Some False
      | Some s \<Rightarrow> if s = ''0'' then Some False else if s = ''1'' then Some True else None)"

text \<open>\<open>dlsym\<close> with the \<open>dlerror\<close> check behind it.\<close>

definition lookup_symbol :: "dso_world \<Rightarrow> ptr \<Rightarrow> string \<Rightarrow> ptr" where
  "lookup_symbol dw handle symbol =
     (let (address, dynamic_error) = dw_dlsym dw handle symbol
      in if dynamic_error \<noteq> None then 0 else address)"

text \<open>
  \<open>initialize_resolver\<close> from the acquired handle on: both symbols, then the flag.
\<close>

definition resolve_symbols ::
  "dso_world \<Rightarrow> target_identity \<Rightarrow> resolver_cache \<Rightarrow> resolver_cache \<times> rearm_line list" where
  "resolve_symbols dw expected rc =
     (let update_address = lookup_symbol dw (rc_handle rc) ''cv_fingerprint_update_enrollment'';
          (owned, rc, lines1) =
            symbol_owned_by_target dw update_address ''cv_fingerprint_update_enrollment''
              expected (dw_self_update dw) rc
      in if \<not> owned then (rc, lines1)
         else
           let started_address = lookup_symbol dw (rc_handle rc) ''cv_cmd_enrollment_started'';
               (owned, rc, lines2) =
                 symbol_owned_by_target dw started_address ''cv_cmd_enrollment_started''
                   expected 0 rc
           in if \<not> owned then (rc, lines1 @ lines2)
              else (rc\<lparr>rc_update := update_address,
                       rc_enrollment_started := started_address,
                       rc_ready := True\<rparr>,
                    lines1 @ lines2 @ [Resolver_Line Forwarding_Ready]))"

text \<open>\<open>initialize_resolver\<close> from the search for the loaded target on.\<close>

definition acquire_target ::
  "dso_world \<Rightarrow> target_identity \<Rightarrow> resolver_cache \<Rightarrow> resolver_cache \<times> rearm_line list" where
  "acquire_target dw expected rc =
     (if \<not> target_loaded dw expected (dw_loaded dw)
      then resolver_failure
             (''expected target is not present in the loaded DSO list; refusing ''
              @ ''RTLD_NOLOAD lookup'') rc
      else
        let (handle, dynamic_error) = dw_dlopen_noload dw (ti_path expected);
            rc = rc\<lparr>rc_handle := handle\<rparr>
        in if handle = 0 \<or> dynamic_error \<noteq> None
           then (let (rc, lines) = resolver_failure
                       (''RTLD_NOLOAD handle acquisition failed: ''
                        @ (case dynamic_error of None \<Rightarrow> ''unknown error'' | Some m \<Rightarrow> m))
                       (rc\<lparr>rc_handle := 0\<rparr>)
                 in (rc, Resolver_Line (Target_Discovered (ti_path expected)) # lines))
           else (let (rc, lines) = resolve_symbols dw expected rc
                 in (rc, [Resolver_Line (Target_Discovered (ti_path expected)),
                          Resolver_Line Noload_Acquired] @ lines)))"

definition initialize_resolver ::
  "dso_world \<Rightarrow> resolver_cache \<Rightarrow> resolver_cache \<times> rearm_line list" where
  "initialize_resolver dw rc =
     (let path = dw_getenv dw CV2_TARGET_ENV;
          policy = dw_getenv dw CV2_UPDATE_POLICY_ENV;
          trace = dw_getenv dw CV2_METADATA_TRACE_ENV
      in case identity_from_path dw path of
           None \<Rightarrow> resolver_failure
                     (''invalid or missing '' @ CV2_TARGET_ENV @ '': ''
                      @ (case path of None \<Rightarrow> ''<unset>'' | Some p \<Rightarrow> p)) rc
         | Some expected \<Rightarrow>
             (case configured_policy policy of
                None \<Rightarrow> resolver_failure
                          (''invalid '' @ CV2_UPDATE_POLICY_ENV @ '': '' @ the policy) rc
              | Some chosen \<Rightarrow>
                  let rc = rc\<lparr>rc_update_policy := chosen\<rparr>
                  in (case configured_trace trace of
                        None \<Rightarrow> resolver_failure
                                  (''invalid '' @ CV2_METADATA_TRACE_ENV @ '': '' @ the trace) rc
                      | Some on \<Rightarrow>
                          let rc = rc\<lparr>rc_metadata_trace := on\<rparr>;
                              (rc, lines) = acquire_target dw expected rc
                          in (rc, [Resolver_Line (Policy_Selected (update_policy_name chosen)),
                                   Resolver_Line (Metadata_Selected on),
                                   Resolver_Line (Expected_Target (ti_path expected))]
                                  @ lines))))"

text \<open>
  The static \<open>resolver_once\<close> (has the routine run?) with the cache it guards, and
  \<open>forwarding_ready\<close>.
\<close>

record resolver_state =
  rs_once_done :: bool
  rs_cache :: resolver_cache

definition initial_resolver :: resolver_state where
  "initial_resolver = \<lparr>rs_once_done = False, rs_cache = zero_cache\<rparr>"

definition forwarding_ready ::
  "dso_world \<Rightarrow> resolver_state \<Rightarrow> bool \<times> resolver_state \<times> rearm_line list" where
  "forwarding_ready dw rs =
     (if dw_once_status dw \<noteq> 0
      then (let (rc, lines) = resolver_failure
                  (''pthread_once failed: '' @ dw_strerror dw (dw_once_status dw)) (rs_cache rs)
            in (False, rs\<lparr>rs_cache := rc\<rparr>, lines))
      else if rs_once_done rs then (rc_ready (rs_cache rs), rs, [])
      else (let (rc, lines) = initialize_resolver dw (rs_cache rs)
            in (rc_ready rc, \<lparr>rs_once_done = True, rs_cache = rc\<rparr>, lines)))"

text \<open>The reason a refusal prints.\<close>

definition refusal_reason :: "resolver_cache \<Rightarrow> string" where
  "refusal_reason rc = (if rc_failure rc \<noteq> [] then rc_failure rc else ''resolver is not ready'')"

text \<open>\<open>cv2_0x89_forwarding_ready\<close>, the query of the hardware harness.\<close>

definition cv2_0x89_forwarding_ready ::
  "dso_world \<Rightarrow> resolver_state \<Rightarrow> int \<times> resolver_state \<times> rearm_line list" where
  "cv2_0x89_forwarding_ready dw rs =
     (let (ok, rs, lines) = forwarding_ready dw rs
      in if \<not> ok
         then (0, rs, lines @ [Resolver_Line (Operation_Refused (refusal_reason (rs_cache rs)))])
         else (1, rs, lines))"

end
