(* ===== verification/Metadata_Trace.thy ===== *)
theory Metadata_Trace
  imports Rearm_Log
begin

text \<open>
  The optional metadata trace of \<open>tools/enrollment_0x89_rearm_preload.c\<close>:
  \<open>metadata_before_update\<close> and \<open>metadata_after_update\<close> with the relations they print.
\<close>

section \<open>Data\<close>

definition CV2_ENROLLMENT_VALUE_SIZE :: nat where "CV2_ENROLLMENT_VALUE_SIZE = 20"
definition OUTPUT_VALUE_SIZE :: nat where "OUTPUT_VALUE_SIZE = 4"

text \<open>The arguments of \<open>cv_fingerprint_update_enrollment\<close>, in their order.\<close>

record update_args =
  ua_handle :: u32
  ua_enrollment_id :: ptr
  ua_auxiliary_input_size :: u32
  ua_auxiliary_input :: ptr
  ua_completion_out :: ptr
  ua_enrollment_data_out :: ptr
  ua_output_value_out :: ptr

text \<open>\<open>MetadataTraceState\<close>; a value and its \<open>_valid\<close> flag are kept apart as in the code.\<close>

record trace_state =
  ts_initialized :: bool
  ts_first_handle :: u32
  ts_previous_enrollment_id_pointer :: ptr
  ts_previous_enrollment_id :: "byte list"
  ts_previous_enrollment_id_valid :: bool
  ts_previous_auxiliary_input :: ptr
  ts_first_completion_out :: ptr
  ts_first_enrollment_data_out :: ptr
  ts_first_output_value_out :: ptr
  ts_previous_enrollment_output :: "byte list"
  ts_previous_enrollment_output_valid :: bool

definition zero_trace :: trace_state where
  "zero_trace = \<lparr>ts_initialized = False, ts_first_handle = 0,
     ts_previous_enrollment_id_pointer = 0,
     ts_previous_enrollment_id = replicate CV2_ENROLLMENT_VALUE_SIZE 0,
     ts_previous_enrollment_id_valid = False, ts_previous_auxiliary_input = 0,
     ts_first_completion_out = 0, ts_first_enrollment_data_out = 0,
     ts_first_output_value_out = 0,
     ts_previous_enrollment_output = replicate CV2_ENROLLMENT_VALUE_SIZE 0,
     ts_previous_enrollment_output_valid = False\<rparr>"

text \<open>\<open>MetadataBeforeCall\<close>.\<close>

record before_call =
  bc_call :: u32
  bc_completion_valid :: bool
  bc_completion :: byte
  bc_enrollment_output_valid :: bool
  bc_enrollment_output :: "byte list"
  bc_output_value_valid :: bool
  bc_output_value :: "byte list"

section \<open>Relations\<close>

definition buffer_is_zero :: "byte list \<Rightarrow> bool" where
  "buffer_is_zero bytes = list_all (\<lambda>b. b = 0) bytes"

definition pointer_relation :: "ptr \<Rightarrow> ptr \<Rightarrow> bool \<Rightarrow> string" where
  "pointer_relation current reference first_call =
     (if first_call then ''first'' else if current = reference then ''same'' else ''changed'')"

definition value_relation_u32 :: "u32 \<Rightarrow> u32 \<Rightarrow> bool \<Rightarrow> string" where
  "value_relation_u32 current reference first_call =
     (if first_call then ''first'' else if current = reference then ''same'' else ''changed'')"

definition yes_no :: "bool \<Rightarrow> string" where
  "yes_no b = (if b then ''yes'' else ''no'')"

definition presence :: "ptr \<Rightarrow> string" where
  "presence p = (if p \<noteq> 0 then ''present'' else ''null'')"

section \<open>Before the native call\<close>

text \<open>The copies of the three output objects, \<open>MetadataBeforeCall\<close>.\<close>

definition capture_outputs :: "heap \<Rightarrow> update_args \<Rightarrow> u32 \<Rightarrow> before_call option" where
  "capture_outputs h ua call =
     do {
       completion \<leftarrow> (if ua_completion_out ua \<noteq> 0
                       then mem_read h (ua_completion_out ua) 1 else Some [0]);
       output \<leftarrow> (if ua_enrollment_data_out ua \<noteq> 0
                   then mem_read h (ua_enrollment_data_out ua) CV2_ENROLLMENT_VALUE_SIZE
                   else Some (replicate CV2_ENROLLMENT_VALUE_SIZE 0));
       outval \<leftarrow> (if ua_output_value_out ua \<noteq> 0
                   then mem_read h (ua_output_value_out ua) OUTPUT_VALUE_SIZE
                   else Some (replicate OUTPUT_VALUE_SIZE 0));
       Some \<lparr>bc_call = call, bc_completion_valid = ua_completion_out ua \<noteq> 0,
             bc_completion = hd completion,
             bc_enrollment_output_valid = ua_enrollment_data_out ua \<noteq> 0,
             bc_enrollment_output = output,
             bc_output_value_valid = ua_output_value_out ua \<noteq> 0, bc_output_value = outval\<rparr>
     }"

text \<open>\<open>id_content_relation\<close>, \<open>id_matches_previous_output\<close>, \<open>aux_matches_previous_output\<close>.\<close>

definition id_content_relation :: "heap \<Rightarrow> ptr \<Rightarrow> trace_state \<Rightarrow> string option" where
  "id_content_relation h eid ts =
     (if \<not> ts_initialized ts \<or> eid = 0 \<or> \<not> ts_previous_enrollment_id_valid ts
      then Some (if \<not> ts_initialized ts then ''first'' else ''unavailable'')
      else do {
        content \<leftarrow> mem_read h eid CV2_ENROLLMENT_VALUE_SIZE;
        same \<leftarrow> memcmp_eq content (ts_previous_enrollment_id ts) CV2_ENROLLMENT_VALUE_SIZE;
        Some (if same then ''same'' else ''changed'')
      })"

definition matches_previous_output :: "heap \<Rightarrow> ptr \<Rightarrow> bool \<Rightarrow> trace_state \<Rightarrow> string option" where
  "matches_previous_output h p comparable ts =
     (if \<not> ts_initialized ts \<or> p = 0 \<or> \<not> comparable \<or> \<not> ts_previous_enrollment_output_valid ts
      then Some ''unavailable''
      else do {
        content \<leftarrow> mem_read h p CV2_ENROLLMENT_VALUE_SIZE;
        same \<leftarrow> memcmp_eq content (ts_previous_enrollment_output ts) CV2_ENROLLMENT_VALUE_SIZE;
        Some (yes_no same)
      })"

text \<open>The update of \<open>metadata_trace_state\<close> under the lock.\<close>

definition remember_call :: "heap \<Rightarrow> update_args \<Rightarrow> trace_state \<Rightarrow> trace_state option" where
  "remember_call h ua ts =
     (let ts = (if \<not> ts_initialized ts
                then ts\<lparr>ts_first_handle := ua_handle ua,
                        ts_first_completion_out := ua_completion_out ua,
                        ts_first_enrollment_data_out := ua_enrollment_data_out ua,
                        ts_first_output_value_out := ua_output_value_out ua,
                        ts_initialized := True\<rparr>
                else ts);
          ts = ts\<lparr>ts_previous_enrollment_id_pointer := ua_enrollment_id ua,
                   ts_previous_auxiliary_input := ua_auxiliary_input ua\<rparr>
      in if ua_enrollment_id ua \<noteq> 0
         then do {
           content \<leftarrow> mem_read h (ua_enrollment_id ua) CV2_ENROLLMENT_VALUE_SIZE;
           Some (ts\<lparr>ts_previous_enrollment_id := content,
                    ts_previous_enrollment_id_valid := True\<rparr>)
         }
         else Some (ts\<lparr>ts_previous_enrollment_id_valid := False\<rparr>))"

definition buffers_line :: "update_args \<Rightarrow> before_call \<Rightarrow> trace_state \<Rightarrow> metadata_line" where
  "buffers_line ua bc ts =
     (let first_call = (\<not> ts_initialized ts) in
      Phase_Buffers (bc_call bc)
        (pointer_relation (ua_completion_out ua) (ts_first_completion_out ts) first_call)
        (if \<not> bc_completion_valid bc then ''unavailable'' else yes_no (bc_completion bc = 0))
        (pointer_relation (ua_enrollment_data_out ua) (ts_first_enrollment_data_out ts) first_call)
        (if \<not> bc_enrollment_output_valid bc then ''unavailable''
         else yes_no (buffer_is_zero (bc_enrollment_output bc)))
        (pointer_relation (ua_output_value_out ua) (ts_first_output_value_out ts) first_call)
        (if \<not> bc_output_value_valid bc then ''unavailable''
         else yes_no (buffer_is_zero (bc_output_value bc))))"

text \<open>
  \<open>metadata_before_update\<close>: the saved copies, the counter \<open>update_call_count\<close>, the trace state
  and the two lines.
\<close>

definition metadata_before_update ::
  "heap \<Rightarrow> update_args \<Rightarrow> u32 \<Rightarrow> trace_state
     \<Rightarrow> (before_call \<times> u32 \<times> trace_state \<times> rearm_line list) option" where
  "metadata_before_update h ua call_count ts =
     do {
       bc \<leftarrow> capture_outputs h ua (call_count + 1);
       content \<leftarrow> id_content_relation h (ua_enrollment_id ua) ts;
       id_match \<leftarrow> matches_previous_output h (ua_enrollment_id ua) True ts;
       aux_match \<leftarrow> matches_previous_output h (ua_auxiliary_input ua)
                     (ua_auxiliary_input_size ua = of_nat CV2_ENROLLMENT_VALUE_SIZE) ts;
       ts' \<leftarrow> remember_call h ua ts;
       let first_call = (\<not> ts_initialized ts);
       Some (bc, call_count + 1, ts',
         [Metadata_Line (Phase_Before (bc_call bc)
            (value_relation_u32 (ua_handle ua) (ts_first_handle ts) first_call)
            (presence (ua_enrollment_id ua))
            (pointer_relation (ua_enrollment_id ua) (ts_previous_enrollment_id_pointer ts)
               first_call)
            content id_match (ua_auxiliary_input_size ua)
            (presence (ua_auxiliary_input ua))
            (pointer_relation (ua_auxiliary_input ua) (ts_previous_auxiliary_input ts) first_call)
            aux_match),
          Metadata_Line (buffers_line ua bc ts)])
     }"

section \<open>After the native call\<close>

text \<open>One of the three output objects: is it zero now, and has it changed?\<close>

definition output_report ::
  "heap \<Rightarrow> ptr \<Rightarrow> nat \<Rightarrow> bool \<Rightarrow> byte list \<Rightarrow> (string \<times> string) option" where
  "output_report h p n earlier_valid earlier =
     (if p = 0 then Some (''unavailable'', ''unavailable'')
      else do {
        content \<leftarrow> mem_read h p n;
        changed \<leftarrow> (if \<not> earlier_valid then Some ''unavailable''
                    else do {
                      same \<leftarrow> memcmp_eq earlier content n;
                      Some (if same then ''no'' else ''yes'')
                    });
        Some (yes_no (buffer_is_zero content), changed)
      })"

definition metadata_after_update ::
  "heap \<Rightarrow> update_args \<Rightarrow> before_call \<Rightarrow> u32 \<Rightarrow> trace_state
     \<Rightarrow> (trace_state \<times> rearm_line list) option" where
  "metadata_after_update h ua bc status ts =
     do {
       (completion_zero, completion_changed) \<leftarrow>
         output_report h (ua_completion_out ua) 1 (bc_completion_valid bc) [bc_completion bc];
       (output_zero, output_changed) \<leftarrow>
         output_report h (ua_enrollment_data_out ua) CV2_ENROLLMENT_VALUE_SIZE
           (bc_enrollment_output_valid bc) (bc_enrollment_output bc);
       (value_zero, value_changed) \<leftarrow>
         output_report h (ua_output_value_out ua) OUTPUT_VALUE_SIZE
           (bc_output_value_valid bc) (bc_output_value bc);
       ts' \<leftarrow> (if ua_enrollment_data_out ua \<noteq> 0
               then do {
                 content \<leftarrow> mem_read h (ua_enrollment_data_out ua) CV2_ENROLLMENT_VALUE_SIZE;
                 Some (ts\<lparr>ts_previous_enrollment_output := content,
                          ts_previous_enrollment_output_valid := True\<rparr>)
               }
               else Some (ts\<lparr>ts_previous_enrollment_output_valid := False\<rparr>));
       Some (ts', [Metadata_Line (Phase_After (bc_call bc) status completion_zero
                     completion_changed output_zero output_changed value_zero value_changed)])
     }"

end
