(* ===== verification/Rearm_Update.thy ===== *)
theory Rearm_Update
  imports Rearm_Resolver Metadata_Trace
begin

text \<open>
  The interposed \<open>cv_fingerprint_update_enrollment\<close> of
  \<open>tools/enrollment_0x89_rearm_preload.c\<close>, on every update policy, with the statics it keeps.
  The two functions of the target are called at the addresses that the resolver cached.
\<close>

section \<open>Data\<close>

definition CV_STATUS_SUCCESS :: u32 where "CV_STATUS_SUCCESS = 0"
definition CV_STATUS_UPDATE_AGAIN :: u32 where "CV_STATUS_UPDATE_AGAIN = 0x59"
definition CV_STATUS_BAD_CAPTURE :: u32 where "CV_STATUS_BAD_CAPTURE = 0x89"
definition CV_STATUS_CAPTURE_FAILED :: u32 where "CV_STATUS_CAPTURE_FAILED = 0xa4"
definition CV_STATUS_ENROLL_MORE :: u32 where "CV_STATUS_ENROLL_MORE = 0x8f"
definition CV_STATUS_EXPERIMENT_FAILURE :: u32 where "CV_STATUS_EXPERIMENT_FAILURE = 0x100003"
definition CV2_MAX_ACCEPTED_UPDATES :: u32 where "CV2_MAX_ACCEPTED_UPDATES = 4"
definition CV2_MAX_ZERO_INPUT_UPDATES :: u32 where "CV2_MAX_ZERO_INPUT_UPDATES = 24"

text \<open>
  The code behind an address of the target: it gets the driver's own state \<open>'w\<close> and the memory
  of the process. \<open>rw_zero_update_input\<close> is the address of the static array
  \<open>zero_update_input\<close>.
\<close>

record 'w rearm_world =
  rw_dso :: dso_world
  rw_update_at :: "ptr \<Rightarrow> 'w \<Rightarrow> heap \<Rightarrow> update_args \<Rightarrow> (u32 \<times> heap \<times> 'w) option"
  rw_started_at :: "ptr \<Rightarrow> 'w \<Rightarrow> heap \<Rightarrow> (u32 \<times> heap \<times> 'w) option"
  rw_zero_update_input :: ptr

text \<open>
  What an observer of the process sees, in order: a log line, a call of the native update with
  its arguments, the 20 bytes its enrollment ID points to at the call, its status and the
  completion byte it left behind (\<open>None\<close> without a completion pointer), a call of
  \<open>cv_cmd_enrollment_started\<close> (command 0x8a) with its status.
\<close>

datatype event =
    Logged rearm_line
  | Native_Update update_args "byte list option" u32 "byte option"
  | Native_Rearm u32

record 'w process =
  pr_resolver :: resolver_state
  pr_retry_attempt :: u32
  pr_accepted_incomplete_count :: u32
  pr_update_call_count :: u32
  pr_zero_input_update_count :: u32
  pr_trace :: trace_state
  pr_heap :: heap
  pr_native :: 'w
  pr_events :: "event list"

definition initial_process :: "heap \<Rightarrow> 'w \<Rightarrow> 'w process" where
  "initial_process h n = \<lparr>pr_resolver = initial_resolver, pr_retry_attempt = 0,
     pr_accepted_incomplete_count = 0, pr_update_call_count = 0, pr_zero_input_update_count = 0,
     pr_trace = zero_trace, pr_heap = h, pr_native = n, pr_events = []\<rparr>"

abbreviation cache :: "'w process \<Rightarrow> resolver_cache" where
  "cache pr \<equiv> rs_cache (pr_resolver pr)"

definition emit :: "rearm_line list \<Rightarrow> 'w process \<Rightarrow> 'w process" where
  "emit lines pr = pr\<lparr>pr_events := pr_events pr @ map Logged lines\<rparr>"

abbreviation wlog :: "wrapper_line \<Rightarrow> 'w process \<Rightarrow> 'w process" where
  "wlog line \<equiv> emit [Wrapper_Line line]"

section \<open>Helpers\<close>

definition fatalize_rearm_status :: "u32 \<Rightarrow> u32" where
  "fatalize_rearm_status status =
     (if status = CV_STATUS_BAD_CAPTURE \<or> status = CV_STATUS_CAPTURE_FAILED
         \<or> status = CV_STATUS_ENROLL_MORE
      then CV_STATUS_EXPERIMENT_FAILURE else status)"

text \<open>\<open>*completion_out\<close> where the pointer is not \<open>NULL\<close>.\<close>

definition completion_byte :: "heap \<Rightarrow> ptr \<Rightarrow> byte option option" where
  "completion_byte h p = (if p = 0 then Some None else map_option Some (h p))"

definition log_update_outputs :: "string \<Rightarrow> update_args \<Rightarrow> 'w process \<Rightarrow> 'w process option" where
  "log_update_outputs which ua pr =
     do {
       completion \<leftarrow> completion_byte (pr_heap pr) (ua_completion_out ua);
       Some (wlog (Update_Outputs which completion (ua_enrollment_data_out ua \<noteq> 0)
                     (ua_output_value_out ua \<noteq> 0)) pr)
     }"

text \<open>\<open>forwarding_ready\<close> on the process.\<close>

definition check_forwarding :: "'w rearm_world \<Rightarrow> 'w process \<Rightarrow> bool \<times> 'w process" where
  "check_forwarding w pr =
     (let (ok, rs, lines) = forwarding_ready (rw_dso w) (pr_resolver pr)
      in (ok, emit lines (pr\<lparr>pr_resolver := rs\<rparr>)))"

text \<open>\<open>resolver.update (...)\<close> and \<open>resolver.enrollment_started ()\<close>.\<close>

definition native_update ::
  "'w rearm_world \<Rightarrow> update_args \<Rightarrow> 'w process \<Rightarrow> (u32 \<times> 'w process) option" where
  "native_update w ua pr =
     do {
       (status, h, n) \<leftarrow> rw_update_at w (rc_update (cache pr)) (pr_native pr) (pr_heap pr) ua;
       Some (status, pr\<lparr>pr_heap := h, pr_native := n,
         pr_events := pr_events pr @
           [Native_Update ua
              (mem_read (pr_heap pr) (ua_enrollment_id ua) CV2_ENROLLMENT_VALUE_SIZE) status
              (if ua_completion_out ua = 0 then None else h (ua_completion_out ua))]\<rparr>)
     }"

definition native_rearm :: "'w rearm_world \<Rightarrow> 'w process \<Rightarrow> (u32 \<times> 'w process) option" where
  "native_rearm w pr =
     do {
       (status, h, n) \<leftarrow>
         rw_started_at w (rc_enrollment_started (cache pr)) (pr_native pr) (pr_heap pr);
       Some (status, pr\<lparr>pr_heap := h, pr_native := n,
                        pr_events := pr_events pr @ [Native_Rearm status]\<rparr>)
     }"

text \<open>The native update between the two halves of the metadata trace, when it is selected.\<close>

definition traced_update ::
  "'w rearm_world \<Rightarrow> update_args \<Rightarrow> 'w process \<Rightarrow> (u32 \<times> 'w process) option" where
  "traced_update w ua pr =
     (if rc_metadata_trace (cache pr)
      then do {
        (bc, calls, ts, lines) \<leftarrow>
          metadata_before_update (pr_heap pr) ua (pr_update_call_count pr) (pr_trace pr);
        (status, pr) \<leftarrow> native_update w ua
          (emit lines (pr\<lparr>pr_update_call_count := calls, pr_trace := ts\<rparr>));
        (ts, lines) \<leftarrow> metadata_after_update (pr_heap pr) ua bc status (pr_trace pr);
        Some (status, emit lines (pr\<lparr>pr_trace := ts\<rparr>))
      }
      else native_update w ua pr)"

section \<open>The wrapper\<close>

text \<open>
  The parts of \<open>cv_fingerprint_update_enrollment\<close> in their order. \<open>Inl status\<close> is a
  \<open>return status\<close> inside the part, \<open>Inr\<close> falls through.

  The zero-input policy: the null check, the counter and its limit, the zeroed buffer as the
  effective enrollment ID.
\<close>

definition zero_input_gate ::
  "'w rearm_world \<Rightarrow> update_args \<Rightarrow> 'w process \<Rightarrow> ((u32 + update_args) \<times> 'w process) option" where
  "zero_input_gate w ua pr =
     (if rc_update_policy (cache pr) \<noteq> UPDATE_POLICY_ZERO_INPUT_FRESH_REARM_STOP_BEFORE_COMMIT
      then Some (Inr ua, pr)
      else if ua_enrollment_id ua = 0
      then Some (Inl CV_STATUS_EXPERIMENT_FAILURE, wlog Zero_Input_Null pr)
      else
        let call = pr_zero_input_update_count pr + 1;
            pr = pr\<lparr>pr_zero_input_update_count := call\<rparr>
        in if call > CV2_MAX_ZERO_INPUT_UPDATES
           then Some (Inl CV_STATUS_EXPERIMENT_FAILURE, wlog (Zero_Input_Limit call) pr)
           else do {
             h \<leftarrow> mem_write (pr_heap pr) (rw_zero_update_input w)
                   (replicate CV2_ENROLLMENT_VALUE_SIZE 0);
             Some (Inr (ua\<lparr>ua_enrollment_id := rw_zero_update_input w\<rparr>),
                   wlog (Zero_Input_Call call) (pr\<lparr>pr_heap := h\<rparr>))
           })"

text \<open>An accepted incomplete update under a re-arming policy.\<close>

definition rearm_accepted ::
  "'w rearm_world \<Rightarrow> u32 \<Rightarrow> 'w process \<Rightarrow> ((u32 + u32) \<times> 'w process) option" where
  "rearm_accepted w status pr =
     (let accepted = pr_accepted_incomplete_count pr + 1;
          pr = wlog (Accepted_Count accepted) (pr\<lparr>pr_accepted_incomplete_count := accepted\<rparr>)
      in if accepted \<ge> CV2_MAX_ACCEPTED_UPDATES
         then Some (Inl CV_STATUS_EXPERIMENT_FAILURE, wlog Accepted_Limit pr)
         else
           let attempt = pr_retry_attempt pr + 1
           in do {
             (rearm_status, pr) \<leftarrow> native_rearm w
               (wlog (Accepted_Rearm attempt) (pr\<lparr>pr_retry_attempt := attempt\<rparr>));
             if rearm_status \<noteq> CV_STATUS_SUCCESS
             then Some (Inl (fatalize_rearm_status rearm_status),
                        wlog (Accepted_Rearm_Failed rearm_status attempt) pr)
             else Some (Inr status, wlog (Accepted_Rearm_Done attempt) pr)
           })"

text \<open>The branch of every policy but the legacy one.\<close>

definition fresh_boundary ::
  "'w rearm_world \<Rightarrow> update_args \<Rightarrow> u32 \<Rightarrow> 'w process \<Rightarrow> ((u32 + u32) \<times> 'w process) option" where
  "fresh_boundary w ua status pr =
     do {
       pr \<leftarrow> log_update_outputs ''native'' ua (wlog (Boundary_Status status) pr);
       let pr = (if status = CV_STATUS_UPDATE_AGAIN then wlog Boundary_Preserved pr else pr);
       if status \<noteq> CV_STATUS_SUCCESS then Some (Inr status, pr)
       else do {
         completion \<leftarrow> completion_byte (pr_heap pr) (ua_completion_out ua);
         if completion \<noteq> Some 0
         then Some (Inl CV_STATUS_EXPERIMENT_FAILURE, wlog Boundary_Blocked pr)
         else if update_policy_rearms_accepted (rc_update_policy (cache pr))
         then rearm_accepted w status pr
         else Some (Inr status, pr)
       }
     }"

text \<open>The legacy branch: one repetition of the same update after 0x59.\<close>

definition legacy_repeat ::
  "'w rearm_world \<Rightarrow> update_args \<Rightarrow> u32 \<Rightarrow> 'w process \<Rightarrow> (u32 \<times> 'w process) option" where
  "legacy_repeat w ua status pr =
     (if status \<noteq> CV_STATUS_UPDATE_AGAIN then Some (status, pr)
      else do {
        pr \<leftarrow> log_update_outputs ''first'' ua (wlog Again_Received pr);
        (status, pr) \<leftarrow> traced_update w ua (wlog Again_Retry pr);
        pr \<leftarrow> log_update_outputs ''second'' ua (wlog (Again_Status status) pr);
        let pr = (if status = CV_STATUS_UPDATE_AGAIN then wlog Again_Limit pr else pr);
        Some (status, wlog Again_Passing pr)
      })"

text \<open>The tail: a bad capture re-arms the enrollment before it is returned.\<close>

definition rearm_bad_capture ::
  "'w rearm_world \<Rightarrow> u32 \<Rightarrow> 'w process \<Rightarrow> (u32 \<times> 'w process) option" where
  "rearm_bad_capture w status pr =
     (if status \<noteq> CV_STATUS_BAD_CAPTURE then Some (status, pr)
      else
        let attempt = pr_retry_attempt pr + 1;
            pr = wlog (Bad_Capture_Rearm attempt)
                   (wlog (Bad_Capture attempt) (pr\<lparr>pr_retry_attempt := attempt\<rparr>))
        in do {
          (rearm_status, pr) \<leftarrow> native_rearm w pr;
          if rearm_status \<noteq> CV_STATUS_SUCCESS
          then Some (fatalize_rearm_status rearm_status,
                     wlog (Bad_Capture_Rearm_Failed rearm_status attempt) pr)
          else Some (CV_STATUS_BAD_CAPTURE, wlog (Bad_Capture_Rearm_Done attempt) pr)
        })"

definition update_policies ::
  "'w rearm_world \<Rightarrow> update_args \<Rightarrow> u32 \<Rightarrow> 'w process \<Rightarrow> ((u32 + u32) \<times> 'w process) option" where
  "update_policies w ua status pr =
     (if rc_update_policy (cache pr) \<noteq> UPDATE_POLICY_LEGACY_REPEAT
      then fresh_boundary w ua status pr
      else do {
        (status, pr) \<leftarrow> legacy_repeat w ua status pr;
        Some (Inr status, pr)
      })"

definition cv_fingerprint_update_enrollment ::
  "'w rearm_world \<Rightarrow> update_args \<Rightarrow> 'w process \<Rightarrow> (u32 \<times> 'w process) option" where
  "cv_fingerprint_update_enrollment w ua pr =
     (let (ok, pr) = check_forwarding w pr
      in if \<not> ok
         then Some (CV_STATUS_EXPERIMENT_FAILURE,
                    emit [Resolver_Line (Operation_Refused (refusal_reason (cache pr)))] pr)
         else do {
           (gate, pr) \<leftarrow> zero_input_gate w ua pr;
           case gate of
             Inl status \<Rightarrow> Some (status, pr)
           | Inr effective \<Rightarrow> do {
               (status, pr) \<leftarrow> traced_update w effective pr;
               (branch, pr) \<leftarrow> update_policies w effective status pr;
               case branch of
                 Inl status \<Rightarrow> Some (status, pr)
               | Inr status \<Rightarrow> rearm_bad_capture w status pr
             }
         })"

end
