(* ===== verification/Rearm_Correct.thy ===== *)
theory Rearm_Correct
  imports Rearm_Update
begin

text \<open>
  The abstract machine that the interposer implements, and the lemmas that relate the wrapper to
  it. The machine sees only the calls into the driver, the result and the two counters that limit
  it; log, memory, trace and driver state are gone.
\<close>

section \<open>The abstract machine\<close>

fun is_native :: "event \<Rightarrow> bool" where
  "is_native (Logged l) = False"
| "is_native (Native_Update ua b st c) = True"
| "is_native (Native_Rearm st) = True"

definition native_calls :: "'w process \<Rightarrow> event list" where
  "native_calls pr = filter is_native (pr_events pr)"

text \<open>How a call ends after its last update returned \<open>st\<close>: a bad capture is re-armed.\<close>

inductive ending :: "u32 \<Rightarrow> event list \<Rightarrow> u32 \<Rightarrow> bool" where
  pass: "st \<noteq> CV_STATUS_BAD_CAPTURE \<Longrightarrow> ending st [] st"
| rearmed: "ending CV_STATUS_BAD_CAPTURE [Native_Rearm CV_STATUS_SUCCESS] CV_STATUS_BAD_CAPTURE"
| rearm_failed: "rs \<noteq> CV_STATUS_SUCCESS \<Longrightarrow>
    ending CV_STATUS_BAD_CAPTURE [Native_Rearm rs] (fatalize_rearm_status rs)"

inductive_cases endingE: "ending st calls r"

abbreviation "zero_policy \<equiv> UPDATE_POLICY_ZERO_INPUT_FRESH_REARM_STOP_BEFORE_COMMIT"
abbreviation "legacy_policy \<equiv> UPDATE_POLICY_LEGACY_REPEAT"

text \<open>
  The counters are the zero-input call count and the accepted count. \<open>admitted\<close>: the gate of the
  zero-input policy lets the call through; \<open>b\<close> are then the bytes the driver is shown.
\<close>

definition admitted ::
  "update_policy \<Rightarrow> update_args \<Rightarrow> u32 \<Rightarrow> u32 \<Rightarrow> byte list option \<Rightarrow> bool" where
  "admitted pol ua zc zc' b \<longleftrightarrow>
     (if pol = zero_policy
      then ua_enrollment_id ua \<noteq> 0 \<and> zc + 1 \<le> CV2_MAX_ZERO_INPUT_UPDATES \<and> zc' = zc + 1
           \<and> b = Some (replicate CV2_ENROLLMENT_VALUE_SIZE 0)
      else zc' = zc)"

definition effective_args :: "update_policy \<Rightarrow> ptr \<Rightarrow> update_args \<Rightarrow> update_args" where
  "effective_args pol z ua = (if pol = zero_policy then ua\<lparr>ua_enrollment_id := z\<rparr> else ua)"

inductive wrapper_step ::
  "update_policy \<Rightarrow> ptr \<Rightarrow> update_args \<Rightarrow> u32 \<times> u32 \<Rightarrow> event list \<Rightarrow> u32 \<Rightarrow> u32 \<times> u32 \<Rightarrow> bool"
  for pol z ua where
  null_input:
    "pol = zero_policy \<Longrightarrow> ua_enrollment_id ua = 0 \<Longrightarrow>
     wrapper_step pol z ua (zc, ac) [] CV_STATUS_EXPERIMENT_FAILURE (zc, ac)"
| over_limit:
    "pol = zero_policy \<Longrightarrow> ua_enrollment_id ua \<noteq> 0 \<Longrightarrow> zc + 1 > CV2_MAX_ZERO_INPUT_UPDATES \<Longrightarrow>
     wrapper_step pol z ua (zc, ac) [] CV_STATUS_EXPERIMENT_FAILURE (zc + 1, ac)"
| legacy_once:
    "pol = legacy_policy \<Longrightarrow> st \<noteq> CV_STATUS_UPDATE_AGAIN \<Longrightarrow> ending st calls r \<Longrightarrow>
     wrapper_step pol z ua (zc, ac) (Native_Update ua b st c # calls) r (zc, ac)"
| legacy_twice:
    "pol = legacy_policy \<Longrightarrow> ending st calls r \<Longrightarrow>
     wrapper_step pol z ua (zc, ac)
       (Native_Update ua b CV_STATUS_UPDATE_AGAIN c # Native_Update ua b' st c' # calls) r (zc, ac)"
| fresh_status:
    "pol \<noteq> legacy_policy \<Longrightarrow> admitted pol ua zc zc' b \<Longrightarrow> st \<noteq> CV_STATUS_SUCCESS \<Longrightarrow>
     ending st calls r \<Longrightarrow>
     wrapper_step pol z ua (zc, ac) (Native_Update (effective_args pol z ua) b st c # calls) r (zc', ac)"
| fresh_completed:
    "pol \<noteq> legacy_policy \<Longrightarrow> admitted pol ua zc zc' b \<Longrightarrow> c \<noteq> Some 0 \<Longrightarrow>
     wrapper_step pol z ua (zc, ac) [Native_Update (effective_args pol z ua) b CV_STATUS_SUCCESS c]
       CV_STATUS_EXPERIMENT_FAILURE (zc', ac)"
| fresh_incomplete:
    "pol \<noteq> legacy_policy \<Longrightarrow> admitted pol ua zc zc' b \<Longrightarrow>
     \<not> update_policy_rearms_accepted pol \<Longrightarrow>
     wrapper_step pol z ua (zc, ac)
       [Native_Update (effective_args pol z ua) b CV_STATUS_SUCCESS (Some 0)]
       CV_STATUS_SUCCESS (zc', ac)"
| accepted_limit:
    "update_policy_rearms_accepted pol \<Longrightarrow> admitted pol ua zc zc' b \<Longrightarrow>
     ac + 1 \<ge> CV2_MAX_ACCEPTED_UPDATES \<Longrightarrow>
     wrapper_step pol z ua (zc, ac)
       [Native_Update (effective_args pol z ua) b CV_STATUS_SUCCESS (Some 0)]
       CV_STATUS_EXPERIMENT_FAILURE (zc', ac + 1)"
| accepted_rearmed:
    "update_policy_rearms_accepted pol \<Longrightarrow> admitted pol ua zc zc' b \<Longrightarrow>
     ac + 1 < CV2_MAX_ACCEPTED_UPDATES \<Longrightarrow>
     wrapper_step pol z ua (zc, ac)
       [Native_Update (effective_args pol z ua) b CV_STATUS_SUCCESS (Some 0),
        Native_Rearm CV_STATUS_SUCCESS]
       CV_STATUS_SUCCESS (zc', ac + 1)"
| accepted_rearm_failed:
    "update_policy_rearms_accepted pol \<Longrightarrow> admitted pol ua zc zc' b \<Longrightarrow>
     ac + 1 < CV2_MAX_ACCEPTED_UPDATES \<Longrightarrow> rs \<noteq> CV_STATUS_SUCCESS \<Longrightarrow>
     wrapper_step pol z ua (zc, ac)
       [Native_Update (effective_args pol z ua) b CV_STATUS_SUCCESS (Some 0), Native_Rearm rs]
       (fatalize_rearm_status rs) (zc', ac + 1)"

inductive_cases wrapper_stepE: "wrapper_step pol z ua s calls r s'"

section \<open>Frames\<close>

text \<open>
  \<open>controls\<close> are the parts of the process that the machine keeps: resolver and counters.
\<close>

definition controls :: "'w process \<Rightarrow> resolver_state \<times> u32 \<times> u32" where
  "controls pr = (pr_resolver pr, pr_zero_input_update_count pr, pr_accepted_incomplete_count pr)"

lemma emit_simps [simp]:
  "controls (emit ls pr) = controls pr" "native_calls (emit ls pr) = native_calls pr"
  "pr_heap (emit ls pr) = pr_heap pr" "pr_native (emit ls pr) = pr_native pr"
  "pr_trace (emit ls pr) = pr_trace pr" "pr_resolver (emit ls pr) = pr_resolver pr"
  "pr_retry_attempt (emit ls pr) = pr_retry_attempt pr"
  "pr_accepted_incomplete_count (emit ls pr) = pr_accepted_incomplete_count pr"
  "pr_zero_input_update_count (emit ls pr) = pr_zero_input_update_count pr"
  "pr_update_call_count (emit ls pr) = pr_update_call_count pr"
  "pr_events (emit ls pr) = pr_events pr @ map Logged ls"
  by (simp_all add: emit_def controls_def native_calls_def filter_empty_conv filter_map comp_def)

lemma process_simps [simp]:
  "native_calls (pr\<lparr>pr_heap := h\<rparr>) = native_calls pr"
  "native_calls (pr\<lparr>pr_trace := t\<rparr>) = native_calls pr"
  "native_calls (pr\<lparr>pr_update_call_count := n\<rparr>) = native_calls pr"
  "native_calls (pr\<lparr>pr_retry_attempt := n\<rparr>) = native_calls pr"
  "native_calls (pr\<lparr>pr_accepted_incomplete_count := n\<rparr>) = native_calls pr"
  "native_calls (pr\<lparr>pr_zero_input_update_count := n\<rparr>) = native_calls pr"
  "native_calls (pr\<lparr>pr_resolver := rs\<rparr>) = native_calls pr"
  "controls (pr\<lparr>pr_heap := h\<rparr>) = controls pr"
  "controls (pr\<lparr>pr_trace := t\<rparr>) = controls pr"
  "controls (pr\<lparr>pr_update_call_count := n\<rparr>) = controls pr"
  "controls (pr\<lparr>pr_retry_attempt := n\<rparr>) = controls pr"
  by (simp_all add: native_calls_def controls_def)

text \<open>The completion byte an event shows.\<close>

definition seen_completion :: "update_args \<Rightarrow> heap \<Rightarrow> byte option" where
  "seen_completion ua h = (if ua_completion_out ua = 0 then None else h (ua_completion_out ua))"

lemma completion_byte_Some:
  "completion_byte h (ua_completion_out ua) = Some c \<Longrightarrow> c = seen_completion ua h"
  by (auto simp: completion_byte_def seen_completion_def split: if_splits)

lemma native_update_frame:
  assumes "native_update w ua pr = Some (st, pr')"
  shows "controls pr' = controls pr \<and> native_calls pr' = native_calls pr @
      [Native_Update ua (mem_read (pr_heap pr) (ua_enrollment_id ua) CV2_ENROLLMENT_VALUE_SIZE) st
         (seen_completion ua (pr_heap pr'))]"
  using assms
  by (auto simp: native_update_def fault_split controls_def native_calls_def seen_completion_def)

lemma native_rearm_frame:
  assumes "native_rearm w pr = Some (st, pr')"
  shows "controls pr' = controls pr \<and> native_calls pr' = native_calls pr @ [Native_Rearm st]"
  using assms by (auto simp: native_rearm_def fault_split controls_def native_calls_def)

lemma traced_update_frame:
  assumes "traced_update w ua pr = Some (st, pr')"
  shows "controls pr' = controls pr \<and> native_calls pr' = native_calls pr @
      [Native_Update ua (mem_read (pr_heap pr) (ua_enrollment_id ua) CV2_ENROLLMENT_VALUE_SIZE) st
         (seen_completion ua (pr_heap pr'))]"
  using assms
  by (auto simp: traced_update_def fault_split split: if_splits dest!: native_update_frame)

lemma log_update_outputs_Some:
  "log_update_outputs which ua pr = Some pr' \<Longrightarrow>
   pr' = wlog (Update_Outputs which (seen_completion ua (pr_heap pr))
                (ua_enrollment_data_out ua \<noteq> 0) (ua_output_value_out ua \<noteq> 0)) pr"
  by (auto simp: log_update_outputs_def fault_split dest: completion_byte_Some)

lemmas frame_rules =
  native_update_frame native_rearm_frame traced_update_frame log_update_outputs_Some

lemma controls_eqD:
  "controls pr' = controls pr \<Longrightarrow> pr_resolver pr' = pr_resolver pr"
  "controls pr' = controls pr \<Longrightarrow> pr_zero_input_update_count pr' = pr_zero_input_update_count pr"
  "controls pr' = controls pr \<Longrightarrow>
     pr_accepted_incomplete_count pr' = pr_accepted_incomplete_count pr"
  by (simp_all add: controls_def)

section \<open>The parts of the wrapper\<close>

lemma rearm_bad_capture_ending:
  assumes "rearm_bad_capture w st pr = Some (r, pr')"
  shows "controls pr' = controls pr"
    and "\<exists>calls. native_calls pr' = native_calls pr @ calls \<and> ending st calls r"
proof -
  show "controls pr' = controls pr"
    using assms
    by (auto simp: rearm_bad_capture_def fault_split Let_def split: if_splits
        dest!: native_rearm_frame)
  show "\<exists>calls. native_calls pr' = native_calls pr @ calls \<and> ending st calls r"
    using assms
    by (auto simp: rearm_bad_capture_def fault_split Let_def split: if_splits
        dest!: native_rearm_frame intro: ending.intros)
qed

lemma legacy_repeat_calls:
  assumes "legacy_repeat w ua st pr = Some (r, pr')"
  shows "controls pr' = controls pr"
    and "st \<noteq> CV_STATUS_UPDATE_AGAIN \<Longrightarrow> native_calls pr' = native_calls pr \<and> r = st"
    and "st = CV_STATUS_UPDATE_AGAIN \<Longrightarrow>
           \<exists>b c. native_calls pr' = native_calls pr @ [Native_Update ua b r c]"
  using assms
  by (auto simp: legacy_repeat_def fault_split Let_def split: if_splits dest!: frame_rules)

lemma zero_input_gate_pass:
  assumes "zero_input_gate w ua pr = Some (Inr eff, pr')"
  shows "eff = effective_args (rc_update_policy (cache pr)) (rw_zero_update_input w) ua"
    and "admitted (rc_update_policy (cache pr)) ua (pr_zero_input_update_count pr)
           (pr_zero_input_update_count pr')
           (mem_read (pr_heap pr') (ua_enrollment_id eff) CV2_ENROLLMENT_VALUE_SIZE)"
    and "native_calls pr' = native_calls pr" and "pr_resolver pr' = pr_resolver pr"
    and "pr_accepted_incomplete_count pr' = pr_accepted_incomplete_count pr"
proof -
  have read: "mem_read h' z CV2_ENROLLMENT_VALUE_SIZE = Some (replicate CV2_ENROLLMENT_VALUE_SIZE 0)"
    if "mem_write h z (replicate CV2_ENROLLMENT_VALUE_SIZE 0) = Some h'" for h h' z
    using mem_read_write [OF that] by (simp add: CV2_ENROLLMENT_VALUE_SIZE_def)
  show "admitted (rc_update_policy (cache pr)) ua (pr_zero_input_update_count pr)
           (pr_zero_input_update_count pr')
           (mem_read (pr_heap pr') (ua_enrollment_id eff) CV2_ENROLLMENT_VALUE_SIZE)"
    using assms
    by (auto simp: zero_input_gate_def admitted_def Let_def fault_split read split: if_splits)
qed (use assms in \<open>auto simp: zero_input_gate_def effective_args_def Let_def fault_split
       split: if_splits\<close>)

lemma zero_input_gate_refuse:
  assumes "zero_input_gate w ua pr = Some (Inl r, pr')"
  shows "rc_update_policy (cache pr) = zero_policy"
    and "r = CV_STATUS_EXPERIMENT_FAILURE" and "native_calls pr' = native_calls pr"
    and "pr_resolver pr' = pr_resolver pr"
    and "pr_accepted_incomplete_count pr' = pr_accepted_incomplete_count pr"
    and "ua_enrollment_id ua = 0 \<and> pr_zero_input_update_count pr' = pr_zero_input_update_count pr
         \<or> ua_enrollment_id ua \<noteq> 0
           \<and> pr_zero_input_update_count pr + 1 > CV2_MAX_ZERO_INPUT_UPDATES
           \<and> pr_zero_input_update_count pr' = pr_zero_input_update_count pr + 1"
  using assms by (auto simp: zero_input_gate_def Let_def fault_split split: if_splits)

lemma rearm_accepted_calls:
  assumes "rearm_accepted w st pr = Some (branch, pr')"
  shows "pr_resolver pr' = pr_resolver pr"
    and "pr_zero_input_update_count pr' = pr_zero_input_update_count pr"
    and "pr_accepted_incomplete_count pr' = pr_accepted_incomplete_count pr + 1"
    and "branch = Inl CV_STATUS_EXPERIMENT_FAILURE \<and> native_calls pr' = native_calls pr
           \<and> pr_accepted_incomplete_count pr + 1 \<ge> CV2_MAX_ACCEPTED_UPDATES
         \<or> branch = Inr st \<and> native_calls pr' = native_calls pr @ [Native_Rearm CV_STATUS_SUCCESS]
           \<and> pr_accepted_incomplete_count pr + 1 < CV2_MAX_ACCEPTED_UPDATES
         \<or> (\<exists>rs. rs \<noteq> CV_STATUS_SUCCESS \<and> branch = Inl (fatalize_rearm_status rs)
               \<and> native_calls pr' = native_calls pr @ [Native_Rearm rs]
               \<and> pr_accepted_incomplete_count pr + 1 < CV2_MAX_ACCEPTED_UPDATES)"
  using assms
  by (auto simp: rearm_accepted_def fault_split Let_def controls_def split: if_splits
      dest!: native_rearm_frame)

lemma fresh_boundary_cases:
  assumes "fresh_boundary w ua st pr = Some (branch, pr')"
  shows "(st \<noteq> CV_STATUS_SUCCESS \<and> branch = Inr st \<and> native_calls pr' = native_calls pr
            \<and> controls pr' = controls pr)
       \<or> (st = CV_STATUS_SUCCESS \<and> seen_completion ua (pr_heap pr) \<noteq> Some 0
            \<and> branch = Inl CV_STATUS_EXPERIMENT_FAILURE \<and> native_calls pr' = native_calls pr
            \<and> controls pr' = controls pr)
       \<or> (st = CV_STATUS_SUCCESS \<and> seen_completion ua (pr_heap pr) = Some 0
            \<and> \<not> update_policy_rearms_accepted (rc_update_policy (cache pr))
            \<and> branch = Inr st \<and> native_calls pr' = native_calls pr \<and> controls pr' = controls pr)
       \<or> (st = CV_STATUS_SUCCESS \<and> seen_completion ua (pr_heap pr) = Some 0
            \<and> update_policy_rearms_accepted (rc_update_policy (cache pr))
            \<and> (\<exists>pr1. controls pr1 = controls pr \<and> native_calls pr1 = native_calls pr
                      \<and> rearm_accepted w st pr1 = Some (branch, pr')))"
proof -
  from assms obtain prl where
    logged: "log_update_outputs ''native'' ua (wlog (Boundary_Status st) pr) = Some prl"
    by (auto simp: fresh_boundary_def fault_split)
  note prl = log_update_outputs_Some [OF logged]
  define pr1 where "pr1 = (if st = CV_STATUS_UPDATE_AGAIN then wlog Boundary_Preserved prl else prl)"
  have same: "controls pr1 = controls pr" "native_calls pr1 = native_calls pr"
    "pr_heap pr1 = pr_heap pr" "cache pr1 = cache pr"
    by (simp_all add: pr1_def prl)
  have rest: "(if st \<noteq> CV_STATUS_SUCCESS then Some (Inr st, pr1)
       else do {
         completion \<leftarrow> completion_byte (pr_heap pr1) (ua_completion_out ua);
         if completion \<noteq> Some 0
         then Some (Inl CV_STATUS_EXPERIMENT_FAILURE, wlog Boundary_Blocked pr1)
         else if update_policy_rearms_accepted (rc_update_policy (cache pr1))
         then rearm_accepted w st pr1
         else Some (Inr st, pr1)
       }) = Some (branch, pr')"
    using assms
    by (simp only: fresh_boundary_def logged Option.bind.simps Let_def flip: pr1_def)
  show ?thesis
  proof (cases "st = CV_STATUS_SUCCESS")
    case False
    then show ?thesis using rest same by auto
  next
    case True
    with rest same obtain completion
      where cb: "completion_byte (pr_heap pr) (ua_completion_out ua) = Some completion"
        and rest': "(if completion \<noteq> Some 0
         then Some (Inl CV_STATUS_EXPERIMENT_FAILURE, wlog Boundary_Blocked pr1)
         else if update_policy_rearms_accepted (rc_update_policy (cache pr))
         then rearm_accepted w st pr1
         else Some (Inr st, pr1)) = Some (branch, pr')"
      by (auto simp: fault_split cong: if_cong)
    note seen = completion_byte_Some [OF cb]
    show ?thesis
    proof (cases "completion = Some 0 \<and> update_policy_rearms_accepted (rc_update_policy (cache pr))")
      case acc: True
      then show ?thesis using rest' same True seen by (intro disjI2) auto
    next
      case False
      then show ?thesis using rest' same True seen by (auto split: if_splits)
    qed
  qed
qed

section \<open>The wrapper implements the machine\<close>

abbreviation counts :: "'w process \<Rightarrow> u32 \<times> u32" where
  "counts pr \<equiv> (pr_zero_input_update_count pr, pr_accepted_incomplete_count pr)"

text \<open>From the native update on, for the policies that stop before the commit.\<close>

lemma fresh_policies_step:
  assumes pol: "rc_update_policy (cache pr) = pol" "pol \<noteq> legacy_policy"
    and adm: "admitted pol ua zc (pr_zero_input_update_count pr)
                (mem_read (pr_heap pr) (ua_enrollment_id eff) CV2_ENROLLMENT_VALUE_SIZE)"
    and eff: "eff = effective_args pol z ua"
    and upd: "traced_update w eff pr = Some (st, pr1)"
    and bnd: "fresh_boundary w eff st pr1 = Some (branch, pr2)"
    and fin: "(case branch of Inl s \<Rightarrow> Some (s, pr2) | Inr s \<Rightarrow> rearm_bad_capture w s pr2)
                = Some (r, pr3)"
  shows "\<exists>calls. native_calls pr3 = native_calls pr @ calls \<and> pr_resolver pr3 = pr_resolver pr
           \<and> wrapper_step pol z ua (zc, pr_accepted_incomplete_count pr) calls r (counts pr3)"
proof -
  define b where
    "b = mem_read (pr_heap pr) (ua_enrollment_id eff) CV2_ENROLLMENT_VALUE_SIZE"
  define c where "c = seen_completion eff (pr_heap pr1)"
  have ctl1: "controls pr1 = controls pr"
    and calls1: "native_calls pr1 = native_calls pr @ [Native_Update eff b st c]"
    using traced_update_frame [OF upd] by (simp_all add: b_def c_def)
  note same = controls_eqD [OF ctl1]
  note adm = adm [folded b_def]
  from fresh_boundary_cases [OF bnd, folded c_def]
  consider (status) "st \<noteq> CV_STATUS_SUCCESS" "branch = Inr st"
      "native_calls pr2 = native_calls pr1" "controls pr2 = controls pr1"
    | (completed) "st = CV_STATUS_SUCCESS" "c \<noteq> Some 0" "branch = Inl CV_STATUS_EXPERIMENT_FAILURE"
      "native_calls pr2 = native_calls pr1" "controls pr2 = controls pr1"
    | (incomplete) "st = CV_STATUS_SUCCESS" "c = Some 0" "\<not> update_policy_rearms_accepted pol"
      "branch = Inr st" "native_calls pr2 = native_calls pr1" "controls pr2 = controls pr1"
    | (accepted) pr1' where "st = CV_STATUS_SUCCESS" "c = Some 0" "update_policy_rearms_accepted pol"
      "controls pr1' = controls pr1" "native_calls pr1' = native_calls pr1"
      "rearm_accepted w st pr1' = Some (branch, pr2)"
    using pol same by auto
  then show ?thesis
  proof cases
    case status
    then have "rearm_bad_capture w st pr2 = Some (r, pr3)" using fin by simp
    then obtain calls where "native_calls pr3 = native_calls pr2 @ calls" "ending st calls r"
      and "controls pr3 = controls pr2"
      using rearm_bad_capture_ending by blast
    then show ?thesis
      using status calls1 pol adm same eff ctl1
        wrapper_step.fresh_status [of pol ua zc "pr_zero_input_update_count pr" b st calls r z
          "pr_accepted_incomplete_count pr" c]
      by (auto simp: controls_def)
  next
    case completed
    then show ?thesis
      using fin calls1 pol adm same eff
        wrapper_step.fresh_completed [of pol ua zc "pr_zero_input_update_count pr" b c z
          "pr_accepted_incomplete_count pr"]
      by (auto simp: controls_def)
  next
    case incomplete
    then have "pr3 = pr2" "r = CV_STATUS_SUCCESS"
      using fin by (auto simp: rearm_bad_capture_def CV_STATUS_BAD_CAPTURE_def CV_STATUS_SUCCESS_def)
    then show ?thesis
      using incomplete calls1 pol adm same eff
        wrapper_step.fresh_incomplete [of pol ua zc "pr_zero_input_update_count pr" b z
          "pr_accepted_incomplete_count pr"]
      by (auto simp: controls_def)
  next
    case accepted
    have tail: "rearm_bad_capture w CV_STATUS_SUCCESS pr2 = Some (CV_STATUS_SUCCESS, pr2)"
      by (simp add: rearm_bad_capture_def CV_STATUS_BAD_CAPTURE_def CV_STATUS_SUCCESS_def)
    have res: "pr_resolver pr2 = pr_resolver pr" "pr_zero_input_update_count pr2 =
        pr_zero_input_update_count pr" "pr_accepted_incomplete_count pr2 =
        pr_accepted_incomplete_count pr + 1" "pr_accepted_incomplete_count pr1' =
        pr_accepted_incomplete_count pr"
      using rearm_accepted_calls(1-3) [OF accepted(6)] accepted(4) same
      by (auto simp: controls_def)
    from rearm_accepted_calls(4) [OF accepted(6)]
    show ?thesis
      using fin res accepted(1-3,5) calls1 adm eff tail
        wrapper_step.accepted_limit [of pol ua zc "pr_zero_input_update_count pr" b
          "pr_accepted_incomplete_count pr" z]
        wrapper_step.accepted_rearmed [of pol ua zc "pr_zero_input_update_count pr" b
          "pr_accepted_incomplete_count pr" z]
        wrapper_step.accepted_rearm_failed [of pol ua zc "pr_zero_input_update_count pr" b
          "pr_accepted_incomplete_count pr" _ z]
      by auto
  qed
qed

lemma legacy_policy_step:
  assumes pol: "rc_update_policy (cache pr) = legacy_policy"
    and upd: "traced_update w ua pr = Some (st, pr1)"
    and rep: "legacy_repeat w ua st pr1 = Some (st2, pr2)"
    and fin: "rearm_bad_capture w st2 pr2 = Some (r, pr3)"
  shows "\<exists>calls. native_calls pr3 = native_calls pr @ calls \<and> pr_resolver pr3 = pr_resolver pr
           \<and> wrapper_step legacy_policy z ua (counts pr) calls r (counts pr3)"
proof -
  obtain b c where ctl1: "controls pr1 = controls pr"
    and calls1: "native_calls pr1 = native_calls pr @ [Native_Update ua b st c]"
    using traced_update_frame [OF upd] by blast
  obtain calls where calls3: "native_calls pr3 = native_calls pr2 @ calls" "ending st2 calls r"
    and ctl3: "controls pr3 = controls pr2"
    using rearm_bad_capture_ending [OF fin] by blast
  have same: "pr_resolver pr3 = pr_resolver pr" "counts pr3 = counts pr"
    using ctl1 ctl3 legacy_repeat_calls(1) [OF rep] by (simp_all add: controls_def)
  show ?thesis
  proof (cases "st = CV_STATUS_UPDATE_AGAIN")
    case True
    then obtain b' c' where "native_calls pr2 = native_calls pr1 @ [Native_Update ua b' st2 c']"
      using legacy_repeat_calls(3) [OF rep] by blast
    then show ?thesis
      using True calls1 calls3 same
        wrapper_step.legacy_twice [of legacy_policy st2 calls r z ua
          "pr_zero_input_update_count pr" "pr_accepted_incomplete_count pr" b c b' c']
      by auto
  next
    case False
    then have "native_calls pr2 = native_calls pr1" "st2 = st"
      using legacy_repeat_calls(2) [OF rep] by auto
    then show ?thesis
      using False calls1 calls3 same
        wrapper_step.legacy_once [of legacy_policy st calls r z ua
          "pr_zero_input_update_count pr" "pr_accepted_incomplete_count pr" b c]
      by auto
  qed
qed

text \<open>The check at the start of a call.\<close>

lemma check_forwarding_frame:
  assumes "check_forwarding w pr = (ok, pr1)"
  shows "native_calls pr1 = native_calls pr" "counts pr1 = counts pr" "pr_heap pr1 = pr_heap pr"
    and "pr_native pr1 = pr_native pr"
    and "ok \<Longrightarrow> rc_ready (cache pr1) \<and> rs_once_done (pr_resolver pr1)"
    and "rs_once_done (pr_resolver pr) \<Longrightarrow> ok \<Longrightarrow> pr1 = pr"
  using assms
  by (auto simp: check_forwarding_def forwarding_ready_def emit_def native_calls_def filter_map comp_def
      filter_empty_conv split: if_splits prod.splits)

lemma check_forwarding_settled:
  assumes "rs_once_done (pr_resolver pr)" and "dw_once_status (rw_dso w) = 0"
  shows "check_forwarding w pr = (rc_ready (cache pr), pr)"
  using assms by (simp add: check_forwarding_def forwarding_ready_def emit_def)

lemma wrapper_refused:
  assumes "check_forwarding w pr = (False, pr1)"
  shows "cv_fingerprint_update_enrollment w ua pr =
     Some (CV_STATUS_EXPERIMENT_FAILURE,
           emit [Resolver_Line (Operation_Refused (refusal_reason (cache pr1)))] pr1)"
  using assms by (simp add: cv_fingerprint_update_enrollment_def)

lemma wrapper_implements_machine:
  assumes ok: "check_forwarding w pr = (True, pr0)"
    and run: "cv_fingerprint_update_enrollment w ua pr = Some (r, pr')"
  shows "\<exists>calls. native_calls pr' = native_calls pr @ calls \<and> pr_resolver pr' = pr_resolver pr0
           \<and> wrapper_step (rc_update_policy (cache pr0)) (rw_zero_update_input w) ua
               (counts pr) calls r (counts pr')"
proof -
  define pol where "pol = rc_update_policy (cache pr0)"
  note start = check_forwarding_frame [OF ok]
  from run ok obtain gate prg where gate: "zero_input_gate w ua pr0 = Some (gate, prg)"
    and body: "(case gate of Inl status \<Rightarrow> Some (status, prg)
       | Inr effective \<Rightarrow> do {
           (status, pr) \<leftarrow> traced_update w effective prg;
           (branch, pr) \<leftarrow> update_policies w effective status pr;
           case branch of Inl status \<Rightarrow> Some (status, pr)
           | Inr status \<Rightarrow> rearm_bad_capture w status pr }) = Some (r, pr')"
    by (auto simp: cv_fingerprint_update_enrollment_def fault_split)
  show ?thesis
  proof (cases gate)
    case (Inl s)
    note refuse = zero_input_gate_refuse [OF gate [unfolded Inl]]
    have "r = s" "pr' = prg" using body Inl by auto
    then show ?thesis
      using refuse start(1,2)
        wrapper_step.null_input [of pol ua "rw_zero_update_input w"
          "pr_zero_input_update_count pr" "pr_accepted_incomplete_count pr"]
        wrapper_step.over_limit [of pol ua "pr_zero_input_update_count pr"
          "rw_zero_update_input w" "pr_accepted_incomplete_count pr"]
      by (auto simp: pol_def)
  next
    case (Inr eff)
    note pass = zero_input_gate_pass [OF gate [unfolded Inr]]
    have polg: "rc_update_policy (cache prg) = pol" using pass(4) by (simp add: pol_def)
    from body Inr obtain st pr1 branch pr2 where upd: "traced_update w eff prg = Some (st, pr1)"
      and pols: "update_policies w eff st pr1 = Some (branch, pr2)"
      and fin: "(case branch of Inl s \<Rightarrow> Some (s, pr2) | Inr s \<Rightarrow> rearm_bad_capture w s pr2)
                  = Some (r, pr')"
      by (auto simp: fault_split)
    have pol1: "rc_update_policy (cache pr1) = pol"
      using traced_update_frame [OF upd] polg by (simp add: controls_def)
    show ?thesis
    proof (cases "pol = legacy_policy")
      case True
      then obtain st2 where "legacy_repeat w eff st pr1 = Some (st2, pr2)" and "branch = Inr st2"
        using pols pol1 by (auto simp: update_policies_def fault_split)
      moreover have "eff = ua" "counts prg = counts pr"
        using pass start(2) True by (auto simp: pol_def effective_args_def admitted_def)
      ultimately show ?thesis
        using legacy_policy_step [of prg w ua st pr1 st2 pr2 r pr' "rw_zero_update_input w"]
          True polg upd fin pass(3,4) start(1) by (auto simp: pol_def)
    next
      case False
      have bnd: "fresh_boundary w eff st pr1 = Some (branch, pr2)"
        using pols pol1 False by (simp add: update_policies_def)
      show ?thesis
        using fresh_policies_step [OF polg False pass(2) [folded pol_def] pass(1) [folded pol_def]
            upd bnd fin] pass(3-5) start(1,2) by (auto simp: pol_def)
    qed
  qed
qed

text \<open>A call that returns after a passed check leaves the resolver as the check left it.\<close>

lemma wrapper_keeps_resolver:
  assumes "cv_fingerprint_update_enrollment w ua pr = Some (r, pr')"
    and "check_forwarding w pr = (ok, pr0)"
  shows "pr_resolver pr' = pr_resolver pr0"
  using assms wrapper_implements_machine [of w pr pr0 ua r pr'] wrapper_refused [of w pr pr0 ua]
  by (cases ok) auto

end
