(* ===== verification/Limited_Counter.thy ===== *)
theory Limited_Counter
  imports Cv2_Prelude
begin

text \<open>
  The pattern by which the interposers limit what a process may do: an atomic 32-bit counter that a
  call increments at most once, and an effect that a call has at most once and only while the
  incremented counter is within a limit. The locale states the contract; its lemma bounds the
  effects of any run that is too short to wrap the counter around.
\<close>

inductive counted_run ::
  "('r \<Rightarrow> 's \<Rightarrow> 'e list \<Rightarrow> 's \<Rightarrow> bool) \<Rightarrow> 'r list \<Rightarrow> 's \<Rightarrow> 'e list \<Rightarrow> 's \<Rightarrow> bool"
  for step where
  stop: "counted_run step [] s [] s"
| more: "step r s es s1 \<Longrightarrow> counted_run step rs s1 es' s2 \<Longrightarrow>
    counted_run step (r # rs) s (es @ es') s2"

lemma unat_Suc_no_wrap: "unat (x :: u32) + 1 < 2 ^ 32 \<Longrightarrow> unat (x + 1) = unat x + 1"
  by (simp add: unat_word_ariths)

locale limited_counter =
  fixes step :: "'r \<Rightarrow> 's \<Rightarrow> 'e list \<Rightarrow> 's \<Rightarrow> bool"
    and counter :: "'s \<Rightarrow> u32"
    and limit :: u32
  assumes counts: "step r s es s' \<Longrightarrow> counter s' = counter s \<or> counter s' = counter s + 1"
    and limits: "step r s es s' \<Longrightarrow> es \<noteq> [] \<Longrightarrow>
      length es = 1 \<and> counter s' = counter s + 1 \<and> counter s + 1 \<le> limit"
begin

lemma effects_bounded:
  assumes "counted_run step rs s es s'" and "unat (counter s) + length rs < 2 ^ 32"
  shows "length es \<le> unat limit - unat (counter s)"
  using assms
proof (induction rule: counted_run.induct)
  case (stop s)
  then show ?case by simp
next
  case (more r s es s1 rs es' s2)
  have plus: "unat (counter s + 1) = unat (counter s) + 1"
    using more.prems by (intro unat_Suc_no_wrap) simp
  have "unat (counter s1) + length rs < 2 ^ 32"
    using counts [OF more.hyps(1)] more.prems plus by auto
  note rest = more.IH [OF this]
  show ?case
  proof (cases "es = []")
    case True
    then show ?thesis using rest counts [OF more.hyps(1)] plus by auto
  next
    case False
    then have "length es = 1" "counter s1 = counter s + 1" "unat (counter s) + 1 \<le> unat limit"
      using limits [OF more.hyps(1)] plus by (auto simp: word_le_nat_alt)
    then show ?thesis using rest plus by simp
  qed
qed

text \<open>What holds of every effect of a step holds of every effect of a run.\<close>

lemma effects_satisfy:
  assumes "counted_run step rs s es s'"
    and "\<And>r s es s' e. r \<in> set rs \<Longrightarrow> step r s es s' \<Longrightarrow> e \<in> set es \<Longrightarrow> P r e"
  shows "\<forall>e \<in> set es. \<exists>r \<in> set rs. P r e"
  using assms by (induction rule: counted_run.induct) fastforce+

end

end
