(* ===== verification/Rearm_Session.thy ===== *)
theory Rearm_Session
  imports Rearm_Correct Limited_Counter
begin

text \<open>
  Whole sessions of the interposer: the driver's client calls the wrapper any number of times and
  may change the memory between two calls. The abstract machine runs along, and its counters
  bound what a session can do.
\<close>

section \<open>Sessions\<close>

text \<open>A call: what the client does to the memory first, then the arguments.\<close>

type_synonym client_call = "(heap \<Rightarrow> heap) \<times> update_args"

fun wrapper_session ::
  "'w rearm_world \<Rightarrow> client_call list \<Rightarrow> 'w process \<Rightarrow> (u32 list \<times> 'w process) option" where
  "wrapper_session w [] pr = Some ([], pr)"
| "wrapper_session w ((edit, ua) # cs) pr =
     do {
       (r, pr1) \<leftarrow> cv_fingerprint_update_enrollment w ua (pr\<lparr>pr_heap := edit (pr_heap pr)\<rparr>);
       (rs, pr2) \<leftarrow> wrapper_session w cs pr1;
       Some (r # rs, pr2)
     }"

inductive machine_run ::
  "update_policy \<Rightarrow> ptr \<Rightarrow> update_args list \<Rightarrow> u32 \<times> u32 \<Rightarrow> event list \<Rightarrow> u32 list \<Rightarrow> u32 \<times> u32 \<Rightarrow> bool"
  for pol z where
  stop: "machine_run pol z [] s [] [] s"
| call: "wrapper_step pol z ua s calls r s1 \<Longrightarrow> machine_run pol z uas s1 evs rs s2 \<Longrightarrow>
    machine_run pol z (ua # uas) s (calls @ evs) (r # rs) s2"

inductive_cases machine_run_NilE: "machine_run pol z [] s evs rs s'"
inductive_cases machine_run_ConsE: "machine_run pol z (ua # uas) s evs rs s'"

text \<open>The resolver has run, successfully, and \<open>pthread_once\<close> reports no error.\<close>

definition forwarding :: "'w rearm_world \<Rightarrow> 'w process \<Rightarrow> bool" where
  "forwarding w pr \<longleftrightarrow> dw_once_status (rw_dso w) = 0 \<and> rs_once_done (pr_resolver pr)
     \<and> rc_ready (cache pr)"

lemma forwarding_check: "forwarding w pr \<Longrightarrow> check_forwarding w pr = (True, pr)"
  by (simp add: forwarding_def check_forwarding_settled)

lemma forwarding_resolver:
  "forwarding w pr \<Longrightarrow> pr_resolver pr' = pr_resolver pr \<Longrightarrow> forwarding w pr'"
  by (simp add: forwarding_def)

lemma forwarding_edit [simp]: "forwarding w (pr\<lparr>pr_heap := h\<rparr>) = forwarding w pr"
  by (simp add: forwarding_def)

lemma session_implements_machine:
  assumes "forwarding w pr" and "wrapper_session w cs pr = Some (rs, pr')"
  shows "pr_resolver pr' = pr_resolver pr
     \<and> (\<exists>evs. native_calls pr' = native_calls pr @ evs
           \<and> machine_run (rc_update_policy (cache pr)) (rw_zero_update_input w)
               (map snd cs) (counts pr) evs rs (counts pr'))"
  using assms
proof (induction cs arbitrary: pr rs)
  case Nil
  then show ?case by (auto intro: machine_run.stop)
next
  case (Cons c cs)
  obtain edit ua where c: "c = (edit, ua)" by (cases c)
  define pre where "pre = pr\<lparr>pr_heap := edit (pr_heap pr)\<rparr>"
  have pre: "pr_resolver pre = pr_resolver pr" "counts pre = counts pr"
    "native_calls pre = native_calls pr" "forwarding w pre"
    using Cons.prems(1) by (simp_all add: pre_def)
  from Cons.prems(2) obtain r pr1 rs1
    where one: "cv_fingerprint_update_enrollment w ua pre = Some (r, pr1)"
      and rest: "wrapper_session w cs pr1 = Some (rs1, pr')" and rs: "rs = r # rs1"
    by (auto simp: c pre_def fault_split)
  from wrapper_implements_machine [OF forwarding_check [OF pre(4)] one]
  obtain calls where calls: "native_calls pr1 = native_calls pr @ calls"
    and res: "pr_resolver pr1 = pr_resolver pr"
    and step: "wrapper_step (rc_update_policy (cache pr)) (rw_zero_update_input w) ua
                 (counts pr) calls r (counts pr1)"
    using pre by auto
  have "forwarding w pr1" using Cons.prems(1) res by (rule forwarding_resolver)
  from Cons.IH [OF this rest] obtain evs where "native_calls pr' = native_calls pr1 @ evs"
    and "pr_resolver pr' = pr_resolver pr1"
    and "machine_run (rc_update_policy (cache pr)) (rw_zero_update_input w)
           (map snd cs) (counts pr1) evs rs1 (counts pr')"
    using res by auto
  then show ?case
    using machine_run.call [OF step] calls res rs by (auto simp: c)
qed

section \<open>What one step of the machine can do\<close>

fun is_update :: "event \<Rightarrow> bool" where
  "is_update (Native_Update ua b st c) = True"
| "is_update _ = False"

fun is_rearm :: "event \<Rightarrow> bool" where
  "is_rearm (Native_Rearm st) = True"
| "is_rearm _ = False"

definition updates :: "event list \<Rightarrow> event list" where "updates evs = filter is_update evs"
definition rearms :: "event list \<Rightarrow> event list" where "rearms evs = filter is_rearm evs"

lemma updates_simps [simp]:
  "updates [] = []" "updates (Native_Update ua b st c # evs) = Native_Update ua b st c # updates evs"
  "updates (Native_Rearm st # evs) = updates evs" "updates (Logged l # evs) = updates evs"
  "updates (evs @ evs') = updates evs @ updates evs'"
  by (simp_all add: updates_def)

lemma rearms_simps [simp]:
  "rearms [] = []" "rearms (Native_Update ua b st c # evs) = rearms evs"
  "rearms (Native_Rearm st # evs) = Native_Rearm st # rearms evs"
  "rearms (Logged l # evs) = rearms evs" "rearms (evs @ evs') = rearms evs @ rearms evs'"
  by (simp_all add: rearms_def)

lemma status_distinct [simp]:
  "CV_STATUS_SUCCESS \<noteq> CV_STATUS_BAD_CAPTURE" "CV_STATUS_BAD_CAPTURE \<noteq> CV_STATUS_SUCCESS"
  "CV_STATUS_EXPERIMENT_FAILURE \<noteq> CV_STATUS_SUCCESS"
  "CV_STATUS_EXPERIMENT_FAILURE \<noteq> CV_STATUS_BAD_CAPTURE"
  "CV_STATUS_SUCCESS \<noteq> CV_STATUS_EXPERIMENT_FAILURE"
  "CV_STATUS_BAD_CAPTURE \<noteq> CV_STATUS_EXPERIMENT_FAILURE"
  "CV_STATUS_SUCCESS \<noteq> CV_STATUS_UPDATE_AGAIN" "CV_STATUS_BAD_CAPTURE \<noteq> CV_STATUS_UPDATE_AGAIN"
  "CV_STATUS_UPDATE_AGAIN \<noteq> CV_STATUS_SUCCESS" "CV_STATUS_UPDATE_AGAIN \<noteq> CV_STATUS_BAD_CAPTURE"
  by (simp_all add: CV_STATUS_SUCCESS_def CV_STATUS_BAD_CAPTURE_def CV_STATUS_UPDATE_AGAIN_def
      CV_STATUS_EXPERIMENT_FAILURE_def)

text \<open>No failed re-arm is reported as success or as one of the retriable statuses.\<close>

lemma fatalize_rearm_status_fatal [simp]:
  "fatalize_rearm_status rs \<noteq> CV_STATUS_BAD_CAPTURE"
  "fatalize_rearm_status rs \<noteq> CV_STATUS_CAPTURE_FAILED"
  "fatalize_rearm_status rs \<noteq> CV_STATUS_ENROLL_MORE"
  "rs \<noteq> CV_STATUS_SUCCESS \<Longrightarrow> fatalize_rearm_status rs \<noteq> CV_STATUS_SUCCESS"
  by (auto simp: fatalize_rearm_status_def CV_STATUS_SUCCESS_def CV_STATUS_BAD_CAPTURE_def
      CV_STATUS_CAPTURE_FAILED_def CV_STATUS_ENROLL_MORE_def CV_STATUS_EXPERIMENT_FAILURE_def)

lemmas fatalize_rearm_status_fatal_sym [simp] = fatalize_rearm_status_fatal [symmetric]

lemma ending_calls: "ending st calls r \<Longrightarrow> updates calls = [] \<and> length (rearms calls) \<le> 1"
  by (erule endingE) simp_all

lemma ending_bad_capture:
  "ending st calls CV_STATUS_BAD_CAPTURE \<Longrightarrow>
     st = CV_STATUS_BAD_CAPTURE \<and> calls = [Native_Rearm CV_STATUS_SUCCESS]"
  by (erule endingE) auto

lemma ending_success: "ending st calls CV_STATUS_SUCCESS \<Longrightarrow> st = CV_STATUS_SUCCESS \<and> calls = []"
  by (erule endingE) auto

lemma legacy_never_rearms_accepted [simp]: "\<not> update_policy_rearms_accepted legacy_policy"
  by (simp add: update_policy_rearms_accepted_def)

lemma zero_policy_rearms [simp]: "update_policy_rearms_accepted zero_policy"
  by (simp add: update_policy_rearms_accepted_def)

text \<open>The counter of the accepted updates limits the successes of a re-arming policy.\<close>

lemma rearming_step:
  assumes "wrapper_step pol z ua (zc, ac) calls r (zc', ac')"
    and "update_policy_rearms_accepted pol"
  shows "ac' = ac \<and> r \<noteq> CV_STATUS_SUCCESS
         \<or> ac' = ac + 1 \<and> r \<noteq> CV_STATUS_SUCCESS
         \<or> ac' = ac + 1 \<and> ac + 1 < CV2_MAX_ACCEPTED_UPDATES"
  using assms by (cases rule: wrapper_step.cases) (auto dest: ending_success)

text \<open>The counter of the zero-input policy limits the updates the driver sees.\<close>

lemma zero_input_step:
  assumes "wrapper_step zero_policy z ua (zc, ac) calls r (zc', ac')"
  shows "(zc' = zc \<or> zc' = zc + 1) \<and> updates calls = []
         \<or> zc' = zc + 1 \<and> zc + 1 \<le> CV2_MAX_ZERO_INPUT_UPDATES
           \<and> (\<exists>st c. updates calls = [Native_Update (ua\<lparr>ua_enrollment_id := z\<rparr>)
                   (Some (replicate CV2_ENROLLMENT_VALUE_SIZE 0)) st c])"
  using assms
  by (cases rule: wrapper_step.cases) (auto simp: admitted_def effective_args_def dest: ending_calls)

section \<open>The two limits\<close>

text \<open>
  The successes of a re-arming policy are an effect limited by the accepted count (to 3, as the
  fourth accepted update fails), the updates of the zero-input policy one limited by its own count.
\<close>

definition success_step ::
  "update_policy \<Rightarrow> ptr \<Rightarrow> update_args \<Rightarrow> u32 \<times> u32 \<Rightarrow> u32 list \<Rightarrow> u32 \<times> u32 \<Rightarrow> bool" where
  "success_step pol z ua s es s' \<longleftrightarrow> update_policy_rearms_accepted pol
     \<and> (\<exists>calls r. wrapper_step pol z ua s calls r s'
           \<and> es = (if r = CV_STATUS_SUCCESS then [r] else []))"

definition update_step ::
  "ptr \<Rightarrow> update_args \<Rightarrow> u32 \<times> u32 \<Rightarrow> event list \<Rightarrow> u32 \<times> u32 \<Rightarrow> bool" where
  "update_step z ua s es s' \<longleftrightarrow>
     (\<exists>calls r. wrapper_step zero_policy z ua s calls r s' \<and> es = updates calls)"

lemma below_accepted_limit: "(n :: u32) < CV2_MAX_ACCEPTED_UPDATES \<Longrightarrow> n \<le> 3"
  by (simp add: CV2_MAX_ACCEPTED_UPDATES_def word_less_nat_alt word_le_nat_alt)

interpretation successes: limited_counter "success_step pol z" snd 3 for pol z
proof
  fix ua es and s s' :: "u32 \<times> u32"
  assume step: "success_step pol z ua s es s'"
  then show "snd s' = snd s \<or> snd s' = snd s + 1"
    by (cases s; cases s') (auto simp: success_step_def dest!: rearming_step)
  show "length es = 1 \<and> snd s' = snd s + 1 \<and> snd s + 1 \<le> 3" if "es \<noteq> []"
    using step that
    by (cases s; cases s') (auto simp: success_step_def below_accepted_limit dest!: rearming_step
        split: if_splits)
qed

interpretation zero_updates: limited_counter "update_step z" fst CV2_MAX_ZERO_INPUT_UPDATES for z
proof
  fix ua es and s s' :: "u32 \<times> u32"
  assume step: "update_step z ua s es s'"
  then show "fst s' = fst s \<or> fst s' = fst s + 1"
    by (cases s; cases s') (auto simp: update_step_def dest!: zero_input_step)
  show "length es = 1 \<and> fst s' = fst s + 1 \<and> fst s + 1 \<le> CV2_MAX_ZERO_INPUT_UPDATES"
    if "es \<noteq> []"
    using step that by (cases s; cases s') (auto simp: update_step_def dest!: zero_input_step)
qed

lemma machine_run_successes:
  assumes "machine_run pol z uas s evs rs s'" and "update_policy_rearms_accepted pol"
  shows "counted_run (success_step pol z) uas s (filter (\<lambda>r. r = CV_STATUS_SUCCESS) rs) s'"
  using assms(1)
proof (induction rule: machine_run.induct)
  case (stop s)
  then show ?case by (simp add: counted_run.stop)
next
  case (call ua s calls r s1 uas evs rs s2)
  have "success_step pol z ua s (if r = CV_STATUS_SUCCESS then [r] else []) s1"
    using call.hyps(1) assms(2) by (auto simp: success_step_def)
  from counted_run.more [of "success_step pol z", OF this call.IH] show ?case
    by (auto split: if_splits)
qed

lemma machine_run_updates:
  assumes "machine_run zero_policy z uas s evs rs s'"
  shows "counted_run (update_step z) uas s (updates evs) s'"
  using assms
proof (induction rule: machine_run.induct)
  case (stop s)
  then show ?case by (simp add: counted_run.stop)
next
  case (call ua s calls r s1 uas evs rs s2)
  have "update_step z ua s (updates calls) s1" using call.hyps(1) by (auto simp: update_step_def)
  from counted_run.more [of "update_step z", OF this call.IH] show ?case by simp
qed

lemma accepted_run:
  assumes "machine_run pol z uas s evs rs s'" and "update_policy_rearms_accepted pol"
    and "unat (snd s) + length uas < 2 ^ 32"
  shows "length (filter (\<lambda>r. r = CV_STATUS_SUCCESS) rs) \<le> 3 - unat (snd s)"
  using successes.effects_bounded [OF machine_run_successes [OF assms(1,2)] assms(3)] by simp

lemma zero_input_run:
  assumes "machine_run zero_policy z uas s evs rs s'" and "unat (fst s) + length uas < 2 ^ 32"
  shows "length (updates evs) \<le> 24 - unat (fst s)
     \<and> (\<forall>e \<in> set (updates evs). \<exists>ua \<in> set uas. \<exists>st c.
           e = Native_Update (ua\<lparr>ua_enrollment_id := z\<rparr>)
                 (Some (replicate CV2_ENROLLMENT_VALUE_SIZE 0)) st c)"
proof -
  note run = machine_run_updates [OF assms(1)]
  have "\<exists>st c. e = Native_Update (ua\<lparr>ua_enrollment_id := z\<rparr>)
                 (Some (replicate CV2_ENROLLMENT_VALUE_SIZE 0)) st c"
    if "update_step z ua t es t'" "e \<in> set es" for ua t es t' e
    using that by (cases t; cases t') (auto simp: update_step_def dest!: zero_input_step)
  then have "\<forall>e \<in> set (updates evs). \<exists>ua \<in> set uas. \<exists>st c.
           e = Native_Update (ua\<lparr>ua_enrollment_id := z\<rparr>)
                 (Some (replicate CV2_ENROLLMENT_VALUE_SIZE 0)) st c"
    by (intro zero_updates.effects_satisfy [OF run])
  then show ?thesis
    using zero_updates.effects_bounded [OF run assms(2)]
    by (simp add: CV2_MAX_ZERO_INPUT_UPDATES_def)
qed

end
