(* ===== verification/Capture_Probe.thy ===== *)
theory Capture_Probe
  imports Process_World
begin

text \<open>
  The capture-only interposer \<open>tools/capture_get_result_probe_preload.c\<close>: its resolver, its two
  queries and its \<open>cv_fingerprint_update_enrollment\<close>. The file has its own copies of
  \<open>identity_from_path\<close>, \<open>find_loaded_target\<close> and the wiping loop; they are translated on their own and
  proved equal to the ones of the other files.
\<close>

section \<open>Data\<close>

definition CV2_CAPTURE_TARGET_ENV :: string where
  "CV2_CAPTURE_TARGET_ENV = ''CV2_CAPTURE_RESULT_TARGET_PATH''"
definition CV2_CAPTURE_SELECTOR :: byte where "CV2_CAPTURE_SELECTOR = 1"
definition CV2_CAPTURE_CAPACITY :: nat where "CV2_CAPTURE_CAPACITY = 0x17000"
definition CV2_EXPERIMENT_FAILURE :: u32 where "CV2_EXPERIMENT_FAILURE = 0x100003"

datatype probe_line =
    Probe_Failed string
  | Probe_Owned string
  | Probe_Boundary_Ready
  | Probe_Refusing string
  | Probe_Blocked u32
  | Probe_Invalid_Boundary
  | Probe_Allocation_Failed
  | Probe_Status u32 u32 bool
  | Probe_Wiped u32

primrec probe_text :: "probe_line \<Rightarrow> string" where
  "probe_text (Probe_Failed failure) = ''[cv2-capture-result-resolver] failed: '' @ failure"
| "probe_text (Probe_Owned name) =
     ''[cv2-capture-result-resolver] target-owned symbol='' @ name"
| "probe_text Probe_Boundary_Ready =
     ''[cv2-capture-result-resolver] capture-only boundary ready''"
| "probe_text (Probe_Refusing reason) =
     ''[cv2-capture-result] refusing before device open: '' @ reason"
| "probe_text (Probe_Blocked n) =
     ''[cv2-capture-result] additional UpdateEnrollment blocked call='' @ dec n"
| "probe_text Probe_Invalid_Boundary =
     ''[cv2-capture-result] invalid capture boundary; native call blocked''"
| "probe_text Probe_Allocation_Failed = ''[cv2-capture-result] private allocation failed''"
| "probe_text (Probe_Status st returned valid) =
     ''[cv2-capture-result] native_status=0x'' @ hex st @ '' selector='' @ dec 1
     @ '' returned_size='' @ dec returned @ '' capacity='' @ dec 94208
     @ '' size_valid='' @ (if valid then ''yes'' else ''no'') @ '' payload_logged=no''"
| "probe_text (Probe_Wiped n) =
     ''[cv2-capture-result] payload_wiped=yes UpdateEnrollment_forwarded=no ''
     @ ''CreateTemplate_called=no CommitEnrollment_called=no native_calls='' @ dec n"

record probe_cache =
  pc_handle :: ptr
  pc_capture_get_result :: ptr
  pc_ready :: bool
  pc_failure :: string

definition zero_probe_cache :: probe_cache where
  "zero_probe_cache = \<lparr>pc_handle = 0, pc_capture_get_result = 0, pc_ready = False, pc_failure = []\<rparr>"

text \<open>
  The code behind an address of the target: driver state (with the memory of the process), handle,
  selector, capture ID pointer, the size cell and the private buffer; status, size cell, buffer and
  state after the call.
\<close>

type_synonym 'w capture_at =
  "ptr \<Rightarrow> 'w \<Rightarrow> u32 \<Rightarrow> byte \<Rightarrow> ptr \<Rightarrow> u32 \<Rightarrow> byte list \<Rightarrow> (u32 \<times> u32 \<times> byte list \<times> 'w) option"

record 'w probe_world =
  pw_dso :: dso_world
  pw_capture_at :: "'w capture_at"

text \<open>The observable trace: log lines and calls into the driver with their arguments and results.\<close>

datatype probe_event =
    Probe_Logged probe_line
  | Capture_Call u32 byte ptr u32 u32

text \<open>
  The statics of the library. \<open>pb_freed\<close> are the contents that the buffers had when they were
  handed back to the allocator.
\<close>

record 'w probe =
  pb_once_done :: bool
  pb_cache :: probe_cache
  pb_intercepted_updates :: u32
  pb_native_capture_result_calls :: u32
  pb_result_metadata_valid :: bool
  pb_native :: 'w
  pb_freed :: "byte list list"
  pb_events :: "probe_event list"

definition initial_probe :: "'w \<Rightarrow> 'w probe" where
  "initial_probe n = \<lparr>pb_once_done = False, pb_cache = zero_probe_cache,
     pb_intercepted_updates = 0, pb_native_capture_result_calls = 0,
     pb_result_metadata_valid = False, pb_native = n, pb_freed = [], pb_events = []\<rparr>"

definition probe_log :: "probe_line list \<Rightarrow> 'w probe \<Rightarrow> 'w probe" where
  "probe_log lines pb = pb\<lparr>pb_events := pb_events pb @ map Probe_Logged lines\<rparr>"

section \<open>The file's own copies\<close>

definition probe_identity_from_path :: "dso_world \<Rightarrow> string option \<Rightarrow> target_identity option" where
  "probe_identity_from_path dw path =
     do {
       name \<leftarrow> path;
       if name = [] then None
       else do {
         real \<leftarrow> dw_realpath dw name;
         (device, inode) \<leftarrow> dw_stat dw real;
         Some \<lparr>ti_path = real, ti_device = device, ti_inode = inode\<rparr>
       }
     }"

definition probe_find_loaded_target :: "dso_world \<Rightarrow> target_identity \<Rightarrow> string option \<Rightarrow> bool" where
  "probe_find_loaded_target dw expected dlpi_name =
     (case probe_identity_from_path dw dlpi_name of
        None \<Rightarrow> False
      | Some candidate \<Rightarrow>
          ti_path candidate = ti_path expected
          \<and> ti_device candidate = ti_device expected
          \<and> ti_inode candidate = ti_inode expected)"

text \<open>\<open>dl_iterate_phdr (find_loaded_target, &search)\<close>: the value of \<open>search.found\<close>.\<close>

definition probe_target_loaded :: "dso_world \<Rightarrow> target_identity \<Rightarrow> bool" where
  "probe_target_loaded dw expected = list_ex (probe_find_loaded_target dw expected) (dw_loaded dw)"

text \<open>\<open>secure_wipe\<close>; \<open>pos\<close> is the offset that \<open>bytes\<close> has reached.\<close>

fun secure_wipe_from :: "nat \<Rightarrow> nat \<Rightarrow> byte list \<Rightarrow> byte list option" where
  "secure_wipe_from pos size' m =
     (if size' > 0 then do { m \<leftarrow> array_set m pos 0; secure_wipe_from (pos + 1) (size' - 1) m }
      else Some m)"

declare secure_wipe_from.simps [simp del]

definition secure_wipe :: "byte list \<Rightarrow> nat \<Rightarrow> byte list option" where
  "secure_wipe m n = secure_wipe_from 0 n m"

lemma probe_identity_eq [simp]: "probe_identity_from_path = identity_from_path"
  by (intro ext) (auto simp: probe_identity_from_path_def identity_from_path_def
      split: option.splits Option.bind_splits)

lemma probe_target_loaded_eq [simp]: "probe_target_loaded dw expected = target_loaded dw expected (dw_loaded dw)"
proof -
  have "list_ex (probe_find_loaded_target dw expected) names = target_loaded dw expected names" for names
    by (induction names) (simp_all add: probe_find_loaded_target_def find_loaded_target_def)
  then show ?thesis by (simp add: probe_target_loaded_def)
qed

lemma secure_wipe_eq [simp]: "secure_wipe m n = secure_clear m n"
proof -
  have "secure_wipe_from pos n = secure_clear_from pos n" for pos
    by (induction n arbitrary: pos) (rule ext, subst secure_wipe_from.simps, simp)+
  then show ?thesis by (simp add: secure_wipe_def secure_clear_def)
qed

section \<open>The resolver\<close>

definition probe_resolver_failure :: "string \<Rightarrow> probe_cache \<Rightarrow> probe_cache \<times> probe_line list" where
  "probe_resolver_failure msg pc =
     (pc\<lparr>pc_failure := snprintf_failure msg\<rparr>, [Probe_Failed (snprintf_failure msg)])"

definition probe_symbol_owned ::
  "dso_world \<Rightarrow> ptr \<Rightarrow> string \<Rightarrow> target_identity \<Rightarrow> ptr \<Rightarrow> probe_cache
     \<Rightarrow> bool \<times> probe_cache \<times> probe_line list" where
  "probe_symbol_owned dw address symbol target self_address pc =
     (if address = 0
      then (False, probe_resolver_failure (''target symbol '' @ symbol @ '' was not found'') pc)
      else if address = self_address
      then (False, probe_resolver_failure
              (''target symbol '' @ symbol @ '' resolved to this interposer'') pc)
      else (case Option.bind (dw_dladdr dw address) (probe_identity_from_path dw) of
              None \<Rightarrow> (False, probe_resolver_failure
                         (''could not identify owner of '' @ symbol) pc)
            | Some owner \<Rightarrow>
                if ti_path owner \<noteq> ti_path target \<or> ti_device owner \<noteq> ti_device target
                   \<or> ti_inode owner \<noteq> ti_inode target
                then (False, probe_resolver_failure
                        (''symbol '' @ symbol @ '' belongs to unexpected DSO'') pc)
                else (True, pc, [Probe_Owned symbol])))"

definition probe_lookup :: "dso_world \<Rightarrow> ptr \<Rightarrow> string \<Rightarrow> ptr" where
  "probe_lookup dw handle symbol =
     (let (address, dynamic_error) = dw_dlsym dw handle symbol
      in if dynamic_error \<noteq> None then 0 else address)"

text \<open>\<open>initialize_resolver\<close>: the part behind the acquired handle, then the whole routine.\<close>

definition probe_resolve_symbols ::
  "dso_world \<Rightarrow> target_identity \<Rightarrow> probe_cache \<Rightarrow> probe_cache \<times> probe_line list" where
  "probe_resolve_symbols dw expected pc =
     (let capture_address = probe_lookup dw (pc_handle pc) ''cv_fingerprint_capture_get_result'';
          (owned, pc, lines1) =
            probe_symbol_owned dw capture_address ''cv_fingerprint_capture_get_result'' expected 0 pc
      in if \<not> owned then (pc, lines1)
         else
           let update_address = probe_lookup dw (pc_handle pc) ''cv_fingerprint_update_enrollment'';
               (owned, pc, lines2) =
                 probe_symbol_owned dw update_address ''cv_fingerprint_update_enrollment'' expected
                   (dw_self_update dw) pc
           in if \<not> owned then (pc, lines1 @ lines2)
              else (pc\<lparr>pc_capture_get_result := capture_address, pc_ready := True\<rparr>,
                    lines1 @ lines2 @ [Probe_Boundary_Ready]))"

definition probe_initialize_resolver ::
  "dso_world \<Rightarrow> probe_cache \<Rightarrow> probe_cache \<times> probe_line list" where
  "probe_initialize_resolver dw pc =
     (case probe_identity_from_path dw (dw_getenv dw CV2_CAPTURE_TARGET_ENV) of
        None \<Rightarrow> probe_resolver_failure (''invalid or missing '' @ CV2_CAPTURE_TARGET_ENV) pc
      | Some expected \<Rightarrow>
          if \<not> probe_target_loaded dw expected
          then probe_resolver_failure ''expected target is not loaded; refusing lookup'' pc
          else
            let (handle, dynamic_error) = dw_dlopen_noload dw (ti_path expected)
            in if handle = 0 \<or> dynamic_error \<noteq> None
               then probe_resolver_failure ''RTLD_NOLOAD acquisition failed'' (pc\<lparr>pc_handle := 0\<rparr>)
               else probe_resolve_symbols dw expected (pc\<lparr>pc_handle := handle\<rparr>))"

definition capture_probe_ready :: "dso_world \<Rightarrow> 'w probe \<Rightarrow> bool \<times> 'w probe" where
  "capture_probe_ready dw pb =
     (if dw_once_status dw \<noteq> 0
      then (let (pc, lines) = probe_resolver_failure
                  (''pthread_once failed: '' @ dw_strerror dw (dw_once_status dw)) (pb_cache pb)
            in (False, probe_log lines (pb\<lparr>pb_cache := pc\<rparr>)))
      else if pb_once_done pb then (pc_ready (pb_cache pb), pb)
      else (let (pc, lines) = probe_initialize_resolver dw (pb_cache pb)
            in (pc_ready pc, probe_log lines (pb\<lparr>pb_once_done := True, pb_cache := pc\<rparr>))))"

section \<open>The queries\<close>

definition cv2_capture_result_probe_ready :: "dso_world \<Rightarrow> 'w probe \<Rightarrow> int \<times> 'w probe" where
  "cv2_capture_result_probe_ready dw pb =
     (let (ok, pb) = capture_probe_ready dw pb
      in if \<not> ok
         then (0, probe_log [Probe_Refusing (if pc_failure (pb_cache pb) \<noteq> []
                                             then pc_failure (pb_cache pb) else ''not ready'')] pb)
         else (1, pb))"

definition cv2_capture_result_probe_complete :: "'w probe \<Rightarrow> bool" where
  "cv2_capture_result_probe_complete pb \<longleftrightarrow>
     pb_intercepted_updates pb \<ge> 1 \<and> pb_native_capture_result_calls pb = 1
     \<and> pb_result_metadata_valid pb"

section \<open>The intercepted update\<close>

text \<open>The native call with the private buffer, from the allocation on.\<close>

definition probe_native_call :: "'w probe_world \<Rightarrow> u32 \<Rightarrow> ptr \<Rightarrow> 'w probe \<Rightarrow> 'w probe option" where
  "probe_native_call w handle enrollment_id pb =
     do {
       let buffer = replicate CV2_CAPTURE_CAPACITY (0 :: byte);
       let pb = pb\<lparr>pb_native_capture_result_calls := pb_native_capture_result_calls pb + 1\<rparr>;
       (status, result_size, out, n) \<leftarrow>
         pw_capture_at w (pc_capture_get_result (pb_cache pb)) (pb_native pb) handle
           CV2_CAPTURE_SELECTOR enrollment_id (of_nat CV2_CAPTURE_CAPACITY) buffer;
       out \<leftarrow> same_object buffer out;
       let valid = (result_size \<le> of_nat CV2_CAPTURE_CAPACITY);
       let pb = pb\<lparr>pb_native := n, pb_result_metadata_valid := valid,
                   pb_events := pb_events pb @
                     [Capture_Call handle CV2_CAPTURE_SELECTOR enrollment_id status result_size]\<rparr>;
       let pb = probe_log [Probe_Status status result_size valid] pb;
       wiped \<leftarrow> secure_wipe out CV2_CAPTURE_CAPACITY;
       let pb = pb\<lparr>pb_freed := pb_freed pb @ [wiped]\<rparr>;
       Some (probe_log [Probe_Wiped (pb_native_capture_result_calls pb)] pb)
     }"

text \<open>
  \<open>cv_fingerprint_update_enrollment\<close> of the probe; the five arguments that the C function ignores
  are left out. \<open>calloc_ok\<close>: the allocation succeeds.
\<close>

definition probe_update_enrollment ::
  "'w probe_world \<Rightarrow> bool \<Rightarrow> u32 \<Rightarrow> ptr \<Rightarrow> 'w probe \<Rightarrow> (u32 \<times> 'w probe) option" where
  "probe_update_enrollment w calloc_ok handle enrollment_id pb =
     (let (ok, pb) = capture_probe_ready (pw_dso w) pb
      in if \<not> ok then Some (CV2_EXPERIMENT_FAILURE, pb)
         else
           let update_number = pb_intercepted_updates pb + 1;
               pb = pb\<lparr>pb_intercepted_updates := update_number\<rparr>
           in if update_number \<noteq> 1
              then Some (CV2_EXPERIMENT_FAILURE, probe_log [Probe_Blocked update_number] pb)
              else if handle = 0 \<or> enrollment_id = 0
              then Some (CV2_EXPERIMENT_FAILURE, probe_log [Probe_Invalid_Boundary] pb)
              else if \<not> calloc_ok
              then Some (CV2_EXPERIMENT_FAILURE, probe_log [Probe_Allocation_Failed] pb)
              else do {
                pb \<leftarrow> probe_native_call w handle enrollment_id pb;
                Some (CV2_EXPERIMENT_FAILURE, pb)
              })"

end
