(* ===== verification/Capture_Correct.thy ===== *)
theory Capture_Correct
  imports Capture_Probe
begin

text \<open>
  The invariant of the capture probe and its sessions: at most one native call, whose buffer is
  wiped before it is freed.
\<close>

section \<open>The invariant\<close>

fun is_capture :: "probe_event \<Rightarrow> bool" where
  "is_capture (Capture_Call h s i st sz) = True"
| "is_capture (Probe_Logged l) = False"

definition captures :: "'w probe \<Rightarrow> probe_event list" where
  "captures pb = filter is_capture (pb_events pb)"

abbreviation blank_buffer :: "byte list" where
  "blank_buffer \<equiv> replicate CV2_CAPTURE_CAPACITY 0"

text \<open>Either the native was never called, or once, by an update that then counted.\<close>

definition probe_inv :: "'w probe \<Rightarrow> bool" where
  "probe_inv pb \<longleftrightarrow>
     captures pb = [] \<and> pb_freed pb = [] \<and> pb_native_capture_result_calls pb = 0
       \<and> \<not> pb_result_metadata_valid pb
     \<or> (\<exists>handle eid st sz. captures pb = [Capture_Call handle CV2_CAPTURE_SELECTOR eid st sz]
          \<and> handle \<noteq> 0 \<and> eid \<noteq> 0 \<and> pb_freed pb = [blank_buffer]
          \<and> pb_native_capture_result_calls pb = 1
          \<and> pb_result_metadata_valid pb = (sz \<le> of_nat CV2_CAPTURE_CAPACITY)
          \<and> pb_intercepted_updates pb \<noteq> 0)"

text \<open>The part of the statics that the resolver and the log do not touch.\<close>

definition probe_core :: "'w probe \<Rightarrow> u32 \<times> u32 \<times> bool \<times> 'w \<times> byte list list \<times> probe_event list" where
  "probe_core pb = (pb_intercepted_updates pb, pb_native_capture_result_calls pb,
     pb_result_metadata_valid pb, pb_native pb, pb_freed pb, captures pb)"

lemma probe_log_simps [simp]:
  "probe_core (probe_log ls pb) = probe_core pb" "pb_cache (probe_log ls pb) = pb_cache pb"
  "pb_once_done (probe_log ls pb) = pb_once_done pb"
  "pb_intercepted_updates (probe_log ls pb) = pb_intercepted_updates pb"
  "pb_native_capture_result_calls (probe_log ls pb) = pb_native_capture_result_calls pb"
  "pb_result_metadata_valid (probe_log ls pb) = pb_result_metadata_valid pb"
  "pb_native (probe_log ls pb) = pb_native pb" "pb_freed (probe_log ls pb) = pb_freed pb"
  "captures (probe_log ls pb) = captures pb"
  by (simp_all add: probe_log_def probe_core_def captures_def filter_empty_conv)

lemma captures_simps [simp]:
  "captures (pb\<lparr>pb_freed := fr\<rparr>) = captures pb" "captures (pb\<lparr>pb_native := n\<rparr>) = captures pb"
  "captures (pb\<lparr>pb_cache := pc\<rparr>) = captures pb" "captures (pb\<lparr>pb_once_done := b\<rparr>) = captures pb"
  "captures (pb\<lparr>pb_intercepted_updates := k\<rparr>) = captures pb"
  "captures (pb\<lparr>pb_native_capture_result_calls := k\<rparr>) = captures pb"
  "captures (pb\<lparr>pb_result_metadata_valid := b\<rparr>) = captures pb"
  by (simp_all add: captures_def)

lemma probe_core_eq:
  "probe_core pb' = probe_core pb \<Longrightarrow> pb_intercepted_updates pb' = pb_intercepted_updates pb
     \<and> pb_native_capture_result_calls pb' = pb_native_capture_result_calls pb
     \<and> pb_result_metadata_valid pb' = pb_result_metadata_valid pb \<and> pb_native pb' = pb_native pb
     \<and> pb_freed pb' = pb_freed pb \<and> captures pb' = captures pb"
  by (simp add: probe_core_def)

lemma capture_probe_ready_core:
  "capture_probe_ready dw pb = (ok, pb') \<Longrightarrow> probe_core pb' = probe_core pb"
  by (auto simp: capture_probe_ready_def probe_core_def split: if_splits prod.splits)

lemma probe_ready_once:
  "capture_probe_ready dw pb = (True, pb') \<Longrightarrow> pb_once_done pb' \<and> pc_ready (pb_cache pb')"
  by (auto simp: capture_probe_ready_def split: if_splits prod.splits)

text \<open>What the native part does.\<close>

lemma probe_native_call_effect:
  assumes "probe_native_call w handle eid pb = Some pb'"
  shows "\<exists>st sz out n. pw_capture_at w (pc_capture_get_result (pb_cache pb)) (pb_native pb) handle
        CV2_CAPTURE_SELECTOR eid (of_nat CV2_CAPTURE_CAPACITY) blank_buffer = Some (st, sz, out, n)
     \<and> length out = CV2_CAPTURE_CAPACITY
     \<and> captures pb' = captures pb @ [Capture_Call handle CV2_CAPTURE_SELECTOR eid st sz]
     \<and> pb_freed pb' = pb_freed pb @ [blank_buffer]
     \<and> pb_native_capture_result_calls pb' = pb_native_capture_result_calls pb + 1
     \<and> pb_result_metadata_valid pb' = (sz \<le> of_nat CV2_CAPTURE_CAPACITY)
     \<and> pb_intercepted_updates pb' = pb_intercepted_updates pb
     \<and> pb_cache pb' = pb_cache pb \<and> pb_once_done pb' = pb_once_done pb \<and> pb_native pb' = n"
  using assms
  by (auto simp: probe_native_call_def fault_split Let_def secure_clear_Some captures_def
      probe_log_def)

section \<open>Single calls\<close>

text \<open>The branches of an intercepted update after a passed readiness check.\<close>

lemma probe_update_cases:
  assumes "probe_update_enrollment w calloc_ok handle eid pb = Some (r, pb')"
  shows "r = CV2_EXPERIMENT_FAILURE
     \<and> (probe_core pb' = probe_core pb
        \<or> pb_intercepted_updates pb' = pb_intercepted_updates pb + 1
          \<and> snd (probe_core pb') = snd (probe_core pb)
        \<or> pb_intercepted_updates pb = 0 \<and> handle \<noteq> 0 \<and> eid \<noteq> 0 \<and> calloc_ok
          \<and> (\<exists>st sz. captures pb' = captures pb @ [Capture_Call handle CV2_CAPTURE_SELECTOR eid st sz]
              \<and> pb_freed pb' = pb_freed pb @ [blank_buffer]
              \<and> pb_native_capture_result_calls pb' = pb_native_capture_result_calls pb + 1
              \<and> pb_result_metadata_valid pb' = (sz \<le> of_nat CV2_CAPTURE_CAPACITY)
              \<and> pb_intercepted_updates pb' = 1))"
proof -
  obtain ok pb0 where chk: "capture_probe_ready (pw_dso w) pb = (ok, pb0)" by fastforce
  note core = capture_probe_ready_core [OF chk] and core' = probe_core_eq [OF capture_probe_ready_core [OF chk]]
  define pb1 where "pb1 = pb0\<lparr>pb_intercepted_updates := pb_intercepted_updates pb0 + 1\<rparr>"
  have one: "pb_intercepted_updates pb1 = pb_intercepted_updates pb + 1"
    "snd (probe_core pb1) = snd (probe_core pb)" "captures pb1 = captures pb"
    "pb_freed pb1 = pb_freed pb"
    "pb_native_capture_result_calls pb1 = pb_native_capture_result_calls pb"
    using core core' by (simp_all add: pb1_def probe_core_def)
  show ?thesis
  proof (cases "ok \<and> pb_intercepted_updates pb0 + 1 = 1 \<and> handle \<noteq> 0 \<and> eid \<noteq> 0 \<and> calloc_ok")
    case True
    then have "probe_native_call w handle eid pb1 = Some pb'" and r: "r = CV2_EXPERIMENT_FAILURE"
      using assms chk by (auto simp: probe_update_enrollment_def pb1_def fault_split)
    from probe_native_call_effect [OF this(1)] show ?thesis
      using True one core' r by auto
  next
    case False
    then have "r = CV2_EXPERIMENT_FAILURE \<and> (pb' = pb0 \<or> (\<exists>l. pb' = probe_log [l] pb1))"
      using assms chk
      by (auto simp: probe_update_enrollment_def pb1_def Let_def split: if_splits)
    then show ?thesis using core one by auto
  qed
qed

lemma probe_update_inv:
  assumes "probe_inv pb" and "unat (pb_intercepted_updates pb) + 1 < 2 ^ 32"
    and "probe_update_enrollment w calloc_ok handle eid pb = Some (r, pb')"
  shows "r = CV2_EXPERIMENT_FAILURE" and "probe_inv pb'"
    and "unat (pb_intercepted_updates pb') \<le> unat (pb_intercepted_updates pb) + 1"
proof -
  have plus: "unat (pb_intercepted_updates pb + 1) = unat (pb_intercepted_updates pb) + 1"
    using assms(2) by (simp add: unat_word_ariths)
  then have nonzero: "pb_intercepted_updates pb + 1 \<noteq> 0" by (metis Zero_not_Suc add.commute plus_1_eq_Suc unat_0)
  note cs = probe_update_cases [OF assms(3)]
  show "r = CV2_EXPERIMENT_FAILURE" using cs by blast
  from cs consider (same) "probe_core pb' = probe_core pb"
    | (counted) "pb_intercepted_updates pb' = pb_intercepted_updates pb + 1"
      "snd (probe_core pb') = snd (probe_core pb)"
    | (called) st sz where "pb_intercepted_updates pb = 0" "handle \<noteq> 0" "eid \<noteq> 0"
      "captures pb' = captures pb @ [Capture_Call handle CV2_CAPTURE_SELECTOR eid st sz]"
      "pb_freed pb' = pb_freed pb @ [blank_buffer]"
      "pb_native_capture_result_calls pb' = pb_native_capture_result_calls pb + 1"
      "pb_result_metadata_valid pb' = (sz \<le> of_nat CV2_CAPTURE_CAPACITY)"
      "pb_intercepted_updates pb' = 1"
    by blast
  then show "probe_inv pb'"
  proof cases
    case same
    then show ?thesis using assms(1) probe_core_eq [OF same] by (simp add: probe_inv_def)
  next
    case counted
    then show ?thesis using assms(1) nonzero by (auto simp: probe_inv_def probe_core_def)
  next
    case called
    then show ?thesis using assms(1) by (auto simp: probe_inv_def)
  qed
  show "unat (pb_intercepted_updates pb') \<le> unat (pb_intercepted_updates pb) + 1"
    using cs plus by (auto dest: probe_core_eq)
qed

section \<open>Sessions\<close>

text \<open>Each call with its allocation outcome, its handle and its enrollment ID pointer.\<close>

type_synonym probe_request = "bool \<times> u32 \<times> ptr"

fun probe_session ::
  "'w probe_world \<Rightarrow> probe_request list \<Rightarrow> 'w probe \<Rightarrow> (u32 list \<times> 'w probe) option" where
  "probe_session w [] pb = Some ([], pb)"
| "probe_session w ((calloc_ok, handle, eid) # cs) pb =
     do {
       (r, pb1) \<leftarrow> probe_update_enrollment w calloc_ok handle eid pb;
       (rs, pb2) \<leftarrow> probe_session w cs pb1;
       Some (r # rs, pb2)
     }"

lemma probe_session_inv:
  assumes "probe_inv pb" and "unat (pb_intercepted_updates pb) + length cs < 2 ^ 32"
    and "probe_session w cs pb = Some (rs, pb')"
  shows "rs = replicate (length cs) CV2_EXPERIMENT_FAILURE \<and> probe_inv pb'"
  using assms
proof (induction cs arbitrary: pb rs)
  case Nil
  then show ?case by simp
next
  case (Cons c cs)
  obtain calloc_ok handle eid where c: "c = (calloc_ok, handle, eid)" using prod_cases3 by blast
  from Cons.prems(3) obtain r pb1 rs1
    where one: "probe_update_enrollment w calloc_ok handle eid pb = Some (r, pb1)"
      and rest: "probe_session w cs pb1 = Some (rs1, pb')" and rs: "rs = r # rs1"
    by (auto simp: c fault_split)
  have few: "unat (pb_intercepted_updates pb) + 1 < 2 ^ 32" using Cons.prems(2) by simp
  note step = probe_update_inv [OF Cons.prems(1) few one]
  have "unat (pb_intercepted_updates pb1) + length cs < 2 ^ 32"
    using step(3) Cons.prems(2) by simp
  from Cons.IH [OF step(2) this rest] show ?case using rs step(1) by simp
qed

lemma initial_probe_inv [simp]: "probe_inv (initial_probe n)"
  by (simp add: probe_inv_def initial_probe_def captures_def)

section \<open>Other payloads\<close>

text \<open>The same driver with another payload in the buffer.\<close>

definition other_payload :: "(byte list \<Rightarrow> byte list) \<Rightarrow> 'w probe_world \<Rightarrow> 'w probe_world" where
  "other_payload g w = w\<lparr>pw_capture_at := (\<lambda>a n h s i sz buf.
     map_option (\<lambda>(st, sz', out, n'). (st, sz', g out, n')) (pw_capture_at w a n h s i sz buf))\<rparr>"

lemma probe_native_call_payload:
  assumes "\<And>out. length (g out) = length out"
  shows "probe_native_call (other_payload g w) handle eid pb = probe_native_call w handle eid pb"
proof (cases "pw_capture_at w (pc_capture_get_result (pb_cache pb)) (pb_native pb) handle
    CV2_CAPTURE_SELECTOR eid (of_nat CV2_CAPTURE_CAPACITY) blank_buffer")
  case None
  then show ?thesis by (simp add: probe_native_call_def Let_def other_payload_def)
next
  case (Some res)
  obtain st sz out n where res: "res = (st, sz, out, n)" using prod_cases4 by blast
  show ?thesis
  proof (cases "length out = CV2_CAPTURE_CAPACITY")
    case True
    then show ?thesis
      using Some assms
      by (simp add: probe_native_call_def Let_def other_payload_def res same_object_def
          secure_clear_all)
  next
    case False
    then show ?thesis
      using Some assms
      by (simp add: probe_native_call_def Let_def other_payload_def res same_object_def)
  qed
qed

lemma probe_update_payload:
  assumes "\<And>out. length (g out) = length out"
  shows "probe_update_enrollment (other_payload g w) ok handle eid pb =
           probe_update_enrollment w ok handle eid pb"
proof -
  have "pw_dso (other_payload g w) = pw_dso w" by (simp add: other_payload_def)
  then show ?thesis
    by (simp add: probe_update_enrollment_def probe_native_call_payload [OF assms] cong: if_cong)
qed

end
