(* ===== verification/Tod_Experiments.thy ===== *)
theory Tod_Experiments
  imports Rearm_Session Capture_Correct
begin

text \<open>
  The two hardware harnesses \<open>tools/cv_tod_enrollment_experiment.c\<close> and
  \<open>tools/cv_tod_capture_result_experiment.c\<close>, each together with the interposer it is run with.

  GLib and libfprint are parameters: what the enumeration, the open and the close return, and the
  events that the main loop dispatches, in order: a signal, a progress report, a call of the
  driver's update (which is the interposer's function) and the end of the enrollment. A main loop
  whose events end without the end of the enrollment does not return: \<open>None\<close>.
\<close>

section \<open>The surroundings\<close>

text \<open>The result of \<open>fp_device_enroll_finish\<close>; an error is its message and whether it is
  \<open>G_IO_ERROR_CANCELLED\<close>.\<close>

datatype enroll_result = Enrolled | Not_enrolled "(string \<times> bool) option"

datatype 'c loop_event =
    Signal_event
  | Progress_event int "string option"
  | Driver_update 'c
  | Done_event enroll_result

text \<open>
  \<open>tw_symbols\<close> are the symbols that \<open>dlsym (RTLD_DEFAULT, ...)\<close> finds, \<open>tw_symbol_error\<close> the message
  of the \<open>dlerror\<close> after the lookups. \<open>tw_open_signals\<close> and \<open>tw_close_signals\<close> count the signals that
  the synchronous calls dispatch.
\<close>

record 'c tod_world =
  tw_symbols :: "string list"
  tw_symbol_error :: "string option"
  tw_drivers :: "string option list"
  tw_stages :: int
  tw_open_signals :: nat
  tw_open_error :: "string option"
  tw_loop :: "'c loop_event list"
  tw_close_signals :: nat
  tw_close_error :: "string option"

text \<open>What the harness does, in order: the library operations on the device, and its lines.\<close>

datatype tod_event =
    Lookup_Failed string
  | Readiness_Failed
  | Refusing_Enrollment
  | Boundary_Ready
  | Enumerated
  | No_Device
  | Open_Failed string
  | Opened string int
  | Opened_Probe string
  | Enroll_Started
  | Signal_Received
  | Progress_Retry int int string
  | Progress_Accepted int int
  | Progress_Violation
  | Enrollment_Completed
  | Enrollment_Violation
  | Probe_Completed
  | Enrollment_Failed string
  | Close_Failed string
  | Closed

definition find_broadcom :: "string option list \<Rightarrow> string option" where
  "find_broadcom drivers = (case List.find (\<lambda>d. d = Some ''broadcom'') drivers of
     None \<Rightarrow> None | Some d \<Rightarrow> d)"

definition error_message :: "(string \<times> bool) option \<Rightarrow> string" where
  "error_message err = (case err of None \<Rightarrow> ''unknown'' | Some (message, _) \<Rightarrow> message)"

section \<open>The enrollment experiment\<close>

definition enrollment_exit :: "enroll_result \<Rightarrow> tod_event list \<times> int" where
  "enrollment_exit result =
     (case result of
        Enrolled \<Rightarrow> ([Enrollment_Completed], 0)
      | Not_enrolled err \<Rightarrow>
          ([Enrollment_Failed (error_message err)],
           case err of Some (_, True) \<Rightarrow> 130 | _ \<Rightarrow> 5))"

text \<open>\<open>g_main_loop_run\<close> with the callbacks: exit status, events, process.\<close>

fun enrollment_loop ::
  "'w rearm_world \<Rightarrow> int \<Rightarrow> client_call loop_event list \<Rightarrow> 'w process
     \<Rightarrow> (int \<times> tod_event list \<times> 'w process) option" where
  "enrollment_loop w stages [] pr = None"
| "enrollment_loop w stages (Signal_event # evs) pr =
     do {
       (status, out, pr) \<leftarrow> enrollment_loop w stages evs pr;
       Some (status, Signal_Received # out, pr)
     }"
| "enrollment_loop w stages (Progress_event completed err # evs) pr =
     do {
       (status, out, pr) \<leftarrow> enrollment_loop w stages evs pr;
       Some (status, (case err of None \<Rightarrow> Progress_Accepted completed stages
                        | Some message \<Rightarrow> Progress_Retry completed stages message) # out, pr)
     }"
| "enrollment_loop w stages (Driver_update (edit, ua) # evs) pr =
     do {
       (_, pr) \<leftarrow> cv_fingerprint_update_enrollment w ua (pr\<lparr>pr_heap := edit (pr_heap pr)\<rparr>);
       enrollment_loop w stages evs pr
     }"
| "enrollment_loop w stages (Done_event result # evs) pr =
     (let (out, status) = enrollment_exit result in Some (status, out, pr))"

text \<open>\<open>main\<close> from the opened device on.\<close>

definition enrollment_run ::
  "'w rearm_world \<Rightarrow> client_call tod_world \<Rightarrow> string \<Rightarrow> 'w process
     \<Rightarrow> (int \<times> tod_event list \<times> 'w process) option" where
  "enrollment_run w tw device pr =
     do {
       (status, out, pr) \<leftarrow> enrollment_loop w (tw_stages tw) (tw_loop tw) pr;
       let signals = replicate (tw_close_signals tw) Signal_Received;
       let (status, close) =
         (case tw_close_error tw of
            Some message \<Rightarrow> (6, [Close_Failed message])
          | None \<Rightarrow> (status, [Closed]));
       Some (status, [Opened device (tw_stages tw), Enroll_Started] @ out @ signals @ close, pr)
     }"

definition cv_tod_enrollment_experiment ::
  "'w rearm_world \<Rightarrow> client_call tod_world \<Rightarrow> 'w process
     \<Rightarrow> (int \<times> tod_event list \<times> 'w process) option" where
  "cv_tod_enrollment_experiment w tw pr =
     (if ''cv2_0x89_forwarding_ready'' \<notin> set (tw_symbols tw) \<or> tw_symbol_error tw \<noteq> None
      then Some (2, [Lookup_Failed (case tw_symbol_error tw of
                       None \<Rightarrow> ''symbol not found'' | Some message \<Rightarrow> message),
                     Refusing_Enrollment], pr)
      else
        let (ok, rs, lines) = cv2_0x89_forwarding_ready (rw_dso w) (pr_resolver pr);
            pr = emit lines (pr\<lparr>pr_resolver := rs\<rparr>)
        in if ok = 0 then Some (2, [Readiness_Failed, Refusing_Enrollment], pr)
           else (case find_broadcom (tw_drivers tw) of
                   None \<Rightarrow> Some (2, [Boundary_Ready, Enumerated, No_Device], pr)
                 | Some device \<Rightarrow>
                     let ahead = [Boundary_Ready, Enumerated]
                                  @ replicate (tw_open_signals tw) Signal_Received
                     in (case tw_open_error tw of
                           Some message \<Rightarrow> Some (3, ahead @ [Open_Failed message], pr)
                         | None \<Rightarrow> do {
                             (status, out, pr) \<leftarrow> enrollment_run w tw device pr;
                             Some (status, ahead @ out, pr)
                           })))"

section \<open>The capture experiment\<close>

definition capture_exit :: "enroll_result \<Rightarrow> bool \<Rightarrow> tod_event list \<times> int" where
  "capture_exit result complete =
     (case result of
        Enrolled \<Rightarrow> ([Enrollment_Violation], 7)
      | Not_enrolled err \<Rightarrow>
          if complete then ([Probe_Completed], 0)
          else ([Enrollment_Failed (error_message err)], 5))"

fun capture_loop ::
  "'w probe_world \<Rightarrow> probe_request loop_event list \<Rightarrow> 'w probe
     \<Rightarrow> (int \<times> tod_event list \<times> 'w probe) option" where
  "capture_loop w [] pb = None"
| "capture_loop w (Signal_event # evs) pb =
     do {
       (status, out, pb) \<leftarrow> capture_loop w evs pb;
       Some (status, Signal_Received # out, pb)
     }"
| "capture_loop w (Progress_event completed err # evs) pb =
     do {
       (status, out, pb) \<leftarrow> capture_loop w evs pb;
       Some (status, Progress_Violation # out, pb)
     }"
| "capture_loop w (Driver_update (calloc_ok, handle, eid) # evs) pb =
     do {
       (_, pb) \<leftarrow> probe_update_enrollment w calloc_ok handle eid pb;
       capture_loop w evs pb
     }"
| "capture_loop w (Done_event result # evs) pb =
     (let (out, status) = capture_exit result (cv2_capture_result_probe_complete pb)
      in Some (status, out, pb))"

definition capture_run ::
  "'w probe_world \<Rightarrow> probe_request tod_world \<Rightarrow> string \<Rightarrow> 'w probe
     \<Rightarrow> (int \<times> tod_event list \<times> 'w probe) option" where
  "capture_run w tw device pb =
     do {
       (status, out, pb) \<leftarrow> capture_loop w (tw_loop tw) pb;
       let signals = replicate (tw_close_signals tw) Signal_Received;
       let (status, close) =
         (case tw_close_error tw of
            Some message \<Rightarrow> (6, [Close_Failed message])
          | None \<Rightarrow> (status, [Closed]));
       Some (status, [Opened_Probe device, Enroll_Started] @ out @ signals @ close, pb)
     }"

text \<open>The readiness call happens only when both lookups succeeded.\<close>

definition cv_tod_capture_result_experiment ::
  "'w probe_world \<Rightarrow> probe_request tod_world \<Rightarrow> 'w probe
     \<Rightarrow> (int \<times> tod_event list \<times> 'w probe) option" where
  "cv_tod_capture_result_experiment w tw pb =
     (if ''cv2_capture_result_probe_ready'' \<notin> set (tw_symbols tw)
         \<or> ''cv2_capture_result_probe_complete'' \<notin> set (tw_symbols tw)
         \<or> tw_symbol_error tw \<noteq> None
      then Some (2, [Readiness_Failed], pb)
      else
        let (ok, pb) = cv2_capture_result_probe_ready (pw_dso w) pb
        in if ok = 0 then Some (2, [Readiness_Failed], pb)
           else (case find_broadcom (tw_drivers tw) of
                   None \<Rightarrow> Some (2, [Boundary_Ready, Enumerated, No_Device], pb)
                 | Some device \<Rightarrow>
                     let ahead = [Boundary_Ready, Enumerated]
                                  @ replicate (tw_open_signals tw) Signal_Received
                     in (case tw_open_error tw of
                           Some message \<Rightarrow> Some (3, ahead @ [Open_Failed message], pb)
                         | None \<Rightarrow> do {
                             (status, out, pb) \<leftarrow> capture_run w tw device pb;
                             Some (status, ahead @ out, pb)
                           })))"

end
