(* ===== verification/Metadata_Correct.thy ===== *)
theory Metadata_Correct
  imports Metadata_Trace
begin

text \<open>
  What the metadata trace may depend on, and that it does not fault on mapped memory. Recoding
  every byte by an injective function that fixes 0 leaves each line unchanged: of the contents of
  the traced objects the lines tell only equality and whether a byte is zero.
\<close>

section \<open>Recoding\<close>

definition recode_trace :: "(byte \<Rightarrow> byte) \<Rightarrow> trace_state \<Rightarrow> trace_state" where
  "recode_trace f ts =
     ts\<lparr>ts_previous_enrollment_id := map f (ts_previous_enrollment_id ts),
        ts_previous_enrollment_output := map f (ts_previous_enrollment_output ts)\<rparr>"

definition recode_before :: "(byte \<Rightarrow> byte) \<Rightarrow> before_call \<Rightarrow> before_call" where
  "recode_before f bc =
     bc\<lparr>bc_completion := f (bc_completion bc),
        bc_enrollment_output := map f (bc_enrollment_output bc),
        bc_output_value := map f (bc_output_value bc)\<rparr>"

definition zero_faithful :: "(byte \<Rightarrow> byte) \<Rightarrow> bool" where
  "zero_faithful f \<longleftrightarrow> inj f \<and> f 0 = 0"

lemma zero_faithful_zero: "zero_faithful f \<Longrightarrow> f x = 0 \<longleftrightarrow> x = 0"
  unfolding zero_faithful_def by (metis injD)

lemma memcmp_eq_recode:
  "zero_faithful f \<Longrightarrow> memcmp_eq (map f a) (map f b) n = memcmp_eq a b n"
  by (simp add: memcmp_eq_def zero_faithful_def take_map inj_map_eq_map)

lemma buffer_is_zero_recode:
  "zero_faithful f \<Longrightarrow> buffer_is_zero (map f bytes) = buffer_is_zero bytes"
  by (simp add: buffer_is_zero_def list.pred_map comp_def zero_faithful_zero)

lemma recode_trace_fields [simp]:
  "ts_initialized (recode_trace f ts) = ts_initialized ts"
  "ts_first_handle (recode_trace f ts) = ts_first_handle ts"
  "ts_previous_enrollment_id_pointer (recode_trace f ts) = ts_previous_enrollment_id_pointer ts"
  "ts_previous_enrollment_id (recode_trace f ts) = map f (ts_previous_enrollment_id ts)"
  "ts_previous_enrollment_id_valid (recode_trace f ts) = ts_previous_enrollment_id_valid ts"
  "ts_previous_auxiliary_input (recode_trace f ts) = ts_previous_auxiliary_input ts"
  "ts_first_completion_out (recode_trace f ts) = ts_first_completion_out ts"
  "ts_first_enrollment_data_out (recode_trace f ts) = ts_first_enrollment_data_out ts"
  "ts_first_output_value_out (recode_trace f ts) = ts_first_output_value_out ts"
  "ts_previous_enrollment_output (recode_trace f ts) = map f (ts_previous_enrollment_output ts)"
  "ts_previous_enrollment_output_valid (recode_trace f ts) = ts_previous_enrollment_output_valid ts"
  by (simp_all add: recode_trace_def)

lemma recode_before_fields [simp]:
  "bc_call (recode_before f bc) = bc_call bc"
  "bc_completion_valid (recode_before f bc) = bc_completion_valid bc"
  "bc_completion (recode_before f bc) = f (bc_completion bc)"
  "bc_enrollment_output_valid (recode_before f bc) = bc_enrollment_output_valid bc"
  "bc_enrollment_output (recode_before f bc) = map f (bc_enrollment_output bc)"
  "bc_output_value_valid (recode_before f bc) = bc_output_value_valid bc"
  "bc_output_value (recode_before f bc) = map f (bc_output_value bc)"
  by (simp_all add: recode_before_def)

lemma capture_outputs_recode:
  assumes "zero_faithful f"
  shows "capture_outputs (recode f h) ua call =
           map_option (recode_before f) (capture_outputs h ua call)"
proof -
  have "f 0 = 0" using assms by (simp add: zero_faithful_def)
  moreover have "hd (map f xs) = f (hd xs)" if "mem_read h p 1 = Some xs" for p xs
    using mem_read_length [OF that] by (cases xs) simp_all
  ultimately show ?thesis
    by (auto simp: capture_outputs_def mem_read_recode recode_before_def
        split: option.splits Option.bind_splits)
qed

lemma id_content_relation_recode:
  "zero_faithful f \<Longrightarrow>
   id_content_relation (recode f h) eid (recode_trace f ts) = id_content_relation h eid ts"
  by (cases "mem_read h eid CV2_ENROLLMENT_VALUE_SIZE")
    (simp_all add: id_content_relation_def mem_read_recode memcmp_eq_recode)

lemma matches_previous_output_recode:
  "zero_faithful f \<Longrightarrow>
   matches_previous_output (recode f h) p ok (recode_trace f ts) = matches_previous_output h p ok ts"
  by (cases "mem_read h p CV2_ENROLLMENT_VALUE_SIZE")
    (simp_all add: matches_previous_output_def mem_read_recode memcmp_eq_recode)

lemma remember_call_recode:
  "remember_call (recode f h) ua (recode_trace f ts) =
     map_option (recode_trace f) (remember_call h ua ts)"
  by (cases "mem_read h (ua_enrollment_id ua) CV2_ENROLLMENT_VALUE_SIZE")
    (simp_all add: remember_call_def mem_read_recode recode_trace_def Let_def)

lemma buffers_line_recode:
  "zero_faithful f \<Longrightarrow> buffers_line ua (recode_before f bc) (recode_trace f ts) = buffers_line ua bc ts"
  by (simp add: buffers_line_def Let_def buffer_is_zero_recode zero_faithful_zero)

lemma metadata_before_recode:
  assumes "zero_faithful f"
  shows "metadata_before_update (recode f h) ua n (recode_trace f ts) =
    map_option (\<lambda>(bc, n', ts', lines). (recode_before f bc, n', recode_trace f ts', lines))
      (metadata_before_update h ua n ts)"
  using assms
  by (cases "capture_outputs h ua (n + 1)"; cases "remember_call h ua ts")
    (simp_all add: metadata_before_update_def capture_outputs_recode id_content_relation_recode
      matches_previous_output_recode remember_call_recode buffers_line_recode Let_def
      split: Option.bind_splits)

lemma output_report_recode:
  assumes "zero_faithful f"
  shows "output_report (recode f h) p n valid (map f before) = output_report h p n valid before"
  using assms
  by (cases "mem_read h p n")
    (simp_all add: output_report_def mem_read_recode memcmp_eq_recode buffer_is_zero_recode)

lemma metadata_after_recode:
  assumes "zero_faithful f"
  shows "metadata_after_update (recode f h) ua (recode_before f bc) status (recode_trace f ts) =
    map_option (\<lambda>(ts', lines). (recode_trace f ts', lines))
      (metadata_after_update h ua bc status ts)"
proof -
  have one: "output_report (recode f h) p 1 v [f b] = output_report h p 1 v [b]" for p v b
    using output_report_recode [OF assms, of h p 1 v "[b]"] by simp
  show ?thesis
    by (cases "output_report h (ua_completion_out ua) 1 (bc_completion_valid bc) [bc_completion bc]";
        cases "output_report h (ua_enrollment_data_out ua) CV2_ENROLLMENT_VALUE_SIZE
          (bc_enrollment_output_valid bc) (bc_enrollment_output bc)";
        cases "output_report h (ua_output_value_out ua) OUTPUT_VALUE_SIZE
          (bc_output_value_valid bc) (bc_output_value bc)";
        cases "mem_read h (ua_enrollment_data_out ua) CV2_ENROLLMENT_VALUE_SIZE")
      (simp_all add: metadata_after_update_def one output_report_recode [OF assms] mem_read_recode
        recode_trace_def split_beta del: One_nat_def)
qed

section \<open>Freedom from faults\<close>

definition trace_wf :: "trace_state \<Rightarrow> bool" where
  "trace_wf ts \<longleftrightarrow> length (ts_previous_enrollment_id ts) = CV2_ENROLLMENT_VALUE_SIZE
     \<and> length (ts_previous_enrollment_output ts) = CV2_ENROLLMENT_VALUE_SIZE"

text \<open>A pointer argument is \<open>NULL\<close> or points to an object of \<open>n\<close> mapped bytes.\<close>

definition readable :: "heap \<Rightarrow> ptr \<Rightarrow> nat \<Rightarrow> bool" where
  "readable h p n \<longleftrightarrow> (p = 0 \<or> (\<forall>i < n. p + of_nat i \<in> dom h))"

definition readable_args :: "heap \<Rightarrow> update_args \<Rightarrow> bool" where
  "readable_args h ua \<longleftrightarrow>
     readable h (ua_enrollment_id ua) CV2_ENROLLMENT_VALUE_SIZE
     \<and> (ua_auxiliary_input_size ua = of_nat CV2_ENROLLMENT_VALUE_SIZE
          \<longrightarrow> readable h (ua_auxiliary_input ua) CV2_ENROLLMENT_VALUE_SIZE)
     \<and> readable h (ua_completion_out ua) 1
     \<and> readable h (ua_enrollment_data_out ua) CV2_ENROLLMENT_VALUE_SIZE
     \<and> readable h (ua_output_value_out ua) OUTPUT_VALUE_SIZE"

lemma readable_read:
  assumes "readable h p n" and "p \<noteq> 0"
  shows "\<exists>bs. mem_read h p n = Some bs \<and> length bs = n"
proof -
  have "mem_read h p n = Some (map (\<lambda>i. the (h (p + of_nat i))) [0..<n])"
    using assms by (intro mem_read_intro) (auto simp: readable_def)
  then show ?thesis by simp
qed

lemma readable_dom: "dom h' = dom h \<Longrightarrow> readable h' p n = readable h p n"
  by (simp add: readable_def)

lemma readable_args_dom: "dom h' = dom h \<Longrightarrow> readable_args h' ua = readable_args h ua"
  using readable_dom [of h' h] by (simp add: readable_args_def)

lemma trace_wf_zero [simp]: "trace_wf zero_trace"
  by (simp add: trace_wf_def zero_trace_def)

lemma id_content_returns:
  assumes "readable h p CV2_ENROLLMENT_VALUE_SIZE" and "trace_wf ts"
  shows "\<exists>rel. id_content_relation h p ts = Some rel"
  using readable_read [OF assms(1)] assms(2)
  by (cases "p = 0") (auto simp: id_content_relation_def trace_wf_def memcmp_eq_def)

lemma matches_returns:
  assumes "ok \<longrightarrow> readable h p CV2_ENROLLMENT_VALUE_SIZE" and "trace_wf ts"
  shows "\<exists>rel. matches_previous_output h p ok ts = Some rel"
proof (cases "ok \<and> p \<noteq> 0")
  case True
  then show ?thesis
    using readable_read [of h p CV2_ENROLLMENT_VALUE_SIZE] assms
    by (auto simp: matches_previous_output_def trace_wf_def memcmp_eq_def)
next
  case False
  then show ?thesis by (auto simp: matches_previous_output_def)
qed

lemma remember_returns:
  assumes "readable h (ua_enrollment_id ua) CV2_ENROLLMENT_VALUE_SIZE" and "trace_wf ts"
  shows "\<exists>ts'. remember_call h ua ts = Some ts' \<and> trace_wf ts'"
  using readable_read [OF assms(1)] assms(2)
  by (cases "ua_enrollment_id ua = 0") (auto simp: remember_call_def trace_wf_def Let_def)

lemma metadata_before_returns:
  assumes "readable_args h ua" and "trace_wf ts"
  obtains bc lines ts' where "metadata_before_update h ua n ts = Some (bc, n + 1, ts', lines)"
    and "trace_wf ts'" and "length (bc_enrollment_output bc) = CV2_ENROLLMENT_VALUE_SIZE"
    and "length (bc_output_value bc) = OUTPUT_VALUE_SIZE"
proof -
  have read: "\<exists>bs. (if p \<noteq> 0 then mem_read h p k else Some (replicate k 0)) = Some bs
                 \<and> length bs = k" if "readable h p k" for p k
    using that readable_read [OF that] by (cases "p = 0") simp_all
  have read1: "\<exists>bs. (if p \<noteq> 0 then mem_read h p 1 else Some [0]) = Some bs" if "readable h p 1" for p
    using readable_read [OF that] by (cases "p = 0") auto
  have rdi: "readable h (ua_enrollment_id ua) CV2_ENROLLMENT_VALUE_SIZE"
    and rda: "ua_auxiliary_input_size ua = of_nat CV2_ENROLLMENT_VALUE_SIZE
      \<longrightarrow> readable h (ua_auxiliary_input ua) CV2_ENROLLMENT_VALUE_SIZE"
    using assms(1) by (simp_all add: readable_args_def)
  have rd: "readable h (ua_completion_out ua) 1"
    "readable h (ua_enrollment_data_out ua) CV2_ENROLLMENT_VALUE_SIZE"
    "readable h (ua_output_value_out ua) OUTPUT_VALUE_SIZE"
    using assms(1) by (simp_all add: readable_args_def)
  obtain com out val where
    com: "(if ua_completion_out ua \<noteq> 0 then mem_read h (ua_completion_out ua) 1 else Some [0])
            = Some com"
    and out: "(if ua_enrollment_data_out ua \<noteq> 0
               then mem_read h (ua_enrollment_data_out ua) CV2_ENROLLMENT_VALUE_SIZE
               else Some (replicate CV2_ENROLLMENT_VALUE_SIZE 0)) = Some out"
      "length out = CV2_ENROLLMENT_VALUE_SIZE"
    and val: "(if ua_output_value_out ua \<noteq> 0
               then mem_read h (ua_output_value_out ua) OUTPUT_VALUE_SIZE
               else Some (replicate OUTPUT_VALUE_SIZE 0)) = Some val"
      "length val = OUTPUT_VALUE_SIZE"
    using read1 [OF rd(1)] read [OF rd(2)] read [OF rd(3)] by blast
  obtain bc where bc: "capture_outputs h ua (n + 1) = Some bc"
    and len: "length (bc_enrollment_output bc) = CV2_ENROLLMENT_VALUE_SIZE"
      "length (bc_output_value bc) = OUTPUT_VALUE_SIZE"
    using out(2) val(2) by (simp add: capture_outputs_def com out(1) val(1) del: One_nat_def)
  obtain content where content: "id_content_relation h (ua_enrollment_id ua) ts = Some content"
    using id_content_returns rdi assms(2) by blast
  obtain id_match where idm: "matches_previous_output h (ua_enrollment_id ua) True ts = Some id_match"
    using matches_returns [of True] rdi assms(2) by blast
  obtain aux_match where auxm: "matches_previous_output h (ua_auxiliary_input ua)
      (ua_auxiliary_input_size ua = of_nat CV2_ENROLLMENT_VALUE_SIZE) ts = Some aux_match"
    using matches_returns rda assms(2) by blast
  obtain ts' where rem: "remember_call h ua ts = Some ts'" and wf: "trace_wf ts'"
    using remember_returns rdi assms(2) by blast
  show ?thesis
    using that bc content idm auxm rem wf len by (simp add: metadata_before_update_def Let_def)
qed

lemma output_report_returns:
  assumes "readable h p n" and "length before = n"
  shows "\<exists>rep. output_report h p n valid before = Some rep"
  using assms by (auto simp: output_report_def memcmp_eq_def dest!: readable_read)

lemma metadata_after_returns:
  assumes "readable_args h ua" and "trace_wf ts"
    and "length (bc_enrollment_output bc) = CV2_ENROLLMENT_VALUE_SIZE"
    and "length (bc_output_value bc) = OUTPUT_VALUE_SIZE"
  obtains ts' lines where "metadata_after_update h ua bc status ts = Some (ts', lines)"
    and "trace_wf ts'"
proof -
  obtain r1 where r1: "output_report h (ua_completion_out ua) 1 (bc_completion_valid bc)
      [bc_completion bc] = Some r1"
    using assms output_report_returns by (metis One_nat_def length_Cons list.size(3) readable_args_def)
  obtain r2 where r2: "output_report h (ua_enrollment_data_out ua) CV2_ENROLLMENT_VALUE_SIZE
      (bc_enrollment_output_valid bc) (bc_enrollment_output bc) = Some r2"
    using assms output_report_returns by (metis readable_args_def)
  obtain r3 where r3: "output_report h (ua_output_value_out ua) OUTPUT_VALUE_SIZE
      (bc_output_value_valid bc) (bc_output_value bc) = Some r3"
    using assms output_report_returns by (metis readable_args_def)
  have data: "readable h (ua_enrollment_data_out ua) CV2_ENROLLMENT_VALUE_SIZE"
    using assms(1) by (simp add: readable_args_def)
  obtain content where "ua_enrollment_data_out ua \<noteq> 0 \<Longrightarrow>
      mem_read h (ua_enrollment_data_out ua) CV2_ENROLLMENT_VALUE_SIZE = Some content
      \<and> length content = CV2_ENROLLMENT_VALUE_SIZE"
    using readable_read [OF data] by auto
  then have "\<exists>ts' lines. metadata_after_update h ua bc status ts = Some (ts', lines) \<and> trace_wf ts'"
    using assms(2)
    by (auto simp: metadata_after_update_def r1 r2 r3 trace_wf_def split_beta
        simp del: One_nat_def)
  then show ?thesis using that by blast
qed

end
