(* ===== verification/Rearm_Trace.thy ===== *)
theory Rearm_Trace
  imports Rearm_Session Metadata_Correct
begin

text \<open>
  The metadata trace observes and nothing else: a process without it makes the same calls with the
  same results on the same memory. And a wrapper call returns whenever the driver's functions
  return and the memory behind the pointers is mapped.
\<close>

section \<open>A process without the trace\<close>

fun is_metadata :: "event \<Rightarrow> bool" where
  "is_metadata (Logged (Metadata_Line l)) = True"
| "is_metadata _ = False"

definition quiet :: "'w process \<Rightarrow> 'w process" where
  "quiet pr = pr\<lparr>pr_resolver :=
                   pr_resolver pr\<lparr>rs_cache := (cache pr)\<lparr>rc_metadata_trace := False\<rparr>\<rparr>,
                 pr_update_call_count := 0, pr_trace := zero_trace,
                 pr_events := filter (\<lambda>e. \<not> is_metadata e) (pr_events pr)\<rparr>"

lemma quiet_fields [simp]:
  "pr_heap (quiet pr) = pr_heap pr" "pr_native (quiet pr) = pr_native pr"
  "pr_retry_attempt (quiet pr) = pr_retry_attempt pr"
  "pr_accepted_incomplete_count (quiet pr) = pr_accepted_incomplete_count pr"
  "pr_zero_input_update_count (quiet pr) = pr_zero_input_update_count pr"
  "cache (quiet pr) = (cache pr)\<lparr>rc_metadata_trace := False\<rparr>"
  "rs_once_done (pr_resolver (quiet pr)) = rs_once_done (pr_resolver pr)"
  by (simp_all add: quiet_def)

text \<open>Steps that the trace does not take part in commute with \<open>quiet\<close>.\<close>

lemma quiet_out:
  "(quiet pr)\<lparr>pr_heap := h\<rparr> = quiet (pr\<lparr>pr_heap := h\<rparr>)"
  "(quiet pr)\<lparr>pr_retry_attempt := n\<rparr> = quiet (pr\<lparr>pr_retry_attempt := n\<rparr>)"
  "(quiet pr)\<lparr>pr_accepted_incomplete_count := n\<rparr> = quiet (pr\<lparr>pr_accepted_incomplete_count := n\<rparr>)"
  "(quiet pr)\<lparr>pr_zero_input_update_count := n\<rparr> = quiet (pr\<lparr>pr_zero_input_update_count := n\<rparr>)"
  "wlog l (quiet pr) = quiet (wlog l pr)"
  by (simp_all add: quiet_def emit_def)

lemma quiet_trace:
  "quiet (pr\<lparr>pr_update_call_count := n\<rparr>) = quiet pr" "quiet (pr\<lparr>pr_trace := ts\<rparr>) = quiet pr"
  by (simp_all add: quiet_def)

lemma quiet_metadata: "quiet (emit (map Metadata_Line ls) pr) = quiet pr"
  by (simp add: quiet_def emit_def filter_empty_conv)

lemma metadata_before_lines:
  "metadata_before_update h ua n ts = Some (bc, n', ts', lines) \<Longrightarrow> \<exists>ls. lines = map Metadata_Line ls"
  by (auto simp: metadata_before_update_def fault_split Let_def intro: exI [of _ "[_, _]"])

lemma metadata_after_lines:
  "metadata_after_update h ua bc st ts = Some (ts', lines) \<Longrightarrow> \<exists>ls. lines = map Metadata_Line ls"
  by (auto simp: metadata_after_update_def fault_split intro: exI [of _ "[_]"])

lemma native_update_quiet:
  "native_update w ua pr = Some (st, pr') \<Longrightarrow> native_update w ua (quiet pr) = Some (st, quiet pr')"
  by (cases pr) (auto simp: native_update_def fault_split quiet_def)

lemma native_rearm_quiet:
  "native_rearm w pr = Some (st, pr') \<Longrightarrow> native_rearm w (quiet pr) = Some (st, quiet pr')"
  by (cases pr) (auto simp: native_rearm_def fault_split quiet_def)

lemma traced_update_quiet:
  assumes "traced_update w ua pr = Some (st, pr')"
  shows "traced_update w ua (quiet pr) = Some (st, quiet pr')"
proof (cases "rc_metadata_trace (cache pr)")
  case True
  with assms obtain bc n ts lines pr1 ts' lines'
    where before: "metadata_before_update (pr_heap pr) ua (pr_update_call_count pr) (pr_trace pr)
                     = Some (bc, n, ts, lines)"
      and upd: "native_update w ua (emit lines (pr\<lparr>pr_update_call_count := n, pr_trace := ts\<rparr>))
                  = Some (st, pr1)"
      and after: "metadata_after_update (pr_heap pr1) ua bc st (pr_trace pr1) = Some (ts', lines')"
      and pr': "pr' = emit lines' (pr1\<lparr>pr_trace := ts'\<rparr>)"
    by (auto simp: traced_update_def fault_split)
  obtain ls ls' where "lines = map Metadata_Line ls" "lines' = map Metadata_Line ls'"
    using metadata_before_lines [OF before] metadata_after_lines [OF after] by blast
  then have "quiet (emit lines (pr\<lparr>pr_update_call_count := n, pr_trace := ts\<rparr>)) = quiet pr"
    and "quiet pr' = quiet pr1"
    by (simp_all add: quiet_metadata quiet_trace pr')
  then show ?thesis using native_update_quiet [OF upd] by (simp add: traced_update_def)
next
  case False
  then show ?thesis
    using assms native_update_quiet [of w ua pr st pr'] by (simp add: traced_update_def)
qed

lemma log_update_outputs_quiet:
  "log_update_outputs which ua pr = Some pr' \<Longrightarrow>
   log_update_outputs which ua (quiet pr) = Some (quiet pr')"
  by (auto simp: log_update_outputs_def fault_split quiet_out)

lemma rearm_bad_capture_quiet:
  "rearm_bad_capture w st pr = Some (r, pr') \<Longrightarrow>
   rearm_bad_capture w st (quiet pr) = Some (r, quiet pr')"
  by (auto simp: rearm_bad_capture_def fault_split Let_def quiet_out native_rearm_quiet
      split: if_splits)

lemma rearm_accepted_quiet:
  "rearm_accepted w st pr = Some (r, pr') \<Longrightarrow> rearm_accepted w st (quiet pr) = Some (r, quiet pr')"
  by (auto simp: rearm_accepted_def fault_split Let_def quiet_out native_rearm_quiet split: if_splits)

lemma zero_input_gate_quiet:
  "zero_input_gate w ua pr = Some (r, pr') \<Longrightarrow> zero_input_gate w ua (quiet pr) = Some (r, quiet pr')"
  by (auto simp: zero_input_gate_def fault_split Let_def quiet_out split: if_splits)

lemma legacy_repeat_quiet:
  "legacy_repeat w ua st pr = Some (r, pr') \<Longrightarrow>
   legacy_repeat w ua st (quiet pr) = Some (r, quiet pr')"
  by (auto simp: legacy_repeat_def fault_split Let_def quiet_out log_update_outputs_quiet traced_update_quiet
      split: if_splits)

lemma fresh_boundary_quiet:
  assumes "fresh_boundary w ua st pr = Some (r, pr')"
  shows "fresh_boundary w ua st (quiet pr) = Some (r, quiet pr')"
proof -
  from assms obtain prl where
    logged: "log_update_outputs ''native'' ua (wlog (Boundary_Status st) pr) = Some prl"
    by (auto simp: fresh_boundary_def fault_split)
  note logged' = log_update_outputs_quiet [OF logged]
  show ?thesis
  proof (cases "st = CV_STATUS_SUCCESS")
    case False
    then show ?thesis
      using assms by (auto simp: fresh_boundary_def logged logged' Let_def quiet_out)
  next
    case True
    from assms True obtain completion
      where byte: "completion_byte (pr_heap prl) (ua_completion_out ua) = Some completion"
        and rest: "(if completion \<noteq> Some 0
                    then Some (Inl CV_STATUS_EXPERIMENT_FAILURE, wlog Boundary_Blocked prl)
                    else if update_policy_rearms_accepted (rc_update_policy (cache prl))
                    then rearm_accepted w st prl
                    else Some (Inr st, prl)) = Some (r, pr')"
      by (auto simp: fresh_boundary_def logged [unfolded True] Let_def fault_split)
    have "fresh_boundary w ua st (quiet pr) =
        (if completion \<noteq> Some 0
         then Some (Inl CV_STATUS_EXPERIMENT_FAILURE, wlog Boundary_Blocked (quiet prl))
         else if update_policy_rearms_accepted (rc_update_policy (cache prl))
         then rearm_accepted w st (quiet prl)
         else Some (Inr st, quiet prl))"
      using True byte
      by (simp add: fresh_boundary_def quiet_out logged' [unfolded True] Let_def)
    then show ?thesis
      using rest rearm_accepted_quiet [of w st prl r pr'] by (auto simp: quiet_out split: if_splits)
  qed
qed

lemma wrapper_quiet:
  assumes "forwarding w pr" and "cv_fingerprint_update_enrollment w ua pr = Some (r, pr')"
  shows "cv_fingerprint_update_enrollment w ua (quiet pr) = Some (r, quiet pr')"
proof -
  have "forwarding w (quiet pr)" using assms(1) by (simp add: forwarding_def)
  note fwd = forwarding_check [OF this] forwarding_check [OF assms(1)]
  from assms(2) obtain gate prg where gate: "zero_input_gate w ua pr = Some (gate, prg)"
    and body: "(case gate of Inl status \<Rightarrow> Some (status, prg)
       | Inr effective \<Rightarrow> do {
           (status, pr) \<leftarrow> traced_update w effective prg;
           (branch, pr) \<leftarrow> update_policies w effective status pr;
           case branch of Inl status \<Rightarrow> Some (status, pr)
           | Inr status \<Rightarrow> rearm_bad_capture w status pr }) = Some (r, pr')"
    by (auto simp: cv_fingerprint_update_enrollment_def fwd fault_split)
  note gate' = zero_input_gate_quiet [OF gate]
  show ?thesis
  proof (cases gate)
    case (Inl s)
    then show ?thesis
      using body gate' by (simp add: cv_fingerprint_update_enrollment_def fwd)
  next
    case (Inr eff)
    with body obtain st pr1 branch pr2 where upd: "traced_update w eff prg = Some (st, pr1)"
      and pols: "update_policies w eff st pr1 = Some (branch, pr2)"
      and fin: "(case branch of Inl s \<Rightarrow> Some (s, pr2) | Inr s \<Rightarrow> rearm_bad_capture w s pr2)
                  = Some (r, pr')"
      by (auto simp: fault_split)
    have "update_policies w eff st (quiet pr1) = Some (branch, quiet pr2)"
      using pols by (auto simp: update_policies_def fault_split fresh_boundary_quiet
          legacy_repeat_quiet split: if_splits)
    then show ?thesis
      using fin traced_update_quiet [OF upd] gate' Inr
      by (cases branch)
        (simp_all add: cv_fingerprint_update_enrollment_def fwd rearm_bad_capture_quiet)
  qed
qed

section \<open>Calls return\<close>

text \<open>The driver's functions return and neither map nor unmap memory.\<close>

definition driver_returns :: "'w rearm_world \<Rightarrow> bool" where
  "driver_returns w \<longleftrightarrow>
     (\<forall>a n h ua. \<exists>st h' n'. rw_update_at w a n h ua = Some (st, h', n') \<and> dom h' = dom h)
     \<and> (\<forall>a n h. \<exists>st h' n'. rw_started_at w a n h = Some (st, h', n') \<and> dom h' = dom h)"

lemma driver_update_returns:
  "driver_returns w \<Longrightarrow> \<exists>st h' n'. rw_update_at w a n h ua = Some (st, h', n') \<and> dom h' = dom h"
  by (simp add: driver_returns_def)

lemma driver_rearm_returns:
  "driver_returns w \<Longrightarrow> \<exists>st h' n'. rw_started_at w a n h = Some (st, h', n') \<and> dom h' = dom h"
  by (simp add: driver_returns_def)

text \<open>A result on memory with the mapped addresses \<open>D\<close> and a well-formed trace.\<close>

definition settles :: "ptr set \<Rightarrow> ('a \<times> 'w process) option \<Rightarrow> bool" where
  "settles D res \<longleftrightarrow>
     (\<exists>x pr. res = Some (x, pr) \<and> dom (pr_heap pr) = D \<and> trace_wf (pr_trace pr))"

lemma settles_Some [simp]:
  "settles D (Some (x, pr)) \<longleftrightarrow> dom (pr_heap pr) = D \<and> trace_wf (pr_trace pr)"
  by (simp add: settles_def)

lemma settles_bind:
  "settles D m \<Longrightarrow>
   (\<And>x pr. dom (pr_heap pr) = D \<Longrightarrow> trace_wf (pr_trace pr) \<Longrightarrow> settles D (f (x, pr))) \<Longrightarrow>
   settles D (m \<bind> f)"
  by (auto simp: settles_def)

lemma native_update_settles:
  assumes "driver_returns w" and "trace_wf (pr_trace pr)"
  shows "settles (dom (pr_heap pr)) (native_update w ua pr)"
proof -
  obtain st h' n' where "rw_update_at w (rc_update (cache pr)) (pr_native pr) (pr_heap pr) ua
      = Some (st, h', n')" and "dom h' = dom (pr_heap pr)"
    using driver_update_returns [OF assms(1)] by metis
  then show ?thesis using assms(2) by (simp add: native_update_def)
qed

lemma native_rearm_settles:
  assumes "driver_returns w" and "trace_wf (pr_trace pr)"
  shows "settles (dom (pr_heap pr)) (native_rearm w pr)"
proof -
  obtain st h' n' where "rw_started_at w (rc_enrollment_started (cache pr)) (pr_native pr)
      (pr_heap pr) = Some (st, h', n')" and "dom h' = dom (pr_heap pr)"
    using driver_rearm_returns [OF assms(1)] by metis
  then show ?thesis using assms(2) by (simp add: native_rearm_def)
qed

lemma traced_update_settles:
  assumes drv: "driver_returns w" and wf: "trace_wf (pr_trace pr)"
    and args: "readable_args (pr_heap pr) ua"
  shows "settles (dom (pr_heap pr)) (traced_update w ua pr)"
proof (cases "rc_metadata_trace (cache pr)")
  case False
  then show ?thesis using native_update_settles [OF drv wf] by (simp add: traced_update_def)
next
  case True
  obtain bc lines ts where before:
      "metadata_before_update (pr_heap pr) ua (pr_update_call_count pr) (pr_trace pr)
         = Some (bc, pr_update_call_count pr + 1, ts, lines)"
    and ts: "trace_wf ts" and len: "length (bc_enrollment_output bc) = CV2_ENROLLMENT_VALUE_SIZE"
      "length (bc_output_value bc) = OUTPUT_VALUE_SIZE"
    by (rule metadata_before_returns [OF args wf])
  define pre where
    "pre = emit lines (pr\<lparr>pr_update_call_count := pr_update_call_count pr + 1, pr_trace := ts\<rparr>)"
  have pre: "trace_wf (pr_trace pre)" "pr_heap pre = pr_heap pr" using ts by (simp_all add: pre_def)
  obtain st pr1 where upd: "native_update w ua pre = Some (st, pr1)"
    and dom1: "dom (pr_heap pr1) = dom (pr_heap pr)" and wf1: "trace_wf (pr_trace pr1)"
    using native_update_settles [OF drv pre(1), of ua] by (auto simp: settles_def pre(2))
  have args1: "readable_args (pr_heap pr1) ua" using args readable_args_dom [OF dom1] by simp
  obtain ts' lines' where "metadata_after_update (pr_heap pr1) ua bc st (pr_trace pr1)
      = Some (ts', lines')" and "trace_wf ts'"
    by (rule metadata_after_returns [OF args1 wf1 len])
  then show ?thesis using True before upd dom1 by (simp add: traced_update_def pre_def)
qed

text \<open>The completion byte can be read.\<close>

definition completion_mapped :: "ptr set \<Rightarrow> update_args \<Rightarrow> bool" where
  "completion_mapped D ua \<longleftrightarrow> ua_completion_out ua = 0 \<or> ua_completion_out ua \<in> D"

lemma readable_completion: "readable_args h ua \<Longrightarrow> completion_mapped (dom h) ua"
  by (auto simp: readable_args_def readable_def completion_mapped_def)

lemma completion_byte_returns:
  "completion_mapped (dom h) ua \<Longrightarrow>
   completion_byte h (ua_completion_out ua) = Some (seen_completion ua h)"
  by (auto simp: completion_mapped_def completion_byte_def seen_completion_def)

lemma log_update_outputs_returns:
  "completion_mapped (dom (pr_heap pr)) ua \<Longrightarrow>
   log_update_outputs which ua pr =
     Some (wlog (Update_Outputs which (seen_completion ua (pr_heap pr))
                  (ua_enrollment_data_out ua \<noteq> 0) (ua_output_value_out ua \<noteq> 0)) pr)"
  by (simp add: log_update_outputs_def completion_byte_returns)

lemma rearm_bad_capture_settles:
  assumes "driver_returns w" and "trace_wf (pr_trace pr)"
  shows "settles (dom (pr_heap pr)) (rearm_bad_capture w st pr)"
proof (cases "st = CV_STATUS_BAD_CAPTURE")
  case True
  let ?pre = "wlog (Bad_Capture_Rearm (pr_retry_attempt pr + 1)) (wlog (Bad_Capture
      (pr_retry_attempt pr + 1)) (pr\<lparr>pr_retry_attempt := pr_retry_attempt pr + 1\<rparr>))"
  have "settles (dom (pr_heap pr)) (native_rearm w ?pre)"
    using native_rearm_settles [OF assms(1), of ?pre] assms(2) by simp
  then show ?thesis
    using True by (auto simp: rearm_bad_capture_def Let_def intro!: settles_bind)
qed (use assms in \<open>simp add: rearm_bad_capture_def\<close>)

lemma rearm_accepted_settles:
  assumes "driver_returns w" and "trace_wf (pr_trace pr)"
  shows "settles (dom (pr_heap pr)) (rearm_accepted w st pr)"
proof -
  have "settles (dom (pr_heap pr)) (native_rearm w pre)"
    if "pr_heap pre = pr_heap pr" "pr_trace pre = pr_trace pr" for pre
    using native_rearm_settles [OF assms(1), of pre] assms(2) that by simp
  then show ?thesis
    using assms(2) by (auto simp: rearm_accepted_def Let_def intro!: settles_bind)
qed

lemma update_policies_settles:
  assumes drv: "driver_returns w" and wf: "trace_wf (pr_trace pr)"
    and args: "readable_args (pr_heap pr) ua"
  shows "settles (dom (pr_heap pr)) (update_policies w ua st pr)"
proof (cases "rc_update_policy (cache pr) = legacy_policy")
  case True
  note com = readable_completion [OF args]
  have trc: "settles (dom (pr_heap pr)) (traced_update w ua pre)"
    if "pr_heap pre = pr_heap pr" "pr_trace pre = pr_trace pr" for pre
    using traced_update_settles [OF drv, of pre ua] wf args that by simp
  have "settles (dom (pr_heap pr)) (legacy_repeat w ua st pr)"
    using com wf
    by (auto simp: legacy_repeat_def log_update_outputs_returns Let_def intro!: settles_bind trc)
  then show ?thesis using True by (auto simp: update_policies_def intro!: settles_bind)
next
  case False
  note com = readable_completion [OF args]
  have acc: "settles (dom (pr_heap pr)) (rearm_accepted w st pre)"
    if "pr_heap pre = pr_heap pr" "pr_trace pre = pr_trace pr" for pre st
    using rearm_accepted_settles [OF drv, of pre st] wf that by simp
  show ?thesis
    using False wf com
    by (simp add: update_policies_def fresh_boundary_def log_update_outputs_returns
        completion_byte_returns Let_def acc)
qed

lemma mem_write_returns:
  "(\<And>i. i < length bs \<Longrightarrow> p + of_nat i \<in> dom h) \<Longrightarrow> \<exists>h'. mem_write h p bs = Some h'"
proof (induction bs arbitrary: h p)
  case (Cons b bs)
  have here: "h p \<noteq> None" using Cons.prems [of 0] by (simp add: domIff)
  have "p + 1 + of_nat i \<in> dom (h(p \<mapsto> b))" if "i < length bs" for i
    using Cons.prems [of "Suc i"] that by (simp add: add.assoc)
  from Cons.IH [OF this] obtain h' where "mem_write (h(p \<mapsto> b)) (p + 1) bs = Some h'" by blast
  then show ?case using here by auto
qed simp

text \<open>What a call needs of the memory: its arguments and the interposer's own zero buffer.\<close>

definition call_mapped :: "'w rearm_world \<Rightarrow> update_args \<Rightarrow> heap \<Rightarrow> bool" where
  "call_mapped w ua h \<longleftrightarrow> readable_args h ua
     \<and> (\<forall>i < CV2_ENROLLMENT_VALUE_SIZE. rw_zero_update_input w + of_nat i \<in> dom h)"

lemma zero_input_gate_returns:
  assumes "call_mapped w ua (pr_heap pr)" and "trace_wf (pr_trace pr)"
  shows "\<exists>gate pr'. zero_input_gate w ua pr = Some (gate, pr')
     \<and> dom (pr_heap pr') = dom (pr_heap pr) \<and> trace_wf (pr_trace pr')
     \<and> (\<forall>eff. gate = Inr eff \<longrightarrow> readable_args (pr_heap pr') eff)"
proof -
  obtain h' where h': "mem_write (pr_heap pr) (rw_zero_update_input w)
      (replicate CV2_ENROLLMENT_VALUE_SIZE 0) = Some h'"
    using mem_write_returns [of "replicate CV2_ENROLLMENT_VALUE_SIZE 0" "rw_zero_update_input w"
        "pr_heap pr"] assms(1) by (fastforce simp: call_mapped_def)
  have dom: "dom h' = dom (pr_heap pr)" using mem_write_dom [OF h'] .
  have "readable_args h' (ua\<lparr>ua_enrollment_id := rw_zero_update_input w\<rparr>)"
    using assms(1) readable_dom [OF dom] dom
    by (simp add: call_mapped_def readable_args_def) (simp add: readable_def)
  then show ?thesis
    using assms h' dom by (auto simp: zero_input_gate_def Let_def call_mapped_def)
qed

lemma check_forwarding_trace:
  "check_forwarding w pr = (ok, pr1) \<Longrightarrow> pr_trace pr1 = pr_trace pr"
  by (auto simp: check_forwarding_def split: prod.splits)

lemma wrapper_settles:
  assumes drv: "driver_returns w" and map: "call_mapped w ua (pr_heap pr)"
    and wf: "trace_wf (pr_trace pr)"
  shows "settles (dom (pr_heap pr)) (cv_fingerprint_update_enrollment w ua pr)"
proof -
  obtain ok pr0 where chk: "check_forwarding w pr = (ok, pr0)" by fastforce
  note start = check_forwarding_frame(3) [OF chk] check_forwarding_trace [OF chk]
  show ?thesis
  proof (cases ok)
    case False
    then show ?thesis using chk start wf by (simp add: cv_fingerprint_update_enrollment_def)
  next
    case True
    obtain gate prg where gate: "zero_input_gate w ua pr0 = Some (gate, prg)"
      and domg: "dom (pr_heap prg) = dom (pr_heap pr)" and wfg: "trace_wf (pr_trace prg)"
      and eff: "\<And>eff. gate = Inr eff \<Longrightarrow> readable_args (pr_heap prg) eff"
      using zero_input_gate_returns [of w ua pr0] map wf start by auto
    have rest: "settles (dom (pr_heap pr)) (do {
        (status, pr) \<leftarrow> traced_update w eff prg;
        (branch, pr) \<leftarrow> update_policies w eff status pr;
        case branch of Inl status \<Rightarrow> Some (status, pr)
        | Inr status \<Rightarrow> rearm_bad_capture w status pr })" if "gate = Inr eff" for eff
    proof (rule settles_bind)
      show "settles (dom (pr_heap pr)) (traced_update w eff prg)"
        using traced_update_settles [OF drv wfg eff [OF that]] domg by simp
      fix st :: u32 and pr1 :: "'a process"
      assume 1: "dom (pr_heap pr1) = dom (pr_heap pr)" "trace_wf (pr_trace pr1)"
      have ra: "readable_args (pr_heap pr1) eff"
        using eff [OF that] readable_args_dom [of "pr_heap pr1" "pr_heap prg"] 1(1) domg by simp
      have "settles (dom (pr_heap pr)) (case branch of Inl status \<Rightarrow> Some (status, pr2)
          | Inr status \<Rightarrow> rearm_bad_capture w status pr2)"
        if "dom (pr_heap pr2) = dom (pr_heap pr)" "trace_wf (pr_trace pr2)" for branch pr2
        using that rearm_bad_capture_settles [OF drv, of pr2] by (cases branch) auto
      then show "settles (dom (pr_heap pr)) (case (st, pr1) of (status, pr) \<Rightarrow> do {
          (branch, pr) \<leftarrow> update_policies w eff status pr;
          case branch of Inl status \<Rightarrow> Some (status, pr)
          | Inr status \<Rightarrow> rearm_bad_capture w status pr })"
        using update_policies_settles [OF drv 1(2) ra, of st] 1(1)
        by (auto intro!: settles_bind)
    qed
    show ?thesis
      using rest gate chk True domg wfg
      by (cases gate) (simp_all add: cv_fingerprint_update_enrollment_def)
  qed
qed

end
