(* ===== verification/Rearm_Counters.thy ===== *)
theory Rearm_Counters
  imports Rearm_Trace
begin

text \<open>
  The two counters of the interposer that only the log shows, the re-arm attempts and the traced
  calls, agree with the calls made.
\<close>

section \<open>Counters and events\<close>

text \<open>How far a counter is from the number of its events; both are 0 in a fresh process.\<close>

definition attempt_drift :: "'w process \<Rightarrow> u32" where
  "attempt_drift pr = pr_retry_attempt pr - of_nat (length (rearms (pr_events pr)))"

definition trace_drift :: "'w process \<Rightarrow> u32" where
  "trace_drift pr = pr_update_call_count pr - of_nat (length (updates (pr_events pr)))"

lemma logged_events [simp]: "rearms (map Logged ls) = []" "updates (map Logged ls) = []"
  by (induction ls) simp_all

lemma drift_simps [simp]:
  "attempt_drift (emit ls pr) = attempt_drift pr" "trace_drift (emit ls pr) = trace_drift pr"
  "attempt_drift (pr\<lparr>pr_heap := h\<rparr>) = attempt_drift pr"
  "trace_drift (pr\<lparr>pr_heap := h\<rparr>) = trace_drift pr"
  "attempt_drift (pr\<lparr>pr_trace := ts\<rparr>) = attempt_drift pr"
  "trace_drift (pr\<lparr>pr_trace := ts\<rparr>) = trace_drift pr"
  "attempt_drift (pr\<lparr>pr_resolver := rs\<rparr>) = attempt_drift pr"
  "trace_drift (pr\<lparr>pr_resolver := rs\<rparr>) = trace_drift pr"
  "attempt_drift (pr\<lparr>pr_accepted_incomplete_count := n\<rparr>) = attempt_drift pr"
  "trace_drift (pr\<lparr>pr_accepted_incomplete_count := n\<rparr>) = trace_drift pr"
  "attempt_drift (pr\<lparr>pr_zero_input_update_count := n\<rparr>) = attempt_drift pr"
  "trace_drift (pr\<lparr>pr_zero_input_update_count := n\<rparr>) = trace_drift pr"
  "attempt_drift (pr\<lparr>pr_update_call_count := n\<rparr>) = attempt_drift pr"
  "trace_drift (pr\<lparr>pr_retry_attempt := n\<rparr>) = trace_drift pr"
  "n = pr_retry_attempt pr + 1 \<Longrightarrow>
     attempt_drift (pr\<lparr>pr_retry_attempt := n\<rparr>) = attempt_drift pr + 1"
  "n = pr_update_call_count pr + 1 \<Longrightarrow>
     trace_drift (pr\<lparr>pr_update_call_count := n\<rparr>) = trace_drift pr + 1"
  by (simp_all add: attempt_drift_def trace_drift_def)

text \<open>The same drift, on a process whose trace switch is \<open>on\<close>.\<close>

definition drifts_alike :: "'w process \<Rightarrow> 'w process \<Rightarrow> bool" where
  "drifts_alike pr pr' \<longleftrightarrow> attempt_drift pr' = attempt_drift pr
     \<and> pr_resolver pr' = pr_resolver pr
     \<and> (rc_metadata_trace (cache pr) \<longrightarrow> trace_drift pr' = trace_drift pr)
     \<and> (\<not> rc_metadata_trace (cache pr) \<longrightarrow> pr_update_call_count pr' = pr_update_call_count pr)"

lemma drifts_alike_refl [simp]: "drifts_alike pr pr"
  by (simp add: drifts_alike_def)

lemma drifts_alike_trans: "drifts_alike p q \<Longrightarrow> drifts_alike q r \<Longrightarrow> drifts_alike p r"
  by (simp add: drifts_alike_def)

lemma drifts_alike_emit [simp]: "drifts_alike pr (emit ls p) = drifts_alike pr p"
  by (simp add: drifts_alike_def)

lemma native_update_drift:
  "native_update w ua pr = Some (st, pr') \<Longrightarrow>
     attempt_drift pr' = attempt_drift pr \<and> trace_drift pr' = trace_drift pr - 1
     \<and> pr_resolver pr' = pr_resolver pr \<and> pr_update_call_count pr' = pr_update_call_count pr"
  by (auto simp: native_update_def fault_split attempt_drift_def trace_drift_def)

lemma native_rearm_drift:
  "native_rearm w pr = Some (st, pr') \<Longrightarrow>
     attempt_drift pr' = attempt_drift pr - 1 \<and> trace_drift pr' = trace_drift pr
     \<and> pr_resolver pr' = pr_resolver pr \<and> pr_update_call_count pr' = pr_update_call_count pr"
  by (auto simp: native_rearm_def fault_split attempt_drift_def trace_drift_def)

lemma metadata_before_count:
  "metadata_before_update h ua n ts = Some (bc, n', ts', lines) \<Longrightarrow> n' = n + 1"
  by (auto simp: metadata_before_update_def fault_split Let_def)

lemma traced_update_drift:
  "traced_update w ua pr = Some (st, pr') \<Longrightarrow> drifts_alike pr pr'"
  by (auto simp: traced_update_def fault_split drifts_alike_def split: if_splits
      dest!: native_update_drift metadata_before_count)

lemma log_update_outputs_drift:
  "log_update_outputs which ua pr = Some pr' \<Longrightarrow> drifts_alike pr pr'"
  by (auto dest: log_update_outputs_Some)

lemma rearm_bad_capture_drift:
  "rearm_bad_capture w st pr = Some (r, pr') \<Longrightarrow> drifts_alike pr pr'"
  by (auto simp: rearm_bad_capture_def fault_split Let_def drifts_alike_def split: if_splits
      dest!: native_rearm_drift)

lemma rearm_accepted_drift:
  "rearm_accepted w st pr = Some (r, pr') \<Longrightarrow> drifts_alike pr pr'"
  by (auto simp: rearm_accepted_def fault_split Let_def drifts_alike_def split: if_splits
      dest!: native_rearm_drift)

lemma zero_input_gate_drift:
  "zero_input_gate w ua pr = Some (gate, pr') \<Longrightarrow> drifts_alike pr pr'"
  by (auto simp: zero_input_gate_def fault_split Let_def drifts_alike_def split: if_splits)

lemma fresh_boundary_drift:
  assumes "fresh_boundary w ua st pr = Some (branch, pr')"
  shows "drifts_alike pr pr'"
proof -
  from assms obtain prl where
    logged: "log_update_outputs ''native'' ua (wlog (Boundary_Status st) pr) = Some prl"
    by (auto simp: fresh_boundary_def fault_split)
  have "drifts_alike pr prl" using log_update_outputs_Some [OF logged] by simp
  moreover have "drifts_alike p pr'" if "rearm_accepted w st p = Some (branch, pr')"
    "p = prl \<or> p = wlog Boundary_Preserved prl" for p
    using rearm_accepted_drift [OF that(1)] .
  ultimately show ?thesis
  proof (cases "st = CV_STATUS_SUCCESS")
    case True
    have "drifts_alike prl pr'"
      using assms True
      by (auto simp: fresh_boundary_def logged [unfolded True] Let_def fault_split
          dest: rearm_accepted_drift split: if_splits)
    then show ?thesis using \<open>drifts_alike pr prl\<close> by (rule drifts_alike_trans [rotated])
  next
    case False
    then show ?thesis
      using assms \<open>drifts_alike pr prl\<close> by (auto simp: fresh_boundary_def logged Let_def)
  qed
qed

lemma legacy_repeat_drift:
  assumes "legacy_repeat w ua st pr = Some (r, pr')"
  shows "drifts_alike pr pr'"
proof (cases "st = CV_STATUS_UPDATE_AGAIN")
  case True
  with assms obtain pr1 pr2 pr3 where
    "log_update_outputs ''first'' ua (wlog Again_Received pr) = Some pr1"
    and upd: "traced_update w ua (wlog Again_Retry pr1) = Some (r, pr2)"
    and "log_update_outputs ''second'' ua (wlog (Again_Status r) pr2) = Some pr3"
    and pr': "pr' = wlog Again_Passing (if r = CV_STATUS_UPDATE_AGAIN then wlog Again_Limit pr3 else pr3)"
    by (auto simp: legacy_repeat_def fault_split Let_def)
  then have "drifts_alike pr (wlog Again_Retry pr1)" "drifts_alike pr2 pr'"
    by (auto dest!: log_update_outputs_Some)
  then show ?thesis
    using traced_update_drift [OF upd] by (blast intro: drifts_alike_trans)
qed (use assms in \<open>simp add: legacy_repeat_def\<close>)

lemma wrapper_drift:
  assumes chk: "check_forwarding w pr = (ok, pr0)"
    and run: "cv_fingerprint_update_enrollment w ua pr = Some (r, pr')"
  shows "drifts_alike pr0 pr'"
proof (cases ok)
  case False
  then show ?thesis using run chk by (auto simp: cv_fingerprint_update_enrollment_def)
next
  case True
  from run chk True obtain gate prg where gate: "zero_input_gate w ua pr0 = Some (gate, prg)"
    and body: "(case gate of Inl status \<Rightarrow> Some (status, prg)
       | Inr effective \<Rightarrow> do {
           (status, pr) \<leftarrow> traced_update w effective prg;
           (branch, pr) \<leftarrow> update_policies w effective status pr;
           case branch of Inl status \<Rightarrow> Some (status, pr)
           | Inr status \<Rightarrow> rearm_bad_capture w status pr }) = Some (r, pr')"
    by (auto simp: cv_fingerprint_update_enrollment_def fault_split)
  note g = zero_input_gate_drift [OF gate]
  show ?thesis
  proof (cases gate)
    case (Inl s)
    then show ?thesis using body g by simp
  next
    case (Inr eff)
    with body obtain st pr1 branch pr2 where upd: "traced_update w eff prg = Some (st, pr1)"
      and pols: "update_policies w eff st pr1 = Some (branch, pr2)"
      and fin: "(case branch of Inl s \<Rightarrow> Some (s, pr2) | Inr s \<Rightarrow> rearm_bad_capture w s pr2)
                  = Some (r, pr')"
      by (auto simp: fault_split)
    have "drifts_alike pr1 pr2"
      using pols by (auto simp: update_policies_def fault_split split: if_splits
          dest: fresh_boundary_drift legacy_repeat_drift)
    moreover have "drifts_alike pr2 pr'"
      using fin by (cases branch) (auto dest: rearm_bad_capture_drift)
    ultimately show ?thesis
      using g traced_update_drift [OF upd] by (blast intro: drifts_alike_trans)
  qed
qed

text \<open>Over a session of a process that forwards.\<close>

lemma session_drift:
  assumes "forwarding w pr" and "wrapper_session w cs pr = Some (rs, pr')"
  shows "drifts_alike pr pr'"
  using assms
proof (induction cs arbitrary: pr rs)
  case Nil
  then show ?case by simp
next
  case (Cons c cs)
  obtain edit ua where c: "c = (edit, ua)" by (cases c)
  define pre where "pre = pr\<lparr>pr_heap := edit (pr_heap pr)\<rparr>"
  have fwd: "forwarding w pre" using Cons.prems(1) by (simp add: pre_def)
  from Cons.prems(2) obtain r pr1 rs1
    where one: "cv_fingerprint_update_enrollment w ua pre = Some (r, pr1)"
      and rest: "wrapper_session w cs pr1 = Some (rs1, pr')"
    by (auto simp: c pre_def fault_split)
  note d = wrapper_drift [OF forwarding_check [OF fwd] one]
  then have "forwarding w pr1" using fwd by (auto simp: drifts_alike_def forwarding_def)
  note Cons.IH [OF this rest]
  moreover have "drifts_alike pr pre" by (simp add: pre_def drifts_alike_def)
  ultimately show ?case using d by (blast intro: drifts_alike_trans)
qed

end
