(* ===== verification/Rearm_Resolver_Correct.thy ===== *)
theory Rearm_Resolver_Correct
  imports Rearm_Resolver
begin

text \<open>
  What it takes for the resolver to become ready, stated without its order of checks, and what
  the one run of it leaves behind.
\<close>

section \<open>Ownership\<close>

text \<open>The object that an address belongs to, by canonical path, device and inode.\<close>

definition owner_of :: "dso_world \<Rightarrow> ptr \<Rightarrow> target_identity option" where
  "owner_of dw address =
     (case dw_dladdr dw address of
        None \<Rightarrow> None
      | Some fname \<Rightarrow> identity_from_path dw fname)"

lemma identity_from_path_None [simp]: "identity_from_path dw None = None"
  by (simp add: identity_from_path_def)

lemma resolver_failure_keeps [simp]:
  "rc_ready (fst (resolver_failure text rc)) = rc_ready rc"
  "rc_update (fst (resolver_failure text rc)) = rc_update rc"
  "rc_enrollment_started (fst (resolver_failure text rc)) = rc_enrollment_started rc"
  "rc_update_policy (fst (resolver_failure text rc)) = rc_update_policy rc"
  "rc_metadata_trace (fst (resolver_failure text rc)) = rc_metadata_trace rc"
  "rc_handle (fst (resolver_failure text rc)) = rc_handle rc"
  "rc_failure (fst (resolver_failure text rc)) = snprintf_failure text"
  by (simp_all add: resolver_failure_def)

lemma symbol_owned_iff:
  assumes "symbol_owned_by_target dw address symbol target self rc = (owned, rc', lines)"
  shows "owned \<longleftrightarrow> address \<noteq> 0 \<and> address \<noteq> self \<and> owner_of dw address = Some target"
    and "owned \<Longrightarrow> rc' = rc" and "rc_ready rc' = rc_ready rc"
  using assms
  by (auto simp: symbol_owned_by_target_def owner_of_def resolver_failure_def
      intro: target_identity.equality split: if_splits option.splits)

section \<open>Readiness\<close>

text \<open>The loaded target has both functions, and neither is the wrapper itself.\<close>

definition symbols_resolve :: "dso_world \<Rightarrow> target_identity \<Rightarrow> ptr \<Rightarrow> ptr \<Rightarrow> ptr \<Rightarrow> bool" where
  "symbols_resolve dw expected handle upd started \<longleftrightarrow>
     dw_dlsym dw handle ''cv_fingerprint_update_enrollment'' = (upd, None)
     \<and> dw_dlsym dw handle ''cv_cmd_enrollment_started'' = (started, None)
     \<and> upd \<noteq> 0 \<and> upd \<noteq> dw_self_update dw \<and> started \<noteq> 0
     \<and> owner_of dw upd = Some expected \<and> owner_of dw started = Some expected"

definition target_resolves ::
  "dso_world \<Rightarrow> target_identity \<Rightarrow> ptr \<Rightarrow> ptr \<Rightarrow> ptr \<Rightarrow> bool" where
  "target_resolves dw expected handle upd started \<longleftrightarrow>
     identity_from_path dw (dw_getenv dw CV2_TARGET_ENV) = Some expected
     \<and> (\<exists>name \<in> set (dw_loaded dw). identity_from_path dw name = Some expected)
     \<and> dw_dlopen_noload dw (ti_path expected) = (handle, None) \<and> handle \<noteq> 0
     \<and> symbols_resolve dw expected handle upd started"

lemma lookup_symbol_nonnull:
  "lookup_symbol dw handle symbol = p \<Longrightarrow> p \<noteq> 0 \<Longrightarrow> dw_dlsym dw handle symbol = (p, None)"
  by (auto simp: lookup_symbol_def split: prod.splits if_splits)

lemma lookup_symbol_found: "dw_dlsym dw handle symbol = (p, None) \<Longrightarrow> lookup_symbol dw handle symbol = p"
  by (simp add: lookup_symbol_def)

lemma resolve_symbols_ready:
  assumes "\<not> rc_ready rc"
  shows "rc_ready (fst (resolve_symbols dw expected rc)) \<longleftrightarrow>
    (\<exists>upd started. symbols_resolve dw expected (rc_handle rc) upd started
       \<and> fst (resolve_symbols dw expected rc) =
           rc\<lparr>rc_update := upd, rc_enrollment_started := started, rc_ready := True\<rparr>)"
proof -
  define upd where "upd = lookup_symbol dw (rc_handle rc) ''cv_fingerprint_update_enrollment''"
  define started where "started = lookup_symbol dw (rc_handle rc) ''cv_cmd_enrollment_started''"
  obtain ok1 rc1 l1 where one: "symbol_owned_by_target dw upd
      ''cv_fingerprint_update_enrollment'' expected (dw_self_update dw) rc = (ok1, rc1, l1)"
    using prod_cases3 by blast
  obtain ok2 rc2 l2 where two: "symbol_owned_by_target dw started
      ''cv_cmd_enrollment_started'' expected 0 rc = (ok2, rc2, l2)"
    using prod_cases3 by blast
  note own1 = symbol_owned_iff [OF one] and own2 = symbol_owned_iff [OF two]
  have eq: "resolve_symbols dw expected rc =
      (if \<not> ok1 then (rc1, l1)
       else if \<not> ok2 then (rc2, l1 @ l2)
       else (rc\<lparr>rc_update := upd, rc_enrollment_started := started, rc_ready := True\<rparr>,
             l1 @ l2 @ [Resolver_Line Forwarding_Ready]))"
    using one two own1(2) own2(2)
    by (auto simp: resolve_symbols_def Let_def upd_def [symmetric] started_def [symmetric])
  show ?thesis
  proof (cases "ok1 \<and> ok2")
    case True
    then have "symbols_resolve dw expected (rc_handle rc) upd started"
      using own1(1) own2(1)
        lookup_symbol_nonnull [of dw "rc_handle rc" "''cv_fingerprint_update_enrollment''" upd]
        lookup_symbol_nonnull [of dw "rc_handle rc" "''cv_cmd_enrollment_started''" started]
      by (auto simp: symbols_resolve_def upd_def started_def)
    then show ?thesis using True by (auto simp: eq)
  next
    case False
    then have "\<not> rc_ready (fst (resolve_symbols dw expected rc))"
      using assms own1(3) own2(3) by (auto simp: eq)
    then show ?thesis
      by (auto dest!: arg_cong [where f = rc_ready])
  qed
qed

lemma acquire_target_ready:
  assumes "\<not> rc_ready rc"
  shows "rc_ready (fst (acquire_target dw expected rc)) \<longleftrightarrow>
    target_loaded dw expected (dw_loaded dw)
    \<and> (\<exists>handle upd started. dw_dlopen_noload dw (ti_path expected) = (handle, None)
          \<and> handle \<noteq> 0 \<and> symbols_resolve dw expected handle upd started
          \<and> fst (acquire_target dw expected rc) =
             rc\<lparr>rc_handle := handle, rc_update := upd, rc_enrollment_started := started,
                rc_ready := True\<rparr>)"
proof -
  obtain handle err where open': "dw_dlopen_noload dw (ti_path expected) = (handle, err)"
    by (cases "dw_dlopen_noload dw (ti_path expected)")
  define msg where "msg = ''expected target is not present in the loaded DSO list; refusing ''
    @ ''RTLD_NOLOAD lookup''"
  define msg' where "msg' = ''RTLD_NOLOAD handle acquisition failed: ''
    @ (case err of None \<Rightarrow> ''unknown error'' | Some m \<Rightarrow> m)"
  have eq: "fst (acquire_target dw expected rc) =
      (if \<not> target_loaded dw expected (dw_loaded dw) then fst (resolver_failure msg rc)
       else if handle = 0 \<or> err \<noteq> None then fst (resolver_failure msg' (rc\<lparr>rc_handle := 0\<rparr>))
       else fst (resolve_symbols dw expected (rc\<lparr>rc_handle := handle\<rparr>)))"
    by (simp only: acquire_target_def open' Let_def msg_def [symmetric] msg'_def [symmetric]
        prod.case) (simp add: split_beta)
  have "\<not> rc_ready (rc\<lparr>rc_handle := handle\<rparr>)" using assms by simp
  note res = resolve_symbols_ready [OF this, of dw expected]
  show ?thesis
  proof (cases "target_loaded dw expected (dw_loaded dw) \<and> handle \<noteq> 0 \<and> err = None")
    case True
    then show ?thesis using res by (simp add: eq open')
  next
    case False
    then have "\<not> rc_ready (fst (acquire_target dw expected rc))" using assms by (auto simp: eq)
    then show ?thesis by (auto dest!: arg_cong [where f = rc_ready])
  qed
qed

text \<open>Readiness is exactly the resolution of the target with valid settings.\<close>

lemma initialize_resolver_ready:
  assumes "\<not> rc_ready rc"
  shows "rc_ready (fst (initialize_resolver dw rc)) \<longleftrightarrow>
    (\<exists>expected handle upd started pol on.
       target_resolves dw expected handle upd started
       \<and> configured_policy (dw_getenv dw CV2_UPDATE_POLICY_ENV) = Some pol
       \<and> configured_trace (dw_getenv dw CV2_METADATA_TRACE_ENV) = Some on
       \<and> fst (initialize_resolver dw rc) =
           rc\<lparr>rc_update_policy := pol, rc_metadata_trace := on, rc_handle := handle,
              rc_update := upd, rc_enrollment_started := started, rc_ready := True\<rparr>)"
  (is "?ready \<longleftrightarrow> ?spec")
proof (cases "identity_from_path dw (dw_getenv dw CV2_TARGET_ENV)")
  case None
  then show ?thesis
    using assms by (auto simp: initialize_resolver_def Let_def target_resolves_def resolver_failure_def)
next
  case id: (Some expected)
  show ?thesis
  proof (cases "configured_policy (dw_getenv dw CV2_UPDATE_POLICY_ENV)")
    case None
    then show ?thesis
      using assms id by (auto simp: initialize_resolver_def Let_def resolver_failure_def)
  next
    case pol: (Some pol)
    show ?thesis
    proof (cases "configured_trace (dw_getenv dw CV2_METADATA_TRACE_ENV)")
      case None
      then show ?thesis
        using assms id pol by (auto simp: initialize_resolver_def Let_def resolver_failure_def)
    next
      case on: (Some on)
      define rc1 where "rc1 = rc\<lparr>rc_update_policy := pol, rc_metadata_trace := on\<rparr>"
      have eq: "fst (initialize_resolver dw rc) = fst (acquire_target dw expected rc1)"
        using id pol on by (simp add: initialize_resolver_def Let_def rc1_def split: prod.splits)
      have "\<not> rc_ready rc1" using assms by (simp add: rc1_def)
      note acq = acquire_target_ready [OF this, of dw expected, folded eq]
      show ?thesis
        unfolding acq using id pol on
        by (auto simp: target_resolves_def target_loaded_iff rc1_def)
    qed
  qed
qed

end
