(* ===== verification/Rearm_Claims.thy ===== *)
theory Rearm_Claims
  imports Rearm_Counters Rearm_Resolver_Correct
begin

text \<open>
  The properties of the enrollment interposer \<open>tools/enrollment_0x89_rearm_preload.c\<close>, each with a
  concrete run that meets its hypotheses.
\<close>

section \<open>A concrete process\<close>

text \<open>
  The target is \<open>/t\<close>, the interposer \<open>/l\<close>; the driver answers updates from a list of statuses and
  every re-arm with success; all of the memory is mapped and zero.
\<close>

definition sample_dso :: "string \<Rightarrow> string \<Rightarrow> dso_world" where
  "sample_dso policy trace =
     \<lparr>dw_getenv = (\<lambda>s. if s = CV2_TARGET_ENV then Some ''/t''
                       else if s = CV2_UPDATE_POLICY_ENV then Some policy
                       else if s = CV2_METADATA_TRACE_ENV then Some trace else None),
      dw_realpath = Some, dw_stat = (\<lambda>s. Some (1, if s = ''/t'' then 2 else 3)),
      dw_loaded = [Some [], Some ''/l'', Some ''/t''],
      dw_dlopen_noload = (\<lambda>s. (16, None)),
      dw_dlsym = (\<lambda>h s. if s = ''cv_fingerprint_update_enrollment'' then (256, None)
                        else if s = ''cv_cmd_enrollment_started'' then (512, None)
                        else (0, Some ''undefined symbol'')),
      dw_dladdr = (\<lambda>a. if a = 256 \<or> a = 512 then Some (Some ''/t'') else Some (Some ''/l'')),
      dw_once_status = 0, dw_strerror = (\<lambda>_. ''error''), dw_self_update = 768\<rparr>"

definition sample_world :: "string \<Rightarrow> string \<Rightarrow> u32 list rearm_world" where
  "sample_world policy trace =
     \<lparr>rw_dso = sample_dso policy trace,
      rw_update_at = (\<lambda>a n h ua. case n of [] \<Rightarrow> Some (0, h, []) | st # rest \<Rightarrow> Some (st, h, rest)),
      rw_started_at = (\<lambda>a n h. Some (0, h, n)), rw_zero_update_input = 4096\<rparr>"

definition sample_cache :: "update_policy \<Rightarrow> bool \<Rightarrow> resolver_cache" where
  "sample_cache pol on = \<lparr>rc_handle = 16, rc_update = 256, rc_enrollment_started = 512,
     rc_update_policy = pol, rc_metadata_trace = on, rc_ready = True, rc_failure = []\<rparr>"

definition sample_process :: "update_policy \<Rightarrow> bool \<Rightarrow> u32 list \<Rightarrow> u32 list process" where
  "sample_process pol on script = (initial_process (\<lambda>p. Some 0) script)
     \<lparr>pr_resolver := \<lparr>rs_once_done = True, rs_cache = sample_cache pol on\<rparr>\<rparr>"

definition sample_args :: update_args where
  "sample_args = \<lparr>ua_handle = 7, ua_enrollment_id = 8192, ua_auxiliary_input_size = 20,
     ua_auxiliary_input = 8224, ua_completion_out = 8256, ua_enrollment_data_out = 8272,
     ua_output_value_out = 8304\<rparr>"

lemma sample_ready: "forwarding (sample_world policy trace) (sample_process pol on script)"
  by (simp add: forwarding_def sample_world_def sample_dso_def sample_process_def sample_cache_def)

lemma sample_driver_returns: "driver_returns (sample_world policy trace)"
  by (auto simp: driver_returns_def sample_world_def split: list.split)

lemma sample_mapped: "call_mapped (sample_world policy trace) ua (pr_heap (sample_process pol on script))"
  by (simp add: call_mapped_def readable_args_def readable_def sample_process_def
      initial_process_def)

lemma sample_trace: "trace_wf (pr_trace (sample_process pol on script))"
  by (simp add: sample_process_def initial_process_def)

text \<open>One call on the sample process returns; what it returns follows from the machine.\<close>

lemma sample_call_returns:
  "\<exists>r pr'. cv_fingerprint_update_enrollment (sample_world policy trace) sample_args
             (sample_process pol on script) = Some (r, pr')"
  using wrapper_settles [OF sample_driver_returns sample_mapped sample_trace]
  unfolding settles_def by blast

text \<open>What the client of a session must keep to: its edits map and unmap nothing.\<close>

definition client_keeps :: "'w rearm_world \<Rightarrow> ptr set \<Rightarrow> client_call list \<Rightarrow> bool" where
  "client_keeps w D cs \<longleftrightarrow> (\<forall>(edit, ua) \<in> set cs. \<forall>h. dom h = D
     \<longrightarrow> dom (edit h) = D \<and> call_mapped w ua h)"

lemma settles_session:
  assumes drv: "driver_returns w" and client: "client_keeps w (dom (pr_heap pr)) cs"
    and wf: "trace_wf (pr_trace pr)"
  shows "settles (dom (pr_heap pr)) (wrapper_session w cs pr)"
  using client wf
proof (induction cs arbitrary: pr)
  case Nil
  then show ?case by simp
next
  case (Cons c cs)
  obtain edit ua where c: "c = (edit, ua)" by (cases c)
  define pre where "pre = pr\<lparr>pr_heap := edit (pr_heap pr)\<rparr>"
  have dom: "dom (pr_heap pre) = dom (pr_heap pr)" and ua: "call_mapped w ua (pr_heap pre)"
    and rest: "client_keeps w (dom (pr_heap pr)) cs"
    using Cons.prems(1) by (auto simp: pre_def c client_keeps_def)
  have "settles (dom (pr_heap pre)) (cv_fingerprint_update_enrollment w ua pre)"
    using Cons.prems(2) by (intro wrapper_settles [OF drv ua]) (simp add: pre_def)
  moreover have "settles (dom (pr_heap pr)) (wrapper_session w cs pr1)"
    if "dom (pr_heap pr1) = dom (pr_heap pr)" "trace_wf (pr_trace pr1)" for pr1
    using Cons.IH [of pr1] rest that by simp
  ultimately show ?case
    using dom by (auto simp: c pre_def [symmetric] intro!: settles_bind)
qed

section \<open>Refinement and failing closed\<close>

text \<open>C2:
  A call of the interposed \<open>cv_fingerprint_update_enrollment\<close> that passes the readiness check and
  returns performs one step of the abstract machine for the selected policy: the calls it makes
  into the driver, in their order and with their arguments and statuses, its result and the new
  counters are a step from the old counters; the resolver stays as the check left it.\<close>

theorem rearm_refines_machine:
  assumes "check_forwarding w pr = (True, pr0)"
    and "cv_fingerprint_update_enrollment w ua pr = Some (r, pr')"
  shows "\<exists>calls. native_calls pr' = native_calls pr @ calls \<and> pr_resolver pr' = pr_resolver pr0
     \<and> wrapper_step (rc_update_policy (cache pr0)) (rw_zero_update_input w) ua
         (counts pr) calls r (counts pr')"
  using assms by (rule wrapper_implements_machine)

theorem rearm_refines_machine_witness:
  "\<exists>r pr' calls. native_calls (pr' :: u32 list process) = calls
     \<and> wrapper_step legacy_policy 4096 sample_args (0, 0) calls r (counts pr')"
proof -
  let ?w = "sample_world ''legacy-repeat'' ''0''" and ?p = "sample_process legacy_policy False [89]"
  obtain r pr' where "cv_fingerprint_update_enrollment ?w sample_args ?p = Some (r, pr')"
    using sample_call_returns by blast
  from rearm_refines_machine [OF forwarding_check [OF sample_ready] this] show ?thesis
    by (auto simp: sample_process_def sample_cache_def sample_world_def initial_process_def
        native_calls_def)
qed

text \<open>C22:
  While the resolver is not ready a call fails closed: it returns the experiment failure without
  calling into the driver, and the memory, the driver's state and every counter are as before.
  There is no policy and no argument for which the call faults or passes through.\<close>

theorem rearm_not_ready_fails_closed:
  assumes "\<not> fst (forwarding_ready (rw_dso w) (pr_resolver pr))"
  shows "\<exists>pr'. cv_fingerprint_update_enrollment w ua pr = Some (CV_STATUS_EXPERIMENT_FAILURE, pr')
     \<and> native_calls pr' = native_calls pr \<and> pr_heap pr' = pr_heap pr
     \<and> pr_native pr' = pr_native pr \<and> counts pr' = counts pr"
proof -
  obtain pr0 where chk: "check_forwarding w pr = (False, pr0)"
    using assms by (cases "forwarding_ready (rw_dso w) (pr_resolver pr)")
      (auto simp: check_forwarding_def)
  show ?thesis
    using wrapper_refused [OF chk] check_forwarding_frame [OF chk] by simp
qed

text \<open>An unknown policy in the environment.\<close>

theorem rearm_not_ready_fails_closed_witness:
  "\<exists>pr'. cv_fingerprint_update_enrollment
       (sample_world ''unknown-policy'' ''0'') sample_args (initial_process (\<lambda>p. Some 0) [])
         = Some (CV_STATUS_EXPERIMENT_FAILURE, pr') \<and> native_calls pr' = []"
proof -
  let ?w = "sample_world ''unknown-policy'' ''0''"
    and ?p = "initial_process (\<lambda>p. Some 0) [] :: u32 list process"
  have "\<not> fst (forwarding_ready (rw_dso ?w) (pr_resolver ?p))"
    by (simp add: forwarding_ready_def sample_world_def sample_dso_def initial_process_def
        initial_resolver_def zero_cache_def initialize_resolver_def identity_from_path_def
        configured_policy_def resolver_failure_def CV2_TARGET_ENV_def CV2_UPDATE_POLICY_ENV_def)
  from rearm_not_ready_fails_closed [OF this, of sample_args] show ?thesis
    by (auto simp: initial_process_def native_calls_def)
qed

section \<open>Results and calls\<close>

text \<open>C3:
  Under every policy that stops before the commit, a call that returns success had exactly one
  native update, that update returned success itself, and the completion byte it left was
  present and zero: a completed native enrollment never reaches the caller as success.\<close>

theorem rearm_success_is_incomplete:
  assumes "check_forwarding w pr = (True, pr0)"
    and "rc_update_policy (cache pr0) \<noteq> UPDATE_POLICY_LEGACY_REPEAT"
    and "cv_fingerprint_update_enrollment w ua pr = Some (CV_STATUS_SUCCESS, pr')"
  shows "\<exists>calls eff b. native_calls pr' = native_calls pr @ calls
     \<and> updates calls = [Native_Update eff b CV_STATUS_SUCCESS (Some 0)]
     \<and> eff = effective_args (rc_update_policy (cache pr0)) (rw_zero_update_input w) ua"
proof -
  obtain calls where "native_calls pr' = native_calls pr @ calls"
    and step: "wrapper_step (rc_update_policy (cache pr0)) (rw_zero_update_input w) ua (counts pr)
                 calls CV_STATUS_SUCCESS (counts pr')"
    using wrapper_implements_machine [OF assms(1,3)] by blast
  from step assms(2) have "\<exists>eff b. updates calls = [Native_Update eff b CV_STATUS_SUCCESS (Some 0)]
      \<and> eff = effective_args (rc_update_policy (cache pr0)) (rw_zero_update_input w) ua"
    by (cases rule: wrapper_step.cases) (auto dest: ending_success)
  then show ?thesis using \<open>native_calls pr' = _\<close> by blast
qed

lemma sample_call_simps:
  "cv_fingerprint_update_enrollment (sample_world policy trace) sample_args
     (sample_process pol on script) =
   do {
     (gate, pr) \<leftarrow> zero_input_gate (sample_world policy trace) sample_args
       (sample_process pol on script);
     case gate of
       Inl status \<Rightarrow> Some (status, pr)
     | Inr effective \<Rightarrow> do {
         (status, pr) \<leftarrow> traced_update (sample_world policy trace) effective pr;
         (branch, pr) \<leftarrow> update_policies (sample_world policy trace) effective status pr;
         case branch of
           Inl status \<Rightarrow> Some (status, pr)
         | Inr status \<Rightarrow> rearm_bad_capture (sample_world policy trace) status pr
       }
   }"
  by (simp add: cv_fingerprint_update_enrollment_def forwarding_check [OF sample_ready])

lemmas sample_run =
  sample_process_def sample_cache_def sample_world_def sample_args_def
  initial_process_def zero_input_gate_def traced_update_def native_update_def update_policies_def
  fresh_boundary_def legacy_repeat_def rearm_bad_capture_def rearm_accepted_def native_rearm_def
  log_update_outputs_def completion_byte_def emit_def Let_def CV_STATUS_SUCCESS_def
  CV_STATUS_UPDATE_AGAIN_def CV_STATUS_BAD_CAPTURE_def update_policy_rearms_accepted_def

lemma sample_success:
  "\<exists>pr'. cv_fingerprint_update_enrollment (sample_world policy trace) sample_args
       (sample_process UPDATE_POLICY_FRESH_STOP_BEFORE_COMMIT False [0]) = Some (CV_STATUS_SUCCESS, pr')"
  unfolding sample_call_simps by (simp add: sample_run)

lemma sample_bad_capture:
  "\<exists>pr'. cv_fingerprint_update_enrollment (sample_world policy trace) sample_args
       (sample_process legacy_policy False [137]) = Some (CV_STATUS_BAD_CAPTURE, pr')"
  unfolding sample_call_simps by (simp add: sample_run)

lemma sample_no_calls [simp]: "native_calls (sample_process pol on script) = []"
  by (simp add: sample_process_def initial_process_def native_calls_def)

lemma sample_policy [simp]: "rc_update_policy (cache (sample_process pol on script)) = pol"
  by (simp add: sample_process_def sample_cache_def)

theorem rearm_success_is_incomplete_witness:
  "\<exists>calls b. updates calls = [Native_Update sample_args b CV_STATUS_SUCCESS (Some 0)]"
proof -
  obtain pr' where run: "cv_fingerprint_update_enrollment (sample_world [] []) sample_args
       (sample_process UPDATE_POLICY_FRESH_STOP_BEFORE_COMMIT False [0]) = Some (CV_STATUS_SUCCESS, pr')"
    using sample_success by blast
  show ?thesis
    using rearm_success_is_incomplete [OF forwarding_check [OF sample_ready] _ run]
    by (auto simp: effective_args_def)
qed

text \<open>C6:
  Whenever a call returns the bad-capture status 0x89, under any policy, its last call into the
  driver was a re-arm (0x8a) that succeeded: the caller never retries on a device that was not
  re-armed, and the status a failed re-arm returns is never one of the retriable ones.\<close>

theorem rearm_bad_capture_is_rearmed:
  assumes "check_forwarding w pr = (True, pr0)"
    and "cv_fingerprint_update_enrollment w ua pr = Some (CV_STATUS_BAD_CAPTURE, pr')"
  shows "\<exists>before. native_calls pr' = native_calls pr @ before @ [Native_Rearm CV_STATUS_SUCCESS]
     \<and> rearms before = [] \<and> updates before \<noteq> []"
proof -
  obtain calls where calls: "native_calls pr' = native_calls pr @ calls"
    and step: "wrapper_step (rc_update_policy (cache pr0)) (rw_zero_update_input w) ua (counts pr)
                 calls CV_STATUS_BAD_CAPTURE (counts pr')"
    using wrapper_implements_machine [OF assms] by blast
  from step have "\<exists>before. calls = before @ [Native_Rearm CV_STATUS_SUCCESS]
      \<and> rearms before = [] \<and> updates before \<noteq> []"
    by (cases rule: wrapper_step.cases)
      (auto dest!: ending_bad_capture intro: exI [of _ "[_]"] exI [of _ "[_, _]"])
  then show ?thesis using calls by auto
qed

theorem rearm_bad_capture_is_rearmed_witness:
  "\<exists>before. rearms before = [] \<and> updates before \<noteq> []
     \<and> (\<exists>pr'. native_calls (pr' :: u32 list process) = before @ [Native_Rearm CV_STATUS_SUCCESS])"
proof -
  obtain pr' where run: "cv_fingerprint_update_enrollment (sample_world [] []) sample_args
       (sample_process legacy_policy False [137]) = Some (CV_STATUS_BAD_CAPTURE, pr')"
    using sample_bad_capture by blast
  show ?thesis
    using rearm_bad_capture_is_rearmed [OF forwarding_check [OF sample_ready] run] by fastforce
qed

text \<open>
  No call makes more than one re-arm. Under the policies that stop before the commit it makes at
  most one native update; under the legacy policy it makes one, or two of which the first
  returned 0x59, and the second has exactly the arguments of the first.\<close>

lemma rearm_calls_bounded:
  assumes "check_forwarding w pr = (True, pr0)"
    and "cv_fingerprint_update_enrollment w ua pr = Some (r, pr')"
  shows "\<exists>calls. native_calls pr' = native_calls pr @ calls \<and> length (rearms calls) \<le> 1
     \<and> (if rc_update_policy (cache pr0) = UPDATE_POLICY_LEGACY_REPEAT
        then (\<exists>b st c. updates calls = [Native_Update ua b st c] \<and> st \<noteq> CV_STATUS_UPDATE_AGAIN)
             \<or> (\<exists>b c b' st c'. updates calls =
                   [Native_Update ua b CV_STATUS_UPDATE_AGAIN c, Native_Update ua b' st c'])
        else length (updates calls) \<le> 1)"
proof -
  obtain calls where calls: "native_calls pr' = native_calls pr @ calls"
    and step: "wrapper_step (rc_update_policy (cache pr0)) (rw_zero_update_input w) ua (counts pr)
                 calls r (counts pr')"
    using wrapper_implements_machine [OF assms] by blast
  from step have "length (rearms calls) \<le> 1"
    by (cases rule: wrapper_step.cases) (auto dest: ending_calls)
  moreover from step have "(if rc_update_policy (cache pr0) = UPDATE_POLICY_LEGACY_REPEAT
        then (\<exists>b st c. updates calls = [Native_Update ua b st c] \<and> st \<noteq> CV_STATUS_UPDATE_AGAIN)
             \<or> (\<exists>b c b' st c'. updates calls =
                   [Native_Update ua b CV_STATUS_UPDATE_AGAIN c, Native_Update ua b' st c'])
        else length (updates calls) \<le> 1)"
    by (cases rule: wrapper_step.cases) (auto dest: ending_calls)
  ultimately show ?thesis using calls by blast
qed

section \<open>Sessions\<close>

lemma sample_session_returns:
  "\<exists>rs pr'. wrapper_session (sample_world policy trace) [(id, sample_args), (id, sample_args)]
      (sample_process pol on script) = Some (rs, pr')"
proof -
  have "client_keeps (sample_world policy trace) (dom (pr_heap (sample_process pol on script)))
      [(id, sample_args), (id, sample_args)]"
    by (simp add: client_keeps_def sample_process_def initial_process_def call_mapped_def
        readable_args_def readable_def)
  from settles_session [OF sample_driver_returns this sample_trace] show ?thesis
    unfolding settles_def by blast
qed

lemma sample_counts [simp]:
  "pr_zero_input_update_count (sample_process pol on script) = 0"
  "pr_accepted_incomplete_count (sample_process pol on script) = 0"
  by (simp_all add: sample_process_def initial_process_def)

text \<open>C13:
  Under both re-arming policies a session of fewer than 2^32 calls, with any driver and any memory
  between the calls, reports at most three successful incomplete updates: the fourth accepted
  update ends the experiment, whatever the device says.\<close>

theorem rearm_at_most_three_successes:
  assumes "forwarding w pr" and "update_policy_rearms_accepted (rc_update_policy (cache pr))"
    and "pr_accepted_incomplete_count pr = 0" and "length cs < 2 ^ 32"
    and "wrapper_session w cs pr = Some (rs, pr')"
  shows "length (filter (\<lambda>r. r = CV_STATUS_SUCCESS) rs) \<le> 3"
proof -
  obtain evs where "machine_run (rc_update_policy (cache pr)) (rw_zero_update_input w)
      (map snd cs) (counts pr) evs rs (counts pr')"
    using session_implements_machine [OF assms(1,5)] by blast
  from accepted_run [OF this assms(2)] assms(3,4) show ?thesis by simp
qed

theorem rearm_at_most_three_successes_witness:
  "\<exists>rs (pr' :: u32 list process). wrapper_session (sample_world [] [])
      [(id, sample_args), (id, sample_args)] (sample_process zero_policy True []) = Some (rs, pr')
    \<and> length (filter (\<lambda>r. r = CV_STATUS_SUCCESS) rs) \<le> 3"
proof -
  obtain rs pr' where run: "wrapper_session (sample_world [] [])
      [(id, sample_args), (id, sample_args)] (sample_process zero_policy True []) = Some (rs, pr')"
    using sample_session_returns by blast
  have "length (filter (\<lambda>r. r = CV_STATUS_SUCCESS) rs) \<le> 3"
    by (rule rearm_at_most_three_successes [OF sample_ready _ _ _ run])
      simp_all
  then show ?thesis using run by blast
qed

text \<open>C14:
  Under the zero-input policy a session of fewer than 2^32 calls sends at most 24 updates to the
  driver. In each of them the enrollment ID is the interposer's own buffer, its 20 bytes are zero
  at the call whatever the driver left there before, and every other argument is the caller's.\<close>

theorem rearm_zero_input_only:
  assumes "forwarding w pr" and "rc_update_policy (cache pr) = zero_policy"
    and "pr_zero_input_update_count pr = 0" and "length cs < 2 ^ 32"
    and "wrapper_session w cs pr = Some (rs, pr')"
  shows "\<exists>evs. native_calls pr' = native_calls pr @ evs \<and> length (updates evs) \<le> 24
     \<and> (\<forall>e \<in> set (updates evs). \<exists>ua \<in> snd ` set cs. \<exists>st c.
           e = Native_Update (ua\<lparr>ua_enrollment_id := rw_zero_update_input w\<rparr>)
                 (Some (replicate CV2_ENROLLMENT_VALUE_SIZE 0)) st c)"
proof -
  obtain evs where calls: "native_calls pr' = native_calls pr @ evs"
    and run: "machine_run zero_policy (rw_zero_update_input w)
      (map snd cs) (counts pr) evs rs (counts pr')"
    using session_implements_machine [OF assms(1,5)] assms(2) by auto
  from zero_input_run [OF run] assms(3,4) calls show ?thesis by auto
qed

theorem rearm_zero_input_only_witness:
  "\<exists>evs. length (updates evs) \<le> 24
     \<and> (\<exists>pr'. native_calls (pr' :: u32 list process) = evs)
     \<and> (\<forall>e \<in> set (updates evs). \<exists>st c. e = Native_Update (sample_args\<lparr>ua_enrollment_id := 4096\<rparr>)
                 (Some (replicate CV2_ENROLLMENT_VALUE_SIZE 0)) st c)"
proof -
  obtain rs pr' where run: "wrapper_session (sample_world [] [])
      [(id, sample_args), (id, sample_args)] (sample_process zero_policy True []) = Some (rs, pr')"
    using sample_session_returns by blast
  have few: "length [(id :: heap \<Rightarrow> heap, sample_args), (id, sample_args)] < 2 ^ 32" by simp
  from rearm_zero_input_only [OF sample_ready sample_policy sample_counts(1) few run]
  have "\<exists>evs. native_calls pr' = evs \<and> length (updates evs) \<le> 24
     \<and> (\<forall>e \<in> set (updates evs). \<exists>st c. e = Native_Update
           (sample_args\<lparr>ua_enrollment_id := rw_zero_update_input (sample_world [] [])\<rparr>)
                 (Some (replicate CV2_ENROLLMENT_VALUE_SIZE 0)) st c)"
    by auto
  then show ?thesis by (auto simp: sample_world_def)
qed

text \<open>C21:
  The interposer adds no fault and no wait of its own: when the driver's functions return, the
  client keeps the memory behind its pointers mapped and the interposer's buffer is mapped, every
  session returns, under any policy and with the trace on or off.\<close>

theorem rearm_session_returns:
  assumes "driver_returns w" and "client_keeps w (dom (pr_heap pr)) cs"
    and "trace_wf (pr_trace pr)"
  shows "\<exists>rs pr'. wrapper_session w cs pr = Some (rs, pr') \<and> length rs = length cs
     \<and> dom (pr_heap pr') = dom (pr_heap pr) \<and> trace_wf (pr_trace pr')"
proof -
  obtain rs pr' where run: "wrapper_session w cs pr = Some (rs, pr')"
    and "dom (pr_heap pr') = dom (pr_heap pr)" "trace_wf (pr_trace pr')"
    using settles_session [OF assms] unfolding settles_def by blast
  moreover have "length rs = length cs"
    using run by (induction cs arbitrary: pr rs) (auto simp: fault_split)
  ultimately show ?thesis by blast
qed

theorem rearm_session_returns_witness:
  "\<exists>rs pr'. wrapper_session (sample_world [] []) [(id, sample_args)]
      (sample_process zero_policy True [89, 137]) = Some (rs, pr') \<and> length rs = 1"
proof -
  have "client_keeps (sample_world [] [])
      (dom (pr_heap (sample_process zero_policy True [89, 137]))) [(id, sample_args)]"
    by (simp add: client_keeps_def sample_process_def initial_process_def call_mapped_def
        readable_args_def readable_def)
  from rearm_session_returns [OF sample_driver_returns this sample_trace] show ?thesis by auto
qed

text \<open>
  The attempt number in the log is the number of re-arms: in any session of a forwarding process
  that starts with no event recorded and the counters at zero, \<open>retry_attempt\<close> is the number of
  0x8a calls modulo 2^32, and \<open>update_call_count\<close> is the number of native updates when the trace
  is on and stays zero when it is off.\<close>

lemma rearm_attempts_count_rearms:
  assumes "forwarding w pr" and "pr_events pr = []" and "pr_retry_attempt pr = 0"
    and "pr_update_call_count pr = 0" and "wrapper_session w cs pr = Some (rs, pr')"
  shows "pr_retry_attempt pr' = of_nat (length (rearms (pr_events pr')))
     \<and> pr_update_call_count pr' =
         (if rc_metadata_trace (cache pr) then of_nat (length (updates (pr_events pr'))) else 0)"
  using session_drift [OF assms(1,5)] assms(2-4)
  by (simp add: drifts_alike_def attempt_drift_def trace_drift_def)

section \<open>The resolver\<close>


text \<open>
  The answer of the resolver is permanent: after the first check, every later check gives the same
  answer from the same cache and logs nothing, whatever has become of the environment, the loaded
  objects and the files since. A failed resolution is never retried.\<close>

lemma rearm_resolution_is_permanent:
  assumes "dw_once_status dw = 0" and "dw_once_status dw' = 0"
    and "forwarding_ready dw rs = (ok, rs', lines)"
  shows "forwarding_ready dw' rs' = (ok, rs', [])"
  using assms by (auto simp: forwarding_ready_def split: if_splits prod.splits)

text \<open>C40:
  The policy setting is read back exactly: a value of the environment selects a policy if and only
  if it is that policy's name, or it is unset and the policy is the legacy one; any other value is
  refused.\<close>

theorem rearm_policy_setting:
  "configured_policy setting = Some pol \<longleftrightarrow>
     setting = Some (update_policy_name pol) \<or> setting = None \<and> pol = UPDATE_POLICY_LEGACY_REPEAT"
  by (cases setting; cases pol) (auto simp: configured_policy_def)

section \<open>The metadata trace\<close>

text \<open>C12:
  The metadata trace shows no content: if every byte of the memory and of the trace's own copies is
  replaced through an injective function that maps zero to zero, both halves of the trace log the
  very same lines (and the copies they keep correspond). Of the enrollment ID, the auxiliary input
  and the three outputs the log shows presence, equality and whether they are all zero.\<close>

theorem metadata_lines_hide_content:
  assumes "zero_faithful f"
  shows "metadata_before_update (recode f h) ua n (recode_trace f ts) =
           map_option (\<lambda>(bc, n', ts', lines). (recode_before f bc, n', recode_trace f ts', lines))
             (metadata_before_update h ua n ts)
       \<and> metadata_after_update (recode f h) ua (recode_before f bc) status (recode_trace f ts) =
           map_option (\<lambda>(ts', lines). (recode_trace f ts', lines))
             (metadata_after_update h ua bc status ts)"
  using metadata_before_recode [OF assms] metadata_after_recode [OF assms] by blast

text \<open>Exchanging the bytes 1 and 2.\<close>

definition swap_bytes :: "byte \<Rightarrow> byte" where
  "swap_bytes b = (if b = 1 then 2 else if b = 2 then 1 else b)"

theorem metadata_lines_hide_content_witness:
  "metadata_before_update (recode swap_bytes (\<lambda>p. Some 1)) sample_args 0 (recode_trace swap_bytes zero_trace) =
     map_option (\<lambda>(bc, n', ts', lines).
         (recode_before swap_bytes bc, n', recode_trace swap_bytes ts', lines))
       (metadata_before_update (\<lambda>p. Some 1) sample_args 0 zero_trace)"
proof -
  have "inj swap_bytes" by (rule injI) (auto simp: swap_bytes_def split: if_splits)
  then have "zero_faithful swap_bytes" by (simp add: zero_faithful_def swap_bytes_def)
  from metadata_lines_hide_content [OF this] show ?thesis by blast
qed

text \<open>C24:
  Switching the trace on changes nothing but the log: a call of a forwarding process with the trace
  gives the same result, and the same process up to the trace's own state and lines, as the call
  of the process without it.\<close>

theorem metadata_trace_only_observes:
  assumes "forwarding w pr" and "cv_fingerprint_update_enrollment w ua pr = Some (r, pr')"
  shows "\<exists>pr''. cv_fingerprint_update_enrollment w ua (quiet pr) = Some (r, pr'')
     \<and> pr_heap pr'' = pr_heap pr' \<and> pr_native pr'' = pr_native pr'
     \<and> counts pr'' = counts pr' \<and> pr_retry_attempt pr'' = pr_retry_attempt pr'
     \<and> pr_events pr'' = filter (\<lambda>e. \<not> is_metadata e) (pr_events pr')"
  using wrapper_quiet [OF assms] by (auto simp: quiet_def)

theorem metadata_trace_only_observes_witness:
  "\<exists>r pr' pr''. cv_fingerprint_update_enrollment (sample_world [] []) sample_args
        (sample_process legacy_policy True [89, 137]) = Some (r, pr')
     \<and> cv_fingerprint_update_enrollment (sample_world [] []) sample_args
        (quiet (sample_process legacy_policy True [89, 137])) = Some (r, pr'')
     \<and> pr_events pr'' = filter (\<lambda>e. \<not> is_metadata e) (pr_events pr')"
proof -
  obtain r pr' where run: "cv_fingerprint_update_enrollment (sample_world [] []) sample_args
        (sample_process legacy_policy True [89, 137]) = Some (r, pr')"
    using sample_call_returns by blast
  from metadata_trace_only_observes [OF sample_ready run] run show ?thesis by blast
qed

end
