(* ===== verification/Thread_Systems.thy ===== *)
theory Thread_Systems
  imports Limited_Counter
begin

text \<open>
  Systems of threads that run the same code on shared statics, by interleaving atomic steps. A
  thread has a request (its arguments) and a position; a step relation says what one step of a
  thread does to its position and to the statics.

  Two contracts are stated as locales: threads that never wait for each other (\<open>wait_free\<close>), and
  an effect that a thread may have only with a ticket from an atomic counter (\<open>ticket_limit\<close>).
\<close>

section \<open>Runs\<close>

text \<open>A run of the threads numbered below \<open>N\<close>; \<open>k\<close> is the number of steps it has taken.\<close>

inductive system_run ::
  "('rq \<Rightarrow> 'pc \<Rightarrow> 'sh \<Rightarrow> 'pc \<Rightarrow> 'sh \<Rightarrow> bool) \<Rightarrow> nat \<Rightarrow> (nat \<Rightarrow> 'rq) \<Rightarrow> (nat \<Rightarrow> 'pc) \<Rightarrow> 'sh
     \<Rightarrow> nat \<Rightarrow> (nat \<Rightarrow> 'pc) \<Rightarrow> 'sh \<Rightarrow> bool"
  for tstep N rqs pcs0 sh0 where
  system_start: "system_run tstep N rqs pcs0 sh0 0 pcs0 sh0"
| system_step: "system_run tstep N rqs pcs0 sh0 k pcs sh \<Longrightarrow> t < N \<Longrightarrow>
    tstep (rqs t) (pcs t) sh pc sh' \<Longrightarrow>
    system_run tstep N rqs pcs0 sh0 (Suc k) (pcs(t := pc)) sh'"

text \<open>No thread can take a step.\<close>

definition quiescent ::
  "('rq \<Rightarrow> 'pc \<Rightarrow> 'sh \<Rightarrow> 'pc \<Rightarrow> 'sh \<Rightarrow> bool) \<Rightarrow> nat \<Rightarrow> (nat \<Rightarrow> 'rq) \<Rightarrow> (nat \<Rightarrow> 'pc) \<Rightarrow> 'sh \<Rightarrow> bool" where
  "quiescent tstep N rqs pcs sh \<longleftrightarrow> (\<forall>t < N. \<forall>pc sh'. \<not> tstep (rqs t) (pcs t) sh pc sh')"

text \<open>A run of one thread on its own.\<close>

inductive solo_run ::
  "('rq \<Rightarrow> 'pc \<Rightarrow> 'sh \<Rightarrow> 'pc \<Rightarrow> 'sh \<Rightarrow> bool) \<Rightarrow> 'rq \<Rightarrow> 'pc \<Rightarrow> 'sh \<Rightarrow> 'pc \<Rightarrow> 'sh \<Rightarrow> bool"
  for tstep rq where
  solo_stay: "solo_run tstep rq pc sh pc sh"
| solo_more: "tstep rq pc sh pc1 sh1 \<Longrightarrow> solo_run tstep rq pc1 sh1 pc2 sh2 \<Longrightarrow>
    solo_run tstep rq pc sh pc2 sh2"

lemma solo_run_trans:
  assumes "solo_run tstep rq pc0 sh0 pc1 sh1" and "solo_run tstep rq pc1 sh1 pc2 sh2"
  shows "solo_run tstep rq pc0 sh0 pc2 sh2"
  using assms by (induction rule: solo_run.induct) (auto intro: solo_more)

lemma solo_run_one: "tstep rq pc sh pc' sh' \<Longrightarrow> solo_run tstep rq pc sh pc' sh'"
  by (rule solo_more [OF _ solo_stay])

lemma system_run_trans:
  assumes "system_run tstep N rqs pcs1 sh1 k2 pcs2 sh2"
    and "system_run tstep N rqs pcs0 sh0 k1 pcs1 sh1"
  shows "system_run tstep N rqs pcs0 sh0 (k1 + k2) pcs2 sh2"
  using assms
proof (induction rule: system_run.induct)
  case (system_step k pcs sh t pc sh')
  from system_run.system_step [OF system_step.IH [OF system_step.prems] system_step.hyps(2,3)]
  show ?case unfolding add_Suc_right .
qed simp

lemma system_run_mono:
  assumes "system_run tstep N rqs pcs0 sh0 k pcs sh"
    and "\<And>rq pc sh pc' sh'. tstep rq pc sh pc' sh' \<Longrightarrow> tstep' rq pc sh pc' sh'"
  shows "system_run tstep' N rqs pcs0 sh0 k pcs sh"
  using assms(1)
proof (induction rule: system_run.induct)
  case (system_step k pcs sh t pc sh')
  from system_run.system_step [OF system_step.IH system_step.hyps(2) assms(2) [OF system_step.hyps(3)]]
  show ?case .
qed (rule system_run.system_start)

text \<open>How many of the threads are at a position of some kind.\<close>

definition tally :: "('pc \<Rightarrow> bool) \<Rightarrow> nat \<Rightarrow> (nat \<Rightarrow> 'pc) \<Rightarrow> nat" where
  "tally P N pcs = (\<Sum>t < N. of_bool (P (pcs t)))"

lemma tally_card: "tally P N pcs = card {t. t < N \<and> P (pcs t)}"
proof -
  have "{..<N} \<inter> {t. P (pcs t)} = {t. t < N \<and> P (pcs t)}" by auto
  then show ?thesis by (simp add: tally_def)
qed

lemma sum_update:
  fixes f :: "'pc \<Rightarrow> nat" and s N :: nat
  assumes "s < N"
  shows "(\<Sum>t < N. f ((pcs(s := pc)) t)) + f (pcs s) = (\<Sum>t < N. f (pcs t)) + f pc"
proof -
  have s: "s \<in> {..<N}" using assms by simp
  have "(\<Sum>t \<in> {..<N} - {s}. f ((pcs(s := pc)) t)) = (\<Sum>t \<in> {..<N} - {s}. f (pcs t))"
    by (intro sum.cong) auto
  then show ?thesis
    using sum.remove [of "{..<N}" s "\<lambda>t. f ((pcs(s := pc)) t)"]
      sum.remove [of "{..<N}" s "\<lambda>t. f (pcs t)"] s by simp
qed

lemma tally_update:
  "s < N \<Longrightarrow> tally P N (pcs(s := pc)) + of_bool (P (pcs s)) = tally P N pcs + of_bool (P pc)"
  unfolding tally_def by (rule sum_update [of s N "\<lambda>pc. of_bool (P pc)"])

lemma tally_le: "tally P N pcs \<le> N"
  unfolding tally_def using sum_bounded_above [of "{..<N}" "\<lambda>t. of_bool (P (pcs t))" "1 :: nat"]
  by simp

lemma tally_less: "t < N \<Longrightarrow> \<not> P (pcs t) \<Longrightarrow> tally P N pcs < N"
proof -
  assume t: "t < N" "\<not> P (pcs t)"
  then have "{s. s < N \<and> P (pcs s)} \<subset> {..<N}" by auto
  then have "card {s. s < N \<and> P (pcs s)} < card {..<N}" by (intro psubset_card_mono) simp_all
  then show ?thesis by (simp add: tally_card)
qed

lemma tally_zero: "(\<And>t. t < N \<Longrightarrow> \<not> P (pcs t)) \<Longrightarrow> tally P N pcs = 0"
  by (simp add: tally_def)

section \<open>Threads that never wait\<close>

text \<open>
  Whatever the other threads do, a thread that has not finished can take a step, and each of its
  steps brings it closer to its end.
\<close>

locale wait_free =
  fixes tstep :: "'rq \<Rightarrow> 'pc \<Rightarrow> 'sh \<Rightarrow> 'pc \<Rightarrow> 'sh \<Rightarrow> bool"
    and finished :: "'pc \<Rightarrow> bool"
    and rank :: "'pc \<Rightarrow> nat"
  assumes progress: "\<not> finished pc \<Longrightarrow> \<exists>pc' sh'. tstep rq pc sh pc' sh'"
    and descends: "tstep rq pc sh pc' sh' \<Longrightarrow> rank pc' < rank pc"
begin

lemma run_length:
  assumes "system_run tstep N rqs pcs0 sh0 k pcs sh"
  shows "k + (\<Sum>t < N. rank (pcs t)) \<le> (\<Sum>t < N. rank (pcs0 t))"
  using assms
proof (induction rule: system_run.induct)
  case (system_step k pcs sh t pc sh')
  have "rank pc < rank (pcs t)" using system_step.hyps(3) by (rule descends)
  then show ?case
    using system_step.IH sum_update [OF system_step.hyps(2), of rank pcs pc] by simp
qed simp

lemma quiescent_finished: "quiescent tstep N rqs pcs sh \<Longrightarrow> t < N \<Longrightarrow> finished (pcs t)"
  using progress unfolding quiescent_def by blast

lemma completes:
  "\<exists>k pcs' sh'. system_run tstep N rqs pcs sh k pcs' sh' \<and> (\<forall>t < N. finished (pcs' t))"
proof (induction "\<Sum>t < N. rank (pcs t)" arbitrary: pcs sh rule: less_induct)
  case less
  show ?case
  proof (cases "\<forall>t < N. finished (pcs t)")
    case True
    then show ?thesis
      by (intro exI [of _ 0] exI [of _ pcs] exI [of _ sh] conjI system_run.system_start)
  next
    case False
    then obtain t where t: "t < N" "\<not> finished (pcs t)" by blast
    from progress [OF t(2)] obtain pc sh1 where step: "tstep (rqs t) (pcs t) sh pc sh1" by blast
    have one: "system_run tstep N rqs pcs sh (Suc 0) (pcs(t := pc)) sh1"
      using system_run.system_step [of tstep N rqs pcs sh 0 pcs sh t pc sh1] t(1) step
      by (simp add: system_run.system_start del: fun_upd_apply)
    have "(\<Sum>s < N. rank ((pcs(t := pc)) s)) < (\<Sum>s < N. rank (pcs s))"
      using sum_update [OF t(1), of rank pcs pc] descends [OF step] by simp
    from less.hyps [OF this, of sh1] obtain k pcs' sh'
      where "system_run tstep N rqs (pcs(t := pc)) sh1 k pcs' sh'" "\<forall>t < N. finished (pcs' t)"
      by blast
    from system_run_trans [OF this(1) one] this(2) show ?thesis by blast
  qed
qed

end

section \<open>Tickets from an atomic counter\<close>

text \<open>
  The concurrent form of \<open>limited_counter\<close>. A thread draws at most one ticket, the value of the
  counter after its increment; \<open>past\<close> positions are those behind the drawing. A ticket within the
  limit entitles the thread to one use, which \<open>used\<close> counts where the use shows in the statics.
\<close>

locale ticket_limit =
  fixes tstep :: "'rq \<Rightarrow> 'pc \<Rightarrow> 'sh \<Rightarrow> 'pc \<Rightarrow> 'sh \<Rightarrow> bool"
    and counter :: "'sh \<Rightarrow> u32"
    and limit :: u32
    and past :: "'pc \<Rightarrow> bool"
    and entitled :: "'pc \<Rightarrow> bool"
    and used :: "'sh \<Rightarrow> nat"
  assumes tickets: "tstep rq pc sh pc' sh' \<Longrightarrow>
      counter sh' = counter sh \<and> (past pc \<longrightarrow> past pc')
        \<and> used sh' + of_bool (entitled pc') \<le> used sh + of_bool (entitled pc)
    \<or> \<not> past pc \<and> past pc' \<and> \<not> entitled pc \<and> counter sh' = counter sh + 1 \<and> used sh' = used sh
        \<and> (entitled pc' \<longrightarrow> counter sh + 1 \<le> limit)"
begin

lemma uses_bounded:
  assumes "system_run tstep N rqs pcs0 sh0 k pcs sh" and "N < 2 ^ 32"
    and "counter sh0 = 0" and "used sh0 = 0" and "\<And>t. t < N \<Longrightarrow> \<not> entitled (pcs0 t)"
  shows "unat (counter sh) \<le> tally past N pcs
     \<and> used sh + tally entitled N pcs \<le> unat (counter sh)
     \<and> used sh + tally entitled N pcs \<le> unat limit"
  using assms(1)
proof (induction rule: system_run.induct)
  case system_start
  show ?case using assms(3-5) by (simp add: tally_zero)
next
  case (system_step k pcs sh t pc sh')
  note t = system_step.hyps(2)
  note past = tally_update [OF t, of past pcs pc] and ent = tally_update [OF t, of entitled pcs pc]
  from tickets [OF system_step.hyps(3)] show ?case
  proof (elim disjE conjE)
    assume a: "counter sh' = counter sh" "past (pcs t) \<longrightarrow> past pc"
      "used sh' + of_bool (entitled pc) \<le> used sh + of_bool (entitled (pcs t))"
    have "tally past N pcs \<le> tally past N (pcs(t := pc))"
      using past a(2) by (auto simp: of_bool_def split: if_splits)
    moreover have "used sh' + tally entitled N (pcs(t := pc)) \<le> used sh + tally entitled N pcs"
      using ent a(3) by linarith
    ultimately show ?thesis unfolding a(1) using system_step.IH
      by (auto simp del: fun_upd_apply intro: order_trans)
  next
    assume a: "\<not> past (pcs t)" "past pc" "\<not> entitled (pcs t)" "counter sh' = counter sh + 1"
      "used sh' = used sh" "entitled pc \<longrightarrow> counter sh + 1 \<le> limit"
    have "tally past N pcs < N" using tally_less [of t N past pcs] t a(1) by simp
    then have "unat (counter sh) + 1 < 2 ^ 32" using system_step.IH assms(2) by linarith
    then have plus: "unat (counter sh') = unat (counter sh) + 1"
      unfolding a(4) by (rule unat_Suc_no_wrap)
    have "tally past N (pcs(t := pc)) = tally past N pcs + 1" using past a(1,2) by simp
    moreover have "tally entitled N (pcs(t := pc)) = tally entitled N pcs + of_bool (entitled pc)"
      using ent a(3) by simp
    moreover have "unat (counter sh) + 1 \<le> unat limit" if "entitled pc"
      using a(6) that plus a(4) by (simp add: word_le_nat_alt)
    ultimately show ?thesis using system_step.IH plus a(5)
      by (cases "entitled pc") (auto simp del: fun_upd_apply)
  qed
qed

end

end
