(* ===== verification/Capture_Threads.thy ===== *)
theory Capture_Threads
  imports Capture_Correct Thread_Systems
begin

text \<open>
  The probe's intercepted update on concurrent threads. A thread is one call of the ready probe; a
  step is one atomic operation on the statics or the native call. Threads interleave freely, and
  the native call returns any size.
\<close>

section \<open>Threads\<close>

text \<open>
  Where a thread is: before its \<open>fetch_add\<close>, with its update number, past the increment of the
  native-call counter, past the native call with the returned size, past the store of the validity
  flag, and returned (with the flag whether it was the thread with number 1).
\<close>

datatype thread_pc =
    Entering
  | Counted u32
  | Announced
  | Called u32
  | Stored u32
  | Returned "u32 option" bool

record probe_shared =
  sh_intercepted :: u32
  sh_native_calls :: u32
  sh_valid :: bool
  sh_captures :: "(u32 \<times> ptr \<times> u32) list"

text \<open>A step of the thread with the request \<open>(calloc_ok, handle, eid)\<close>.\<close>

inductive thread_step ::
  "probe_request \<Rightarrow> thread_pc \<Rightarrow> probe_shared \<Rightarrow> thread_pc \<Rightarrow> probe_shared \<Rightarrow> bool" where
  count: "n = sh_intercepted sh + 1 \<Longrightarrow>
    thread_step (ok, h, i) Entering sh (Counted n) (sh\<lparr>sh_intercepted := n\<rparr>)"
| blocked: "n \<noteq> 1 \<Longrightarrow> thread_step (ok, h, i) (Counted n) sh (Returned None False) sh"
| invalid: "h = 0 \<or> i = 0 \<or> \<not> ok \<Longrightarrow>
    thread_step (ok, h, i) (Counted 1) sh (Returned None True) sh"
| announce: "h \<noteq> 0 \<Longrightarrow> i \<noteq> 0 \<Longrightarrow> ok \<Longrightarrow>
    thread_step (ok, h, i) (Counted 1) sh Announced
      (sh\<lparr>sh_native_calls := sh_native_calls sh + 1\<rparr>)"
| call: "thread_step (ok, h, i) Announced sh (Called sz)
      (sh\<lparr>sh_captures := sh_captures sh @ [(h, i, sz)]\<rparr>)"
| store: "thread_step (ok, h, i) (Called sz) sh (Stored sz)
      (sh\<lparr>sh_valid := (sz \<le> of_nat CV2_CAPTURE_CAPACITY)\<rparr>)"
| finish: "thread_step (ok, h, i) (Stored sz) sh (Returned (Some sz) True) sh"

inductive_cases thread_stepE: "thread_step rq pc sh pc' sh'"

text \<open>Threads numbered below \<open>N\<close> with their requests \<open>rqs\<close>, from the fresh statics on.\<close>

definition fresh_shared :: probe_shared where
  "fresh_shared = \<lparr>sh_intercepted = 0, sh_native_calls = 0, sh_valid = False, sh_captures = []\<rparr>"

abbreviation probe_run ::
  "nat \<Rightarrow> (nat \<Rightarrow> probe_request) \<Rightarrow> nat \<Rightarrow> (nat \<Rightarrow> thread_pc) \<Rightarrow> probe_shared \<Rightarrow> bool" where
  "probe_run N rqs k pcs sh \<equiv> system_run thread_step N rqs (\<lambda>_. Entering) fresh_shared k pcs sh"

definition shared_complete :: "probe_shared \<Rightarrow> bool" where
  "shared_complete sh \<longleftrightarrow> sh_intercepted sh \<ge> 1 \<and> sh_native_calls sh = 1 \<and> sh_valid sh"

section \<open>The invariant\<close>

text \<open>The thread that drew number 1.\<close>

fun first_update :: "thread_pc \<Rightarrow> bool" where
  "first_update Entering = False"
| "first_update (Counted n) = (n = 1)"
| "first_update (Returned sz first) = first"
| "first_update _ = True"

text \<open>What the position of that thread says of the statics.\<close>

fun agrees :: "probe_request \<Rightarrow> thread_pc \<Rightarrow> probe_shared \<Rightarrow> bool" where
  "agrees rq Announced sh = (sh_native_calls sh = 1 \<and> sh_captures sh = [] \<and> \<not> sh_valid sh)"
| "agrees (ok, h, i) (Called sz) sh =
     (sh_native_calls sh = 1 \<and> sh_captures sh = [(h, i, sz)] \<and> \<not> sh_valid sh)"
| "agrees (ok, h, i) (Stored sz) sh =
     (sh_native_calls sh = 1 \<and> sh_captures sh = [(h, i, sz)]
      \<and> sh_valid sh = (sz \<le> of_nat CV2_CAPTURE_CAPACITY))"
| "agrees (ok, h, i) (Returned (Some sz) first) sh =
     (sh_native_calls sh = 1 \<and> sh_captures sh = [(h, i, sz)]
      \<and> sh_valid sh = (sz \<le> of_nat CV2_CAPTURE_CAPACITY))"
| "agrees rq _ sh = (sh_native_calls sh = 0 \<and> sh_captures sh = [] \<and> \<not> sh_valid sh)"

definition entered :: "nat \<Rightarrow> (nat \<Rightarrow> thread_pc) \<Rightarrow> nat set" where
  "entered N pcs = {t. t < N \<and> pcs t \<noteq> Entering}"

definition system_inv ::
  "nat \<Rightarrow> (nat \<Rightarrow> probe_request) \<Rightarrow> (nat \<Rightarrow> thread_pc) \<Rightarrow> probe_shared \<Rightarrow> bool" where
  "system_inv N rqs pcs sh \<longleftrightarrow>
     sh_intercepted sh = of_nat (card (entered N pcs))
     \<and> (\<forall>s < N. \<forall>t < N. first_update (pcs s) \<longrightarrow> first_update (pcs t) \<longrightarrow> s = t)
     \<and> (\<forall>t < N. first_update (pcs t) \<longrightarrow> agrees (rqs t) (pcs t) sh)
     \<and> ((\<forall>t < N. \<not> first_update (pcs t)) \<longrightarrow>
          sh_native_calls sh = 0 \<and> sh_captures sh = [] \<and> \<not> sh_valid sh)"

lemma entered_finite [simp]: "finite (entered N pcs)"
  by (rule finite_subset [of _ "{..<N}"]) (auto simp: entered_def)

lemma entered_bound: "t < N \<Longrightarrow> pcs t = Entering \<Longrightarrow> card (entered N pcs) < N"
proof -
  assume "t < N" "pcs t = Entering"
  then have "entered N pcs \<subseteq> {..<N}" "t \<in> {..<N}" "t \<notin> entered N pcs"
    by (auto simp: entered_def)
  then have "entered N pcs \<subset> {..<N}" by blast
  then have "card (entered N pcs) < card {..<N}" by (intro psubset_card_mono) simp_all
  then show ?thesis by simp
qed

lemma entered_update:
  assumes "t < N" and "pc \<noteq> Entering"
  shows "entered N (pcs(t := pc)) = insert t (entered N pcs)"
  using assms by (auto simp: entered_def)

text \<open>A step of a thread that has entered.\<close>

lemma later_step:
  assumes inv: "system_inv N rqs pcs sh" and t: "t < N"
    and step: "thread_step (rqs t) (pcs t) sh pc sh'" and pcs: "pcs t \<noteq> Entering"
  shows "system_inv N rqs (pcs(t := pc)) sh'"
proof -
  obtain ok h i where rq: "rqs t = (ok, h, i)" using prod_cases3 by blast
  have facts: "first_update pc = first_update (pcs t)" "pc \<noteq> Entering"
    "sh_intercepted sh' = sh_intercepted sh" "\<not> first_update pc \<Longrightarrow> sh' = sh"
    using step pcs by (auto simp: rq elim!: thread_stepE)
  have same: "entered N (pcs(t := pc)) = entered N pcs"
    using pcs facts(2) t by (auto simp: entered_def)
  have agree: "agrees (rqs t) pc sh'" if "first_update (pcs t)"
  proof -
    have "agrees (rqs t) (pcs t) sh" using inv t that by (auto simp: system_inv_def)
    then show ?thesis using step that by (auto simp: rq elim!: thread_stepE)
  qed
  show ?thesis
  proof (cases "first_update pc")
    case True
    then show ?thesis
      using inv t facts same agree unfolding system_inv_def by (auto split: if_splits)
  next
    case False
    have "first_update ((pcs(t := pc)) s) = first_update (pcs s)" for s
      using facts(1) by simp
    moreover have "agrees (rqs s) ((pcs(t := pc)) s) sh = agrees (rqs s) (pcs s) sh"
      if "first_update (pcs s)" for s
      using that False facts(1) by auto
    ultimately show ?thesis
      using inv same facts(4) [OF False] unfolding system_inv_def by simp
  qed
qed

text \<open>The step that draws a number.\<close>

lemma entering_step:
  assumes inv: "system_inv N rqs pcs sh" and t: "t < N" and N: "N < 2 ^ 32"
    and step: "thread_step (rqs t) (pcs t) sh pc sh'" and pcs: "pcs t = Entering"
  shows "system_inv N rqs (pcs(t := pc)) sh'"
proof -
  define n where "n = sh_intercepted sh + 1"
  have pc: "pc = Counted n" and sh': "sh' = sh\<lparr>sh_intercepted := n\<rparr>"
    using step pcs by (auto simp: n_def elim!: thread_stepE)
  have fresh: "t \<notin> entered N pcs" using pcs by (simp add: entered_def)
  have card: "card (entered N (pcs(t := pc))) = card (entered N pcs) + 1"
    using entered_update [OF t, of pc pcs] fresh by (simp add: pc)
  have n: "n = of_nat (card (entered N pcs) + 1)"
    using inv by (simp add: n_def system_inv_def)
  have agrees_eq: "agrees rq p sh' = agrees rq p sh" for rq p
    by (cases "(rq, p, sh)" rule: agrees.cases) (simp_all add: sh')
  show ?thesis
  proof (cases "n = 1")
    case True
    have small: "card (entered N pcs) + 1 < 2 ^ 32" using entered_bound [of t N pcs, OF t pcs] N by simp
    have "unat n = card (entered N pcs) + 1"
      unfolding n using small by (simp only: unat_of_nat) simp
    then have "card (entered N pcs) = 0" using True by simp
    then have none: "entered N pcs = {}" by simp
    then have "\<not> first_update (pcs s)" if "s < N" for s
      using that by (cases "pcs s") (auto simp: entered_def)
    then show ?thesis
      using inv t card n True pc agrees_eq unfolding system_inv_def by (auto simp: sh')
  next
    case False
    then have "first_update ((pcs(t := pc)) s) = first_update (pcs s)" for s
      using pc pcs by simp
    moreover have "agrees (rqs s) ((pcs(t := pc)) s) sh' = agrees (rqs s) (pcs s) sh"
      if "first_update (pcs s)" for s
      using that pcs agrees_eq by auto
    ultimately show ?thesis
      using inv card n unfolding system_inv_def by (simp add: sh')
  qed
qed

lemma reachable_inv:
  assumes "probe_run N rqs k pcs sh" and "N < 2 ^ 32"
  shows "system_inv N rqs pcs sh"
  using assms(1)
proof (induction rule: system_run.induct)
  case system_start
  have "entered N (\<lambda>_. Entering) = {}" by (simp add: entered_def)
  then show ?case by (simp add: system_inv_def fresh_shared_def)
next
  case (system_step k pcs sh t pc sh')
  note step = system_step.hyps(2,3)
  show ?case
  proof (cases "pcs t = Entering")
    case True
    from entering_step [OF system_step.IH step(1) assms(2) step(2) True] show ?thesis .
  next
    case False
    from later_step [OF system_step.IH step False] show ?thesis .
  qed
qed

section \<open>Progress\<close>

fun returned :: "thread_pc \<Rightarrow> bool" where
  "returned (Returned sz first) = True"
| "returned _ = False"

fun steps_left :: "thread_pc \<Rightarrow> nat" where
  "steps_left Entering = 5"
| "steps_left (Counted n) = 4"
| "steps_left Announced = 3"
| "steps_left (Called sz) = 2"
| "steps_left (Stored sz) = 1"
| "steps_left (Returned sz first) = 0"

lemma thread_can_step:
  assumes "\<not> returned pc"
  shows "\<exists>pc' sh'. thread_step rq pc sh pc' sh'"
proof -
  obtain ok h i where rq: "rq = (ok, h, i)" using prod_cases3 by blast
  show ?thesis
  proof (cases pc)
    case (Counted n)
    then show ?thesis
      unfolding rq using thread_step.blocked thread_step.invalid thread_step.announce
      by (cases "n = 1"; cases "h = 0 \<or> i = 0 \<or> \<not> ok") blast+
  qed (use assms in \<open>auto simp: rq intro: thread_step.intros\<close>)
qed

interpretation probe_progress: wait_free thread_step returned steps_left
proof
  show "\<exists>pc' sh'. thread_step rq pc sh pc' sh'" if "\<not> returned pc" for rq pc sh
    using that by (rule thread_can_step)
  show "steps_left pc' < steps_left pc" if "thread_step rq pc sh pc' sh'" for rq pc sh pc' sh'
    using that by (cases rule: thread_step.cases) simp_all
qed

text \<open>The ticket of the probe is its update number, and only number 1 is within the limit.\<close>

fun may_call :: "thread_pc \<Rightarrow> bool" where
  "may_call (Counted n) = (n = 1)"
| "may_call Announced = True"
| "may_call _ = False"

interpretation probe_tickets: ticket_limit thread_step sh_intercepted 1 "\<lambda>pc. pc \<noteq> Entering"
  may_call "\<lambda>sh. length (sh_captures sh)"
proof
  fix rq pc sh pc' sh'
  assume "thread_step rq pc sh pc' sh'"
  then show "sh_intercepted sh' = sh_intercepted sh \<and> (pc \<noteq> Entering \<longrightarrow> pc' \<noteq> Entering)
        \<and> length (sh_captures sh') + of_bool (may_call pc')
              \<le> length (sh_captures sh) + of_bool (may_call pc)
    \<or> \<not> pc \<noteq> Entering \<and> pc' \<noteq> Entering \<and> \<not> may_call pc
        \<and> sh_intercepted sh' = sh_intercepted sh + 1
        \<and> length (sh_captures sh') = length (sh_captures sh)
        \<and> (may_call pc' \<longrightarrow> sh_intercepted sh + 1 \<le> 1)"
    by (cases rule: thread_step.cases) simp_all
qed

text \<open>As soon as a thread has drawn a number, one of the threads has number 1, and it only gives up
  on an invalid request.\<close>

lemma first_update_exists:
  assumes "probe_run N rqs k pcs sh"
  shows "((\<exists>t < N. pcs t \<noteq> Entering) \<longrightarrow> (\<exists>t < N. first_update (pcs t)))
     \<and> ((\<forall>t < N. pcs t = Entering) \<longrightarrow> sh_intercepted sh = 0)
     \<and> (\<forall>t < N. pcs t = Returned None True \<longrightarrow>
          (case rqs t of (ok, h, i) \<Rightarrow> h = 0 \<or> i = 0 \<or> \<not> ok))"
  using assms
proof (induction rule: system_run.induct)
  case system_start
  then show ?case by (simp add: fresh_shared_def)
next
  case (system_step k pcs sh t pc sh')
  obtain ok h i where rq: "rqs t = (ok, h, i)" using prod_cases3 by blast
  have step: "thread_step (ok, h, i) (pcs t) sh pc sh'" using system_step.hyps(3) by (simp add: rq)
  have pc: "pc \<noteq> Entering" "pcs t \<noteq> Entering \<longrightarrow> first_update pc = first_update (pcs t)"
    "pcs t = Entering \<longrightarrow> pc = Counted (sh_intercepted sh + 1)"
    "pc = Returned None True \<longrightarrow> h = 0 \<or> i = 0 \<or> \<not> ok"
    using step by (auto elim!: thread_stepE)
  have "\<exists>s < N. first_update ((pcs(t := pc)) s)"
  proof (cases "\<exists>s < N. pcs s \<noteq> Entering")
    case True
    then obtain s where s: "s < N" "first_update (pcs s)" using system_step.IH by blast
    then have "s \<noteq> t \<or> first_update pc" using pc(2) by (cases "pcs s") auto
    then show ?thesis using s by (intro exI [of _ s]) auto
  next
    case False
    then have "sh_intercepted sh = 0" "pc = Counted 1"
      using system_step.IH pc(3) system_step.hyps(2) by auto
    then show ?thesis using system_step.hyps(2) by (intro exI [of _ t]) simp
  qed
  then show ?case
    using system_step.IH system_step.hyps(2) pc(1,4) rq by auto
qed

section \<open>The sequential call\<close>

text \<open>The statics of the library as the threads share them.\<close>

definition capture_triple :: "probe_event \<Rightarrow> u32 \<times> ptr \<times> u32" where
  "capture_triple e = (case e of Capture_Call h s i st sz \<Rightarrow> (h, i, sz) | _ \<Rightarrow> (0, 0, 0))"

definition shared_of :: "'w probe \<Rightarrow> probe_shared" where
  "shared_of pb = \<lparr>sh_intercepted = pb_intercepted_updates pb,
     sh_native_calls = pb_native_capture_result_calls pb, sh_valid = pb_result_metadata_valid pb,
     sh_captures = map capture_triple (captures pb)\<rparr>"

lemmas probe_more = solo_more [where tstep = thread_step]

lemma shared_of_core: "probe_core pb' = probe_core pb \<Longrightarrow> shared_of pb' = shared_of pb"
  using probe_core_eq [of pb' pb] by (simp add: shared_of_def)

text \<open>A sequential call of the ready probe is a run of one thread from entry to return.\<close>

lemma probe_update_solo:
  assumes chk: "capture_probe_ready (pw_dso w) pb = (True, pb0)"
    and run: "probe_update_enrollment w calloc_ok h i pb = Some (r, pb')"
  shows "\<exists>sz first. solo_run thread_step (calloc_ok, h, i) Entering (shared_of pb) (Returned sz first) (shared_of pb')"
proof -
  note core = capture_probe_ready_core [OF chk]
  define n where "n = pb_intercepted_updates pb + 1"
  define pb1 where "pb1 = pb0\<lparr>pb_intercepted_updates := n\<rparr>"
  have n0: "n = pb_intercepted_updates pb0 + 1" using probe_core_eq [OF core] by (simp add: n_def)
  have sh1: "shared_of pb1 = (shared_of pb)\<lparr>sh_intercepted := n\<rparr>"
    using probe_core_eq [OF core] by (simp add: pb1_def shared_of_def)
  have enter: "thread_step (calloc_ok, h, i) Entering (shared_of pb) (Counted n) (shared_of pb1)"
    unfolding sh1 by (rule thread_step.count) (simp add: n_def shared_of_def)
  show ?thesis
  proof (cases "n = 1 \<and> h \<noteq> 0 \<and> i \<noteq> 0 \<and> calloc_ok")
    case True
    then have "probe_native_call w h i pb1 = Some pb'"
      using run chk n0 by (auto simp: probe_update_enrollment_def pb1_def fault_split)
    from probe_native_call_effect [OF this] obtain st sz
      where eff: "captures pb' = captures pb1 @ [Capture_Call h CV2_CAPTURE_SELECTOR i st sz]"
        "pb_native_capture_result_calls pb' = pb_native_capture_result_calls pb1 + 1"
        "pb_result_metadata_valid pb' = (sz \<le> of_nat CV2_CAPTURE_CAPACITY)"
        "pb_intercepted_updates pb' = pb_intercepted_updates pb1"
      by blast
    define sh2 where
      "sh2 = (shared_of pb1)\<lparr>sh_native_calls := sh_native_calls (shared_of pb1) + 1\<rparr>"
    define sh3 where "sh3 = sh2\<lparr>sh_captures := sh_captures sh2 @ [(h, i, sz)]\<rparr>"
    have sh': "shared_of pb' = sh3\<lparr>sh_valid := (sz \<le> of_nat CV2_CAPTURE_CAPACITY)\<rparr>"
      using eff by (simp add: sh3_def sh2_def shared_of_def capture_triple_def)
    have s0: "thread_step (calloc_ok, h, i) Entering (shared_of pb) (Counted 1) (shared_of pb1)"
      using enter True by simp
    have s1: "thread_step (calloc_ok, h, i) (Counted 1) (shared_of pb1) Announced sh2"
      unfolding sh2_def using True by (intro thread_step.announce) auto
    have s2: "thread_step (calloc_ok, h, i) Announced sh2 (Called sz) sh3"
      unfolding sh3_def by (rule thread_step.call)
    have s3: "thread_step (calloc_ok, h, i) (Called sz) sh3 (Stored sz) (shared_of pb')"
      unfolding sh' by (rule thread_step.store)
    have s4: "thread_step (calloc_ok, h, i) (Stored sz) (shared_of pb')
        (Returned (Some sz) True) (shared_of pb')"
      by (rule thread_step.finish)
    show ?thesis
      using probe_more [OF s0 probe_more [OF s1 probe_more [OF s2 probe_more [OF s3 probe_more
          [OF s4 solo_stay]]]]] by blast
  next
    case False
    then have "\<exists>l. pb' = probe_log [l] pb1"
      using run chk n0
      by (auto simp: probe_update_enrollment_def pb1_def Let_def split: if_splits)
    then have "shared_of pb' = shared_of pb1" by (auto intro: shared_of_core)
    moreover have "\<exists>sz first. thread_step (calloc_ok, h, i) (Counted n) (shared_of pb1)
        (Returned sz first) (shared_of pb1)"
      using False thread_step.blocked [of n calloc_ok h i "shared_of pb1"]
        thread_step.invalid [of h i calloc_ok "shared_of pb1"] by (cases "n = 1") auto
    ultimately show ?thesis using enter by (metis probe_more solo_stay)
  qed
qed

end
