(* ===== verification/Capture_Claims.thy ===== *)
theory Capture_Claims
  imports Capture_Threads
begin

text \<open>
  The properties of the capture-only interposer \<open>tools/capture_get_result_probe_preload.c\<close>.
\<close>

section \<open>A concrete probe\<close>

text \<open>The target \<open>/t\<close> is loaded and owns both functions; the driver fills the buffer with ones.\<close>

definition probe_dso :: dso_world where
  "probe_dso =
     \<lparr>dw_getenv = (\<lambda>s. if s = CV2_CAPTURE_TARGET_ENV then Some ''/t'' else None),
      dw_realpath = Some, dw_stat = (\<lambda>s. Some (1, if s = ''/t'' then 2 else 3)),
      dw_loaded = [Some [], Some ''/t''], dw_dlopen_noload = (\<lambda>s. (16, None)),
      dw_dlsym = (\<lambda>h s. if s = ''cv_fingerprint_update_enrollment'' then (256, None)
                        else if s = ''cv_fingerprint_capture_get_result'' then (512, None)
                        else (0, Some ''undefined symbol'')),
      dw_dladdr = (\<lambda>a. Some (Some ''/t'')), dw_once_status = 0,
      dw_strerror = (\<lambda>_. ''error''), dw_self_update = 768\<rparr>"

definition probe_sample_world :: "nat probe_world" where
  "probe_sample_world = \<lparr>pw_dso = probe_dso,
     pw_capture_at = (\<lambda>a n h s i sz buf. Some (0, 600, replicate CV2_CAPTURE_CAPACITY 1, n + 1))\<rparr>"

lemma probe_sample_ready:
  "\<exists>pb. capture_probe_ready (pw_dso probe_sample_world) (initial_probe n) = (True, pb)
     \<and> pb_intercepted_updates pb = 0"
  by (simp add: probe_sample_world_def probe_dso_def capture_probe_ready_def initial_probe_def
      zero_probe_cache_def probe_initialize_resolver_def identity_from_path_def
      find_loaded_target_def probe_resolve_symbols_def probe_lookup_def probe_symbol_owned_def
      split_beta Let_def)

lemma probe_native_sample:
  "\<exists>pb'. probe_native_call probe_sample_world h i pb = Some pb'"
  by (simp add: probe_native_call_def probe_sample_world_def Let_def same_object_def
      secure_clear_all)

lemma probe_sample_run:
  "\<exists>pb. probe_update_enrollment probe_sample_world True 7 8192 (initial_probe n)
     = Some (CV2_EXPERIMENT_FAILURE, pb)"
proof -
  obtain pb where pb: "capture_probe_ready (pw_dso probe_sample_world) (initial_probe n) = (True, pb)"
    "pb_intercepted_updates pb = 0"
    using probe_sample_ready [of n] by auto
  obtain pb' where
    "probe_native_call probe_sample_world 7 8192 (pb\<lparr>pb_intercepted_updates := 1\<rparr>) = Some pb'"
    using probe_native_sample by blast
  then show ?thesis using pb by (simp add: probe_update_enrollment_def)
qed

lemma probe_sample_session:
  "\<exists>pb'. probe_session probe_sample_world [(True, 7, 8192)] (initial_probe n)
     = Some ([CV2_EXPERIMENT_FAILURE], pb')"
  using probe_sample_run [of n] by auto

section \<open>Sequential sessions\<close>

text \<open>C8:
  In a session of fewer than 2^32 intercepted updates, on any environment and driver and with any
  allocation outcomes, every update is answered with the fatal status, at most one native call is
  made, it has selector 1 and non-null arguments, and every buffer that was handed back to the
  allocator had been wiped completely.\<close>

theorem probe_one_native_call:
  assumes "length cs < 2 ^ 32" and "probe_session w cs (initial_probe n) = Some (rs, pb)"
  shows "rs = replicate (length cs) CV2_EXPERIMENT_FAILURE
     \<and> (captures pb = [] \<and> pb_freed pb = []
        \<or> (\<exists>handle eid st sz. captures pb = [Capture_Call handle CV2_CAPTURE_SELECTOR eid st sz]
             \<and> handle \<noteq> 0 \<and> eid \<noteq> 0 \<and> pb_freed pb = [replicate CV2_CAPTURE_CAPACITY 0]))"
proof -
  have few: "unat (pb_intercepted_updates (initial_probe n)) + length cs < 2 ^ 32"
    using assms(1) by (simp add: initial_probe_def)
  from probe_session_inv [OF initial_probe_inv few assms(2)] show ?thesis
    unfolding probe_inv_def by blast
qed

theorem probe_one_native_call_witness:
  "\<exists>(pb :: nat probe). probe_session probe_sample_world [(True, 7, 8192)] (initial_probe 0)
       = Some ([CV2_EXPERIMENT_FAILURE], pb)
     \<and> (\<forall>b \<in> set (pb_freed pb). b = replicate CV2_CAPTURE_CAPACITY 0)"
proof -
  obtain pb where run: "probe_session probe_sample_world [(True, 7, 8192)] (initial_probe 0)
      = Some ([CV2_EXPERIMENT_FAILURE], pb)"
    using probe_sample_session by blast
  have "length [(True, 7 :: u32, 8192 :: ptr)] < 2 ^ 32" by simp
  from probe_one_native_call [OF this run] run show ?thesis by auto
qed

text \<open>
  The harness's completion query tells the truth: after any such session it holds exactly when the
  one native call was made and returned a size within the capacity of 0x17000.
\<close>

lemma probe_complete_iff_captured:
  assumes "length cs < 2 ^ 32" and "probe_session w cs (initial_probe n) = Some (rs, pb)"
  shows "cv2_capture_result_probe_complete pb \<longleftrightarrow>
     (\<exists>handle eid st sz. captures pb = [Capture_Call handle CV2_CAPTURE_SELECTOR eid st sz]
        \<and> sz \<le> of_nat CV2_CAPTURE_CAPACITY)"
proof -
  have few: "unat (pb_intercepted_updates (initial_probe n)) + length cs < 2 ^ 32"
    using assms(1) by (simp add: initial_probe_def)
  have counted: "pb_intercepted_updates pb \<ge> 1 \<longleftrightarrow> pb_intercepted_updates pb \<noteq> 0"
    by (simp add: word_le_nat_alt Suc_le_eq unat_gt_0)
  from probe_session_inv [OF initial_probe_inv few assms(2)]
  have "probe_inv pb" by blast
  then consider (none) "captures pb = []" "\<not> pb_result_metadata_valid pb"
    | (one) handle eid st sz where
      "captures pb = [Capture_Call handle CV2_CAPTURE_SELECTOR eid st sz]"
      "pb_native_capture_result_calls pb = 1"
      "pb_result_metadata_valid pb = (sz \<le> of_nat CV2_CAPTURE_CAPACITY)"
      "pb_intercepted_updates pb \<noteq> 0"
    unfolding probe_inv_def by blast
  then show ?thesis
    by cases (simp_all add: cv2_capture_result_probe_complete_def counted)
qed

text \<open>C23:
  The captured payload leaves no trace in the library: replacing what the driver writes into the
  private buffer by anything of the same length gives the same result and the same state, log
  lines and freed memory included.\<close>

theorem probe_payload_leaves_no_trace:
  assumes "\<And>out. length (g out) = length out"
  shows "probe_update_enrollment (other_payload g w) calloc_ok handle eid pb =
           probe_update_enrollment w calloc_ok handle eid pb"
  using assms by (rule probe_update_payload)

theorem probe_payload_leaves_no_trace_witness:
  "probe_update_enrollment (other_payload (map ((+) 1)) probe_sample_world) True 7 8192
       (initial_probe 0) =
     probe_update_enrollment probe_sample_world True 7 8192 (initial_probe (0 :: nat))"
  by (rule probe_payload_leaves_no_trace) simp

section \<open>Concurrent calls\<close>

text \<open>C9:
  The statics also hold against concurrency: with fewer than 2^32 threads in the intercepted
  update, in every state that any interleaving of their atomic steps reaches, at most one native
  call has been made; and whenever the completion query holds, that call was made, with the
  arguments of one of the threads, and its size is within the capacity.\<close>

theorem probe_threads_one_native_call:
  assumes "probe_run N rqs k pcs sh" and "N < 2 ^ 32"
  shows "length (sh_captures sh) \<le> 1
     \<and> (shared_complete sh \<longrightarrow>
          (\<exists>t < N. \<exists>h i sz. snd (rqs t) = (h, i) \<and> sh_captures sh = [(h, i, sz)]
             \<and> sz \<le> of_nat CV2_CAPTURE_CAPACITY))"
proof -
  note inv = reachable_inv [OF assms]
  have few: "length (sh_captures sh) \<le> 1"
    using probe_tickets.uses_bounded [OF assms] by (simp add: fresh_shared_def)
  have "\<exists>t < N. \<exists>h i sz. snd (rqs t) = (h, i) \<and> sh_captures sh = [(h, i, sz)]
             \<and> sz \<le> of_nat CV2_CAPTURE_CAPACITY" if comp: "shared_complete sh"
  proof -
    have "sh_valid sh" using comp by (simp add: shared_complete_def)
    then obtain t where t: "t < N" "first_update (pcs t)" using inv by (auto simp: system_inv_def)
    then have agr: "agrees (rqs t) (pcs t) sh" using inv by (simp add: system_inv_def)
    obtain ok h i where rq: "rqs t = (ok, h, i)" using prod_cases3 by blast
    have "\<exists>sz. sh_captures sh = [(h, i, sz)] \<and> sz \<le> of_nat CV2_CAPTURE_CAPACITY"
      using agr t(2) comp rq
      by (cases "(rqs t, pcs t, sh)" rule: agrees.cases) (auto simp: shared_complete_def)
    then show ?thesis using t(1) rq by (metis snd_conv)
  qed
  then show ?thesis using few by blast
qed

text \<open>Two threads; the second one draws number 1 and is past its native call.\<close>

lemma sample_interleaving:
  "\<exists>k pcs. probe_run 2 (\<lambda>t. (True, 7, 8192)) k pcs
     \<lparr>sh_intercepted = 2, sh_native_calls = 1, sh_valid = True, sh_captures = [(7, 8192, 600)]\<rparr>"
proof -
  let ?rq = "\<lambda>t :: nat. (True, 7 :: u32, 8192 :: ptr)"
  let ?s = "\<lambda>n k v c. \<lparr>sh_intercepted = n, sh_native_calls = k, sh_valid = v, sh_captures = c\<rparr>"
  let ?p = "\<lambda>_ :: nat. Entering"
  note step = system_step [where tstep = thread_step and N = 2 and rqs = ?rq and ?pcs0.0 = ?p
      and ?sh0.0 = fresh_shared]
  have 0: "probe_run 2 ?rq 0 ?p (?s 0 0 False [])"
    using system_start [of thread_step 2 ?rq ?p fresh_shared] by (simp add: fresh_shared_def)
  have 1: "probe_run 2 ?rq (Suc 0) (?p(1 := Counted 1)) (?s 1 0 False [])"
    using step [OF 0, of 1 "Counted 1"] thread_step.count [of 1 "?s 0 0 False []" True 7 8192]
    by simp
  have 2: "probe_run 2 ?rq (Suc (Suc 0)) (?p(1 := Counted 1, 0 := Counted 2)) (?s 2 0 False [])"
    using step [OF 1, of 0 "Counted 2"] thread_step.count [of 2 "?s 1 0 False []" True 7 8192]
    by simp
  have 3: "probe_run 2 ?rq (Suc (Suc (Suc 0))) (?p(1 := Announced, 0 := Counted 2)) (?s 2 1 False [])"
    using step [OF 2, of 1 Announced] thread_step.announce [of 7 8192 True "?s 2 0 False []"]
    by (simp add: fun_upd_twist)
  have 4: "probe_run 2 ?rq (Suc (Suc (Suc (Suc 0)))) (?p(1 := Called 600, 0 := Counted 2))
             (?s 2 1 False [(7, 8192, 600)])"
    using step [OF 3, of 1 "Called 600"] thread_step.call [of True 7 8192 "?s 2 1 False []" 600]
    by (simp add: fun_upd_twist)
  have "probe_run 2 ?rq (Suc (Suc (Suc (Suc (Suc 0))))) (?p(1 := Stored 600, 0 := Counted 2))
             (?s 2 1 True [(7, 8192, 600)])"
    using step [OF 4, of 1 "Stored 600"]
      thread_step.store [of True 7 8192 600 "?s 2 1 False [(7, 8192, 600)]"]
    by (simp add: fun_upd_twist CV2_CAPTURE_CAPACITY_def)
  then show ?thesis by blast
qed

theorem probe_threads_one_native_call_witness:
  "\<exists>t < (2 :: nat). \<exists>h i sz. (7 :: u32, 8192 :: ptr) = (h, i)
     \<and> [(7 :: u32, 8192 :: ptr, 600 :: u32)] = [(h, i, sz)] \<and> sz \<le> of_nat CV2_CAPTURE_CAPACITY"
proof -
  obtain k pcs where "probe_run 2 (\<lambda>t. (True, 7, 8192)) k pcs
     \<lparr>sh_intercepted = 2, sh_native_calls = 1, sh_valid = True, sh_captures = [(7, 8192, 600)]\<rparr>"
    using sample_interleaving by blast
  from probe_threads_one_native_call [OF this] show ?thesis
    by (simp add: shared_complete_def)
qed



text \<open>C30:
  The thread model is the code's: a sequential call of the ready probe, as the statics see it, is a
  run of one thread from its entry to its return.\<close>

theorem probe_call_is_thread_run:
  assumes "capture_probe_ready (pw_dso w) pb = (True, pb0)"
    and "probe_update_enrollment w calloc_ok handle eid pb = Some (r, pb')"
  shows "\<exists>sz first. solo_run thread_step (calloc_ok, handle, eid) Entering (shared_of pb)
                      (Returned sz first) (shared_of pb')"
  using assms by (rule probe_update_solo)

theorem probe_call_is_thread_run_witness:
  "\<exists>sz first (pb' :: nat probe). solo_run thread_step (True, 7, 8192) Entering (shared_of (initial_probe (0 :: nat)))
     (Returned sz first) (shared_of pb')"
proof -
  obtain pb0 where ready:
    "capture_probe_ready (pw_dso probe_sample_world) (initial_probe (0 :: nat)) = (True, pb0)"
    using probe_sample_ready [of 0] by auto
  obtain pb' where run: "probe_update_enrollment probe_sample_world True 7 8192 (initial_probe 0)
     = Some (CV2_EXPERIMENT_FAILURE, pb')"
    using probe_sample_run by blast
  from probe_call_is_thread_run [OF ready run] show ?thesis by blast
qed

section \<open>The resolver\<close>

text \<open>C31:
  A ready probe calls verified code only: the first check succeeds only if the configured target is
  loaded, and then the cached address is non-null and \<open>dladdr\<close> attributes it to the target's path,
  device and inode; the target also has an update function of its own, not the interposer's.\<close>

theorem probe_ready_is_verified:
  assumes "capture_probe_ready dw (initial_probe n) = (True, pb)"
  shows "\<exists>expected upd. identity_from_path dw (dw_getenv dw CV2_CAPTURE_TARGET_ENV) = Some expected
     \<and> (\<exists>name \<in> set (dw_loaded dw). identity_from_path dw name = Some expected)
     \<and> pc_capture_get_result (pb_cache pb) \<noteq> 0
     \<and> Option.bind (dw_dladdr dw (pc_capture_get_result (pb_cache pb))) (identity_from_path dw)
         = Some expected
     \<and> upd \<noteq> 0 \<and> upd \<noteq> dw_self_update dw
     \<and> Option.bind (dw_dladdr dw upd) (identity_from_path dw) = Some expected"
proof -
  have owned: "address \<noteq> 0 \<and> address \<noteq> self \<and> pc' = pc
      \<and> Option.bind (dw_dladdr dw address) (identity_from_path dw) = Some target"
    if "probe_symbol_owned dw address symbol target self pc = (True, pc', lines)"
    for address symbol target self pc pc' lines
    using that
    by (auto simp: probe_symbol_owned_def intro: target_identity.equality
        split: if_splits option.splits)
  have unready: "pc_ready pc' = pc_ready pc"
    if "probe_symbol_owned dw address symbol target self pc = (b, pc', lines)"
    for address symbol target self pc b pc' lines
    using that
    by (auto simp: probe_symbol_owned_def probe_resolver_failure_def
        split: if_splits option.splits)
  obtain pc lines where init: "probe_initialize_resolver dw zero_probe_cache = (pc, lines)"
    and pc: "pb_cache pb = pc" and ready: "pc_ready pc"
    using assms
    by (auto simp: capture_probe_ready_def initial_probe_def split: if_splits prod.splits)
  obtain expected handle where id: "identity_from_path dw (dw_getenv dw CV2_CAPTURE_TARGET_ENV)
      = Some expected" and loaded: "target_loaded dw expected (dw_loaded dw)"
    and syms: "probe_resolve_symbols dw expected (zero_probe_cache\<lparr>pc_handle := handle\<rparr>) = (pc, lines)"
    using init ready
    by (auto simp: probe_initialize_resolver_def probe_resolver_failure_def zero_probe_cache_def
        split: option.splits if_splits prod.splits)
  define pc0 where "pc0 = zero_probe_cache\<lparr>pc_handle := handle\<rparr>"
  define cap where "cap = probe_lookup dw handle ''cv_fingerprint_capture_get_result''"
  define upd where "upd = probe_lookup dw handle ''cv_fingerprint_update_enrollment''"
  obtain ok1 pc1 l1 where one: "probe_symbol_owned dw cap ''cv_fingerprint_capture_get_result''
      expected 0 pc0 = (ok1, pc1, l1)"
    using prod_cases3 by blast
  obtain ok2 pc2 l2 where two: "probe_symbol_owned dw upd ''cv_fingerprint_update_enrollment''
      expected (dw_self_update dw) pc1 = (ok2, pc2, l2)"
    using prod_cases3 by blast
  have "\<not> pc_ready pc0" "pc_handle pc0 = handle" by (simp_all add: pc0_def zero_probe_cache_def)
  then have "\<not> pc_ready pc1" "\<not> pc_ready pc2" using unready [OF one] unready [OF two] by simp_all
  have ok1: ok1 using syms one ready \<open>\<not> pc_ready pc1\<close> \<open>pc_handle pc0 = handle\<close>
    by (auto simp: probe_resolve_symbols_def pc0_def [symmetric] cap_def [symmetric] Let_def
        split: if_splits prod.splits)
  then have own1: "probe_symbol_owned dw cap ''cv_fingerprint_capture_get_result''
      expected 0 pc0 = (True, pc1, l1)" using one by simp
  have pc1: "pc1 = pc0" using owned [OF own1] by blast
  have "ok2 \<and> pc = pc2\<lparr>pc_capture_get_result := cap, pc_ready := True\<rparr>"
    using syms one two ok1 ready \<open>\<not> pc_ready pc2\<close> \<open>pc_handle pc0 = handle\<close>
    by (auto simp: probe_resolve_symbols_def pc0_def [symmetric] cap_def [symmetric]
        upd_def [symmetric] pc1 Let_def split: if_splits prod.splits)
  then have own2: "probe_symbol_owned dw upd ''cv_fingerprint_update_enrollment''
      expected (dw_self_update dw) pc1 = (True, pc2, l2)"
    and "pc_capture_get_result (pb_cache pb) = cap"
    using two pc by simp_all
  then show ?thesis
    using id loaded owned [OF own1] owned [OF own2] by (auto simp: target_loaded_iff)
qed

theorem probe_ready_is_verified_witness:
  "\<exists>pb. capture_probe_ready probe_dso (initial_probe (0 :: nat)) = (True, pb)
     \<and> pc_capture_get_result (pb_cache pb) \<noteq> 0"
proof -
  obtain pb where "capture_probe_ready probe_dso (initial_probe (0 :: nat)) = (True, pb)"
    using probe_sample_ready [of 0] by (auto simp: probe_sample_world_def)
  from probe_ready_is_verified [OF this] this show ?thesis by blast
qed

end
