(* ===== verification/Tod_Claims.thy ===== *)
theory Tod_Claims
  imports Tod_Experiments Rearm_Claims Capture_Claims
begin

text \<open>
  What the exit codes of the two hardware harnesses promise, with the interposer they run on.
\<close>

section \<open>The enrollment experiment\<close>

text \<open>The events of the main loop itself.\<close>

fun loop_output :: "tod_event \<Rightarrow> bool" where
  "loop_output Signal_Received = True"
| "loop_output (Progress_Retry n k m) = True"
| "loop_output (Progress_Accepted n k) = True"
| "loop_output Progress_Violation = True"
| "loop_output Enrollment_Completed = True"
| "loop_output Enrollment_Violation = True"
| "loop_output Probe_Completed = True"
| "loop_output (Enrollment_Failed m) = True"
| "loop_output _ = False"

lemma enrollment_exit_effect:
  "enrollment_exit result = (out, status) \<Longrightarrow>
     (status = 0 \<longleftrightarrow> Enrollment_Completed \<in> set out) \<and> status \<in> {0, 5, 130} \<and> list_all loop_output out"
  by (auto simp: enrollment_exit_def split: enroll_result.splits option.splits bool.splits)

lemma enrollment_loop_effect:
  assumes "forwarding w pr" and "enrollment_loop w stages evs pr = Some (status, out, pr')"
  shows "forwarding w pr' \<and> (status = 0 \<longleftrightarrow> Enrollment_Completed \<in> set out)
     \<and> status \<in> {0, 5, 130} \<and> list_all loop_output out"
  using assms
proof (induction w stages evs pr arbitrary: out rule: enrollment_loop.induct)
  case (3 w stages completed err evs pr)
  then show ?case by (auto simp: fault_split split: option.splits)
next
  case (4 w stages edit ua evs pr)
  obtain r pr1
    where one: "cv_fingerprint_update_enrollment w ua (pr\<lparr>pr_heap := edit (pr_heap pr)\<rparr>) = Some (r, pr1)"
      and rest: "enrollment_loop w stages evs pr1 = Some (status, out, pr')"
    using 4(3) by (auto simp: fault_split)
  have fwd: "forwarding w (pr\<lparr>pr_heap := edit (pr_heap pr)\<rparr>)" using 4(2) by simp
  have "forwarding w pr1"
    using wrapper_keeps_resolver [OF one forwarding_check [OF fwd]] fwd
    by (simp add: forwarding_def)
  from 4(1) [OF _ refl this rest] one show ?case by blast
next
  case (5 w stages result evs pr)
  then show ?case using enrollment_exit_effect [of result] by (auto split: prod.splits)
qed (auto simp: fault_split)

lemma list_all_not_mem: "list_all P xs \<Longrightarrow> \<not> P x \<Longrightarrow> x \<notin> set xs"
  by (auto simp: list_all_iff)

text \<open>The readiness query, and that it leaves the process forwarding when it answers 1.\<close>

lemma forwarding_after_ready:
  assumes "cv2_0x89_forwarding_ready (rw_dso w) (pr_resolver pr) = (ok, rs, lines)" and "ok \<noteq> 0"
  shows "forwarding w (emit lines (pr\<lparr>pr_resolver := rs\<rparr>))"
  using assms
  by (auto simp: cv2_0x89_forwarding_ready_def forwarding_ready_def forwarding_def
      split: if_splits prod.splits)

text \<open>C11:
  The exit code of the enrollment experiment, for any device, any sequence of main-loop events and
  any driver: 0 exactly if the enrollment completed and the device was closed; a device is opened
  only by a process whose interposer is ready, and an opened device is always closed, or the code is 6;
  before a refused readiness check nothing is enumerated and nothing reaches the driver.\<close>

theorem enrollment_experiment_exit:
  assumes "cv_tod_enrollment_experiment w tw pr = Some (status, evs, pr')"
  shows "(status = 0 \<longleftrightarrow> Enrollment_Completed \<in> set evs \<and> last evs = Closed)
     \<and> ((\<exists>d k. Opened d k \<in> set evs) \<longrightarrow> forwarding w pr'
          \<and> (last evs = Closed \<or> status = 6 \<and> (\<exists>m. last evs = Close_Failed m)))
     \<and> (Enumerated \<notin> set evs \<longrightarrow> status = 2 \<and> native_calls pr' = native_calls pr)"
proof -
  define pr0 where "pr0 = (let (ok, rs, lines) = cv2_0x89_forwarding_ready (rw_dso w) (pr_resolver pr)
    in emit lines (pr\<lparr>pr_resolver := rs\<rparr>))"
  obtain ok rs lines where chk: "cv2_0x89_forwarding_ready (rw_dso w) (pr_resolver pr) = (ok, rs, lines)"
    using prod_cases3 by blast
  have pr0: "pr0 = emit lines (pr\<lparr>pr_resolver := rs\<rparr>)" by (simp add: pr0_def chk)
  have calls0: "native_calls pr0 = native_calls pr" by (simp add: pr0)
  show ?thesis
  proof (cases "''cv2_0x89_forwarding_ready'' \<in> set (tw_symbols tw) \<and> tw_symbol_error tw = None \<and> ok \<noteq> 0")
    case False
    then have "status = 2 \<and> native_calls pr' = native_calls pr
        \<and> (\<exists>e. (e = Readiness_Failed \<or> (\<exists>m. e = Lookup_Failed m)) \<and> evs = [e, Refusing_Enrollment])"
      using assms calls0 by (auto simp: cv_tod_enrollment_experiment_def chk pr0 split: if_splits)
    then show ?thesis by auto
  next
    case True
    then have fwd0: "forwarding w pr0" using forwarding_after_ready [OF chk] by (simp add: pr0)
    show ?thesis
    proof (cases "find_broadcom (tw_drivers tw)")
      case None
      then have "status = 2 \<and> evs = [Boundary_Ready, Enumerated, No_Device]"
        using assms True by (auto simp: cv_tod_enrollment_experiment_def chk)
      then show ?thesis by auto
    next
      case dev: (Some device)
      define before where
        "before = [Boundary_Ready, Enumerated] @ replicate (tw_open_signals tw) Signal_Received"
      have bef: "set before \<subseteq> {Boundary_Ready, Enumerated, Signal_Received}" "Enumerated \<in> set before"
        by (auto simp: before_def)
      show ?thesis
      proof (cases "tw_open_error tw")
        case (Some m)
        then have "status = 3 \<and> evs = before @ [Open_Failed m]"
          using assms True dev by (auto simp: cv_tod_enrollment_experiment_def chk before_def)
        then show ?thesis using bef by auto
      next
        case None
        then obtain out where run: "enrollment_run w tw device pr0 = Some (status, out, pr')"
          and evs: "evs = before @ out"
          using assms True dev
          by (auto simp: cv_tod_enrollment_experiment_def chk before_def pr0 fault_split)
        then obtain st mid where loop: "enrollment_loop w (tw_stages tw) (tw_loop tw) pr0
            = Some (st, mid, pr')"
          and fin: "(status, out) = (case tw_close_error tw of
              Some m \<Rightarrow> (6, [Opened device (tw_stages tw), Enroll_Started] @ mid
                 @ replicate (tw_close_signals tw) Signal_Received @ [Close_Failed m])
            | None \<Rightarrow> (st, [Opened device (tw_stages tw), Enroll_Started] @ mid
                 @ replicate (tw_close_signals tw) Signal_Received @ [Closed]))"
          by (auto simp: enrollment_run_def fault_split Let_def split: option.splits)
        note eff = enrollment_loop_effect [OF fwd0 loop]
        show ?thesis
          using fin eff bef
          by (cases "tw_close_error tw") (auto simp: evs)
      qed
    qed
  qed
qed

definition sample_tod :: "string list \<Rightarrow> 'c loop_event list \<Rightarrow> 'c tod_world" where
  "sample_tod symbols evs = \<lparr>tw_symbols = symbols, tw_symbol_error = None,
     tw_drivers = [None, Some ''synaptics'', Some ''broadcom''], tw_stages = 10,
     tw_open_signals = 0, tw_open_error = None, tw_loop = evs, tw_close_signals = 1,
     tw_close_error = None\<rparr>"

lemma sample_enrollment_run:
  "\<exists>evs pr'. cv_tod_enrollment_experiment (sample_world [] [])
       (sample_tod [''cv2_0x89_forwarding_ready'']
          [Driver_update (id, sample_args), Progress_event 1 None, Done_event Enrolled])
       (sample_process legacy_policy True [137]) = Some (0, evs, pr')"
proof -
  let ?w = "sample_world [] []" and ?p = "sample_process legacy_policy True [137]"
  have ready: "cv2_0x89_forwarding_ready (rw_dso ?w) (pr_resolver ?p) = (1, pr_resolver ?p, [])"
    using sample_ready [of "[]" "[]" legacy_policy True "[137]"]
    by (simp add: cv2_0x89_forwarding_ready_def forwarding_ready_def forwarding_def)
  have same: "emit [] (?p\<lparr>pr_resolver := pr_resolver ?p\<rparr>) = ?p" "?p\<lparr>pr_heap := pr_heap ?p\<rparr> = ?p"
    by (simp_all add: emit_def)
  obtain r pr' where run: "cv_fingerprint_update_enrollment ?w sample_args ?p = Some (r, pr')"
    using sample_call_returns by blast
  have "enrollment_loop ?w 10 [Driver_update (id, sample_args), Progress_event 1 None,
      Done_event Enrolled] (emit [] (?p\<lparr>pr_resolver := pr_resolver ?p\<rparr>))
      = Some (0, [Progress_Accepted 1 10, Enrollment_Completed], pr')"
    unfolding same(1) by (simp add: same(2) run enrollment_exit_def)
  then show ?thesis
    by (simp add: cv_tod_enrollment_experiment_def sample_tod_def ready find_broadcom_def
        enrollment_run_def Let_def del: enrollment_loop.simps)
qed

theorem enrollment_experiment_exit_witness:
  "\<exists>evs (pr' :: u32 list process). Enrollment_Completed \<in> set evs \<and> last evs = Closed
     \<and> cv_tod_enrollment_experiment (sample_world [] [])
       (sample_tod [''cv2_0x89_forwarding_ready'']
          [Driver_update (id, sample_args), Progress_event 1 None, Done_event Enrolled])
       (sample_process legacy_policy True [137]) = Some (0, evs, pr')"
proof -
  obtain evs pr' where run: "cv_tod_enrollment_experiment (sample_world [] [])
       (sample_tod [''cv2_0x89_forwarding_ready'']
          [Driver_update (id, sample_args), Progress_event 1 None, Done_event Enrolled])
       (sample_process legacy_policy True [137]) = Some (0, evs, pr')"
    using sample_enrollment_run by blast
  from enrollment_experiment_exit [OF run] run show ?thesis by auto
qed

section \<open>The capture experiment\<close>

lemma capture_exit_effect:
  "capture_exit result complete = (out, status) \<Longrightarrow>
     (status = 0 \<longleftrightarrow> complete \<and> result \<noteq> Enrolled) \<and> status \<in> {0, 5, 7} \<and> list_all loop_output out
     \<and> (Enrollment_Violation \<in> set out \<longleftrightarrow> status = 7)"
  by (auto simp: capture_exit_def split: enroll_result.splits if_splits)

lemma capture_loop_effect:
  assumes "probe_inv pb" and "unat (pb_intercepted_updates pb) + length evs < 2 ^ 32"
    and "capture_loop w evs pb = Some (status, out, pb')"
  shows "probe_inv pb' \<and> (status = 0 \<longrightarrow> cv2_capture_result_probe_complete pb')
     \<and> status \<in> {0, 5, 7} \<and> list_all loop_output out
     \<and> (Enrollment_Violation \<in> set out \<longleftrightarrow> status = 7)"
  using assms
proof (induction w evs pb arbitrary: out rule: capture_loop.induct)
  case (4 w calloc_ok handle eid evs pb)
  obtain r pb1 where one: "probe_update_enrollment w calloc_ok handle eid pb = Some (r, pb1)"
    and rest: "capture_loop w evs pb1 = Some (status, out, pb')"
    using 4(4) by (auto simp: fault_split)
  have few: "unat (pb_intercepted_updates pb) + 1 < 2 ^ 32" using 4(3) by simp
  note step = probe_update_inv [OF 4(2) few one]
  have "unat (pb_intercepted_updates pb1) + length evs < 2 ^ 32" using step(3) 4(3) by simp
  from 4(1) [OF _ refl step(2) this rest] one show ?case by blast
next
  case (5 w result evs pb)
  then show ?case using capture_exit_effect [of result] by (auto split: prod.splits)
qed (auto simp: fault_split)

lemma probe_ready_keeps_inv:
  "cv2_capture_result_probe_ready dw pb = (ok, pb') \<Longrightarrow> probe_core pb' = probe_core pb"
  by (auto simp: cv2_capture_result_probe_ready_def split: if_splits prod.splits
      dest!: capture_probe_ready_core)

lemma probe_inv_core: "probe_core pb' = probe_core pb \<Longrightarrow> probe_inv pb' = probe_inv pb"
  using probe_core_eq [of pb' pb] by (simp add: probe_inv_def)

text \<open>C10:
  The exit code of the capture experiment, started in a fresh process and for fewer than 2^32
  main-loop events: 0 is returned only if exactly one native capture was made, its size was within
  the capacity, its buffer was wiped, the enrollment did not complete and the device was closed; an
  enrollment that did complete gives 7, or 6 if the close failed too.\<close>

theorem capture_experiment_exit:
  assumes "cv_tod_capture_result_experiment w tw (initial_probe n) = Some (status, evs, pb)"
    and "length (tw_loop tw) < 2 ^ 32"
  shows "(status = 0 \<longrightarrow> last evs = Closed \<and> Enrollment_Violation \<notin> set evs
         \<and> pb_freed pb = [replicate CV2_CAPTURE_CAPACITY 0]
         \<and> (\<exists>handle eid st sz. captures pb = [Capture_Call handle CV2_CAPTURE_SELECTOR eid st sz]
              \<and> sz \<le> of_nat CV2_CAPTURE_CAPACITY))
     \<and> (Enrollment_Violation \<in> set evs \<longrightarrow> status = 7 \<or> status = 6)
     \<and> status \<in> {0, 2, 3, 5, 6, 7}"
proof -
  obtain ok pb0 where chk: "cv2_capture_result_probe_ready (pw_dso w) (initial_probe n) = (ok, pb0)"
    by fastforce
  note core = probe_ready_keeps_inv [OF chk]
  have inv0: "probe_inv pb0" using probe_inv_core [OF core] by simp
  have cnt0: "pb_intercepted_updates pb0 = 0"
    using probe_core_eq [OF core] by (simp add: initial_probe_def)
  show ?thesis
  proof (cases "''cv2_capture_result_probe_ready'' \<in> set (tw_symbols tw)
      \<and> ''cv2_capture_result_probe_complete'' \<in> set (tw_symbols tw)
      \<and> tw_symbol_error tw = None \<and> ok \<noteq> 0")
    case False
    then have "status = 2 \<and> evs = [Readiness_Failed]"
      using assms(1) by (auto simp: cv_tod_capture_result_experiment_def chk split: if_splits)
    then show ?thesis by simp
  next
    case True
    show ?thesis
    proof (cases "find_broadcom (tw_drivers tw)")
      case None
      then have "status = 2 \<and> evs = [Boundary_Ready, Enumerated, No_Device]"
        using assms(1) True by (auto simp: cv_tod_capture_result_experiment_def chk)
      then show ?thesis by auto
    next
      case dev: (Some device)
      define before where
        "before = [Boundary_Ready, Enumerated] @ replicate (tw_open_signals tw) Signal_Received"
      have bef: "set before \<subseteq> {Boundary_Ready, Enumerated, Signal_Received}"
        by (auto simp: before_def)
      show ?thesis
      proof (cases "tw_open_error tw")
        case (Some m)
        then have "status = 3 \<and> evs = before @ [Open_Failed m]"
          using assms(1) True dev
          by (auto simp: cv_tod_capture_result_experiment_def chk before_def)
        then show ?thesis using bef by auto
      next
        case None
        then obtain out where run: "capture_run w tw device pb0 = Some (status, out, pb)"
          and evs: "evs = before @ out"
          using assms(1) True dev
          by (auto simp: cv_tod_capture_result_experiment_def chk before_def fault_split)
        then obtain st mid where loop: "capture_loop w (tw_loop tw) pb0 = Some (st, mid, pb)"
          and fin: "(status, out) = (case tw_close_error tw of
              Some m \<Rightarrow> (6, [Opened_Probe device, Enroll_Started] @ mid
                 @ replicate (tw_close_signals tw) Signal_Received @ [Close_Failed m])
            | None \<Rightarrow> (st, [Opened_Probe device, Enroll_Started] @ mid
                 @ replicate (tw_close_signals tw) Signal_Received @ [Closed]))"
          by (auto simp: capture_run_def fault_split Let_def split: option.splits)
        have "unat (pb_intercepted_updates pb0) + length (tw_loop tw) < 2 ^ 32"
          using cnt0 assms(2) by simp
        note eff = capture_loop_effect [OF inv0 this loop]
        have "pb_freed pb = [replicate CV2_CAPTURE_CAPACITY 0]
            \<and> (\<exists>handle eid st sz. captures pb = [Capture_Call handle CV2_CAPTURE_SELECTOR eid st sz]
                 \<and> sz \<le> of_nat CV2_CAPTURE_CAPACITY)" if "st = 0"
          using eff that
          by (auto simp: probe_inv_def cv2_capture_result_probe_complete_def)
        then show ?thesis
          using fin eff bef by (cases "tw_close_error tw") (auto simp: evs)
      qed
    qed
  qed
qed

lemma sample_capture_call:
  "\<exists>r pb'. probe_update_enrollment probe_sample_world True 7 8192 pb = Some (r, pb')
     \<and> cv2_capture_result_probe_complete pb'"
  if ready: "capture_probe_ready (pw_dso probe_sample_world) pb = (True, pb)"
    and fresh: "pb_intercepted_updates pb = 0" "pb_native_capture_result_calls pb = 0"
  for pb :: "nat probe"
proof -
  have small: "600 \<le> (of_nat CV2_CAPTURE_CAPACITY :: u32)" by (simp add: CV2_CAPTURE_CAPACITY_def)
  let ?pb = "pb\<lparr>pb_intercepted_updates := 1\<rparr>"
  obtain pb' where run: "probe_native_call probe_sample_world 7 8192 ?pb = Some pb'"
    using probe_native_sample by blast
  from probe_native_call_effect [OF run] obtain st sz out n where
    "pw_capture_at probe_sample_world (pc_capture_get_result (pb_cache ?pb)) (pb_native ?pb) 7
       CV2_CAPTURE_SELECTOR 8192 (of_nat CV2_CAPTURE_CAPACITY) blank_buffer = Some (st, sz, out, n)"
    and eff: "pb_native_capture_result_calls pb' = pb_native_capture_result_calls ?pb + 1"
      "pb_result_metadata_valid pb' = (sz \<le> of_nat CV2_CAPTURE_CAPACITY)"
      "pb_intercepted_updates pb' = pb_intercepted_updates ?pb"
    by blast
  then have "sz = 600" by (simp add: probe_sample_world_def)
  then have "cv2_capture_result_probe_complete pb'"
    using eff small fresh by (simp add: cv2_capture_result_probe_complete_def)
  then show ?thesis using run ready fresh by (simp add: probe_update_enrollment_def)
qed

lemma sample_capture_run:
  "\<exists>evs pb. cv_tod_capture_result_experiment probe_sample_world
       (sample_tod [''cv2_capture_result_probe_ready'', ''cv2_capture_result_probe_complete'']
          [Driver_update (True, 7, 8192), Done_event (Not_enrolled None)])
       (initial_probe (0 :: nat)) = Some (0, evs, pb)"
proof -
  obtain pb where ready: "capture_probe_ready (pw_dso probe_sample_world) (initial_probe (0 :: nat))
      = (True, pb)" using probe_sample_ready [of 0] by auto
  have again: "capture_probe_ready (pw_dso probe_sample_world) pb = (True, pb)"
    using probe_ready_once [OF ready]
    by (simp add: capture_probe_ready_def probe_sample_world_def probe_dso_def)
  have fresh: "pb_intercepted_updates pb = 0" "pb_native_capture_result_calls pb = 0"
    using probe_core_eq [OF capture_probe_ready_core [OF ready]] by (simp_all add: initial_probe_def)
  obtain r pb' where run: "probe_update_enrollment probe_sample_world True 7 8192 pb = Some (r, pb')"
    and "cv2_capture_result_probe_complete pb'"
    using sample_capture_call [OF again fresh] by blast
  then have "capture_loop probe_sample_world
      [Driver_update (True, 7, 8192), Done_event (Not_enrolled None)] pb
      = Some (0, [Probe_Completed], pb')"
    by (simp add: capture_exit_def)
  then show ?thesis
    using ready
    by (simp add: cv_tod_capture_result_experiment_def sample_tod_def find_broadcom_def
        cv2_capture_result_probe_ready_def capture_run_def Let_def del: capture_loop.simps)
qed

theorem capture_experiment_exit_witness:
  "\<exists>evs pb. cv_tod_capture_result_experiment probe_sample_world
       (sample_tod [''cv2_capture_result_probe_ready'', ''cv2_capture_result_probe_complete'']
          [Driver_update (True, 7, 8192), Done_event (Not_enrolled None)])
       (initial_probe (0 :: nat)) = Some (0, evs, pb)
     \<and> last evs = Closed \<and> pb_freed pb = [replicate CV2_CAPTURE_CAPACITY 0]"
proof -
  let ?tw = "sample_tod [''cv2_capture_result_probe_ready'', ''cv2_capture_result_probe_complete'']
     [Driver_update (True, 7, 8192), Done_event (Not_enrolled None)]"
  obtain evs pb where run: "cv_tod_capture_result_experiment probe_sample_world ?tw
      (initial_probe (0 :: nat)) = Some (0, evs, pb)"
    using sample_capture_run by blast
  have "length (tw_loop ?tw) < 2 ^ 32" by (simp add: sample_tod_def)
  from capture_experiment_exit [OF run this] run show ?thesis by blast
qed

end
