(* ===== verification/Rearm_Threads.thy ===== *)
theory Rearm_Threads
  imports Rearm_Counters Thread_Systems
begin

text \<open>
  The interposed \<open>cv_fingerprint_update_enrollment\<close> of \<open>tools/enrollment_0x89_rearm_preload.c\<close> on
  concurrent threads of a process that forwards. A thread is one call; a step is one atomic
  operation on the statics, the wiping of the shared input buffer, or a call into the driver.
  Threads interleave freely. The log and the metadata trace are left out.
\<close>

section \<open>Threads\<close>

text \<open>
  Where a thread is: at its entry; with its number from \<open>zero_input_update_count\<close>; past the gate of
  the zero-input policy (and past the \<open>memset\<close>); behind the native update, with its status and
  completion byte; in the legacy branch before the repetition; with its number from
  \<open>accepted_incomplete_count\<close>; before the re-arm of an accepted update; at the test for a bad
  capture; before the re-arm of a bad capture; returned.
\<close>

datatype rearm_pc =
    Rt_Start
  | Rt_Ticket u32
  | Rt_Gated
  | Rt_Updated u32 "byte option"
  | Rt_Again
  | Rt_Accepted u32
  | Rt_Accepted_Rearm
  | Rt_Tail u32
  | Rt_Bad_Rearm
  | Rt_Returned u32

text \<open>The statics, with the calls into the driver in the order in which they are made.\<close>

record rearm_shared =
  rt_zero_count :: u32
  rt_accepted :: u32
  rt_attempts :: u32
  rt_buffer :: "byte list"
  rt_calls :: "event list"

definition fresh_statics :: rearm_shared where
  "fresh_statics = \<lparr>rt_zero_count = 0, rt_accepted = 0, rt_attempts = 0,
     rt_buffer = replicate CV2_ENROLLMENT_VALUE_SIZE 0, rt_calls = []\<rparr>"

definition called :: "event \<Rightarrow> rearm_shared \<Rightarrow> rearm_shared" where
  "called e sh = sh\<lparr>rt_calls := rt_calls sh @ [e]\<rparr>"

text \<open>
  A step of the call with the arguments \<open>ua\<close>. \<open>wr before after\<close>: what the driver may do to the
  20 bytes behind the enrollment ID it is given.
\<close>

inductive rearm_thread_step ::
  "update_policy \<Rightarrow> ptr \<Rightarrow> (byte list \<Rightarrow> byte list \<Rightarrow> bool) \<Rightarrow> update_args
     \<Rightarrow> rearm_pc \<Rightarrow> rearm_shared \<Rightarrow> rearm_pc \<Rightarrow> rearm_shared \<Rightarrow> bool"
  for pol z wr ua where
  rt_no_gate: "pol \<noteq> zero_policy \<Longrightarrow> rearm_thread_step pol z wr ua Rt_Start sh Rt_Gated sh"
| rt_null: "pol = zero_policy \<Longrightarrow> ua_enrollment_id ua = 0 \<Longrightarrow>
    rearm_thread_step pol z wr ua Rt_Start sh (Rt_Returned CV_STATUS_EXPERIMENT_FAILURE) sh"
| rt_count: "pol = zero_policy \<Longrightarrow> ua_enrollment_id ua \<noteq> 0 \<Longrightarrow> n = rt_zero_count sh + 1 \<Longrightarrow>
    rearm_thread_step pol z wr ua Rt_Start sh (Rt_Ticket n) (sh\<lparr>rt_zero_count := n\<rparr>)"
| rt_over: "n > CV2_MAX_ZERO_INPUT_UPDATES \<Longrightarrow>
    rearm_thread_step pol z wr ua (Rt_Ticket n) sh (Rt_Returned CV_STATUS_EXPERIMENT_FAILURE) sh"
| rt_wipe: "n \<le> CV2_MAX_ZERO_INPUT_UPDATES \<Longrightarrow>
    rearm_thread_step pol z wr ua (Rt_Ticket n) sh Rt_Gated
      (sh\<lparr>rt_buffer := replicate CV2_ENROLLMENT_VALUE_SIZE 0\<rparr>)"
| rt_update: "(pol = zero_policy \<Longrightarrow> b = Some (rt_buffer sh) \<and> wr (rt_buffer sh) buf) \<Longrightarrow>
    (pol \<noteq> zero_policy \<Longrightarrow> buf = rt_buffer sh) \<Longrightarrow>
    rearm_thread_step pol z wr ua Rt_Gated sh (Rt_Updated st c)
      (called (Native_Update (effective_args pol z ua) b st c) (sh\<lparr>rt_buffer := buf\<rparr>))"
| rt_legacy: "pol = legacy_policy \<Longrightarrow> st \<noteq> CV_STATUS_UPDATE_AGAIN \<Longrightarrow>
    rearm_thread_step pol z wr ua (Rt_Updated st c) sh (Rt_Tail st) sh"
| rt_again: "pol = legacy_policy \<Longrightarrow>
    rearm_thread_step pol z wr ua (Rt_Updated CV_STATUS_UPDATE_AGAIN c) sh Rt_Again sh"
| rt_repeat: "rearm_thread_step pol z wr ua Rt_Again sh (Rt_Tail st)
      (called (Native_Update ua b st c) sh)"
| rt_status: "pol \<noteq> legacy_policy \<Longrightarrow> st \<noteq> CV_STATUS_SUCCESS \<Longrightarrow>
    rearm_thread_step pol z wr ua (Rt_Updated st c) sh (Rt_Tail st) sh"
| rt_completed: "pol \<noteq> legacy_policy \<Longrightarrow> c \<noteq> Some 0 \<Longrightarrow>
    rearm_thread_step pol z wr ua (Rt_Updated CV_STATUS_SUCCESS c) sh
      (Rt_Returned CV_STATUS_EXPERIMENT_FAILURE) sh"
| rt_incomplete: "pol \<noteq> legacy_policy \<Longrightarrow> \<not> update_policy_rearms_accepted pol \<Longrightarrow>
    rearm_thread_step pol z wr ua (Rt_Updated CV_STATUS_SUCCESS (Some 0)) sh
      (Rt_Tail CV_STATUS_SUCCESS) sh"
| rt_accept: "update_policy_rearms_accepted pol \<Longrightarrow> n = rt_accepted sh + 1 \<Longrightarrow>
    rearm_thread_step pol z wr ua (Rt_Updated CV_STATUS_SUCCESS (Some 0)) sh
      (Rt_Accepted n) (sh\<lparr>rt_accepted := n\<rparr>)"
| rt_limit: "n \<ge> CV2_MAX_ACCEPTED_UPDATES \<Longrightarrow>
    rearm_thread_step pol z wr ua (Rt_Accepted n) sh (Rt_Returned CV_STATUS_EXPERIMENT_FAILURE) sh"
| rt_attempt: "n < CV2_MAX_ACCEPTED_UPDATES \<Longrightarrow>
    rearm_thread_step pol z wr ua (Rt_Accepted n) sh Rt_Accepted_Rearm
      (sh\<lparr>rt_attempts := rt_attempts sh + 1\<rparr>)"
| rt_rearmed: "rearm_thread_step pol z wr ua Rt_Accepted_Rearm sh (Rt_Tail CV_STATUS_SUCCESS)
      (called (Native_Rearm CV_STATUS_SUCCESS) sh)"
| rt_rearm_failed: "rs \<noteq> CV_STATUS_SUCCESS \<Longrightarrow>
    rearm_thread_step pol z wr ua Rt_Accepted_Rearm sh (Rt_Returned (fatalize_rearm_status rs))
      (called (Native_Rearm rs) sh)"
| rt_pass: "st \<noteq> CV_STATUS_BAD_CAPTURE \<Longrightarrow>
    rearm_thread_step pol z wr ua (Rt_Tail st) sh (Rt_Returned st) sh"
| rt_bad: "rearm_thread_step pol z wr ua (Rt_Tail CV_STATUS_BAD_CAPTURE) sh Rt_Bad_Rearm
      (sh\<lparr>rt_attempts := rt_attempts sh + 1\<rparr>)"
| rt_bad_rearmed: "rearm_thread_step pol z wr ua Rt_Bad_Rearm sh
      (Rt_Returned CV_STATUS_BAD_CAPTURE) (called (Native_Rearm CV_STATUS_SUCCESS) sh)"
| rt_bad_failed: "rs \<noteq> CV_STATUS_SUCCESS \<Longrightarrow>
    rearm_thread_step pol z wr ua Rt_Bad_Rearm sh (Rt_Returned (fatalize_rearm_status rs))
      (called (Native_Rearm rs) sh)"

inductive_cases rearm_thread_stepE: "rearm_thread_step pol z wr ua pc sh pc' sh'"

text \<open>Calls on concurrent threads, from the fresh statics on.\<close>

abbreviation rearm_run ::
  "update_policy \<Rightarrow> ptr \<Rightarrow> (byte list \<Rightarrow> byte list \<Rightarrow> bool) \<Rightarrow> nat \<Rightarrow> (nat \<Rightarrow> update_args)
     \<Rightarrow> nat \<Rightarrow> (nat \<Rightarrow> rearm_pc) \<Rightarrow> rearm_shared \<Rightarrow> bool" where
  "rearm_run pol z wr N uas k pcs sh \<equiv>
     system_run (rearm_thread_step pol z wr) N uas (\<lambda>_. Rt_Start) fresh_statics k pcs sh"

lemma called_simps [simp]:
  "rt_zero_count (called e sh) = rt_zero_count sh" "rt_accepted (called e sh) = rt_accepted sh"
  "rt_attempts (called e sh) = rt_attempts sh" "rt_buffer (called e sh) = rt_buffer sh"
  "rt_calls (called e sh) = rt_calls sh @ [e]"
  by (simp_all add: called_def)

section \<open>Progress\<close>

fun rt_returned :: "rearm_pc \<Rightarrow> bool" where
  "rt_returned (Rt_Returned r) = True"
| "rt_returned _ = False"

fun rt_left :: "rearm_pc \<Rightarrow> nat" where
  "rt_left Rt_Start = 8"
| "rt_left (Rt_Ticket n) = 7"
| "rt_left Rt_Gated = 6"
| "rt_left (Rt_Updated st c) = 5"
| "rt_left Rt_Again = 4"
| "rt_left (Rt_Accepted n) = 4"
| "rt_left Rt_Accepted_Rearm = 3"
| "rt_left (Rt_Tail st) = 2"
| "rt_left Rt_Bad_Rearm = 1"
| "rt_left (Rt_Returned r) = 0"

text \<open>A driver that may do anything to its input.\<close>

abbreviation any_write :: "byte list \<Rightarrow> byte list \<Rightarrow> bool" where
  "any_write before after \<equiv> True"

lemma rearm_thread_descends:
  "rearm_thread_step pol z wr ua pc sh pc' sh' \<Longrightarrow> rt_left pc' < rt_left pc"
  by (erule rearm_thread_step.cases) simp_all

lemma rearm_thread_can_step:
  assumes "\<not> rt_returned pc"
  shows "\<exists>pc' sh'. rearm_thread_step pol z any_write ua pc sh pc' sh'"
proof (cases pc)
  case Rt_Start
  then show ?thesis
    using rt_no_gate rt_null rt_count by (cases "pol = zero_policy"; cases "ua_enrollment_id ua = 0") blast+
next
  case (Rt_Ticket n)
  then show ?thesis
    using rt_over [of n] rt_wipe [of n] not_le [of n CV2_MAX_ZERO_INPUT_UPDATES]
    by (cases "n \<le> CV2_MAX_ZERO_INPUT_UPDATES") blast+
next
  case Rt_Gated
  then show ?thesis
    using rt_update [of pol "Some (rt_buffer sh)" sh any_write "rt_buffer sh"] by blast
next
  case upd: (Rt_Updated st c)
  consider "pol = legacy_policy" "st \<noteq> CV_STATUS_UPDATE_AGAIN"
    | "pol = legacy_policy" "st = CV_STATUS_UPDATE_AGAIN"
    | "pol \<noteq> legacy_policy" "st \<noteq> CV_STATUS_SUCCESS"
    | "pol \<noteq> legacy_policy" "st = CV_STATUS_SUCCESS" "c \<noteq> Some 0"
    | "pol \<noteq> legacy_policy" "st = CV_STATUS_SUCCESS" "c = Some 0" "\<not> update_policy_rearms_accepted pol"
    | "st = CV_STATUS_SUCCESS" "c = Some 0" "update_policy_rearms_accepted pol"
    by blast
  then show ?thesis
    unfolding upd by cases (blast intro: rearm_thread_step.intros)+
next
  case Rt_Again
  then show ?thesis using rt_repeat by blast
next
  case (Rt_Accepted n)
  then show ?thesis
    using rt_limit [of n] rt_attempt [of n] not_less [of n CV2_MAX_ACCEPTED_UPDATES]
    by (cases "n < CV2_MAX_ACCEPTED_UPDATES") blast+
next
  case Rt_Accepted_Rearm
  then show ?thesis using rt_rearmed by blast
next
  case (Rt_Tail st)
  then show ?thesis using rt_pass rt_bad by (cases "st = CV_STATUS_BAD_CAPTURE") blast+
next
  case Rt_Bad_Rearm
  then show ?thesis using rt_bad_rearmed by blast
next
  case (Rt_Returned r)
  then show ?thesis using assms by simp
qed

interpretation rearm_progress: wait_free "rearm_thread_step pol z any_write" rt_returned rt_left for pol z
  by unfold_locales (rule rearm_thread_can_step, assumption, rule rearm_thread_descends)

section \<open>The two limits\<close>

text \<open>
  Under the zero-input policy a number up to 24 is the ticket to the native update; under a
  re-arming policy a number of the accepted count below 4 is the ticket to return success.
\<close>

fun may_update :: "rearm_pc \<Rightarrow> bool" where
  "may_update (Rt_Ticket n) = (n \<le> CV2_MAX_ZERO_INPUT_UPDATES)"
| "may_update Rt_Gated = True"
| "may_update Rt_Again = True"
| "may_update _ = False"

interpretation zero_tickets: ticket_limit "rearm_thread_step zero_policy z wr" rt_zero_count
  CV2_MAX_ZERO_INPUT_UPDATES "\<lambda>pc. pc \<noteq> Rt_Start" may_update "\<lambda>sh. length (updates (rt_calls sh))"
  for z wr
proof
  fix ua pc sh pc' sh'
  assume "rearm_thread_step zero_policy z wr ua pc sh pc' sh'"
  then show "rt_zero_count sh' = rt_zero_count sh \<and> (pc \<noteq> Rt_Start \<longrightarrow> pc' \<noteq> Rt_Start)
        \<and> length (updates (rt_calls sh')) + of_bool (may_update pc')
              \<le> length (updates (rt_calls sh)) + of_bool (may_update pc)
    \<or> \<not> pc \<noteq> Rt_Start \<and> pc' \<noteq> Rt_Start \<and> \<not> may_update pc
        \<and> rt_zero_count sh' = rt_zero_count sh + 1
        \<and> length (updates (rt_calls sh')) = length (updates (rt_calls sh))
        \<and> (may_update pc' \<longrightarrow> rt_zero_count sh + 1 \<le> CV2_MAX_ZERO_INPUT_UPDATES)"
    by (rule rearm_thread_step.cases) (simp_all add: not_le)
qed

fun past_accepted :: "rearm_pc \<Rightarrow> bool" where
  "past_accepted (Rt_Accepted n) = True"
| "past_accepted Rt_Accepted_Rearm = True"
| "past_accepted Rt_Again = True"
| "past_accepted (Rt_Tail st) = True"
| "past_accepted Rt_Bad_Rearm = True"
| "past_accepted (Rt_Returned r) = True"
| "past_accepted _ = False"

fun may_succeed :: "rearm_pc \<Rightarrow> bool" where
  "may_succeed (Rt_Accepted n) = (n < CV2_MAX_ACCEPTED_UPDATES)"
| "may_succeed Rt_Accepted_Rearm = True"
| "may_succeed Rt_Again = True"
| "may_succeed (Rt_Tail st) = (st = CV_STATUS_SUCCESS)"
| "may_succeed (Rt_Returned r) = (r = CV_STATUS_SUCCESS)"
| "may_succeed _ = False"

definition rearming_thread_step ::
  "update_policy \<Rightarrow> ptr \<Rightarrow> (byte list \<Rightarrow> byte list \<Rightarrow> bool) \<Rightarrow> update_args
     \<Rightarrow> rearm_pc \<Rightarrow> rearm_shared \<Rightarrow> rearm_pc \<Rightarrow> rearm_shared \<Rightarrow> bool" where
  "rearming_thread_step pol z wr ua pc sh pc' sh' \<longleftrightarrow>
     update_policy_rearms_accepted pol \<and> rearm_thread_step pol z wr ua pc sh pc' sh'"

lemma rearming_not_legacy: "update_policy_rearms_accepted pol \<Longrightarrow> pol \<noteq> legacy_policy"
  by auto

interpretation success_tickets: ticket_limit "rearming_thread_step pol z wr" rt_accepted 3
  past_accepted may_succeed "\<lambda>sh. 0" for pol z wr
proof
  fix ua pc sh pc' sh'
  assume "rearming_thread_step pol z wr ua pc sh pc' sh'"
  then have pol: "update_policy_rearms_accepted pol" "pol \<noteq> legacy_policy"
    and "rearm_thread_step pol z wr ua pc sh pc' sh'"
    by (auto simp: rearming_thread_step_def dest: rearming_not_legacy)
  from this(3) show "rt_accepted sh' = rt_accepted sh \<and> (past_accepted pc \<longrightarrow> past_accepted pc')
        \<and> 0 + of_bool (may_succeed pc') \<le> 0 + (of_bool (may_succeed pc) :: nat)
    \<or> \<not> past_accepted pc \<and> past_accepted pc' \<and> \<not> may_succeed pc
        \<and> rt_accepted sh' = rt_accepted sh + 1 \<and> (0 :: nat) = 0
        \<and> (may_succeed pc' \<longrightarrow> rt_accepted sh + 1 \<le> 3)"
    by (rule rearm_thread_step.cases) (use pol in \<open>simp_all add: below_accepted_limit not_le\<close>)
qed

section \<open>The sequential call\<close>

abbreviation alone ::
  "update_policy \<Rightarrow> ptr \<Rightarrow> update_args \<Rightarrow> rearm_pc \<Rightarrow> rearm_shared \<Rightarrow> rearm_pc \<Rightarrow> rearm_shared \<Rightarrow> bool" where
  "alone pol z \<equiv> solo_run (rearm_thread_step pol z any_write)"

abbreviation statics :: "u32 \<Rightarrow> u32 \<Rightarrow> u32 \<Rightarrow> byte list \<Rightarrow> event list \<Rightarrow> rearm_shared" where
  "statics zc ac atn buf cs \<equiv> \<lparr>rt_zero_count = zc, rt_accepted = ac, rt_attempts = atn,
     rt_buffer = buf, rt_calls = cs\<rparr>"

lemmas alone_one = solo_run_one [where tstep = "rearm_thread_step pol z any_write" for pol z]

lemma gate_alone:
  assumes "admitted pol ua zc zc' b"
  shows "\<exists>buf'. alone pol z ua Rt_Start (statics zc ac atn buf cs) Rt_Gated (statics zc' ac atn buf' cs)
     \<and> (pol = zero_policy \<longrightarrow> b = Some buf')"
proof (cases "pol = zero_policy")
  case False
  then have "zc' = zc" using assms by (simp add: admitted_def)
  with alone_one [OF rt_no_gate [OF False]] False show ?thesis by blast
next
  case True
  let ?zeros = "replicate CV2_ENROLLMENT_VALUE_SIZE 0 :: byte list"
  have a: "ua_enrollment_id ua \<noteq> 0" "zc' \<le> CV2_MAX_ZERO_INPUT_UPDATES" "zc' = zc + 1" "b = Some ?zeros"
    using assms True by (auto simp: admitted_def)
  have "alone pol z ua Rt_Start (statics zc ac atn buf cs) (Rt_Ticket zc') (statics zc' ac atn buf cs)"
    using alone_one [OF rt_count [OF True a(1)], of zc' "statics zc ac atn buf cs" z] a(3) by simp
  moreover have "alone pol z ua (Rt_Ticket zc') (statics zc' ac atn buf cs) Rt_Gated
      (statics zc' ac atn ?zeros cs)"
    using alone_one [OF rt_wipe [OF a(2)], of pol z ua "statics zc' ac atn buf cs"] by simp
  ultimately show ?thesis using a(4) by (blast intro: solo_run_trans)
qed

lemma update_alone:
  assumes "admitted pol ua zc zc' b"
  shows "\<exists>buf'. alone pol z ua Rt_Start (statics zc ac atn buf cs) (Rt_Updated st c)
     (statics zc' ac atn buf' (cs @ [Native_Update (effective_args pol z ua) b st c]))"
proof -
  obtain buf' where gate: "alone pol z ua Rt_Start (statics zc ac atn buf cs) Rt_Gated
      (statics zc' ac atn buf' cs)" and b: "pol = zero_policy \<longrightarrow> b = Some buf'"
    using gate_alone [OF assms] by blast
  have "rearm_thread_step pol z any_write ua Rt_Gated (statics zc' ac atn buf' cs) (Rt_Updated st c)
      (called (Native_Update (effective_args pol z ua) b st c)
        ((statics zc' ac atn buf' cs)\<lparr>rt_buffer := buf'\<rparr>))"
    by (rule rt_update) (simp_all add: b)
  from solo_run_trans [OF gate alone_one [OF this]] show ?thesis by (auto simp: called_def)
qed

lemma tail_alone:
  assumes "ending st calls r"
  shows "alone pol z ua (Rt_Tail st) (statics zc ac atn buf cs) (Rt_Returned r)
     (statics zc ac (atn + of_nat (length (rearms calls))) buf (cs @ calls))"
  using assms
proof cases
  case pass
  then show ?thesis using alone_one [OF rt_pass, of st pol z ua] by simp
next
  case rearmed
  have "alone pol z ua (Rt_Tail CV_STATUS_BAD_CAPTURE) (statics zc ac atn buf cs) Rt_Bad_Rearm
      (statics zc ac (atn + 1) buf cs)"
    using alone_one [OF rt_bad, of pol z ua "statics zc ac atn buf cs"] by simp
  from solo_run_trans [OF this alone_one [OF rt_bad_rearmed]] show ?thesis
    by (simp add: rearmed called_def)
next
  case (rearm_failed rs)
  have "alone pol z ua (Rt_Tail CV_STATUS_BAD_CAPTURE) (statics zc ac atn buf cs) Rt_Bad_Rearm
      (statics zc ac (atn + 1) buf cs)"
    using alone_one [OF rt_bad, of pol z ua "statics zc ac atn buf cs"] by simp
  from solo_run_trans [OF this alone_one [OF rt_bad_failed [OF rearm_failed(4)]]] show ?thesis
    by (simp add: rearm_failed called_def)
qed

text \<open>Behind the native update of an accepted incomplete update.\<close>

lemma accepted_alone:
  assumes "update_policy_rearms_accepted pol"
  shows "alone pol z ua (Rt_Updated CV_STATUS_SUCCESS (Some 0)) (statics zc ac atn buf cs)
     (Rt_Accepted (ac + 1)) (statics zc (ac + 1) atn buf cs)"
  using alone_one [OF rt_accept [OF assms], of "ac + 1" "statics zc ac atn buf cs"] by simp

lemma rearm_accepted_alone:
  assumes "update_policy_rearms_accepted pol" and "ac + 1 < CV2_MAX_ACCEPTED_UPDATES"
  shows "alone pol z ua (Rt_Updated CV_STATUS_SUCCESS (Some 0)) (statics zc ac atn buf cs)
     Rt_Accepted_Rearm (statics zc (ac + 1) (atn + 1) buf cs)"
  using solo_run_trans [OF accepted_alone [OF assms(1)] alone_one [OF rt_attempt [OF assms(2)]]]
  by simp

text \<open>A call that passes the gate: the run to the update, and the rest of it.\<close>

lemma through_alone:
  assumes adm: "admitted pol ua zc zc' b"
    and calls: "calls = Native_Update (effective_args pol z ua) b st c # rest"
    and rest: "\<And>buf cs. alone pol z ua (Rt_Updated st c) (statics zc' ac atn buf cs) (Rt_Returned r)
           (statics zc' ac' (atn + of_nat (length (rearms rest))) buf (cs @ rest))"
  shows "\<exists>buf'. alone pol z ua Rt_Start (statics zc ac atn buf cs) (Rt_Returned r)
     (statics zc' ac' (atn + of_nat (length (rearms calls))) buf' (cs @ calls))"
proof -
  let ?upd = "Native_Update (effective_args pol z ua) b st c"
  obtain buf' where "alone pol z ua Rt_Start (statics zc ac atn buf cs) (Rt_Updated st c)
      (statics zc' ac atn buf' (cs @ [?upd]))"
    using update_alone [OF adm] by blast
  moreover have "alone pol z ua (Rt_Updated st c) (statics zc' ac atn buf' (cs @ [?upd]))
      (Rt_Returned r) (statics zc' ac' (atn + of_nat (length (rearms calls))) buf' (cs @ calls))"
    using rest [of buf' "cs @ [?upd]"] calls by simp
  ultimately show ?thesis by (blast intro: solo_run_trans)
qed

lemma repeat_alone:
  assumes "pol = legacy_policy" and "ending st calls r"
  shows "alone pol z ua (Rt_Updated CV_STATUS_UPDATE_AGAIN c) (statics zc ac atn buf cs)
     (Rt_Returned r) (statics zc ac (atn + of_nat (length (rearms calls))) buf
        (cs @ Native_Update ua b st c' # calls))"
proof -
  have "alone pol z ua (Rt_Updated CV_STATUS_UPDATE_AGAIN c) (statics zc ac atn buf cs) (Rt_Tail st)
      (called (Native_Update ua b st c') (statics zc ac atn buf cs))"
    using solo_run_trans [OF alone_one [OF rt_again [OF assms(1)]] alone_one [OF rt_repeat]] .
  moreover have "alone pol z ua (Rt_Tail st) (called (Native_Update ua b st c') (statics zc ac atn buf cs))
      (Rt_Returned r) (statics zc ac (atn + of_nat (length (rearms calls))) buf
        (cs @ Native_Update ua b st c' # calls))"
    using tail_alone [OF assms(2), of pol z ua zc ac atn buf "cs @ [Native_Update ua b st c']"]
    by (simp add: called_def)
  ultimately show ?thesis by (rule solo_run_trans)
qed

text \<open>Every step of the abstract machine is a run of one thread from its entry to its return.\<close>

lemma machine_alone:
  assumes "wrapper_step pol z ua (zc, ac) calls r (zc', ac')"
  shows "\<exists>buf'. alone pol z ua Rt_Start (statics zc ac atn buf cs) (Rt_Returned r)
     (statics zc' ac' (atn + of_nat (length (rearms calls))) buf' (cs @ calls))"
  using assms
proof cases
  case null_input
  then show ?thesis using alone_one [OF rt_null, of pol ua z] by auto
next
  case over_limit
  have one: "alone pol z ua Rt_Start (statics zc ac atn buf cs) (Rt_Ticket (zc + 1))
      (statics (zc + 1) ac atn buf cs)"
    using alone_one [OF rt_count, of pol ua "zc + 1" "statics zc ac atn buf cs" z] over_limit by simp
  have "alone pol z ua (Rt_Ticket (zc + 1)) sh (Rt_Returned CV_STATUS_EXPERIMENT_FAILURE) sh" for sh
    using over_limit by (intro alone_one rt_over)
  then show ?thesis using solo_run_trans [OF one] over_limit by auto
next
  case (legacy_once st calls' b c)
  have "alone pol z ua (Rt_Updated st c) sh (Rt_Tail st) sh" for sh
    using legacy_once by (intro alone_one rt_legacy)
  from solo_run_trans [OF this tail_alone [OF legacy_once(6)]] show ?thesis
    using legacy_once
    by (intro through_alone [where b = b and st = st and c = c and rest = calls'])
      (simp_all add: admitted_def effective_args_def)
next
  case (legacy_twice st calls' b c b' c')
  then show ?thesis
    by (intro through_alone [where b = b and st = CV_STATUS_UPDATE_AGAIN and c = c and rest = "Native_Update ua b' st c' # calls'"])
      (simp_all add: admitted_def effective_args_def repeat_alone)
next
  case (fresh_status b st calls' c)
  have "alone pol z ua (Rt_Updated st c) sh (Rt_Tail st) sh" for sh
    using fresh_status by (intro alone_one rt_status)
  from solo_run_trans [OF this tail_alone [OF fresh_status(6)]] show ?thesis
    using fresh_status by (intro through_alone [where b = b and st = st and c = c and rest = calls']) simp_all
next
  case (fresh_completed b c)
  have "alone pol z ua (Rt_Updated CV_STATUS_SUCCESS c) sh
      (Rt_Returned CV_STATUS_EXPERIMENT_FAILURE) sh" for sh
    using fresh_completed
    by (intro alone_one rt_completed)
  then show ?thesis
    using fresh_completed
    by (intro through_alone [where b = b and st = CV_STATUS_SUCCESS and c = c and rest = "[]"])
      simp_all
next
  case (fresh_incomplete b)
  have "alone pol z ua (Rt_Updated CV_STATUS_SUCCESS (Some 0)) sh (Rt_Tail CV_STATUS_SUCCESS) sh" for sh
    using fresh_incomplete by (intro alone_one rt_incomplete)
  moreover have "alone pol z ua (Rt_Tail CV_STATUS_SUCCESS) sh (Rt_Returned CV_STATUS_SUCCESS) sh" for sh
    by (intro alone_one rt_pass) simp
  ultimately have "alone pol z ua (Rt_Updated CV_STATUS_SUCCESS (Some 0)) sh
      (Rt_Returned CV_STATUS_SUCCESS) sh" for sh
    by (rule solo_run_trans)
  then show ?thesis
    using fresh_incomplete
    by (intro through_alone [where b = b and st = CV_STATUS_SUCCESS and c = "Some 0" and rest = "[]"])
      simp_all
next
  case (accepted_limit b)
  have "alone pol z ua (Rt_Accepted (ac + 1)) sh (Rt_Returned CV_STATUS_EXPERIMENT_FAILURE) sh" for sh
    using accepted_limit by (intro alone_one rt_limit)
  from solo_run_trans [OF accepted_alone [OF accepted_limit(4)] this] show ?thesis
    using accepted_limit
    by (intro through_alone [where b = b and st = CV_STATUS_SUCCESS and c = "Some 0" and rest = "[]"])
      simp_all
next
  case (accepted_rearmed b)
  have pass: "alone pol z ua (Rt_Tail CV_STATUS_SUCCESS) sh (Rt_Returned CV_STATUS_SUCCESS) sh" for sh
    by (intro alone_one rt_pass) simp
  note acc = rearm_accepted_alone [OF accepted_rearmed(4,6)]
  from solo_run_trans [OF solo_run_trans [OF acc alone_one [OF rt_rearmed]] pass] show ?thesis
    using accepted_rearmed
    by (intro through_alone [where b = b and st = CV_STATUS_SUCCESS and c = "Some 0" and rest = "[Native_Rearm CV_STATUS_SUCCESS]"])
      (simp_all add: called_def)
next
  case (accepted_rearm_failed b rs)
  note acc = rearm_accepted_alone [OF accepted_rearm_failed(4,6)]
  from solo_run_trans [OF acc alone_one [OF rt_rearm_failed [OF accepted_rearm_failed(7)]]]
  show ?thesis
    using accepted_rearm_failed
    by (intro through_alone [where b = b and st = CV_STATUS_SUCCESS and c = "Some 0" and rest = "[Native_Rearm rs]"])
      (simp_all add: called_def)
qed

text \<open>
  The statics of a process as the threads share them. The input buffer is memory; \<open>buf\<close> stands for
  its contents.
\<close>

definition process_statics :: "byte list \<Rightarrow> 'w process \<Rightarrow> rearm_shared" where
  "process_statics buf pr = statics (pr_zero_input_update_count pr)
     (pr_accepted_incomplete_count pr) (pr_retry_attempt pr) buf (native_calls pr)"

lemma rearms_native [simp]: "rearms (native_calls pr) = rearms (pr_events pr)"
proof -
  have "is_rearm e \<Longrightarrow> is_native e" for e by (cases e) auto
  then show ?thesis by (simp add: rearms_def native_calls_def conj_absorb cong: conj_cong)
      (metis (mono_tags, lifting) filter_cong)
qed

lemma wrapper_alone:
  assumes chk: "check_forwarding w pr = (True, pr0)"
    and run: "cv_fingerprint_update_enrollment w ua pr = Some (r, pr')"
  shows "\<exists>buf'. alone (rc_update_policy (cache pr0)) (rw_zero_update_input w) ua Rt_Start
     (process_statics buf pr) (Rt_Returned r) (process_statics buf' pr')"
proof -
  obtain calls where calls: "native_calls pr' = native_calls pr @ calls"
    and step: "wrapper_step (rc_update_policy (cache pr0)) (rw_zero_update_input w) ua
         (counts pr) calls r (counts pr')"
    using wrapper_implements_machine [OF chk run] by blast
  have "attempt_drift pr' = attempt_drift pr"
    using wrapper_drift [OF chk run] chk
    by (auto simp: drifts_alike_def check_forwarding_def split: prod.splits)
  moreover have "rearms (pr_events pr') = rearms (pr_events pr) @ rearms calls"
    using arg_cong [OF calls, of rearms] by simp
  ultimately have "pr_retry_attempt pr' = pr_retry_attempt pr + of_nat (length (rearms calls))"
    by (simp add: attempt_drift_def algebra_simps)
  then show ?thesis
    using machine_alone [of _ _ ua "fst (counts pr)" "snd (counts pr)" calls r "fst (counts pr')"
        "snd (counts pr')" "pr_retry_attempt pr" buf "native_calls pr"] step calls
    by (simp add: process_statics_def)
qed

section \<open>The shared input buffer\<close>

text \<open>A driver that leaves a zero input as it is.\<close>

definition keeps_zero_input :: "(byte list \<Rightarrow> byte list \<Rightarrow> bool) \<Rightarrow> bool" where
  "keeps_zero_input wr \<longleftrightarrow> (\<forall>b. wr (replicate CV2_ENROLLMENT_VALUE_SIZE 0) b \<longrightarrow>
     b = replicate CV2_ENROLLMENT_VALUE_SIZE 0)"

definition zero_input_update :: "ptr \<Rightarrow> update_args \<Rightarrow> event \<Rightarrow> bool" where
  "zero_input_update z ua e \<longleftrightarrow> (\<exists>st c. e = Native_Update (ua\<lparr>ua_enrollment_id := z\<rparr>)
     (Some (replicate CV2_ENROLLMENT_VALUE_SIZE 0)) st c)"

lemma zero_input_kept:
  assumes "rearm_run zero_policy z wr N uas k pcs sh" and "keeps_zero_input wr"
  shows "rt_buffer sh = replicate CV2_ENROLLMENT_VALUE_SIZE 0 \<and> (\<forall>t < N. pcs t \<noteq> Rt_Again)
     \<and> (\<forall>e \<in> set (updates (rt_calls sh)). \<exists>t < N. zero_input_update z (uas t) e)"
  using assms(1)
proof (induction rule: system_run.induct)
  case system_start
  then show ?case by (simp add: fresh_statics_def)
next
  case (system_step k pcs sh t pc sh')
  have "pcs t \<noteq> Rt_Again" using system_step.IH system_step.hyps(2) by blast
  with system_step.hyps(3) system_step.IH
  have "rt_buffer sh' = replicate CV2_ENROLLMENT_VALUE_SIZE 0 \<and> pc \<noteq> Rt_Again
     \<and> (\<forall>e \<in> set (updates (rt_calls sh')). e \<in> set (updates (rt_calls sh)) \<or> zero_input_update z (uas t) e)"
    by (cases rule: rearm_thread_step.cases)
      (use assms(2) in \<open>auto simp: keeps_zero_input_def zero_input_update_def effective_args_def\<close>)
  then have "rt_buffer sh' = replicate CV2_ENROLLMENT_VALUE_SIZE 0" "pc \<noteq> Rt_Again"
    and "\<forall>e \<in> set (updates (rt_calls sh')). \<exists>t < N. zero_input_update z (uas t) e"
    using system_step.IH system_step.hyps(2) by blast+
  then show ?case using system_step.IH by simp
qed

end
