(* ===== verification/Mutex_Systems.thy ===== *)
theory Mutex_Systems
  imports Thread_Systems
begin

text \<open>
  Systems of threads with a critical section: the contract of a mutex that guards shared data, and
  what follows from it for every interleaving. Unlike the threads of \<open>wait_free\<close> these may wait, so
  progress is a property of the system and not of a thread.
\<close>

section \<open>Mutual exclusion\<close>

text \<open>
  \<open>inside\<close> positions are those in the critical section. \<open>resting\<close> is what holds of the statics while
  the mutex is free, \<open>section_ok\<close> what a thread inside keeps; steps of threads outside disturb
  neither. \<open>local_ok\<close> is what a thread knows of its own position.
\<close>

locale mutex_system =
  fixes tstep :: "'rq \<Rightarrow> 'pc \<Rightarrow> 'sh \<Rightarrow> 'pc \<Rightarrow> 'sh \<Rightarrow> bool"
    and inside :: "'pc \<Rightarrow> bool"
    and locked :: "'sh \<Rightarrow> bool"
    and local_ok :: "'rq \<Rightarrow> 'pc \<Rightarrow> bool"
    and resting :: "'sh \<Rightarrow> bool"
    and section_ok :: "'rq \<Rightarrow> 'pc \<Rightarrow> 'sh \<Rightarrow> bool"
  assumes knows: "tstep rq pc sh pc' sh' \<Longrightarrow> local_ok rq pc \<Longrightarrow> local_ok rq pc'"
    and enter: "tstep rq pc sh pc' sh' \<Longrightarrow> \<not> inside pc \<Longrightarrow> inside pc' \<Longrightarrow> local_ok rq pc \<Longrightarrow>
      \<not> locked sh \<and> locked sh' \<and> (resting sh \<longrightarrow> section_ok rq pc' sh')"
    and outside: "tstep rq pc sh pc' sh' \<Longrightarrow> \<not> inside pc \<Longrightarrow> \<not> inside pc' \<Longrightarrow> local_ok rq pc \<Longrightarrow>
      locked sh' = locked sh \<and> (resting sh \<longrightarrow> resting sh')
      \<and> (section_ok rq2 pc2 sh \<longrightarrow> section_ok rq2 pc2 sh')"
    and within: "tstep rq pc sh pc' sh' \<Longrightarrow> inside pc \<Longrightarrow> inside pc' \<Longrightarrow> local_ok rq pc \<Longrightarrow>
      section_ok rq pc sh \<Longrightarrow> locked sh' = locked sh \<and> section_ok rq pc' sh'"
    and leave: "tstep rq pc sh pc' sh' \<Longrightarrow> inside pc \<Longrightarrow> \<not> inside pc' \<Longrightarrow> local_ok rq pc \<Longrightarrow>
      section_ok rq pc sh \<Longrightarrow> \<not> locked sh' \<and> resting sh'"
begin

definition consistent :: "nat \<Rightarrow> (nat \<Rightarrow> 'rq) \<Rightarrow> (nat \<Rightarrow> 'pc) \<Rightarrow> 'sh \<Rightarrow> bool" where
  "consistent N rqs pcs sh \<longleftrightarrow>
     (\<forall>t < N. local_ok (rqs t) (pcs t))
     \<and> (if locked sh then \<exists>t < N. inside (pcs t) \<and> section_ok (rqs t) (pcs t) sh
                          \<and> (\<forall>s < N. inside (pcs s) \<longrightarrow> s = t)
        else resting sh \<and> (\<forall>t < N. \<not> inside (pcs t)))"

lemma consistent_local: "consistent N rqs pcs sh \<Longrightarrow> t < N \<Longrightarrow> local_ok (rqs t) (pcs t)"
  by (simp add: consistent_def)

lemma consistent_locked:
  assumes "consistent N rqs pcs sh" and "locked sh"
  obtains u where "u < N" and "inside (pcs u)" and "section_ok (rqs u) (pcs u) sh"
    and "\<And>s. s < N \<Longrightarrow> inside (pcs s) \<Longrightarrow> s = u"
proof -
  have "\<exists>u < N. inside (pcs u) \<and> section_ok (rqs u) (pcs u) sh \<and> (\<forall>s < N. inside (pcs s) \<longrightarrow> s = u)"
    using assms by (simp add: consistent_def)
  then show thesis by (elim exE conjE) (rule that, assumption, assumption, assumption, blast)
qed

lemma consistent_free:
  assumes "consistent N rqs pcs sh" and "\<not> locked sh"
  shows "resting sh" and "t < N \<Longrightarrow> \<not> inside (pcs t)"
  using assms by (simp_all add: consistent_def)

lemma consistent_lockedI:
  assumes "\<forall>s < N. local_ok (rqs s) (pcs s)" and "locked sh" and "u < N" and "inside (pcs u)"
    and "section_ok (rqs u) (pcs u) sh" and "\<And>s. s < N \<Longrightarrow> s \<noteq> u \<Longrightarrow> \<not> inside (pcs s)"
  shows "consistent N rqs pcs sh"
proof -
  have "\<exists>t < N. inside (pcs t) \<and> section_ok (rqs t) (pcs t) sh \<and> (\<forall>s < N. inside (pcs s) \<longrightarrow> s = t)"
    using assms(3-6) by blast
  then show ?thesis using assms(1,2) by (simp add: consistent_def)
qed

lemma consistent_freeI:
  assumes "\<forall>s < N. local_ok (rqs s) (pcs s)" and "\<not> locked sh" and "resting sh"
    and "\<And>s. s < N \<Longrightarrow> \<not> inside (pcs s)"
  shows "consistent N rqs pcs sh"
  using assms by (simp add: consistent_def)

lemma consistent_step:
  assumes "consistent N rqs pcs sh" and "t < N" and step: "tstep (rqs t) (pcs t) sh pc sh'"
  shows "consistent N rqs (pcs(t := pc)) sh'"
proof -
  have loc: "local_ok (rqs t) (pcs t)" using assms(1,2) by (rule consistent_local)
  have locals: "\<forall>s < N. local_ok (rqs s) ((pcs(t := pc)) s)"
    using consistent_local [OF assms(1)] knows [OF step loc] by simp
  show ?thesis
  proof (cases "locked sh")
    case True
    from consistent_locked [OF assms(1) this] obtain u
      where u: "u < N" "inside (pcs u)" "section_ok (rqs u) (pcs u) sh"
      and only: "\<And>s. s < N \<Longrightarrow> inside (pcs s) \<Longrightarrow> s = u" by blast
    consider "t = u" "inside pc" | "t = u" "\<not> inside pc" | "t \<noteq> u" by blast
    then show ?thesis
    proof cases
      case 1
      then have "locked sh' \<and> section_ok (rqs u) pc sh'"
        using within [OF step _ _ loc] u(2,3) True by blast
      moreover have "\<not> inside ((pcs(t := pc)) s)" if "s < N" "s \<noteq> u" for s
        using only [OF that(1)] that(2) 1(1) by auto
      ultimately show ?thesis using 1 u(1) by (intro consistent_lockedI [OF locals, of _ u]) simp_all
    next
      case 2
      then have "\<not> locked sh' \<and> resting sh'" using leave [OF step _ _ loc] u(2,3) by blast
      moreover have "\<not> inside ((pcs(t := pc)) s)" if "s < N" for s using 2 only [OF that] by auto
      ultimately show ?thesis by (intro consistent_freeI [OF locals]) blast+
    next
      case 3
      then have out: "\<not> inside (pcs t)" using only assms(2) by blast
      then have "\<not> inside pc" using enter [OF step _ _ loc] True by blast
      from outside [OF step out this loc] have "locked sh'" "section_ok (rqs u) (pcs u) sh'"
        using u(3) True by blast+
      moreover have "\<not> inside ((pcs(t := pc)) s)" if "s < N" "s \<noteq> u" for s
        using only [OF that(1)] that(2) \<open>\<not> inside pc\<close> by auto
      ultimately show ?thesis using 3 u(1,2) by (intro consistent_lockedI [OF locals, of _ u]) simp_all
    qed
  next
    case False
    note rest = consistent_free(1) [OF assms(1) False] and none = consistent_free(2) [OF assms(1) False]
    show ?thesis
    proof (cases "inside pc")
      case True
      then have "locked sh' \<and> section_ok (rqs t) pc sh'"
        using enter [OF step _ True loc] none [OF assms(2)] rest by blast
      then show ?thesis
        using True none assms(2) by (intro consistent_lockedI [OF locals, of _ t]) simp_all
    next
      case out: False
      then have "\<not> locked sh' \<and> resting sh'"
        using outside [OF step none [OF assms(2)] out loc] rest False by blast
      then show ?thesis using none out by (intro consistent_freeI [OF locals]) simp_all
    qed
  qed
qed

lemma run_consistent:
  assumes "system_run tstep N rqs pcs0 sh0 k pcs sh" and "consistent N rqs pcs0 sh0"
  shows "consistent N rqs pcs sh"
  using assms by (induction rule: system_run.induct) (auto intro: consistent_step simp del: fun_upd_apply)

lemma at_most_one_inside: "consistent N rqs pcs sh \<Longrightarrow> tally inside N pcs = of_bool (locked sh)"
proof (cases "locked sh")
  case True
  assume "consistent N rqs pcs sh"
  from consistent_locked [OF this True] obtain t
    where "t < N" "inside (pcs t)" "\<And>s. s < N \<Longrightarrow> inside (pcs s) \<Longrightarrow> s = t" by blast
  then have "{s. s < N \<and> inside (pcs s)} = {t}" by blast
  then show ?thesis using True by (simp add: tally_card)
next
  case False
  assume "consistent N rqs pcs sh"
  then show ?thesis using False by (simp add: consistent_def tally_zero)
qed

end

section \<open>Freedom from deadlock\<close>

text \<open>
  A thread inside can always go on, a thread outside at least while the mutex is free, and every
  step brings its thread closer to its end.
\<close>

locale mutex_progress = mutex_system tstep inside locked local_ok resting section_ok
  for tstep :: "'rq \<Rightarrow> 'pc \<Rightarrow> 'sh \<Rightarrow> 'pc \<Rightarrow> 'sh \<Rightarrow> bool"
    and inside locked local_ok resting section_ok +
  fixes finished :: "'pc \<Rightarrow> bool"
    and rank :: "'pc \<Rightarrow> nat"
  assumes inside_moves: "inside pc \<Longrightarrow> local_ok rq pc \<Longrightarrow> section_ok rq pc sh \<Longrightarrow>
      \<exists>pc' sh'. tstep rq pc sh pc' sh'"
    and outside_moves: "\<not> inside pc \<Longrightarrow> \<not> finished pc \<Longrightarrow> local_ok rq pc \<Longrightarrow> \<not> locked sh \<Longrightarrow>
      \<exists>pc' sh'. tstep rq pc sh pc' sh'"
    and descends: "tstep rq pc sh pc' sh' \<Longrightarrow> rank pc' < rank pc"
begin

lemma some_thread_moves:
  assumes "consistent N rqs pcs sh" and "t < N" and "\<not> finished (pcs t)"
  shows "\<exists>s < N. \<exists>pc' sh'. tstep (rqs s) (pcs s) sh pc' sh'"
proof (cases "locked sh")
  case True
  from consistent_locked [OF assms(1) this] obtain u
    where u: "u < N" "inside (pcs u)" "section_ok (rqs u) (pcs u) sh" by blast
  then show ?thesis using inside_moves [OF u(2) consistent_local [OF assms(1) u(1)] u(3)] by blast
next
  case False
  show ?thesis
    using outside_moves [OF consistent_free(2) [OF assms(1) False assms(2)] assms(3)
        consistent_local [OF assms(1,2)] False] assms(2) by blast
qed

lemma quiescent_finished:
  "consistent N rqs pcs sh \<Longrightarrow> quiescent tstep N rqs pcs sh \<Longrightarrow> t < N \<Longrightarrow> finished (pcs t)"
  using some_thread_moves unfolding quiescent_def by blast

lemma run_length:
  assumes "system_run tstep N rqs pcs0 sh0 k pcs sh"
  shows "k + (\<Sum>t < N. rank (pcs t)) \<le> (\<Sum>t < N. rank (pcs0 t))"
  using assms
proof (induction rule: system_run.induct)
  case (system_step k pcs sh t pc sh')
  have "rank pc < rank (pcs t)" using system_step.hyps(3) by (rule descends)
  then show ?case
    using system_step.IH sum_update [OF system_step.hyps(2), of rank pcs pc] by simp
qed simp

lemma completes:
  "consistent N rqs pcs sh \<Longrightarrow>
   \<exists>k pcs' sh'. system_run tstep N rqs pcs sh k pcs' sh' \<and> (\<forall>t < N. finished (pcs' t))"
proof (induction "\<Sum>t < N. rank (pcs t)" arbitrary: pcs sh rule: less_induct)
  case less
  show ?case
  proof (cases "\<forall>t < N. finished (pcs t)")
    case True
    then show ?thesis
      by (intro exI [of _ 0] exI [of _ pcs] exI [of _ sh] conjI system_run.system_start)
  next
    case False
    then obtain u where u: "u < N" "\<not> finished (pcs u)" by blast
    from some_thread_moves [OF less.prems u] obtain t pc sh1
      where t: "t < N" and step: "tstep (rqs t) (pcs t) sh pc sh1" by blast
    have one: "system_run tstep N rqs pcs sh (Suc 0) (pcs(t := pc)) sh1"
      using system_run.system_step [of tstep N rqs pcs sh 0 pcs sh t pc sh1] t step
      by (simp add: system_run.system_start del: fun_upd_apply)
    have "(\<Sum>s < N. rank ((pcs(t := pc)) s)) < (\<Sum>s < N. rank (pcs s))"
      using sum_update [OF t, of rank pcs pc] descends [OF step] by simp
    from less.hyps [OF this consistent_step [OF less.prems t step]] obtain k pcs' sh'
      where "system_run tstep N rqs (pcs(t := pc)) sh1 k pcs' sh'" "\<forall>t < N. finished (pcs' t)"
      by blast
    from system_run_trans [OF this(1) one] this(2) show ?thesis by blast
  qed
qed

end

end
