(* ===== verification/Metadata_Threads.thy ===== *)
theory Metadata_Threads
  imports Metadata_Correct Mutex_Systems
begin

text \<open>
  The metadata trace of \<open>tools/enrollment_0x89_rearm_preload.c\<close> on concurrent threads: its statics,
  the mutex \<open>metadata_trace_lock\<close> around them and the lines that are printed inside and outside of it.
  A thread is one traced update. The memory behind the arguments may be changed by anyone at any
  time; only its mapped addresses stay the same.
\<close>

section \<open>The parts of the trace\<close>

text \<open>
  The first line of \<open>metadata_before_update\<close>, printed from the trace state (the second one is
  \<open>buffers_line\<close>); the line of \<open>metadata_after_update\<close>; the update of the trace state behind it.
\<close>

definition before_line :: "heap \<Rightarrow> update_args \<Rightarrow> before_call \<Rightarrow> trace_state \<Rightarrow> metadata_line option" where
  "before_line h ua bc ts =
     do {
       content \<leftarrow> id_content_relation h (ua_enrollment_id ua) ts;
       id_match \<leftarrow> matches_previous_output h (ua_enrollment_id ua) True ts;
       aux_match \<leftarrow> matches_previous_output h (ua_auxiliary_input ua)
                     (ua_auxiliary_input_size ua = of_nat CV2_ENROLLMENT_VALUE_SIZE) ts;
       let first_call = (\<not> ts_initialized ts);
       Some (Phase_Before (bc_call bc)
         (value_relation_u32 (ua_handle ua) (ts_first_handle ts) first_call)
         (presence (ua_enrollment_id ua))
         (pointer_relation (ua_enrollment_id ua) (ts_previous_enrollment_id_pointer ts) first_call)
         content id_match (ua_auxiliary_input_size ua)
         (presence (ua_auxiliary_input ua))
         (pointer_relation (ua_auxiliary_input ua) (ts_previous_auxiliary_input ts) first_call)
         aux_match)
     }"

definition after_line :: "heap \<Rightarrow> update_args \<Rightarrow> before_call \<Rightarrow> u32 \<Rightarrow> metadata_line option" where
  "after_line h ua bc status =
     do {
       (completion_zero, completion_changed) \<leftarrow>
         output_report h (ua_completion_out ua) 1 (bc_completion_valid bc) [bc_completion bc];
       (output_zero, output_changed) \<leftarrow>
         output_report h (ua_enrollment_data_out ua) CV2_ENROLLMENT_VALUE_SIZE
           (bc_enrollment_output_valid bc) (bc_enrollment_output bc);
       (value_zero, value_changed) \<leftarrow>
         output_report h (ua_output_value_out ua) OUTPUT_VALUE_SIZE
           (bc_output_value_valid bc) (bc_output_value bc);
       Some (Phase_After (bc_call bc) status completion_zero completion_changed output_zero
         output_changed value_zero value_changed)
     }"

definition remember_output :: "heap \<Rightarrow> update_args \<Rightarrow> trace_state \<Rightarrow> trace_state option" where
  "remember_output h ua ts =
     (if ua_enrollment_data_out ua \<noteq> 0
      then do {
        content \<leftarrow> mem_read h (ua_enrollment_data_out ua) CV2_ENROLLMENT_VALUE_SIZE;
        Some (ts\<lparr>ts_previous_enrollment_output := content,
                 ts_previous_enrollment_output_valid := True\<rparr>)
      }
      else Some (ts\<lparr>ts_previous_enrollment_output_valid := False\<rparr>))"

text \<open>Without other threads the parts in their order are the two functions.\<close>

lemma metadata_before_parts:
  "metadata_before_update h ua n ts =
     do {
       bc \<leftarrow> capture_outputs h ua (n + 1);
       line \<leftarrow> before_line h ua bc ts;
       ts' \<leftarrow> remember_call h ua ts;
       Some (bc, n + 1, ts', [Metadata_Line line, Metadata_Line (buffers_line ua bc ts)])
     }"
  by (simp add: metadata_before_update_def before_line_def Let_def split: Option.bind_splits)

lemma metadata_after_parts:
  "metadata_after_update h ua bc status ts =
     do {
       line \<leftarrow> after_line h ua bc status;
       ts' \<leftarrow> remember_output h ua ts;
       Some (ts', [Metadata_Line line])
     }"
  by (simp add: metadata_after_update_def after_line_def remember_output_def split_beta
      split: Option.bind_splits)

section \<open>Threads\<close>

text \<open>
  Where a thread is: at its entry; with its number from \<open>update_call_count\<close>; with its copies; in the
  critical section before the first line, between the two lines, behind them, behind the update of
  the trace state; before the native update; behind it; with its last line printed; in the second
  critical section before and behind the update of the trace state; returned.
\<close>

datatype mt_pc =
    Mt_Start
  | Mt_Ticket u32
  | Mt_Saved before_call
  | Mt_Locked before_call
  | Mt_Half before_call
  | Mt_Printed before_call
  | Mt_Remembered before_call
  | Mt_Unlocked before_call
  | Mt_Updated before_call u32
  | Mt_Reported
  | Mt_Relocked
  | Mt_Stored
  | Mt_Finished

record mt_shared =
  mt_calls :: u32
  mt_locked :: bool
  mt_trace :: trace_state
  mt_log :: "metadata_line list"

definition fresh_trace :: mt_shared where
  "fresh_trace = \<lparr>mt_calls = 0, mt_locked = False, mt_trace = zero_trace, mt_log = []\<rparr>"

text \<open>
  A step of the update with the arguments \<open>ua\<close>; \<open>D\<close> are the mapped addresses. Inside the critical
  section the trace state is read by the lines and written afterwards, as a step of its own.
\<close>

inductive mt_step ::
  "ptr set \<Rightarrow> update_args \<Rightarrow> mt_pc \<Rightarrow> mt_shared \<Rightarrow> mt_pc \<Rightarrow> mt_shared \<Rightarrow> bool"
  for D ua where
  mt_ticket: "mt_step D ua Mt_Start sh (Mt_Ticket (mt_calls sh + 1))
     (sh\<lparr>mt_calls := mt_calls sh + 1\<rparr>)"
| mt_save: "dom h = D \<Longrightarrow> capture_outputs h ua n = Some bc \<Longrightarrow>
     mt_step D ua (Mt_Ticket n) sh (Mt_Saved bc) sh"
| mt_lock: "\<not> mt_locked sh \<Longrightarrow>
     mt_step D ua (Mt_Saved bc) sh (Mt_Locked bc) (sh\<lparr>mt_locked := True\<rparr>)"
| mt_print: "dom h = D \<Longrightarrow> before_line h ua bc (mt_trace sh) = Some line \<Longrightarrow>
     mt_step D ua (Mt_Locked bc) sh (Mt_Half bc) (sh\<lparr>mt_log := mt_log sh @ [line]\<rparr>)"
| mt_print_buffers: "mt_step D ua (Mt_Half bc) sh (Mt_Printed bc)
     (sh\<lparr>mt_log := mt_log sh @ [buffers_line ua bc (mt_trace sh)]\<rparr>)"
| mt_remember: "dom h = D \<Longrightarrow> remember_call h ua (mt_trace sh) = Some ts \<Longrightarrow>
     mt_step D ua (Mt_Printed bc) sh (Mt_Remembered bc) (sh\<lparr>mt_trace := ts\<rparr>)"
| mt_unlock: "mt_step D ua (Mt_Remembered bc) sh (Mt_Unlocked bc) (sh\<lparr>mt_locked := False\<rparr>)"
| mt_native: "mt_step D ua (Mt_Unlocked bc) sh (Mt_Updated bc status) sh"
| mt_report: "dom h = D \<Longrightarrow> after_line h ua bc status = Some line \<Longrightarrow>
     mt_step D ua (Mt_Updated bc status) sh Mt_Reported (sh\<lparr>mt_log := mt_log sh @ [line]\<rparr>)"
| mt_relock: "\<not> mt_locked sh \<Longrightarrow> mt_step D ua Mt_Reported sh Mt_Relocked (sh\<lparr>mt_locked := True\<rparr>)"
| mt_store: "dom h = D \<Longrightarrow> remember_output h ua (mt_trace sh) = Some ts \<Longrightarrow>
     mt_step D ua Mt_Relocked sh Mt_Stored (sh\<lparr>mt_trace := ts\<rparr>)"
| mt_unlock_after: "mt_step D ua Mt_Stored sh Mt_Finished (sh\<lparr>mt_locked := False\<rparr>)"

inductive_cases mt_stepE: "mt_step D ua pc sh pc' sh'"

fun in_section :: "mt_pc \<Rightarrow> bool" where
  "in_section (Mt_Locked bc) = True"
| "in_section (Mt_Half bc) = True"
| "in_section (Mt_Printed bc) = True"
| "in_section (Mt_Remembered bc) = True"
| "in_section Mt_Relocked = True"
| "in_section Mt_Stored = True"
| "in_section pc = False"

fun mt_left :: "mt_pc \<Rightarrow> nat" where
  "mt_left Mt_Start = 12"
| "mt_left (Mt_Ticket n) = 11"
| "mt_left (Mt_Saved bc) = 10"
| "mt_left (Mt_Locked bc) = 9"
| "mt_left (Mt_Half bc) = 8"
| "mt_left (Mt_Printed bc) = 7"
| "mt_left (Mt_Remembered bc) = 6"
| "mt_left (Mt_Unlocked bc) = 5"
| "mt_left (Mt_Updated bc status) = 4"
| "mt_left Mt_Reported = 3"
| "mt_left Mt_Relocked = 2"
| "mt_left Mt_Stored = 1"
| "mt_left Mt_Finished = 0"

section \<open>The serial order\<close>

text \<open>
  What the critical sections do one after the other: \<open>serial D lines ts\<close> says that some sequence of
  them, starting with the initial trace state, prints \<open>lines\<close> and leaves \<open>ts\<close>.
\<close>

inductive serial :: "ptr set \<Rightarrow> metadata_line list \<Rightarrow> trace_state \<Rightarrow> bool" for D where
  serial_start: "serial D [] zero_trace"
| serial_before: "serial D ls ts \<Longrightarrow> dom h0 = D \<Longrightarrow> dom h1 = D \<Longrightarrow> dom h2 = D \<Longrightarrow>
    capture_outputs h0 ua n = Some bc \<Longrightarrow> before_line h1 ua bc ts = Some line \<Longrightarrow>
    remember_call h2 ua ts = Some ts' \<Longrightarrow> serial D (ls @ [line, buffers_line ua bc ts]) ts'"
| serial_after: "serial D ls ts \<Longrightarrow> dom h = D \<Longrightarrow> remember_output h ua ts = Some ts' \<Longrightarrow> serial D ls ts'"

text \<open>The lines printed inside the critical sections.\<close>

fun from_section :: "metadata_line \<Rightarrow> bool" where
  "from_section (Phase_After c st cz cc ez ec vz vc) = False"
| "from_section line = True"

definition section_log :: "mt_shared \<Rightarrow> metadata_line list" where
  "section_log sh = filter from_section (mt_log sh)"

lemma capture_outputs_lengths:
  assumes "capture_outputs h ua n = Some bc"
  shows "length (bc_enrollment_output bc) = CV2_ENROLLMENT_VALUE_SIZE"
    and "length (bc_output_value bc) = OUTPUT_VALUE_SIZE"
  using assms
  by (auto simp: capture_outputs_def mem_read_length split: if_splits Option.bind_splits)

lemma remember_call_wf: "remember_call h ua ts = Some ts' \<Longrightarrow> trace_wf ts \<Longrightarrow> trace_wf ts'"
  by (auto simp: remember_call_def trace_wf_def Let_def mem_read_length
      split: if_splits Option.bind_splits)

lemma remember_output_wf: "remember_output h ua ts = Some ts' \<Longrightarrow> trace_wf ts \<Longrightarrow> trace_wf ts'"
  by (auto simp: remember_output_def trace_wf_def mem_read_length split: if_splits Option.bind_splits)

lemma serial_wf: "serial D ls ts \<Longrightarrow> trace_wf ts"
  by (induction rule: serial.induct) (auto intro: remember_call_wf remember_output_wf)

section \<open>The mutex\<close>

definition args_mapped :: "ptr set \<Rightarrow> update_args \<Rightarrow> bool" where
  "args_mapped D ua \<longleftrightarrow> (\<forall>h. dom h = D \<longrightarrow> readable_args h ua)"

fun copies :: "mt_pc \<Rightarrow> before_call option" where
  "copies (Mt_Saved bc) = Some bc"
| "copies (Mt_Locked bc) = Some bc"
| "copies (Mt_Half bc) = Some bc"
| "copies (Mt_Printed bc) = Some bc"
| "copies (Mt_Remembered bc) = Some bc"
| "copies (Mt_Unlocked bc) = Some bc"
| "copies (Mt_Updated bc status) = Some bc"
| "copies pc = None"

definition captured :: "ptr set \<Rightarrow> update_args \<Rightarrow> before_call \<Rightarrow> bool" where
  "captured D ua bc \<longleftrightarrow> (\<exists>h n. dom h = D \<and> capture_outputs h ua n = Some bc)"

definition mt_local :: "ptr set \<Rightarrow> update_args \<Rightarrow> mt_pc \<Rightarrow> bool" where
  "mt_local D ua pc \<longleftrightarrow> args_mapped D ua \<and> (\<forall>bc. copies pc = Some bc \<longrightarrow> captured D ua bc)"

definition mt_resting :: "ptr set \<Rightarrow> mt_shared \<Rightarrow> bool" where
  "mt_resting D sh \<longleftrightarrow> serial D (section_log sh) (mt_trace sh)"

definition printed_first :: "ptr set \<Rightarrow> update_args \<Rightarrow> before_call \<Rightarrow> trace_state \<Rightarrow> metadata_line list
    \<Rightarrow> metadata_line \<Rightarrow> bool" where
  "printed_first D ua bc ts ls line \<longleftrightarrow>
     serial D ls ts \<and> (\<exists>h. dom h = D \<and> before_line h ua bc ts = Some line)"

fun mt_section :: "ptr set \<Rightarrow> update_args \<Rightarrow> mt_pc \<Rightarrow> mt_shared \<Rightarrow> bool" where
  "mt_section D ua (Mt_Half bc) sh =
     (\<exists>ls line. section_log sh = ls @ [line] \<and> printed_first D ua bc (mt_trace sh) ls line)"
| "mt_section D ua (Mt_Printed bc) sh =
     (\<exists>ls line. section_log sh = ls @ [line, buffers_line ua bc (mt_trace sh)]
        \<and> printed_first D ua bc (mt_trace sh) ls line)"
| "mt_section D ua pc sh = mt_resting D sh"

lemma section_log_simps [simp]:
  "section_log (sh\<lparr>mt_calls := n\<rparr>) = section_log sh"
  "section_log (sh\<lparr>mt_locked := b\<rparr>) = section_log sh"
  "section_log (sh\<lparr>mt_trace := ts\<rparr>) = section_log sh"
  "section_log (sh\<lparr>mt_log := mt_log sh @ [line]\<rparr>)
     = section_log sh @ (if from_section line then [line] else [])"
  by (simp_all add: section_log_def)

lemma line_kinds:
  "before_line h ua bc ts = Some line \<Longrightarrow> from_section line"
  "from_section (buffers_line ua bc ts)"
  "after_line h ua bc status = Some line \<Longrightarrow> \<not> from_section line"
  by (auto simp: before_line_def buffers_line_def after_line_def Let_def split: Option.bind_splits)

lemma mt_section_frame:
  assumes "section_log sh' = section_log sh" and "mt_trace sh' = mt_trace sh"
  shows "mt_section D ua pc sh' = mt_section D ua pc sh" and "mt_resting D sh' = mt_resting D sh"
proof -
  show "mt_resting D sh' = mt_resting D sh" using assms by (simp add: mt_resting_def)
  then show "mt_section D ua pc sh' = mt_section D ua pc sh" using assms by (cases pc) simp_all
qed

lemma mt_knows: "mt_step D ua pc sh pc' sh' \<Longrightarrow> mt_local D ua pc \<Longrightarrow> mt_local D ua pc'"
  by (elim mt_stepE) (auto simp: mt_local_def captured_def)

lemma mt_enter:
  "mt_step D ua pc sh pc' sh' \<Longrightarrow> \<not> in_section pc \<Longrightarrow> in_section pc' \<Longrightarrow>
   \<not> mt_locked sh \<and> mt_locked sh' \<and> (mt_resting D sh \<longrightarrow> mt_section D ua pc' sh')"
  by (elim mt_stepE) (auto simp: mt_resting_def)

lemma mt_outside:
  assumes "mt_step D ua pc sh pc' sh'" and "\<not> in_section pc" and "\<not> in_section pc'"
  shows "mt_locked sh' = mt_locked sh \<and> section_log sh' = section_log sh \<and> mt_trace sh' = mt_trace sh"
  using assms by (elim mt_stepE) (auto simp: line_kinds)

lemma mt_within:
  assumes "mt_step D ua pc sh pc' sh'" and "in_section pc" and "in_section pc'"
    and "mt_local D ua pc" and "mt_section D ua pc sh"
  shows "mt_locked sh' = mt_locked sh \<and> mt_section D ua pc' sh'"
  using assms
proof (elim mt_stepE, goal_cases)
  case (6 h ts bc)
  then obtain h0 n where copy: "dom h0 = D" "capture_outputs h0 ua n = Some bc"
    by (auto simp: mt_local_def captured_def)
  from 6 obtain ls line h1 where line: "section_log sh = ls @ [line, buffers_line ua bc (mt_trace sh)]"
    "serial D ls (mt_trace sh)" "dom h1 = D" "before_line h1 ua bc (mt_trace sh) = Some line"
    by (auto simp: printed_first_def)
  have "serial D (section_log sh) ts"
    unfolding line(1) by (rule serial_before [OF line(2) copy(1) line(3) _ copy(2) line(4)]) (use 6 in auto)
  with 6 show ?case by (simp add: mt_resting_def)
qed (auto simp: mt_resting_def printed_first_def line_kinds intro: serial_after)

lemma mt_leave:
  "mt_step D ua pc sh pc' sh' \<Longrightarrow> in_section pc \<Longrightarrow> \<not> in_section pc' \<Longrightarrow> mt_section D ua pc sh \<Longrightarrow>
   \<not> mt_locked sh' \<and> mt_resting D sh'"
  by (elim mt_stepE) (auto simp: mt_resting_def)

section \<open>Progress\<close>

lemma mapped_memory: "\<exists>h :: heap. dom h = D"
  by (rule exI [of _ "\<lambda>p. if p \<in> D then Some 0 else None"]) (auto split: if_splits)

lemma mapped_parts:
  assumes "args_mapped D ua" and "dom h = D" and "trace_wf ts"
  shows "\<exists>bc. capture_outputs h ua n = Some bc" and "\<exists>line. before_line h ua bc ts = Some line"
    and "\<exists>ts'. remember_call h ua ts = Some ts'" and "\<exists>ts'. remember_output h ua ts = Some ts'"
    and "captured D ua bc \<Longrightarrow> \<exists>line. after_line h ua bc status = Some line"
proof -
  have r: "readable_args h ua" using assms(1,2) by (simp add: args_mapped_def)
  obtain bc0 lines ts' where "metadata_before_update h ua (n - 1) ts = Some (bc0, n - 1 + 1, ts', lines)"
    using metadata_before_returns [OF r assms(3)] by blast
  then show "\<exists>bc. capture_outputs h ua n = Some bc" and "\<exists>ts'. remember_call h ua ts = Some ts'"
    by (auto simp: metadata_before_parts split: Option.bind_splits)
  show "\<exists>line. before_line h ua bc ts = Some line"
    using id_content_returns [of h "ua_enrollment_id ua" ts] matches_returns [of True h "ua_enrollment_id ua" ts]
      matches_returns [of "ua_auxiliary_input_size ua = of_nat CV2_ENROLLMENT_VALUE_SIZE" h
        "ua_auxiliary_input ua" ts] r assms(3)
    by (auto simp: before_line_def readable_args_def Let_def)
  show "\<exists>ts'. remember_output h ua ts = Some ts'"
    using readable_read [of h "ua_enrollment_data_out ua" CV2_ENROLLMENT_VALUE_SIZE] r
    by (auto simp: remember_output_def readable_args_def)
  assume "captured D ua bc"
  then have "length (bc_enrollment_output bc) = CV2_ENROLLMENT_VALUE_SIZE"
    and "length (bc_output_value bc) = OUTPUT_VALUE_SIZE"
    by (auto simp: captured_def capture_outputs_lengths)
  from metadata_after_returns [OF r assms(3) this]
  obtain ts' lines where "metadata_after_update h ua bc status ts = Some (ts', lines)" by blast
  then show "\<exists>line. after_line h ua bc status = Some line"
    by (auto simp: metadata_after_parts split: Option.bind_splits)
qed

lemma mt_resting_wf: "mt_resting D sh \<Longrightarrow> trace_wf (mt_trace sh)"
  by (simp add: mt_resting_def serial_wf)

lemma mt_inside_moves:
  assumes "in_section pc" and "mt_local D ua pc" and "mt_section D ua pc sh"
  shows "\<exists>pc' sh'. mt_step D ua pc sh pc' sh'"
proof -
  obtain h :: heap where h: "dom h = D" using mapped_memory by blast
  have mapped: "args_mapped D ua" using assms(2) by (simp add: mt_local_def)
  have wf: "trace_wf (mt_trace sh)"
    using assms(1,3) by (cases pc) (auto simp: printed_first_def dest: mt_resting_wf serial_wf)
  note parts = mapped_parts [OF mapped h wf]
  show ?thesis
  proof (cases pc)
    case (Mt_Locked bc)
    then show ?thesis using parts(2) [of bc] h by (blast intro: mt_step.intros)
  next
    case (Mt_Printed bc)
    then show ?thesis using parts(3) h by (blast intro: mt_step.intros)
  next
    case Mt_Relocked
    then show ?thesis using parts(4) h by (blast intro: mt_step.intros)
  qed (use assms(1) in \<open>auto intro: mt_step.intros\<close>)
qed

lemma mt_outside_moves:
  assumes "\<not> in_section pc" and "pc \<noteq> Mt_Finished" and "mt_local D ua pc" and "\<not> mt_locked sh"
  shows "\<exists>pc' sh'. mt_step D ua pc sh pc' sh'"
proof -
  obtain h :: heap where h: "dom h = D" using mapped_memory by blast
  have mapped: "args_mapped D ua" using assms(3) by (simp add: mt_local_def)
  note parts = mapped_parts [OF mapped h trace_wf_zero]
  show ?thesis
  proof (cases pc)
    case (Mt_Ticket n)
    then show ?thesis using parts(1) [of n] h by (auto intro: mt_step.intros)
  next
    case (Mt_Updated bc status)
    then have "captured D ua bc" using assms(3) by (simp add: mt_local_def)
    from parts(5) [OF this] show ?thesis using Mt_Updated h by (blast intro: mt_step.intros)
  qed (use assms in \<open>auto intro: mt_step.intros\<close>)
qed

lemma mt_descends: "mt_step D ua pc sh pc' sh' \<Longrightarrow> mt_left pc' < mt_left pc"
  by (elim mt_stepE) simp_all

interpretation trace_lock: mutex_progress "mt_step D" in_section mt_locked "mt_local D" "mt_resting D"
  "mt_section D" "\<lambda>pc. pc = Mt_Finished" mt_left for D
proof
  fix ua pc sh pc' sh' ua2 pc2
  assume step: "mt_step D ua pc sh pc' sh'"
  show "mt_left pc' < mt_left pc" using step by (rule mt_descends)
  show "mt_local D ua pc \<Longrightarrow> mt_local D ua pc'" using step by (rule mt_knows)
  show "\<not> in_section pc \<Longrightarrow> in_section pc' \<Longrightarrow>
      \<not> mt_locked sh \<and> mt_locked sh' \<and> (mt_resting D sh \<longrightarrow> mt_section D ua pc' sh')"
    using step by (rule mt_enter)
  show "mt_locked sh' = mt_locked sh \<and> (mt_resting D sh \<longrightarrow> mt_resting D sh')
      \<and> (mt_section D ua2 pc2 sh \<longrightarrow> mt_section D ua2 pc2 sh')"
    if "\<not> in_section pc" "\<not> in_section pc'"
    using mt_outside [OF step that] mt_section_frame by blast
  show "mt_locked sh' = mt_locked sh \<and> mt_section D ua pc' sh'"
    if "in_section pc" "in_section pc'" "mt_local D ua pc" "mt_section D ua pc sh"
    using step that by (rule mt_within)
  show "\<not> mt_locked sh' \<and> mt_resting D sh'"
    if "in_section pc" "\<not> in_section pc'" "mt_section D ua pc sh"
    using step that by (rule mt_leave)
qed (rule mt_inside_moves mt_outside_moves; assumption)+

lemma fresh_consistent:
  "(\<And>t. t < N \<Longrightarrow> args_mapped D (uas t)) \<Longrightarrow> trace_lock.consistent D N uas (\<lambda>t. Mt_Start) fresh_trace"
  by (rule trace_lock.consistent_freeI)
     (simp_all add: mt_local_def mt_resting_def fresh_trace_def section_log_def serial_start)

section \<open>The lines\<close>

fun paired :: "metadata_line list \<Rightarrow> bool" where
  "paired [] = True"
| "paired (Phase_Before c hr ip ir ic im asz apr ar am # Phase_Buffers c' cr cz er ez vr vz # ls)
     = (c = c' \<and> paired ls)"
| "paired ls = False"

lemma paired_append: "paired ls \<Longrightarrow> paired ls' \<Longrightarrow> paired (ls @ ls')"
  by (induction ls rule: paired.induct) auto

lemma serial_paired: "serial D ls ts \<Longrightarrow> paired ls"
proof (induction rule: serial.induct)
  case (serial_before ls ts h0 h1 h2 ua n bc line ts')
  have "paired [line, buffers_line ua bc ts]"
    using serial_before.hyps(6)
    by (auto simp: before_line_def buffers_line_def Let_def split: Option.bind_splits)
  then show ?case by (rule paired_append [OF serial_before.IH])
qed simp_all

text \<open>
  A traced update on its own is a run of one thread, with the lines and the trace state of the two
  functions.
\<close>

lemma before_is_solo_run:
  assumes "metadata_before_update h ua (mt_calls sh) (mt_trace sh) = Some (bc, n, ts, lines)"
    and "dom h = D" and "\<not> mt_locked sh"
  shows "\<exists>ls. lines = map Metadata_Line ls \<and> solo_run (mt_step D) ua Mt_Start sh (Mt_Unlocked bc)
           (sh\<lparr>mt_calls := n, mt_trace := ts, mt_log := mt_log sh @ ls\<rparr>)"
proof -
  obtain line where one: "capture_outputs h ua (mt_calls sh + 1) = Some bc"
    "before_line h ua bc (mt_trace sh) = Some line" "remember_call h ua (mt_trace sh) = Some ts"
    "n = mt_calls sh + 1" "lines = [Metadata_Line line, Metadata_Line (buffers_line ua bc (mt_trace sh))]"
    using assms(1) by (auto simp: metadata_before_parts split: Option.bind_splits)
  define sh1 where "sh1 = sh\<lparr>mt_calls := n\<rparr>"
  define sh2 where "sh2 = sh1\<lparr>mt_locked := True\<rparr>"
  define sh3 where "sh3 = sh2\<lparr>mt_log := mt_log sh2 @ [line]\<rparr>"
  define sh4 where "sh4 = sh3\<lparr>mt_log := mt_log sh3 @ [buffers_line ua bc (mt_trace sh3)]\<rparr>"
  define sh5 where "sh5 = sh4\<lparr>mt_trace := ts\<rparr>"
  note defs = sh1_def sh2_def sh3_def sh4_def sh5_def
  have "mt_step D ua Mt_Start sh (Mt_Ticket n) sh1"
    unfolding sh1_def one(4) by (rule mt_ticket)
  moreover have "mt_step D ua (Mt_Ticket n) sh1 (Mt_Saved bc) sh1"
    using one(1) unfolding one(4) [symmetric] by (rule mt_save [OF assms(2)])
  moreover have "mt_step D ua (Mt_Saved bc) sh1 (Mt_Locked bc) sh2"
    unfolding sh2_def by (rule mt_lock) (simp add: sh1_def assms(3))
  moreover have "mt_step D ua (Mt_Locked bc) sh2 (Mt_Half bc) sh3"
    unfolding sh3_def by (rule mt_print [OF assms(2)]) (simp add: defs one(2))
  moreover have "mt_step D ua (Mt_Half bc) sh3 (Mt_Printed bc) sh4"
    unfolding sh4_def by (rule mt_print_buffers)
  moreover have "mt_step D ua (Mt_Printed bc) sh4 (Mt_Remembered bc) sh5"
    unfolding sh5_def by (rule mt_remember [OF assms(2)]) (simp add: defs one(3))
  moreover have "mt_step D ua (Mt_Remembered bc) sh5 (Mt_Unlocked bc) (sh5\<lparr>mt_locked := False\<rparr>)"
    by (rule mt_unlock)
  ultimately have "solo_run (mt_step D) ua Mt_Start sh (Mt_Unlocked bc) (sh5\<lparr>mt_locked := False\<rparr>)"
    by (meson solo_more solo_stay)
  moreover have "sh5\<lparr>mt_locked := False\<rparr> = sh\<lparr>mt_calls := n, mt_trace := ts,
      mt_log := mt_log sh @ [line, buffers_line ua bc (mt_trace sh)]\<rparr>"
    using assms(3) by (simp add: defs)
  ultimately show ?thesis
    using one(5) by (intro exI [of _ "[line, buffers_line ua bc (mt_trace sh)]"]) simp
qed

lemma after_is_solo_run:
  assumes "metadata_after_update h ua bc status (mt_trace sh) = Some (ts, lines)"
    and "dom h = D" and "\<not> mt_locked sh"
  shows "\<exists>ls. lines = map Metadata_Line ls \<and> solo_run (mt_step D) ua (Mt_Unlocked bc) sh Mt_Finished
           (sh\<lparr>mt_trace := ts, mt_log := mt_log sh @ ls\<rparr>)"
proof -
  obtain line where two: "after_line h ua bc status = Some line"
    "remember_output h ua (mt_trace sh) = Some ts" "lines = [Metadata_Line line]"
    using assms(1) by (auto simp: metadata_after_parts split: Option.bind_splits)
  define sh1 where "sh1 = sh\<lparr>mt_log := mt_log sh @ [line]\<rparr>"
  define sh2 where "sh2 = sh1\<lparr>mt_locked := True\<rparr>"
  define sh3 where "sh3 = sh2\<lparr>mt_trace := ts\<rparr>"
  have "mt_step D ua (Mt_Unlocked bc) sh (Mt_Updated bc status) sh" by (rule mt_native)
  moreover have "mt_step D ua (Mt_Updated bc status) sh Mt_Reported sh1"
    unfolding sh1_def by (rule mt_report [OF assms(2) two(1)])
  moreover have "mt_step D ua Mt_Reported sh1 Mt_Relocked sh2"
    unfolding sh2_def by (rule mt_relock) (simp add: sh1_def assms(3))
  moreover have "mt_step D ua Mt_Relocked sh2 Mt_Stored sh3"
    unfolding sh3_def by (rule mt_store [OF assms(2)]) (simp add: sh1_def sh2_def two(2))
  moreover have "mt_step D ua Mt_Stored sh3 Mt_Finished (sh3\<lparr>mt_locked := False\<rparr>)"
    by (rule mt_unlock_after)
  ultimately have "solo_run (mt_step D) ua (Mt_Unlocked bc) sh Mt_Finished (sh3\<lparr>mt_locked := False\<rparr>)"
    by (meson solo_more solo_stay)
  moreover have "sh3\<lparr>mt_locked := False\<rparr> = sh\<lparr>mt_trace := ts, mt_log := mt_log sh @ [line]\<rparr>"
    using assms(3) by (simp add: sh1_def sh2_def sh3_def)
  ultimately show ?thesis using two(3) by (intro exI [of _ "[line]"]) simp
qed

lemma traced_update_is_solo_run:
  assumes "metadata_before_update h ua (mt_calls sh) (mt_trace sh) = Some (bc, n, ts, lines)"
    and "metadata_after_update h' ua bc status ts = Some (ts', lines')"
    and "dom h = D" and "dom h' = D" and "\<not> mt_locked sh"
  shows "\<exists>ls. lines @ lines' = map Metadata_Line ls \<and> solo_run (mt_step D) ua Mt_Start sh Mt_Finished
           (sh\<lparr>mt_calls := n, mt_trace := ts', mt_log := mt_log sh @ ls\<rparr>)"
proof -
  obtain ls where ls: "lines = map Metadata_Line ls"
    and run: "solo_run (mt_step D) ua Mt_Start sh (Mt_Unlocked bc)
      (sh\<lparr>mt_calls := n, mt_trace := ts, mt_log := mt_log sh @ ls\<rparr>)"
    using before_is_solo_run [OF assms(1,3,5)] by blast
  let ?sh = "sh\<lparr>mt_calls := n, mt_trace := ts, mt_log := mt_log sh @ ls\<rparr>"
  have "metadata_after_update h' ua bc status (mt_trace ?sh) = Some (ts', lines')" using assms(2) by simp
  moreover have "\<not> mt_locked ?sh" using assms(5) by simp
  ultimately obtain ls' where ls': "lines' = map Metadata_Line ls'"
    and run': "solo_run (mt_step D) ua (Mt_Unlocked bc) ?sh Mt_Finished
      (?sh\<lparr>mt_trace := ts', mt_log := mt_log ?sh @ ls'\<rparr>)"
    using after_is_solo_run assms(4) by blast
  from solo_run_trans [OF run run'] ls ls' show ?thesis by (intro exI [of _ "ls @ ls'"]) simp
qed

end
