(* ===== verification/Rearm_Thread_Claims.thy ===== *)
theory Rearm_Thread_Claims
  imports Rearm_Threads Rearm_Claims Metadata_Threads
begin

text \<open>
  What the counters of the enrollment interposer guarantee against concurrent calls, what they do
  not, and that the thread model is the code's.
\<close>

section \<open>The limits\<close>





text \<open>C32:
  The thread model is the code's: a call of the modelled \<open>cv_fingerprint_update_enrollment\<close> that
  passes the readiness check and returns is a run of one thread from its entry to its return, with
  the same calls into the driver, the same result and the same values of the three counters.\<close>

theorem rearm_call_is_thread_run:
  assumes "check_forwarding w pr = (True, pr0)"
    and "cv_fingerprint_update_enrollment w ua pr = Some (r, pr')"
  shows "\<exists>buf'. solo_run
     (rearm_thread_step (rc_update_policy (cache pr0)) (rw_zero_update_input w) any_write) ua
     Rt_Start (process_statics buf pr) (Rt_Returned r) (process_statics buf' pr')"
  using assms by (rule wrapper_alone)

theorem rearm_call_is_thread_run_witness:
  "\<exists>buf' pr'. solo_run (rearm_thread_step legacy_policy 4096 any_write) sample_args Rt_Start
     (process_statics [] (sample_process legacy_policy False [137]))
     (Rt_Returned CV_STATUS_BAD_CAPTURE) (process_statics buf' (pr' :: u32 list process))"
proof -
  obtain pr' where run: "cv_fingerprint_update_enrollment (sample_world [] []) sample_args
       (sample_process legacy_policy False [137]) = Some (CV_STATUS_BAD_CAPTURE, pr')"
    using sample_bad_capture by blast
  have z: "rw_zero_update_input (sample_world [] []) = 4096" by (simp add: sample_world_def)
  from rearm_call_is_thread_run [OF forwarding_check [OF sample_ready] run, of "[]"]
  show ?thesis unfolding z sample_policy by blast
qed

section \<open>A race on the shared input buffer\<close>

text \<open>
  The zero-input policy has one buffer for all threads. If the driver writes to its input (which
  the code allows for by making the buffer writable), a second call that wiped the buffer before
  that write and updates after it shows the driver non-zero bytes.
\<close>

lemma zero_input_race:
  "\<exists>k pcs sh b. rearm_run zero_policy 4096 any_write 2 (\<lambda>_. sample_args) k pcs sh
     \<and> Native_Update (sample_args\<lparr>ua_enrollment_id := 4096\<rparr>) (Some b) 0 (Some 0) \<in> set (rt_calls sh)
     \<and> b \<noteq> replicate CV2_ENROLLMENT_VALUE_SIZE 0"
proof -
  let ?z = "replicate CV2_ENROLLMENT_VALUE_SIZE 0 :: byte list" and ?o = "[1] :: byte list"
  let ?ua = "\<lambda>_ :: nat. sample_args" and ?p = "\<lambda>_ :: nat. Rt_Start"
  let ?u = "\<lambda>b. Native_Update (sample_args\<lparr>ua_enrollment_id := 4096\<rparr>) (Some b) 0 (Some 0)"
  let ?S = "rearm_thread_step zero_policy 4096 any_write sample_args"
  note step = system_step [where tstep = "rearm_thread_step zero_policy 4096 any_write" and N = 2
      and rqs = ?ua and ?pcs0.0 = ?p and ?sh0.0 = fresh_statics]
  have eid: "ua_enrollment_id sample_args \<noteq> 0" by (simp add: sample_args_def)
  have lim: "(1 :: u32) \<le> CV2_MAX_ZERO_INPUT_UPDATES" "(2 :: u32) \<le> CV2_MAX_ZERO_INPUT_UPDATES"
    by (simp_all add: CV2_MAX_ZERO_INPUT_UPDATES_def)
  have count: "?S Rt_Start (statics n 0 0 ?z []) (Rt_Ticket (n + 1)) (statics (n + 1) 0 0 ?z [])" for n
    using rt_count [where pol = zero_policy and z = 4096 and wr = any_write and ua = sample_args
        and sh = "statics n 0 0 ?z []" and n = "n + 1"] eid by simp
  have wipe: "?S (Rt_Ticket n) (statics 2 0 0 ?z []) Rt_Gated (statics 2 0 0 ?z [])" if "n \<in> {1, 2}" for n
    using rt_wipe [where pol = zero_policy and z = 4096 and wr = any_write and ua = sample_args
        and sh = "statics 2 0 0 ?z []" and n = n] lim that by auto
  have upd: "?S Rt_Gated (statics 2 0 0 b cs) (Rt_Updated 0 (Some 0)) (statics 2 0 0 ?o (cs @ [?u b]))"
    for b cs
    using rt_update [where pol = zero_policy and z = 4096 and wr = any_write and ua = sample_args
        and sh = "statics 2 0 0 b cs" and b = "Some b" and buf = ?o and st = 0 and c = "Some 0"]
    by (simp add: called_def effective_args_def)
  have 0: "rearm_run zero_policy 4096 any_write 2 ?ua 0 ?p (statics 0 0 0 ?z [])"
    using system_start [of "rearm_thread_step zero_policy 4096 any_write" 2 ?ua ?p fresh_statics]
    by (simp add: fresh_statics_def)
  note 1 = step [OF 0, of 0, simplified, OF count [of 0, simplified]]
  note 2 = step [OF 1, of 1, simplified, OF count [of 1, simplified]]
  note 3 = step [OF 2, of 0, simplified, OF wipe [of 1, simplified]]
  note 4 = step [OF 3, of 1, simplified, OF wipe [of 2, simplified]]
  note 5 = step [OF 4, of 0, simplified, OF upd]
  note 6 = step [OF 5, of 1, simplified, OF upd]
  have "?o \<noteq> ?z" by (simp add: CV2_ENROLLMENT_VALUE_SIZE_def numeral_nat)
  with 6 show ?thesis by fastforce
qed

section \<open>The metadata trace\<close>

text \<open>C34:
  The mutex of the metadata trace makes concurrent traces sequential: for any number of traced
  updates on interleaved threads, whatever happens to the memory behind their arguments, at most one
  thread is in a critical section; whenever the mutex is free, the lines printed in the sections
  and the trace state are those of some sequential execution of the sections, and each
  \<open>phase=before\<close> line is directly followed by the \<open>phase=before-buffers\<close> line of the same call.\<close>

theorem metadata_threads_serialized:
  assumes "\<forall>t < N. args_mapped D (uas t)"
    and "system_run (mt_step D) N uas (\<lambda>t. Mt_Start) fresh_trace k pcs sh"
  shows "tally in_section N pcs = of_bool (mt_locked sh)
     \<and> (mt_locked sh \<or> serial D (section_log sh) (mt_trace sh) \<and> paired (section_log sh))"
proof -
  have ok: "trace_lock.consistent D N uas pcs sh"
    using trace_lock.run_consistent [OF assms(2) fresh_consistent] assms(1) by blast
  have "serial D (section_log sh) (mt_trace sh)" if "\<not> mt_locked sh"
    using trace_lock.consistent_free(1) [OF ok that] by (simp add: mt_resting_def)
  then show ?thesis using trace_lock.at_most_one_inside [OF ok] serial_paired by blast
qed

text \<open>C39:
  The mutex never blocks the trace for good: concurrent traced updates of mapped arguments can all
  return, no schedule takes more than 12 steps for each of them, and a schedule in which no thread
  can move any more has let all of them return.\<close>

theorem metadata_threads_settle:
  assumes "\<forall>t < N. args_mapped D (uas t)"
  shows "(\<exists>k pcs sh. system_run (mt_step D) N uas (\<lambda>t. Mt_Start) fresh_trace k pcs sh
            \<and> (\<forall>t < N. pcs t = Mt_Finished))
     \<and> (\<forall>k pcs sh. system_run (mt_step D) N uas (\<lambda>t. Mt_Start) fresh_trace k pcs sh \<longrightarrow>
            k \<le> 12 * N \<and> (quiescent (mt_step D) N uas pcs sh \<longrightarrow> (\<forall>t < N. pcs t = Mt_Finished)))"
proof (intro conjI allI impI)
  have fresh: "trace_lock.consistent D N uas (\<lambda>t. Mt_Start) fresh_trace"
    using assms by (blast intro: fresh_consistent)
  then show "\<exists>k pcs sh. system_run (mt_step D) N uas (\<lambda>t. Mt_Start) fresh_trace k pcs sh
      \<and> (\<forall>t < N. pcs t = Mt_Finished)"
    by (rule trace_lock.completes)
  fix k pcs sh
  assume run: "system_run (mt_step D) N uas (\<lambda>t. Mt_Start) fresh_trace k pcs sh"
  show "k \<le> 12 * N" using trace_lock.run_length [OF run] by simp
  fix t
  assume "quiescent (mt_step D) N uas pcs sh" and "t < N"
  then show "pcs t = Mt_Finished"
    by (rule trace_lock.quiescent_finished [OF trace_lock.run_consistent [OF run fresh]])
qed

text \<open>Two calls with an enrollment ID, mapped from the address 64 on.\<close>

definition traced_args :: update_args where
  "traced_args = \<lparr>ua_handle = 7, ua_enrollment_id = 64, ua_auxiliary_input_size = 0,
     ua_auxiliary_input = 0, ua_completion_out = 0, ua_enrollment_data_out = 0, ua_output_value_out = 0\<rparr>"

lemma traced_args_mapped: "args_mapped (range (\<lambda>i. 64 + of_nat i)) traced_args"
  by (simp add: args_mapped_def readable_args_def readable_def traced_args_def
      CV2_ENROLLMENT_VALUE_SIZE_def)

lemma traced_args_run:
  "\<exists>k pcs sh. system_run (mt_step (range (\<lambda>i. 64 + of_nat i))) 2 (\<lambda>t. traced_args) (\<lambda>t. Mt_Start)
      fresh_trace k pcs sh \<and> (\<forall>t < 2. pcs t = Mt_Finished)"
  by (rule trace_lock.completes) (rule fresh_consistent, rule traced_args_mapped)

theorem metadata_threads_serialized_witness:
  "\<exists>pcs sh. (\<forall>t < (2 :: nat). pcs t = Mt_Finished) \<and> \<not> mt_locked sh
     \<and> serial (range (\<lambda>i. 64 + of_nat i)) (section_log sh) (mt_trace sh) \<and> paired (section_log sh)"
proof -
  obtain k pcs sh where run: "system_run (mt_step (range (\<lambda>i. 64 + of_nat i))) 2 (\<lambda>t. traced_args)
      (\<lambda>t. Mt_Start) fresh_trace k pcs sh" and fin: "\<forall>t < 2. pcs t = Mt_Finished"
    using traced_args_run by blast
  have "tally in_section 2 pcs = 0" using fin by (simp add: tally_zero)
  then show ?thesis
    using metadata_threads_serialized [OF _ run] traced_args_mapped fin
    by (intro exI [of _ pcs] exI [of _ sh]) auto
qed

theorem metadata_threads_settle_witness:
  "\<exists>k pcs sh. system_run (mt_step (range (\<lambda>i. 64 + of_nat i))) 2 (\<lambda>t. traced_args) (\<lambda>t. Mt_Start)
      fresh_trace k pcs sh \<and> (\<forall>t < (2 :: nat). pcs t = Mt_Finished) \<and> k \<le> 24"
proof -
  have mapped: "\<forall>t < (2 :: nat). args_mapped (range (\<lambda>i. 64 + of_nat i)) traced_args"
    using traced_args_mapped by blast
  obtain k pcs sh where run: "system_run (mt_step (range (\<lambda>i. 64 + of_nat i))) 2 (\<lambda>t. traced_args)
      (\<lambda>t. Mt_Start) fresh_trace k pcs sh" and fin: "\<forall>t < (2 :: nat). pcs t = Mt_Finished"
    using metadata_threads_settle [OF mapped, THEN conjunct1] by blast
  have "k \<le> 12 * 2" using metadata_threads_settle [OF mapped, THEN conjunct2] run by blast
  then show ?thesis using run fin by (intro exI [of _ k] exI [of _ pcs] exI [of _ sh]) simp
qed

end
