(* ===== verification/Mock_Capture.thy ===== *)
theory Mock_Capture
  imports Capture_Correct
begin

text \<open>
  The test double of the driver for the capture probe,
  \<open>tests/fixtures/mock_capture_result_driver.c\<close>, and the loader that runs it,
  \<open>tests/fixtures/mock_capture_result_loader.c\<close>. The double's state is the memory of the process, in
  which its static \<open>capture_id\<close> has an address. Its messages are left out.
\<close>

definition MOCK_CAPACITY :: u32 where "MOCK_CAPACITY = 0x17000"
definition MOCK_EXPERIMENT_FAILURE :: u32 where "MOCK_EXPERIMENT_FAILURE = 0x100003"

definition mock_capture_id :: "byte list" where
  "mock_capture_id = [0x10, 0x11, 0x12, 0x13, 0x14, 0x15, 0x16, 0x17, 0x18, 0x19,
     0x20, 0x21, 0x22, 0x23, 0x24, 0x25, 0x26, 0x27, 0x28, 0x29]"

text \<open>\<open>cv_fingerprint_capture_get_result\<close> of the double.\<close>

definition mock_capture_get_result ::
  "heap \<Rightarrow> u32 \<Rightarrow> byte \<Rightarrow> ptr \<Rightarrow> u32 \<Rightarrow> byte list \<Rightarrow> (u32 \<times> u32 \<times> byte list \<times> heap) option" where
  "mock_capture_get_result h handle selector capture_id n out =
     (if handle \<noteq> 0x12345678 \<or> selector \<noteq> 1 \<or> capture_id = 0
      then Some (0xdead0001, n, out, h)
      else do {
        bytes \<leftarrow> mem_read h capture_id 20;
        if bytes \<noteq> mock_capture_id \<or> n \<noteq> MOCK_CAPACITY then Some (0xdead0001, n, out, h)
        else do {
          out \<leftarrow> memset_obj out 0xa5 32;
          Some (0, 32, out, h)
        }
      })"

text \<open>A process in which the double is the target.\<close>

definition mock_probe_world :: "dso_world \<Rightarrow> ptr \<Rightarrow> heap probe_world" where
  "mock_probe_world dw capture =
     \<lparr>pw_dso = dw,
      pw_capture_at = (\<lambda>p h handle selector capture_id n out.
        if p = capture then mock_capture_get_result h handle selector capture_id n out else None)\<rparr>"

text \<open>\<open>mock_run_capture_result\<close>: two updates, which symbol interposition sends to the probe.\<close>

definition mock_run_capture_result ::
  "heap probe_world \<Rightarrow> bool \<times> bool \<Rightarrow> ptr \<Rightarrow> heap probe \<Rightarrow> (int \<times> heap probe) option" where
  "mock_run_capture_result w calloc_ok capture_id pb =
     do {
       (status, pb) \<leftarrow> probe_update_enrollment w (fst calloc_ok) 0x12345678 capture_id pb;
       (second_status, pb) \<leftarrow> probe_update_enrollment w (snd calloc_ok) 0x12345678 capture_id pb;
       Some (if status = MOCK_EXPERIMENT_FAILURE \<and> second_status = MOCK_EXPERIMENT_FAILURE
             then 0 else 9, pb)
     }"

text \<open>
  \<open>main\<close> of the loader. \<open>opens\<close>: the module can be opened; \<open>queries\<close>: both queries of the probe are
  found; \<open>symbol\<close>: the module has \<open>mock_run_capture_result\<close>.
\<close>

definition mock_capture_loader ::
  "heap probe_world \<Rightarrow> bool \<Rightarrow> bool \<Rightarrow> bool \<Rightarrow> bool \<times> bool \<Rightarrow> ptr \<Rightarrow> heap probe
     \<Rightarrow> (int \<times> heap probe) option" where
  "mock_capture_loader w opens queries symbol calloc_ok capture_id pb =
     (if \<not> opens then Some (2, pb)
      else if \<not> queries then Some (3, pb)
      else
        let (ready, pb) = cv2_capture_result_probe_ready (pw_dso w) pb
        in if ready = 0 then Some (3, pb)
           else if \<not> symbol then Some (4, pb)
           else do {
             (r, pb) \<leftarrow> mock_run_capture_result w calloc_ok capture_id pb;
             if r \<noteq> 0 then Some (5, pb)
             else Some (if cv2_capture_result_probe_complete pb then 0 else 6, pb)
           })"

end
