(* ===== verification/Mock_Driver.thy ===== *)
theory Mock_Driver
  imports Rearm_Update
begin

text \<open>
  The test double of the proprietary driver, \<open>tests/fixtures/mock_cv2_driver.c\<close>: the two functions
  that the interposer forwards to, and the TOD-like caller \<open>mock_run_enrollment\<close>, whose calls of the
  update go through the interposer by symbol interposition. \<open>abort ()\<close> is a fault.

  The statics are the record \<open>mock_driver\<close>; what the file prints is its list of structured lines.
\<close>

section \<open>Settings from the environment\<close>

text \<open>\<open>strtoul (value, &end, 0)\<close>: the value and the text from \<open>end\<close> on.\<close>

definition is_space :: "char \<Rightarrow> bool" where
  "is_space c = (let n = of_char c :: nat in n = 32 \<or> 9 \<le> n \<and> n \<le> 13)"

definition digit_value :: "char \<Rightarrow> nat option" where
  "digit_value c =
     (let n = of_char c :: nat in
      if 48 \<le> n \<and> n \<le> 57 then Some (n - 48)
      else if 97 \<le> n \<and> n \<le> 102 then Some (n - 87)
      else if 65 \<le> n \<and> n \<le> 70 then Some (n - 55)
      else None)"

fun read_digits :: "nat \<Rightarrow> nat \<Rightarrow> string \<Rightarrow> nat \<times> string" where
  "read_digits b acc [] = (acc, [])"
| "read_digits b acc (c # cs) =
     (case digit_value c of
        None \<Rightarrow> (acc, c # cs)
      | Some d \<Rightarrow> if d < b then read_digits b (acc * b + d) cs else (acc, c # cs))"

definition number_base :: "string \<Rightarrow> nat \<times> string" where
  "number_base s =
     (if take 1 s \<noteq> ''0'' then (10, s)
      else if (take 1 (drop 1 s) = ''x'' \<or> take 1 (drop 1 s) = ''X'')
              \<and> drop 2 s \<noteq> [] \<and> digit_value (hd (drop 2 s)) \<noteq> None
      then (16, drop 2 s)
      else (8, s))"

definition strtoul :: "string \<Rightarrow> nat \<times> string" where
  "strtoul value =
     (let s = dropWhile is_space value;
          negative = (take 1 s = ''-'');
          s = (if negative \<or> take 1 s = ''+'' then tl s else s);
          (b, ds) = number_base s;
          (n, end) = read_digits b 0 ds
      in if end = ds then (0, value)
         else (if n \<ge> 2 ^ 64 then 2 ^ 64 - 1 else if negative then (2 ^ 64 - n) mod 2 ^ 64 else n,
               end))"

type_synonym env = "string \<Rightarrow> string option"

definition status_from_env :: "env \<Rightarrow> string \<Rightarrow> u32 \<Rightarrow> u32 option" where
  "status_from_env getenv name fallback =
     (case getenv name of
        None \<Rightarrow> Some fallback
      | Some value \<Rightarrow>
          let (parsed, end) = strtoul value
          in if end = value \<or> end \<noteq> [] \<or> parsed > 2 ^ 32 - 1 then None
             else Some (of_nat parsed))"

text \<open>\<open>None\<close> aborts; \<open>Some None\<close> is the result 0 without a value.\<close>

definition optional_byte_from_env :: "env \<Rightarrow> string \<Rightarrow> byte option option" where
  "optional_byte_from_env getenv name =
     (case getenv name of
        None \<Rightarrow> Some None
      | Some value \<Rightarrow>
          let (parsed, end) = strtoul value
          in if end = value \<or> end \<noteq> [] \<or> parsed > 255 then None
             else Some (Some (of_nat parsed)))"

definition optional_u32_from_env :: "env \<Rightarrow> string \<Rightarrow> u32 option option" where
  "optional_u32_from_env getenv name =
     (if getenv name = None then Some None
      else map_option Some (status_from_env getenv name 0))"

section \<open>The driver\<close>

text \<open>
  The last two lines are printed by \<open>old_rtld_next_preload.c\<close> and \<open>mock_wrong_owner.c\<close>.
\<close>

datatype mock_line =
    Mock_Command_8A u32
  | Mock_Command_66
  | Mock_Input_Zero bool
  | Mock_Mutated
  | Mock_Identity string
  | Mock_Command_6C u32
  | Mock_Cancel
  | Mock_Discard
  | Tod_Callback u32
  | Tod_Counters u32 u32 u32 u32 u32
  | Tod_Outputs byte byte u32
  | Final_Status u32
  | Old_Resolver_Failed string
  | Wrong_Owner_Called

record mock_driver =
  md_update_count :: u32
  md_first :: update_args
  md_enrollment_started_count :: u32
  md_capture_start_count :: u32
  md_capture_cancel_count :: u32
  md_discard_count :: u32
  md_lines :: "mock_line list"

definition initial_driver :: mock_driver where
  "initial_driver = \<lparr>md_update_count = 0,
     md_first = \<lparr>ua_handle = 0, ua_enrollment_id = 0, ua_auxiliary_input_size = 0,
       ua_auxiliary_input = 0, ua_completion_out = 0, ua_enrollment_data_out = 0,
       ua_output_value_out = 0\<rparr>,
     md_enrollment_started_count = 0, md_capture_start_count = 0, md_capture_cancel_count = 0,
     md_discard_count = 0, md_lines = []\<rparr>"

definition mock_print :: "mock_line \<Rightarrow> mock_driver \<Rightarrow> mock_driver" where
  "mock_print line md = md\<lparr>md_lines := md_lines md @ [line]\<rparr>"

text \<open>\<open>buffer_is_zero\<close>: 0 for \<open>NULL\<close>; it stops at the first byte that is not 0.\<close>

fun zero_bytes :: "heap \<Rightarrow> ptr \<Rightarrow> nat \<Rightarrow> bool option" where
  "zero_bytes h p 0 = Some True"
| "zero_bytes h p (Suc n) =
     do { b \<leftarrow> h p; if b \<noteq> 0 then Some False else zero_bytes h (p + 1) n }"

definition mock_buffer_is_zero :: "heap \<Rightarrow> ptr \<Rightarrow> nat \<Rightarrow> bool option" where
  "mock_buffer_is_zero h p n = (if p = 0 then Some False else zero_bytes h p n)"

text \<open>The four bytes of a \<open>uint32_t\<close> in memory, and back (little endian).\<close>

definition u32_bytes :: "u32 \<Rightarrow> byte list" where
  "u32_bytes x = map (\<lambda>i. of_nat (unat x div 256 ^ i mod 256)) [0..<4]"

definition bytes_u32 :: "byte list \<Rightarrow> u32" where
  "bytes_u32 bs = of_nat (foldr (\<lambda>b n. unat b + 256 * n) bs 0)"

definition mock_enrollment_started ::
  "env \<Rightarrow> mock_driver \<Rightarrow> heap \<Rightarrow> (u32 \<times> heap \<times> mock_driver) option" where
  "mock_enrollment_started getenv md h =
     do {
       status \<leftarrow> status_from_env getenv ''MOCK_REARM_STATUS'' 0;
       let md = md\<lparr>md_enrollment_started_count := md_enrollment_started_count md + 1\<rparr>;
       Some (status, h, mock_print (Mock_Command_8A status) md)
     }"

definition mock_capture_start :: "mock_driver \<Rightarrow> mock_driver" where
  "mock_capture_start md =
     mock_print Mock_Command_66 (md\<lparr>md_capture_start_count := md_capture_start_count md + 1\<rparr>)"

definition mock_capture_cancel :: "mock_driver \<Rightarrow> mock_driver" where
  "mock_capture_cancel md =
     mock_print Mock_Cancel (md\<lparr>md_capture_cancel_count := md_capture_cancel_count md + 1\<rparr>)"

definition mock_discard_enrollment :: "mock_driver \<Rightarrow> mock_driver" where
  "mock_discard_enrollment md =
     mock_print Mock_Discard (md\<lparr>md_discard_count := md_discard_count md + 1\<rparr>)"

text \<open>The comparison of the arguments with those of the first call; the handle is not compared.\<close>

definition same_arguments :: "update_args \<Rightarrow> update_args \<Rightarrow> bool" where
  "same_arguments ua first \<longleftrightarrow>
     ua_enrollment_id ua = ua_enrollment_id first
     \<and> ua_auxiliary_input_size ua = ua_auxiliary_input_size first
     \<and> ua_auxiliary_input ua = ua_auxiliary_input first
     \<and> ua_completion_out ua = ua_completion_out first
     \<and> ua_enrollment_data_out ua = ua_enrollment_data_out first
     \<and> ua_output_value_out ua = ua_output_value_out first"

text \<open>The outputs of \<open>cv_fingerprint_update_enrollment\<close>, as far as they are configured.\<close>

definition mock_outputs :: "env \<Rightarrow> bool \<Rightarrow> update_args \<Rightarrow> heap \<Rightarrow> heap option" where
  "mock_outputs getenv first ua h =
     do {
       let completion_name = (if first then ''MOCK_FIRST_COMPLETION'' else ''MOCK_SECOND_COMPLETION'');
       let output_byte_name =
         (if first then ''MOCK_FIRST_OUTPUT_BYTE'' else ''MOCK_SECOND_OUTPUT_BYTE'');
       let output_value_name =
         (if first then ''MOCK_FIRST_OUTPUT_VALUE'' else ''MOCK_SECOND_OUTPUT_VALUE'');
       h \<leftarrow> (if ua_completion_out ua = 0 then Some h
             else do {
               v \<leftarrow> optional_byte_from_env getenv completion_name;
               (case v of None \<Rightarrow> Some h | Some b \<Rightarrow> mem_write h (ua_completion_out ua) [b])
             });
       h \<leftarrow> (if ua_enrollment_data_out ua = 0 then Some h
             else do {
               v \<leftarrow> optional_byte_from_env getenv output_byte_name;
               (case v of None \<Rightarrow> Some h | Some b \<Rightarrow> mem_write h (ua_enrollment_data_out ua) [b])
             });
       (if ua_output_value_out ua = 0 then Some h
        else do {
          v \<leftarrow> optional_u32_from_env getenv output_value_name;
          (case v of None \<Rightarrow> Some h
                   | Some x \<Rightarrow> mem_write h (ua_output_value_out ua) (u32_bytes x))
        })
     }"

definition mock_update ::
  "env \<Rightarrow> mock_driver \<Rightarrow> heap \<Rightarrow> update_args \<Rightarrow> (u32 \<times> heap \<times> mock_driver) option" where
  "mock_update getenv md h ua =
     do {
       let md = md\<lparr>md_update_count := md_update_count md + 1\<rparr>;
       let first = (md_update_count md = 1);
       zero \<leftarrow> mock_buffer_is_zero h (ua_enrollment_id ua) 20;
       let md = mock_print (Mock_Input_Zero zero) md;
       if getenv ''MOCK_REQUIRE_ZERO_ENROLLMENT_ID'' \<noteq> None \<and> \<not> zero then None
       else do {
         (h, md) \<leftarrow>
           (if first \<and> ua_enrollment_id ua \<noteq> 0 \<and> getenv ''MOCK_MUTATE_FIRST_ENROLLMENT_ID'' \<noteq> None
            then do {
              h \<leftarrow> mem_write h (ua_enrollment_id ua) [0x5a];
              Some (h, mock_print Mock_Mutated md)
            } else Some (h, md));
         (status, md) \<leftarrow>
           (if first then do {
              status \<leftarrow> status_from_env getenv ''MOCK_FIRST_UPDATE_STATUS'' 0x89;
              Some (status, mock_print (Mock_Identity ''first'') (md\<lparr>md_first := ua\<rparr>))
            } else do {
              status \<leftarrow> status_from_env getenv ''MOCK_SECOND_UPDATE_STATUS'' 0;
              Some (status, mock_print (Mock_Identity
                (if same_arguments ua (md_first md) then ''same'' else ''changed'')) md)
            });
         h \<leftarrow> mock_outputs getenv first ua h;
         Some (status, h, mock_print (Mock_Command_6C status) md)
       }
     }"

section \<open>The caller\<close>

text \<open>The addresses of the locals of \<open>mock_run_enrollment\<close>.\<close>

record mock_frame =
  mf_enrollment_id :: ptr
  mf_auxiliary_input :: ptr
  mf_completion :: ptr
  mf_enrollment_output :: ptr
  mf_output_value :: ptr

definition in_driver :: "(mock_driver \<Rightarrow> mock_driver) \<Rightarrow> mock_driver process \<Rightarrow> mock_driver process" where
  "in_driver f pr = pr\<lparr>pr_native := f (pr_native pr)\<rparr>"

text \<open>
  The update function that symbol interposition gives the driver's own calls of
  \<open>cv_fingerprint_update_enrollment\<close>: that of the preload library.
\<close>

type_synonym interposed_update =
  "update_args \<Rightarrow> mock_driver process \<Rightarrow> (u32 \<times> mock_driver process) option"

text \<open>One update through the interposer, with the cancellation and the line behind it.\<close>

definition tod_update :: "interposed_update \<Rightarrow> interposed_update" where
  "tod_update upd ua pr =
     do {
       (status, pr) \<leftarrow> upd ua pr;
       let pr = (if status \<noteq> 0 \<and> status \<noteq> 0xa4 \<and> status \<noteq> 0x89
                 then in_driver mock_capture_cancel pr else pr);
       Some (status, in_driver (mock_print (Tod_Callback status)) pr)
     }"

fun tod_sequence ::
  "nat list \<Rightarrow> env \<Rightarrow> interposed_update \<Rightarrow> mock_frame \<Rightarrow> update_args \<Rightarrow> u32
     \<Rightarrow> mock_driver process \<Rightarrow> (u32 \<times> mock_driver process) option" where
  "tod_sequence [] getenv upd fr ua status pr = Some (status, pr)"
| "tod_sequence (index # rest) getenv upd fr ua status pr =
     (if status \<noteq> 0 then Some (status, pr)
      else do {
        h \<leftarrow> (if getenv ''MOCK_COPY_OUTPUT_TO_NEXT_ID'' \<noteq> None
              then do {
                bytes \<leftarrow> mem_read (pr_heap pr) (mf_enrollment_output fr) 20;
                mem_write (pr_heap pr) (mf_enrollment_id fr) bytes
              }
              else if getenv ''MOCK_CHANGE_ENROLLMENT_ID_EACH_UPDATE'' \<noteq> None
              then mem_write (pr_heap pr) (mf_enrollment_id fr) (replicate 20 (of_nat index))
              else Some (pr_heap pr));
        (status, pr) \<leftarrow> tod_update upd ua (in_driver mock_capture_start (pr\<lparr>pr_heap := h\<rparr>));
        tod_sequence rest getenv upd fr ua status pr
      })"

text \<open>The initialised locals.\<close>

definition mock_locals :: "env \<Rightarrow> mock_frame \<Rightarrow> heap \<Rightarrow> heap option" where
  "mock_locals getenv fr h =
     do {
       h \<leftarrow> mem_write h (mf_enrollment_id fr) (replicate 20 0);
       h \<leftarrow> mem_write h (mf_auxiliary_input fr) [0xa1, 0xa2, 0xa3, 0xa4];
       h \<leftarrow> mem_write h (mf_completion fr) [0x31];
       h \<leftarrow> mem_write h (mf_output_value fr) (u32_bytes 0x51525354);
       initial \<leftarrow> optional_byte_from_env getenv ''MOCK_INITIAL_ENROLLMENT_ID_BYTE'';
       h \<leftarrow> (case initial of None \<Rightarrow> Some h
             | Some b \<Rightarrow> mem_write h (mf_enrollment_id fr) (replicate 20 b));
       mem_write h (mf_enrollment_output fr) (map (\<lambda>index. of_nat (0x40 + index)) [0..<20])
     }"

definition tod_arguments :: "env \<Rightarrow> mock_frame \<Rightarrow> update_args" where
  "tod_arguments getenv fr =
     (let no_aux = (getenv ''MOCK_ZERO_AUXILIARY_INPUT'' \<noteq> None) in
      \<lparr>ua_handle = 1,
       ua_enrollment_id =
         (if getenv ''MOCK_NULL_ENROLLMENT_ID'' \<noteq> None then 0 else mf_enrollment_id fr),
       ua_auxiliary_input_size = (if no_aux then 0 else 4),
       ua_auxiliary_input = (if no_aux then 0 else mf_auxiliary_input fr),
       ua_completion_out = mf_completion fr, ua_enrollment_data_out = mf_enrollment_output fr,
       ua_output_value_out = mf_output_value fr\<rparr>)"

text \<open>What follows the updates: the capture behind a bad one, or the discard of a fatal status.\<close>

definition tod_finish ::
  "env \<Rightarrow> interposed_update \<Rightarrow> update_args \<Rightarrow> u32 \<Rightarrow> mock_driver process
     \<Rightarrow> (u32 \<times> mock_driver process) option" where
  "tod_finish getenv upd ua status pr =
     (if status = 0x89
      then let pr = in_driver mock_capture_start pr in
           if getenv ''MOCK_DEFER_CAPTURE_COMPLETION'' = None then tod_update upd ua pr
           else Some (status, pr)
      else if status \<noteq> 0 \<and> status \<noteq> 0xa4 \<and> status \<noteq> 0x8f
      then Some (status, in_driver mock_discard_enrollment pr)
      else Some (status, pr))"

text \<open>The three lines at the end.\<close>

definition tod_report :: "mock_frame \<Rightarrow> u32 \<Rightarrow> mock_driver process \<Rightarrow> mock_driver process option" where
  "tod_report fr status pr =
     do {
       completion \<leftarrow> pr_heap pr (mf_completion fr);
       output_byte \<leftarrow> pr_heap pr (mf_enrollment_output fr);
       outval \<leftarrow> mem_read (pr_heap pr) (mf_output_value fr) 4;
       let md = pr_native pr;
       let md = mock_print (Tod_Counters (md_update_count md) (md_enrollment_started_count md)
         (md_capture_start_count md) (md_capture_cancel_count md) (md_discard_count md)) md;
       let md = mock_print (Tod_Outputs completion output_byte (bytes_u32 outval)) md;
       Some (pr\<lparr>pr_native := mock_print (Final_Status status) md\<rparr>)
     }"

definition mock_run_enrollment ::
  "env \<Rightarrow> interposed_update \<Rightarrow> mock_frame \<Rightarrow> mock_driver process
     \<Rightarrow> (int \<times> mock_driver process) option" where
  "mock_run_enrollment getenv upd fr pr =
     do {
       sequential_updates \<leftarrow> status_from_env getenv ''MOCK_SEQUENTIAL_UPDATE_COUNT'' 1;
       if sequential_updates = 0 \<or> sequential_updates > 16 then None
       else do {
         h \<leftarrow> mock_locals getenv fr (pr_heap pr);
         let ua = tod_arguments getenv fr;
         (status, pr) \<leftarrow> tod_update upd ua (pr\<lparr>pr_heap := h\<rparr>);
         (status, pr) \<leftarrow> tod_sequence [1..<unat sequential_updates] getenv upd fr ua status pr;
         (status, pr) \<leftarrow> tod_finish getenv upd ua status pr;
         pr \<leftarrow> tod_report fr status pr;
         Some (0, pr)
       }
     }"

text \<open>A process in which the double is the target: its two functions behind their addresses.\<close>

definition mock_world :: "dso_world \<Rightarrow> ptr \<Rightarrow> ptr \<Rightarrow> ptr \<Rightarrow> mock_driver rearm_world" where
  "mock_world dw update started zero_input =
     \<lparr>rw_dso = dw,
      rw_update_at = (\<lambda>p md h ua.
        if p = update then mock_update (dw_getenv dw) md h ua else None),
      rw_started_at = (\<lambda>p md h.
        if p = started then mock_enrollment_started (dw_getenv dw) md h else None),
      rw_zero_update_input = zero_input\<rparr>"

section \<open>The loader\<close>

text \<open>
  \<open>main\<close> of \<open>tests/fixtures/mock_local_loader.c\<close> with the arguments \<open>plugin\<close> and \<open>mode\<close>; its progress
  messages are left out. \<open>opens\<close>: \<open>g_module_open\<close> succeeds. The world is the one after the module was
  loaded (or, in mode \<open>no-load-ready-failure\<close>, not loaded). \<open>readiness\<close> is what the lookup of
  \<open>cv2_0x89_forwarding_ready\<close> finds in the preload library, \<open>upd\<close> that library's update function;
  \<open>run\<close> is \<open>mock_run_enrollment\<close> if the module has it. A failed lookup exits with 2.
\<close>

type_synonym readiness_fn = "mock_driver process \<Rightarrow> int \<times> mock_driver process"

definition loader_run ::
  "dso_world \<Rightarrow> bool \<Rightarrow> interposed_update \<Rightarrow> mock_frame \<Rightarrow> mock_driver process
     \<Rightarrow> (int \<times> mock_driver process) option" where
  "loader_run dw has_run upd fr pr =
     (if has_run then mock_run_enrollment (dw_getenv dw) upd fr pr else Some (2, pr))"

definition mock_local_loader ::
  "dso_world \<Rightarrow> readiness_fn option \<Rightarrow> interposed_update \<Rightarrow> mock_frame \<Rightarrow> bool \<Rightarrow> bool
     \<Rightarrow> string \<Rightarrow> string \<Rightarrow> mock_driver process \<Rightarrow> (int \<times> mock_driver process) option" where
  "mock_local_loader dw readiness upd fr opens has_run plugin mode pr =
     (let loads = (mode \<noteq> ''no-load-ready-failure'');
          run = loader_run dw (loads \<and> has_run) upd fr
      in if loads \<and> \<not> opens then Some (2, pr)
         else if mode = ''run-without-ready'' then run pr
         else (case readiness of
                 None \<Rightarrow> Some (2, pr)
               | Some ready_fn \<Rightarrow>
                   let (ready, pr) = ready_fn pr
                   in if ready = 0
                      then Some (if \<not> loads
                                 then (if fst (dw_dlopen_noload dw plugin) \<noteq> 0 then 5 else 0)
                                 else if mode = ''ready-failure'' then 0 else 3, pr)
                      else if mode = ''ready-failure'' then Some (4, pr)
                      else run pr))"

text \<open>The loader under the enrollment interposer.\<close>

definition rearm_readiness :: "mock_driver rearm_world \<Rightarrow> readiness_fn" where
  "rearm_readiness w pr =
     (let (ready, rs, lines) = cv2_0x89_forwarding_ready (rw_dso w) (pr_resolver pr)
      in (ready, emit lines (pr\<lparr>pr_resolver := rs\<rparr>)))"

definition rearm_loader ::
  "mock_driver rearm_world \<Rightarrow> mock_frame \<Rightarrow> bool \<Rightarrow> bool \<Rightarrow> string \<Rightarrow> string
     \<Rightarrow> mock_driver process \<Rightarrow> (int \<times> mock_driver process) option" where
  "rearm_loader w = mock_local_loader (rw_dso w) (Some (rearm_readiness w))
     (cv_fingerprint_update_enrollment w)"

end
