(* ===== verification/Mock_Fixtures.thy ===== *)
theory Mock_Fixtures
  imports Mock_Driver Rearm_Resolver_Correct
begin

text \<open>
  The three fixtures of the resolver tests: \<open>old_rtld_next_preload.c\<close>, the first version of the
  interposer, \<open>mock_self_resolution.c\<close>, a target whose update function is an IFUNC that resolves
  to the interposer, and \<open>mock_wrong_owner.c\<close>, a dependency that provides the re-arm function a
  target lacks.
\<close>

section \<open>The old interposer\<close>

text \<open>
  \<open>cv_fingerprint_update_enrollment\<close> of \<open>old_rtld_next_preload.c\<close>; \<open>rtld_next\<close> is the result of
  \<open>dlsym (RTLD_NEXT, ...)\<close> with the message of the next \<open>dlerror ()\<close>. It calls the function it
  found with the same arguments.
\<close>

definition old_update_enrollment ::
  "mock_driver rearm_world \<Rightarrow> ptr \<times> string option \<Rightarrow> interposed_update" where
  "old_update_enrollment w rtld_next ua pr =
     (let (real_update, err) = rtld_next
      in if real_update = 0 \<or> err \<noteq> None
         then Some (CV_STATUS_EXPERIMENT_FAILURE,
                    in_driver (mock_print (Old_Resolver_Failed
                      (case err of None \<Rightarrow> ''symbol not found'' | Some m \<Rightarrow> m))) pr)
         else do {
           (status, h, md) \<leftarrow> rw_update_at w real_update (pr_native pr) (pr_heap pr) ua;
           Some (status, pr\<lparr>pr_heap := h, pr_native := md\<rparr>)
         })"

text \<open>The loader under the old interposer, which has no readiness function.\<close>

definition old_loader ::
  "mock_driver rearm_world \<Rightarrow> ptr \<times> string option \<Rightarrow> mock_frame \<Rightarrow> bool \<Rightarrow> bool \<Rightarrow> string \<Rightarrow> string
     \<Rightarrow> mock_driver process \<Rightarrow> (int \<times> mock_driver process) option" where
  "old_loader w rtld_next = mock_local_loader (rw_dso w) None (old_update_enrollment w rtld_next)"

section \<open>A target that resolves to the interposer\<close>

text \<open>
  The IFUNC's resolver asks the default scope, where the preload library comes first; \<open>dlsym\<close> on
  the target's handle returns what the resolver returned.
\<close>

definition resolve_update_to_preload :: "(string \<Rightarrow> ptr) \<Rightarrow> ptr" where
  "resolve_update_to_preload rtld_default = rtld_default ''cv_fingerprint_update_enrollment''"

definition self_started :: "'w \<Rightarrow> heap \<Rightarrow> (u32 \<times> heap \<times> 'w) option" where
  "self_started n h = Some (0, h, n)"

definition self_dlsym :: "(string \<Rightarrow> ptr) \<Rightarrow> ptr \<Rightarrow> string \<Rightarrow> ptr \<times> string option" where
  "self_dlsym rtld_default started symbol =
     (if symbol = ''cv_fingerprint_update_enrollment''
      then (resolve_update_to_preload rtld_default, None)
      else if symbol = ''cv_cmd_enrollment_started'' then (started, None)
      else (0, Some ''undefined symbol''))"

section \<open>A re-arm function in a dependency\<close>

text \<open>
  The driver double built without its re-arm function and linked against \<open>mock_wrong_owner.c\<close>:
  \<open>dlsym\<close> on its handle also searches its dependency.
\<close>

definition wrong_owner_started ::
  "mock_driver \<Rightarrow> heap \<Rightarrow> (u32 \<times> heap \<times> mock_driver) option" where
  "wrong_owner_started md h = Some (0, h, mock_print Wrong_Owner_Called md)"

definition wrong_owner_world ::
  "dso_world \<Rightarrow> ptr \<Rightarrow> ptr \<Rightarrow> ptr \<Rightarrow> mock_driver rearm_world" where
  "wrong_owner_world dw update started zero_input =
     \<lparr>rw_dso = dw,
      rw_update_at = (\<lambda>p md h ua.
        if p = update then mock_update (dw_getenv dw) md h ua else None),
      rw_started_at = (\<lambda>p md h. if p = started then wrong_owner_started md h else None),
      rw_zero_update_input = zero_input\<rparr>"

definition self_resolution_world ::
  "dso_world \<Rightarrow> ptr \<Rightarrow> ptr \<Rightarrow> mock_driver rearm_world" where
  "self_resolution_world dw started zero_input =
     \<lparr>rw_dso = dw, rw_update_at = (\<lambda>p md h ua. None),
      rw_started_at = (\<lambda>p md h. if p = started then self_started md h else None),
      rw_zero_update_input = zero_input\<rparr>"

end
