(* ===== verification/Mock_Claims.thy ===== *)
theory Mock_Claims
  imports Mock_Capture Capture_Claims Mock_Fixtures Rearm_Correct
begin

text \<open>
  The interposers together with the test doubles of the driver.
\<close>

section \<open>The capture probe\<close>

lemma probe_ready_again:
  assumes "capture_probe_ready dw pb = (True, pb0)"
    and "pb_once_done pb1 = pb_once_done pb0" and "pb_cache pb1 = pb_cache pb0"
  shows "capture_probe_ready dw pb1 = (True, pb1)"
proof -
  have "dw_once_status dw = 0" using assms(1) by (auto simp: capture_probe_ready_def split: if_splits prod.splits)
  then show ?thesis using probe_ready_once [OF assms(1)] assms(2,3) by (simp add: capture_probe_ready_def)
qed

lemma probe_update_counts:
  assumes "capture_probe_ready (pw_dso w) pb = (True, pb)"
  shows "probe_update_enrollment w calloc_ok handle eid pb =
    (let n = pb_intercepted_updates pb + 1; pb = pb\<lparr>pb_intercepted_updates := n\<rparr> in
     if n \<noteq> 1 then Some (CV2_EXPERIMENT_FAILURE, probe_log [Probe_Blocked n] pb)
     else if handle = 0 \<or> eid = 0 then Some (CV2_EXPERIMENT_FAILURE, probe_log [Probe_Invalid_Boundary] pb)
     else if \<not> calloc_ok then Some (CV2_EXPERIMENT_FAILURE, probe_log [Probe_Allocation_Failed] pb)
     else map_option (Pair CV2_EXPERIMENT_FAILURE) (probe_native_call w handle eid pb))"
  using assms
  by (cases "probe_native_call w handle eid (pb\<lparr>pb_intercepted_updates := 1\<rparr>)")
     (auto simp: probe_update_enrollment_def Let_def)

lemma mock_native_call:
  assumes "pc_capture_get_result (pb_cache pb) = capture" and "eid \<noteq> 0"
    and "mem_read (pb_native pb) eid 20 = Some mock_capture_id"
  obtains pb' where "probe_native_call (mock_probe_world dw capture) 0x12345678 eid pb = Some pb'"
    and "captures pb' = captures pb @ [Capture_Call 0x12345678 1 eid 0 32]"
    and "pb_freed pb' = pb_freed pb @ [blank_buffer]"
    and "pb_native_capture_result_calls pb' = pb_native_capture_result_calls pb + 1"
    and "pb_result_metadata_valid pb'" and "pb_intercepted_updates pb' = pb_intercepted_updates pb"
    and "pb_cache pb' = pb_cache pb" and "pb_once_done pb' = pb_once_done pb"
proof -
  have cap: "32 \<le> CV2_CAPTURE_CAPACITY" "(of_nat CV2_CAPTURE_CAPACITY :: u32) = MOCK_CAPACITY"
      "(32 :: u32) \<le> MOCK_CAPACITY"
    by (simp_all add: CV2_CAPTURE_CAPACITY_def MOCK_CAPACITY_def)
  have call: "pw_capture_at (mock_probe_world dw capture) (pc_capture_get_result (pb_cache pb)) (pb_native pb)
      0x12345678 CV2_CAPTURE_SELECTOR eid (of_nat CV2_CAPTURE_CAPACITY) blank_buffer
    = Some (0, 32, replicate 32 0xa5 @ drop 32 blank_buffer, pb_native pb)"
    using assms cap
    by (simp add: mock_probe_world_def mock_capture_get_result_def CV2_CAPTURE_SELECTOR_def memset_obj_def
        del: drop_replicate)
  obtain pb' where run: "probe_native_call (mock_probe_world dw capture) 0x12345678 eid pb = Some pb'"
    using cap by (simp add: probe_native_call_def call [unfolded assms(1) cap(2)] assms(1) Let_def same_object_def
        secure_clear_all)
  from probe_native_call_effect [OF run] show thesis
    using call cap by (intro that [OF run]) (auto simp: CV2_CAPTURE_SELECTOR_def)
qed

text \<open>C37:
  The capture probe works end to end with the test driver: once its resolver accepts a target whose
  capture function is the double's, the loader exits with 0 exactly if the private buffer can be
  allocated for the first update (and with 6 otherwise). Then the driver has seen one capture with
  status 0 and 32 bytes, both updates were intercepted, and the buffer was zero when it was freed.\<close>

theorem capture_loader_outcome:
  assumes "capture_probe_ready dw (initial_probe h) = (True, pb0)"
    and "pc_capture_get_result (pb_cache pb0) = capture" and "capture_id \<noteq> 0"
    and "mem_read h capture_id 20 = Some mock_capture_id"
  shows "\<exists>pb. mock_capture_loader (mock_probe_world dw capture) True True True (c1, c2) capture_id
                (initial_probe h) = Some (if c1 then 0 else 6, pb)
     \<and> pb_intercepted_updates pb = 2
     \<and> captures pb = (if c1 then [Capture_Call 0x12345678 1 capture_id 0 32] else [])
     \<and> pb_freed pb = (if c1 then [blank_buffer] else [])"
proof -
  let ?w = "mock_probe_world dw capture"
  have core: "pb_intercepted_updates pb0 = 0" "pb_native_capture_result_calls pb0 = 0"
      "\<not> pb_result_metadata_valid pb0" "pb_native pb0 = h" "pb_freed pb0 = []" "captures pb0 = []"
    using probe_core_eq [OF capture_probe_ready_core [OF assms(1)]]
    by (simp_all add: initial_probe_def captures_def)
  have dso: "pw_dso ?w = dw" by (simp add: mock_probe_world_def)
  have again: "capture_probe_ready (pw_dso ?w) pb = (True, pb)"
    if "pb_once_done pb = pb_once_done pb0" "pb_cache pb = pb_cache pb0" for pb
    unfolding dso using assms(1) that by (rule probe_ready_again)
  define pb1 where "pb1 = pb0\<lparr>pb_intercepted_updates := 1\<rparr>"
  have mapped: "pc_capture_get_result (pb_cache pb1) = capture"
      "mem_read (pb_native pb1) capture_id 20 = Some mock_capture_id"
    using assms(2,4) core(4) by (simp_all add: pb1_def)
  obtain pb2 where call: "probe_native_call ?w 0x12345678 capture_id pb1 = Some pb2"
    and pb2: "captures pb2 = captures pb1 @ [Capture_Call 0x12345678 1 capture_id 0 32]"
      "pb_freed pb2 = pb_freed pb1 @ [blank_buffer]"
      "pb_native_capture_result_calls pb2 = pb_native_capture_result_calls pb1 + 1"
      "pb_result_metadata_valid pb2" "pb_intercepted_updates pb2 = pb_intercepted_updates pb1"
      "pb_cache pb2 = pb_cache pb1" "pb_once_done pb2 = pb_once_done pb1"
    by (rule mock_native_call [where dw = dw, OF mapped(1) assms(3) mapped(2)])
  define pb3 where "pb3 = (if c1 then pb2 else probe_log [Probe_Allocation_Failed] pb1)"
  have first: "probe_update_enrollment ?w c1 0x12345678 capture_id pb0 = Some (CV2_EXPERIMENT_FAILURE, pb3)"
    unfolding probe_update_counts [OF again [OF refl refl]]
    using assms(3) core(1) call by (simp add: Let_def pb1_def pb3_def)
  have pb3: "pb_intercepted_updates pb3 = 1" "pb_once_done pb3 = pb_once_done pb0" "pb_cache pb3 = pb_cache pb0"
    using pb2 by (simp_all add: pb3_def pb1_def)
  have second: "probe_update_enrollment ?w c2 0x12345678 capture_id pb3
      = Some (CV2_EXPERIMENT_FAILURE, probe_log [Probe_Blocked 2] (pb3\<lparr>pb_intercepted_updates := 2\<rparr>))"
    unfolding probe_update_counts [OF again [OF pb3(2,3)]] by (simp add: Let_def pb3(1))
  have complete: "cv2_capture_result_probe_complete (probe_log [Probe_Blocked 2] (pb3\<lparr>pb_intercepted_updates := 2\<rparr>))
      \<longleftrightarrow> c1"
    using pb2 core by (simp add: cv2_capture_result_probe_complete_def pb3_def pb1_def)
  have fail: "MOCK_EXPERIMENT_FAILURE = CV2_EXPERIMENT_FAILURE"
    by (simp add: MOCK_EXPERIMENT_FAILURE_def CV2_EXPERIMENT_FAILURE_def)
  have "mock_capture_loader ?w True True True (c1, c2) capture_id (initial_probe h)
      = Some (if c1 then 0 else 6, probe_log [Probe_Blocked 2] (pb3\<lparr>pb_intercepted_updates := 2\<rparr>))"
    by (simp add: mock_capture_loader_def cv2_capture_result_probe_ready_def dso assms(1)
        mock_run_capture_result_def first second fail complete)
  then show ?thesis using pb2 core by (simp add: pb3_def pb1_def)
qed

theorem capture_loader_outcome_witness:
  "\<exists>h pb. mock_capture_loader (mock_probe_world probe_dso 512) True True True (True, True) 1024
       (initial_probe h) = Some (0, pb)
     \<and> captures pb = [Capture_Call 0x12345678 1 1024 0 32] \<and> pb_freed pb = [blank_buffer]"
proof -
  define h :: heap where "h = (\<lambda>p. Some (mock_capture_id ! unat (p - 1024)))"
  have id: "mem_read h 1024 20 = Some mock_capture_id"
    by (rule mem_read_intro) (simp_all add: h_def mock_capture_id_def unat_of_nat)
  obtain pb0 where ready: "capture_probe_ready probe_dso (initial_probe h) = (True, pb0)"
    and capture: "pc_capture_get_result (pb_cache pb0) = 512"
    by (simp add: probe_dso_def capture_probe_ready_def initial_probe_def zero_probe_cache_def
        probe_initialize_resolver_def identity_from_path_def find_loaded_target_def
        probe_resolve_symbols_def probe_lookup_def probe_symbol_owned_def split_beta Let_def)
  from capture_loader_outcome [OF ready capture _ id, of True True] show ?thesis by auto
qed

section \<open>The enrollment interposer and the resolver fixtures\<close>

text \<open>The target is loaded and can be opened, and the settings are valid.\<close>

definition target_found :: "dso_world \<Rightarrow> target_identity \<Rightarrow> ptr \<Rightarrow> bool" where
  "target_found dw expected handle \<longleftrightarrow>
     dw_once_status dw = 0
     \<and> identity_from_path dw (dw_getenv dw CV2_TARGET_ENV) = Some expected
     \<and> target_loaded dw expected (dw_loaded dw)
     \<and> dw_dlopen_noload dw (ti_path expected) = (handle, None) \<and> handle \<noteq> 0
     \<and> configured_policy (dw_getenv dw CV2_UPDATE_POLICY_ENV) \<noteq> None
     \<and> configured_trace (dw_getenv dw CV2_METADATA_TRACE_ENV) \<noteq> None"

text \<open>
  The loader stops before it runs the enrollment, with the code of its mode; nothing of the driver
  was called or changed, and the failure is the given one.
\<close>

definition loader_refuses :: "mock_driver rearm_world \<Rightarrow> string \<Rightarrow> bool" where
  "loader_refuses w reason \<longleftrightarrow>
     (\<forall>h fr has_run plugin mode. mode \<in> {''ready-success'', ''ready-failure''} \<longrightarrow>
       (\<exists>pr. rearm_loader w fr True has_run plugin mode (initial_process h initial_driver)
              = Some (if mode = ''ready-failure'' then 0 else 3, pr)
          \<and> native_calls pr = [] \<and> pr_native pr = initial_driver \<and> pr_heap pr = h
          \<and> rc_failure (cache pr) = snprintf_failure reason))"

lemma target_found_resolver:
  assumes "target_found dw expected handle"
  obtains rc where "\<not> rc_ready rc" and "rc_handle rc = handle"
    and "fst (initialize_resolver dw zero_cache) = fst (resolve_symbols dw expected rc)"
proof -
  obtain pol on where "configured_policy (dw_getenv dw CV2_UPDATE_POLICY_ENV) = Some pol"
    and "configured_trace (dw_getenv dw CV2_METADATA_TRACE_ENV) = Some on"
    using assms by (auto simp: target_found_def)
  then have "fst (initialize_resolver dw zero_cache) = fst (resolve_symbols dw expected
      (zero_cache\<lparr>rc_update_policy := pol, rc_metadata_trace := on, rc_handle := handle\<rparr>))"
    using assms
    by (simp add: target_found_def initialize_resolver_def acquire_target_def Let_def split_beta)
  then show thesis by (rule that [rotated 2]) (simp_all add: zero_cache_def)
qed

lemma loader_refusesI:
  assumes "target_found (rw_dso w) expected handle"
    and "\<And>rc. \<not> rc_ready rc \<Longrightarrow> rc_handle rc = handle \<Longrightarrow>
           fst (resolve_symbols (rw_dso w) expected rc) = fst (resolver_failure reason rc)"
  shows "loader_refuses w reason"
proof -
  obtain rc where rc: "\<not> rc_ready rc" "rc_handle rc = handle"
    and run: "fst (initialize_resolver (rw_dso w) zero_cache) = fst (resolve_symbols (rw_dso w) expected rc)"
    using target_found_resolver [OF assms(1)] by blast
  obtain rc' lines where init: "initialize_resolver (rw_dso w) zero_cache = (rc', lines)" by fastforce
  have rc': "rc' = fst (resolver_failure reason rc)" using init run assms(2) [OF rc] by simp
  have "dw_once_status (rw_dso w) = 0" using assms(1) by (simp add: target_found_def)
  then show ?thesis
    using init rc(1)
    by (auto simp: loader_refuses_def rearm_loader_def mock_local_loader_def rearm_readiness_def
        cv2_0x89_forwarding_ready_def forwarding_ready_def initial_process_def initial_resolver_def
        emit_def native_calls_def filter_empty_conv rc')
qed

lemma owner_refused:
  assumes "owner_of dw address = Some other" and "other \<noteq> target" and "address \<noteq> 0" and "address \<noteq> self"
  shows "symbol_owned_by_target dw address symbol target self rc =
    (False, resolver_failure (''symbol '' @ symbol @ '' belongs to unexpected DSO '' @ ti_path other) rc)"
proof -
  have "ti_path other \<noteq> ti_path target \<or> ti_device other \<noteq> ti_device target \<or> ti_inode other \<noteq> ti_inode target"
    using assms(2) by (auto intro: target_identity.equality)
  then show ?thesis
    using assms(1,3,4)
    by (cases "dw_dladdr dw address") (auto simp: owner_of_def symbol_owned_by_target_def split: option.splits)
qed

lemma owner_accepted:
  assumes "owner_of dw address = Some target" and "address \<noteq> 0" and "address \<noteq> self"
  shows "\<exists>lines. symbol_owned_by_target dw address symbol target self rc = (True, rc, lines)"
proof -
  obtain fname where "dw_dladdr dw address = Some (Some fname)"
    and "identity_from_path dw (Some fname) = Some target"
    using assms(1) identity_from_path_None [of dw]
    by (auto simp: owner_of_def simp del: identity_from_path_None split: option.splits)
       (metis not_None_eq)
  then show ?thesis using assms(2,3) by (simp add: symbol_owned_by_target_def)
qed

text \<open>C38:
  The two fixture targets that must not be used are refused before any command, each for the reason
  the tests expect: a target whose update function resolves to the interposer's own wrapper, and a
  target whose re-arm function belongs to a dependency.\<close>

theorem resolver_fixtures_refused:
  assumes "target_found dw expected handle"
  shows "(dw_dlsym dw handle = self_dlsym rtld_default self_fn
      \<and> rtld_default ''cv_fingerprint_update_enrollment'' = dw_self_update dw
      \<and> dw_self_update dw \<noteq> 0
    \<longrightarrow> loader_refuses (self_resolution_world dw self_fn zero_input)
          (''target symbol cv_fingerprint_update_enrollment''
           @ '' resolved to the interposer wrapper; refusing recursion''))
    \<and> (dw_dlsym dw handle ''cv_fingerprint_update_enrollment'' = (upd, None)
      \<and> upd \<notin> {0, dw_self_update dw} \<and> owner_of dw upd = Some expected
      \<and> dw_dlsym dw handle ''cv_cmd_enrollment_started'' = (started, None)
      \<and> started \<noteq> 0 \<and> owner_of dw started = Some other \<and> other \<noteq> expected
    \<longrightarrow> loader_refuses (wrong_owner_world dw upd started zero_input)
          (''symbol cv_cmd_enrollment_started belongs to unexpected DSO '' @ ti_path other))"
proof (intro conjI impI)
  assume self: "dw_dlsym dw handle = self_dlsym rtld_default self_fn
    \<and> rtld_default ''cv_fingerprint_update_enrollment'' = dw_self_update dw \<and> dw_self_update dw \<noteq> 0"
  show "loader_refuses (self_resolution_world dw self_fn zero_input)
      (''target symbol cv_fingerprint_update_enrollment''
       @ '' resolved to the interposer wrapper; refusing recursion'')"
    using assms self
    by (intro loader_refusesI [of _ expected handle])
       (simp_all add: self_resolution_world_def resolve_symbols_def lookup_symbol_def self_dlsym_def
          resolve_update_to_preload_def symbol_owned_by_target_def split_beta)
next
  assume wrong: "dw_dlsym dw handle ''cv_fingerprint_update_enrollment'' = (upd, None)
    \<and> upd \<notin> {0, dw_self_update dw} \<and> owner_of dw upd = Some expected
    \<and> dw_dlsym dw handle ''cv_cmd_enrollment_started'' = (started, None)
    \<and> started \<noteq> 0 \<and> owner_of dw started = Some other \<and> other \<noteq> expected"
  let ?reason = "''symbol cv_cmd_enrollment_started belongs to unexpected DSO '' @ ti_path other"
  have "fst (resolve_symbols dw expected rc) = fst (resolver_failure ?reason rc)" if "rc_handle rc = handle" for rc
  proof -
    obtain lines where "symbol_owned_by_target dw upd ''cv_fingerprint_update_enrollment'' expected
        (dw_self_update dw) rc = (True, rc, lines)"
      using wrong owner_accepted [of dw upd expected "dw_self_update dw"] by auto
    moreover have "symbol_owned_by_target dw started ''cv_cmd_enrollment_started'' expected 0 rc
        = (False, resolver_failure ?reason rc)"
      using wrong owner_refused [of dw started other expected 0 "''cv_cmd_enrollment_started''"] by simp
    ultimately show ?thesis
      using wrong that by (simp add: resolve_symbols_def lookup_symbol_def split_beta)
  qed
  then show "loader_refuses (wrong_owner_world dw upd started zero_input) ?reason"
    using assms by (intro loader_refusesI [of _ expected handle]) (simp_all add: wrong_owner_world_def)
qed

definition fixture_dso :: "bool \<Rightarrow> dso_world" where
  "fixture_dso self_target = \<lparr>
     dw_getenv = (\<lambda>name. if name = CV2_TARGET_ENV then Some ''/t'' else None),
     dw_realpath = Some, dw_stat = (\<lambda>p. Some (1, if p = ''/t'' then 2 else 3)),
     dw_loaded = [Some [], Some ''/dep'', Some ''/t''], dw_dlopen_noload = (\<lambda>p. (3, None)),
     dw_dlsym = (\<lambda>h s. if self_target then self_dlsym (\<lambda>_. 64) 32 s
                      else (if s = ''cv_fingerprint_update_enrollment'' then 16 else 32, None)),
     dw_dladdr = (\<lambda>a. Some (Some (if a = 32 then ''/dep'' else ''/t''))),
     dw_once_status = 0, dw_strerror = (\<lambda>_. ''''), dw_self_update = 64\<rparr>"

theorem resolver_fixtures_refused_witness:
  "loader_refuses (self_resolution_world (fixture_dso True) 32 0x2000)
     (''target symbol cv_fingerprint_update_enrollment''
      @ '' resolved to the interposer wrapper; refusing recursion'')
   \<and> loader_refuses (wrong_owner_world (fixture_dso False) 16 32 0x2000)
     (''symbol cv_cmd_enrollment_started belongs to unexpected DSO /dep'')"
proof -
  let ?t = "\<lparr>ti_path = ''/t'', ti_device = 1, ti_inode = 2\<rparr>"
  have found: "target_found (fixture_dso b) ?t 3" for b
    by (simp add: target_found_def fixture_dso_def identity_from_path_def find_loaded_target_def
        configured_policy_def configured_trace_def CV2_TARGET_ENV_def CV2_UPDATE_POLICY_ENV_def
        CV2_METADATA_TRACE_ENV_def)
  let ?dep = "\<lparr>ti_path = ''/dep'', ti_device = 1, ti_inode = 3\<rparr>"
  have dso: "owner_of (fixture_dso b) 16 = Some ?t" "owner_of (fixture_dso b) 32 = Some ?dep"
      "dw_self_update (fixture_dso b) = 64" "dw_dlsym (fixture_dso True) 3 = self_dlsym (\<lambda>_. 64) 32"
      "dw_dlsym (fixture_dso False) 3 ''cv_fingerprint_update_enrollment'' = (16, None)"
      "dw_dlsym (fixture_dso False) 3 ''cv_cmd_enrollment_started'' = (32, None)" for b
    by (simp_all add: fixture_dso_def owner_of_def identity_from_path_def)
  show ?thesis
    using resolver_fixtures_refused [OF found [of True], of "\<lambda>_. 64" 32 "0x2000"]
      resolver_fixtures_refused [OF found [of False], where upd = 16 and started = 32 and other = ?dep
        and zero_input = "0x2000"]
    by (simp add: dso)
qed

end
