(* ===== verification/Mock_Eval.thy ===== *)
theory Mock_Eval
  imports Mock_Driver
begin

text \<open>
  Evaluation of the test double under the interposer. Memory in which every address is mapped is
  kept as the blocks that were written to it, so that a read finds its block.
\<close>

section \<open>Memory in blocks\<close>

definition mem :: "(ptr \<Rightarrow> byte) \<Rightarrow> heap" where
  "mem f = (\<lambda>p. Some (f p))"

fun poke :: "(ptr \<Rightarrow> byte) \<Rightarrow> ptr \<Rightarrow> byte list \<Rightarrow> (ptr \<Rightarrow> byte)" where
  "poke f p [] = f"
| "poke f p (b # bs) = poke (f(p := b)) (p + 1) bs"

definition peek :: "(ptr \<Rightarrow> byte) \<Rightarrow> ptr \<Rightarrow> nat \<Rightarrow> byte list" where
  "peek f p n = map (\<lambda>i. f (p + of_nat i)) [0..<n]"

lemma mem_apply: "mem f p = Some (f p)"
  by (simp add: mem_def)

lemma mem_write_mem: "mem_write (mem f) p bs = Some (mem (poke f p bs))"
proof (induction bs arbitrary: f p)
  case (Cons b bs)
  have "(mem f)(p \<mapsto> b) = mem (f(p := b))" by (auto simp: mem_def)
  then show ?case using Cons by (simp add: mem_apply [of f p] del: fun_upd_apply)
qed simp

lemma mem_read_mem: "mem_read (mem f) p n = Some (peek f p n)"
  unfolding mem_read_def peek_def mem_apply by (rule those_map_Some) simp

lemma peek_Suc: "peek f p (Suc n) = f p # peek f (p + 1) n"
  by (simp add: peek_def upt_conv_Cons map_Suc_upt [symmetric] comp_def algebra_simps del: upt_Suc)

lemma zero_bytes_mem: "zero_bytes (mem f) p n = Some (list_all (\<lambda>b. b = 0) (peek f p n))"
  by (induction n arbitrary: p) (simp_all add: peek_Suc mem_apply, simp add: peek_def)

text \<open>Far apart: \<open>q\<close> is not one of the \<open>n\<close> addresses from \<open>p\<close> on.\<close>

definition beyond :: "ptr \<Rightarrow> nat \<Rightarrow> ptr \<Rightarrow> bool" where
  "beyond p n q \<longleftrightarrow> n \<le> unat (q - p)"

lemma unat_step:
  assumes "Suc n \<le> unat (q - p :: ptr)"
  shows "q \<noteq> p" and "unat (q - (p + 1)) = unat (q - p) - 1"
proof -
  show "q \<noteq> p" using assms by auto
  then have "q - p \<noteq> 0" by simp
  then show "unat (q - (p + 1)) = unat (q - p) - 1"
    using unat_minus_one [of "q - p"] by (simp add: algebra_simps)
qed

lemma poke_beyond: "beyond p (length bs) q \<Longrightarrow> poke f p bs q = f q"
proof (induction bs arbitrary: f p)
  case (Cons b bs)
  then have far: "Suc (length bs) \<le> unat (q - p)" by (simp add: beyond_def)
  then have "beyond (p + 1) (length bs) q" using unat_step(2) [OF far] by (simp add: beyond_def)
  from Cons.IH [OF this] show ?case using unat_step(1) [OF far] by simp
qed simp

lemma poke_here: "length bs < 2 ^ 64 \<Longrightarrow> poke f p (b # bs) p = b"
proof -
  assume "length bs < 2 ^ 64"
  moreover have "p - (p + 1) = (-1 :: ptr)" by simp
  moreover have "unat (-1 :: ptr) = 2 ^ 64 - 1" by (simp add: unsigned_minus_1_eq_mask mask_eq_exp_minus_1)
  ultimately have "beyond (p + 1) (length bs) p" unfolding beyond_def by simp
  from poke_beyond [OF this] show ?thesis by simp
qed

lemma peek_poke_same: "length bs \<le> 2 ^ 64 \<Longrightarrow> peek (poke f p bs) p (length bs) = bs"
proof (induction bs arbitrary: f p)
  case Nil
  then show ?case by (simp add: peek_def)
next
  case (Cons b bs)
  then have "peek (poke (f(p := b)) (p + 1) bs) (p + 1) (length bs) = bs" by simp
  then show ?case using poke_here [of bs f p b] Cons.prems by (simp add: peek_Suc)
qed

lemma peek_cong: "(\<And>i. i < n \<Longrightarrow> f (p + of_nat i) = g (p + of_nat i)) \<Longrightarrow> peek f p n = peek g p n"
  by (simp add: peek_def)

text \<open>Blocks that do not touch.\<close>

definition disjoint_blocks :: "ptr \<Rightarrow> nat \<Rightarrow> ptr \<Rightarrow> nat \<Rightarrow> bool" where
  "disjoint_blocks p n q m \<longleftrightarrow> (\<forall>i < m. beyond p n (q + of_nat i))"

lemma disjoint_blocksI:
  assumes "unat p + n \<le> unat q \<or> unat q + m \<le> unat p" and "unat p + n \<le> 2 ^ 64" and "unat q + m \<le> 2 ^ 64"
  shows "disjoint_blocks p n q m"
  unfolding disjoint_blocks_def beyond_def
proof (intro allI impI)
  fix i assume "i < m"
  have "unat (q + of_nat i) = unat q + i"
    using assms(3) \<open>i < m\<close> by (simp add: unat_word_ariths unat_of_nat)
  then show "n \<le> unat (q + of_nat i - p)"
    using assms \<open>i < m\<close> by (auto simp: unat_sub_if')
qed

lemma peek_poke_disjoint:
  "disjoint_blocks p (length bs) q m \<Longrightarrow> peek (poke f p bs) q m = peek f q m"
  by (rule peek_cong) (simp add: disjoint_blocks_def poke_beyond)

lemma poke_disjoint: "disjoint_blocks p (length bs) q (Suc m) \<Longrightarrow> poke f p bs q = f q"
  by (rule poke_beyond) (auto simp: disjoint_blocks_def dest: spec [of _ 0])

lemma peek_poke_byte: "n < 2 ^ 64 \<Longrightarrow> peek (poke f p [b]) p (Suc n) = b # tl (peek f p (Suc n))"
proof -
  assume n: "n < 2 ^ 64"
  have "peek (f(p := b)) (p + 1) n = peek f (p + 1) n"
  proof (rule peek_cong)
    fix i assume "i < n"
    have "p + 1 + of_nat i \<noteq> p"
    proof
      assume "p + 1 + of_nat i = p"
      then have "(of_nat (Suc i) :: ptr) = 0" by (simp add: algebra_simps)
      then have "unat (of_nat (Suc i) :: ptr) = 0" by simp
      then show False using \<open>i < n\<close> n by (simp only: unat_of_nat) simp
    qed
    then show "(f(p := b)) (p + 1 + of_nat i) = f (p + 1 + of_nat i)" by simp
  qed
  then show ?thesis by (simp add: peek_Suc)
qed

lemma peek_poke_here: "length bs = n \<Longrightarrow> n \<le> 2 ^ 64 \<Longrightarrow> peek (poke f p bs) p n = bs"
  using peek_poke_same by blast

lemma poke_apart: "disjoint_blocks p (length bs) q 1 \<Longrightarrow> poke f p bs q = f q"
  using poke_disjoint [of p bs q 0] by simp

lemma peek_poke_head:
  assumes "numeral k < (2 :: nat) ^ 64"
  shows "peek (poke f p [b]) p (numeral k) = b # tl (peek f p (numeral k))"
proof -
  obtain n where n: "numeral k = Suc n" using not0_implies_Suc [OF zero_neq_numeral [symmetric]] by blast
  show ?thesis using assms unfolding n by (intro peek_poke_byte) simp
qed

lemmas block_memory =
  mem_apply mem_read_mem mem_write_mem zero_bytes_mem peek_poke_here poke_here
  peek_poke_disjoint poke_apart peek_poke_head disjoint_blocksI

section \<open>Statuses in the environment\<close>

text \<open>
  \<open>strtoul\<close> reads back what \<open>0x%x\<close> prints, so every status can be configured.
\<close>

lemma digit_value_digit: "d < 16 \<Longrightarrow> digit_value (digit d) = Some d"
proof -
  have "list_all (\<lambda>d. digit_value (digit d) = Some d) [0..<16]" by code_simp
  then show "d < 16 \<Longrightarrow> ?thesis" by (simp add: list_all_iff)
qed

lemma digit_value_mod: "2 \<le> b \<Longrightarrow> b \<le> 16 \<Longrightarrow> digit_value (digit (n mod b)) = Some (n mod b)"
  by (rule digit_value_digit) (rule less_le_trans [OF mod_less_divisor], simp_all)

lemma read_digits_append:
  "list_all (\<lambda>c. \<exists>d < b. digit_value c = Some d) cs \<Longrightarrow>
   read_digits b acc (cs @ ds) = read_digits b (fst (read_digits b acc cs)) ds"
  by (induction cs arbitrary: acc) auto

lemma digits_are_digits:
  "2 \<le> b \<Longrightarrow> b \<le> 16 \<Longrightarrow> list_all (\<lambda>c. \<exists>d < b. digit_value c = Some d) (digits b n)"
proof (induction b n rule: digits.induct)
  case (1 b n)
  then show ?case by (subst digits.simps) (auto simp: digit_value_digit digit_value_mod)
qed

lemma read_digits_digits: "2 \<le> b \<Longrightarrow> b \<le> 16 \<Longrightarrow> read_digits b 0 (digits b n) = (n, [])"
proof (induction b n rule: digits.induct)
  case (1 b n)
  show ?case
  proof (cases "n < b")
    case True
    then show ?thesis using 1 by (subst digits.simps) (simp add: digit_value_digit)
  next
    case False
    then have "read_digits b 0 (digits b n) = read_digits b (n div b) [digit (n mod b)]"
      using 1 by (subst digits.simps) (simp add: read_digits_append digits_are_digits)
    then show ?thesis using 1 by (simp add: digit_value_mod)
  qed
qed

lemma hex_nonempty: "hex x \<noteq> []" and hex_head: "digit_value (hd (hex x)) \<noteq> None"
proof -
  show ne: "hex x \<noteq> []" unfolding hex_def by (subst digits.simps) simp
  have "list_all (\<lambda>c. \<exists>d < 16. digit_value c = Some d) (hex x)"
    unfolding hex_def by (rule digits_are_digits) simp_all
  then show "digit_value (hd (hex x)) \<noteq> None" using ne by (cases "hex x") auto
qed

lemma strtoul_hex: "strtoul (CHR ''0'' # CHR ''x'' # hex x) = (unat x, [])"
proof -
  have "read_digits 16 0 (hex x) = (unat x, [])" by (simp add: hex_def read_digits_digits)
  moreover have "unat x < 2 ^ 32" using unsigned_less [where 'a = nat and w = x] by simp
  ultimately show ?thesis
    using hex_nonempty [of x] hex_head [of x]
    by (simp add: strtoul_def is_space_def number_base_def)
qed

lemma status_from_env_hex:
  "getenv name = Some (CHR ''0'' # CHR ''x'' # hex x) \<Longrightarrow> status_from_env getenv name d = Some x"
proof -
  have "unat x < 2 ^ 32" using unsigned_less [where 'a = nat and w = x] by simp
  then show "getenv name = Some (CHR ''0'' # CHR ''x'' # hex x) \<Longrightarrow> ?thesis"
    by (simp add: status_from_env_def strtoul_hex)
qed

end
