(* ===== verification/Mock_Scenarios.thy ===== *)
theory Mock_Scenarios
  imports Mock_Eval Mock_Fixtures
begin

text \<open>
  The enrollment interposer, the double of the driver behind it and the loader in front of it, run
  with the settings of \<open>tests/test_enrollment_0x89_experiment.py\<close>.
\<close>

section \<open>The test process\<close>







section \<open>Evaluation\<close>







text \<open>The block lemmas replace the byte-wise equations.\<close>

declare poke.simps [simp del] mem_write.simps [simp del] zero_bytes.simps [simp del]









section \<open>The tests\<close>















end
