(* ===== verification/Spec2Isabelle.thy ===== *)
theory Spec2Isabelle
  imports Abi_Claims Harness_Claims Tod_Claims Rearm_Thread_Claims Mock_Claims Mock_Scenarios
begin

text \<open>
  A verification development for the C code of a research repository on fingerprint enrollment
  with Broadcom ControlVault 2 (BCM5880) devices.

  \<^bold>\<open>The program.\<close> The C code under \<open>tools/\<close> has two halves.

  \<^item> A mock-only reconstruction of the host side of an enrollment. The coordinator
    (\<open>bcm5880_enrollment_coordinator.c\<close>) buffers three features, creates a template from four and
    draws a commit token; the adapter (\<open>bcm5880_linux_abi_adapter.c\<close>) passes calls to injected
    native functions and checks the sizes they return; the commit sequence
    (\<open>bcm5880_generic_commit_sequence.c\<close>) makes the two commit calls over the adapter. The adapter's
    template call can be the coordinator's template callback.
  \<^item> Preload libraries for the proprietary driver. The enrollment interposer
    (\<open>enrollment_0x89_rearm_preload.c\<close>) replaces \<open>cv_fingerprint_update_enrollment\<close>, forwards it to the
    verified target under one of four policies and re-arms the enrollment with command 0x8a. The
    capture probe (\<open>capture_get_result_probe_preload.c\<close>) blocks the update and makes one capture call
    instead. Each has a hardware harness (\<open>cv_tod_enrollment_experiment.c\<close>,
    \<open>cv_tod_capture_result_experiment.c\<close>).

  \<^bold>\<open>The theories.\<close>

  \<^item> \<open>Cv2_Prelude\<close>: words, C objects as byte lists with their faults, the wiping loop, the named
    collections \<open>c_memory\<close> and \<open>fault_free\<close>. \<open>Limited_Counter\<close>: the contract of a counter that limits
    an effect, as a locale. \<open>Thread_Systems\<close>: runs of any number of interleaved threads, with two
    contracts as locales, for threads that never wait and for tickets drawn from an atomic counter.
  \<^item> \<open>Coordinator\<close> (state \<open>coordinator\<close>, operations \<open>mock_coordinator_new\<close>, \<open>accept_feature\<close>,
    \<open>reject\<close>, \<open>coordinator_snapshot\<close>, \<open>mock_coordinator_free\<close>), \<open>Coordinator_Correct\<close> (invariant and
    branches), \<open>Coordinator_Spec\<close> (the abstract collector of features and the simulation),
    \<open>Coordinator_Claims\<close> (the contracts of the two callbacks as locales, and the properties),
    \<open>Coordinator_Harness\<close> (the test harness \<open>tests/fixtures/bcm5880_coordinator_harness.c\<close>) and
    \<open>Coordinator_Scenarios\<close> (its scenarios, step by step, for any content of its buffers).
  \<^item> \<open>Linux_Abi\<close>, \<open>Generic_Commit\<close>, \<open>Abi_Correct\<close> (the calls as one checked pass-through; the locale of
    a commit operation with its interpretation on the adapter), \<open>Abi_Claims\<close>, \<open>Abi_Harness\<close> (the
    adapter's test harness) and \<open>Harness_Claims\<close> (what the scenarios of both harnesses print).
  \<^item> \<open>Process_World\<close>: byte-addressed memory, the dynamic loader and the file system as a record of
    functions, the identity of a file. \<open>Rearm_Log\<close>: the log lines of the interposer and their text.
    \<open>Rearm_Resolver\<close>, \<open>Metadata_Trace\<close>, \<open>Rearm_Update\<close>: the interposer, function by function.
    \<open>Rearm_Resolver_Correct\<close> (readiness without the order of checks), \<open>Metadata_Correct\<close> (what a line
    may depend on; freedom from faults), \<open>Rearm_Correct\<close> (the abstract machine \<open>wrapper_step\<close> and the
    simulation), \<open>Rearm_Session\<close> (sessions and the two limits as interpretations of
    \<open>limited_counter\<close>), \<open>Rearm_Trace\<close> (the trace only observes; calls return), \<open>Rearm_Counters\<close>,
    \<open>Rearm_Claims\<close>. \<open>Rearm_Threads\<close> (the interposed update as interleaved atomic steps of any number
    of threads, and the simulation from sequential calls), \<open>Rearm_Thread_Claims\<close> (the limits under
    concurrency, and the race on the shared zero input). \<open>Metadata_Threads\<close> (the metadata trace on
    interleaved threads around its mutex, an interpretation of both mutex contracts; the serial
    order of the critical sections).
  \<^item> \<open>Capture_Probe\<close>, \<open>Capture_Correct\<close> (its invariant), \<open>Capture_Threads\<close> (the intercepted update as
    interleaved atomic steps of any number of threads), \<open>Capture_Claims\<close>.
  \<^item> The test doubles behind and in front of the preload libraries. \<open>Mock_Driver\<close> (the driver
    \<open>tests/fixtures/mock_cv2_driver.c\<close> with all its settings, its TOD-like caller, and the loader
    \<open>mock_local_loader.c\<close>, for any preload library), \<open>Mock_Fixtures\<close> (the old interposer and the two
    targets that must be refused), \<open>Mock_Eval\<close> (memory as the blocks written to it; \<open>strtoul\<close> reads
    back what \<open>0x%x\<close> prints), \<open>Mock_Scenarios\<close> (the tests of
    \<open>tests/test_enrollment_0x89_experiment.py\<close>, evaluated), \<open>Mock_Capture\<close> (driver and loader of the
    capture probe), \<open>Mock_Claims\<close>.
  \<^item> \<open>Tod_Experiments\<close>, \<open>Tod_Claims\<close>: the two harnesses on top of the interposers.

  \<^bold>\<open>Conventions.\<close> \<open>None\<close> as the result of an operation is a fault: an access outside an object,
  unmapped memory, \<open>abort\<close>, or a callback that does not return. So a theorem that an operation is
  \<open>Some\<close> of something is a theorem that it returns. A pointer to an object is an option (\<open>NULL\<close> is
  \<open>None\<close>) where only its contents matter, and a 64-bit address into the memory where the code
  compares addresses. Counters are 32-bit words and wrap around; where a property needs that they
  do not, it is stated for fewer than 2^32 calls. Third-party code (the driver, the loader, the
  callbacks, GLib and libfprint) is always a parameter. What the outside sees of a call is recorded
  in the state as a list of events: log lines and calls into the driver.

  \<^bold>\<open>What the properties show.\<close> The coordinator refines its collector, wipes itself on every terminal
  rejection, calls its callbacks at most once and in order, and is memory safe. The adapter calls
  are checked pass-throughs; the commit sequence succeeds exactly when both phases do and leaves
  nothing behind otherwise. The interposer forwards only to verified functions of the target and
  fails closed otherwise; each call is a step of a small machine, from which follow the boundary
  before the commit, the re-arming behind each 0x89, and the limits; its metadata trace reveals no
  content and changes nothing. The probe makes one native call whatever the interleaving, and the
  captured payload leaves no trace; its threads settle. The limits of the interposer hold for
  concurrent calls too, and the mutex of the trace makes concurrent traces sequential without ever
  blocking for good. The models of the two test harnesses and of the driver doubles print what the
  test suite expects, for any content of the memory, and every status the interposer does not handle
  passes through the whole chain unchanged. The exit codes of the experiments mean what they say.

  \<^bold>\<open>Bounds.\<close> No fuel is used: every loop is structural recursion, on a list or on the size of an
  object. The only \<open>function\<close>, the digits of a number, has its termination proof.

  \<^bold>\<open>Not modelled.\<close> The relaxed ordering of the atomics (the thread models interleave sequentially
  consistent steps; a call into the driver, the wiping of the zero input and the update of the trace
  state inside its mutex are one step each; the thread model of the update leaves out log and trace,
  that of the trace leaves out the rest of the update); the contents of \<open>stderr\<close> after a partial
  write; in the test doubles, progress messages and the check of the number of arguments; the
  Python, JavaScript, PowerShell and shell tools, which analyse traces or drive hardware.
\<close>

end
